(* ===== verification/Prelude.thy ===== *)
theory Prelude
  imports Main "HOL-Library.Word" "HOL-Library.Signed_Division"
begin

text \<open>
  The part of the Go language and its standard library that the driver's own code relies on,
  and the lemmas the component theories share.

  A Go \<open>string\<close> and a Go \<open>[]byte\<close> are both sequences of bytes; an Isabelle \<^typ>\<open>char\<close> is one
  byte, so both are modelled by \<^typ>\<open>string\<close> and every length, index and slice below counts
  bytes as the code does. \<open>int64\<close> values are integers with the wrap-around of every arithmetic
  operation written out (\<open>wrap64\<close>); division and remainder truncate (\<open>sdiv\<close>, \<open>smod\<close>).

  The case mappings of package \<open>strings\<close> have an ASCII fast path and a slow path driven by the
  Unicode tables. The fast path is defined here; the tables are the parameter \<open>unicode\<close>.
\<close>

named_theorems go_string \<open>rewrite rules for the Go string functions\<close>

section \<open>Results\<close>

text \<open>A Go function that returns \<open>(T, error)\<close> yields \<open>Inl\<close> of the error or \<open>Inr\<close> of the value.\<close>

fun map_err :: "('e \<Rightarrow> 'f) \<Rightarrow> 'e + 'a \<Rightarrow> 'f + 'a" where
  "map_err f (Inl e) = Inl (f e)"
| "map_err f (Inr x) = Inr x"

text \<open>A call that returns only an \<open>error\<close>: \<open>None\<close> is Go's \<open>nil\<close>.\<close>

fun err_result :: "'e option \<Rightarrow> 'e + unit" where
  "err_result None = Inr ()"
| "err_result (Some e) = Inl e"

section \<open>Machine integers\<close>

definition wrap_signed :: "nat \<Rightarrow> int \<Rightarrow> int" where
  "wrap_signed w n = (n + 2 ^ (w - 1)) mod 2 ^ w - 2 ^ (w - 1)"

abbreviation wrap64 :: "int \<Rightarrow> int" where "wrap64 \<equiv> wrap_signed 64"
abbreviation wrap32 :: "int \<Rightarrow> int" where "wrap32 \<equiv> wrap_signed 32"
abbreviation wrap16 :: "int \<Rightarrow> int" where "wrap16 \<equiv> wrap_signed 16"

definition fits_signed :: "nat \<Rightarrow> int \<Rightarrow> bool" where
  "fits_signed w n \<longleftrightarrow> - (2 ^ (w - 1)) \<le> n \<and> n < 2 ^ (w - 1)"

abbreviation int64_ok :: "int \<Rightarrow> bool" where "int64_ok \<equiv> fits_signed 64"

section \<open>Bytes and ASCII\<close>

definition byte :: "char \<Rightarrow> nat" where
  "byte c = of_char c"

definition NUL :: char where
  "NUL = char_of (0::nat)"

text \<open>Every byte below \<open>utf8.RuneSelf\<close>.\<close>

definition is_ascii :: "string \<Rightarrow> bool" where
  "is_ascii s \<longleftrightarrow> list_all (\<lambda>c. byte c < 128) s"

definition ascii_upper :: "char \<Rightarrow> char" where
  "ascii_upper c = (if 97 \<le> byte c \<and> byte c \<le> 122 then char_of (byte c - 32) else c)"

definition ascii_lower :: "char \<Rightarrow> char" where
  "ascii_lower c = (if 65 \<le> byte c \<and> byte c \<le> 90 then char_of (byte c + 32) else c)"

definition ascii_space :: "char \<Rightarrow> bool" where
  "ascii_space c \<longleftrightarrow> byte c \<in> {9, 10, 11, 12, 13, 32}"

text \<open>The Unicode tables, as the slow paths of package \<open>strings\<close> use them.\<close>

record unicode =
  uni_upper :: "string \<Rightarrow> string"
  uni_lower :: "string \<Rightarrow> string"
  uni_fold_eq :: "string \<Rightarrow> string \<Rightarrow> bool"
  uni_trim :: "string \<Rightarrow> string"
  uni_json :: "string \<Rightarrow> string"

definition ToUpper :: "unicode \<Rightarrow> string \<Rightarrow> string" where
  "ToUpper U s = (if is_ascii s then map ascii_upper s else uni_upper U s)"

definition ToLower :: "unicode \<Rightarrow> string \<Rightarrow> string" where
  "ToLower U s = (if is_ascii s then map ascii_lower s else uni_lower U s)"

definition EqualFold :: "unicode \<Rightarrow> string \<Rightarrow> string \<Rightarrow> bool" where
  "EqualFold U s t =
     (if is_ascii s \<and> is_ascii t then map ascii_lower s = map ascii_lower t
      else uni_fold_eq U s t)"

definition TrimSpace :: "unicode \<Rightarrow> string \<Rightarrow> string" where
  "TrimSpace U s =
     (if is_ascii s then rev (dropWhile ascii_space (rev (dropWhile ascii_space s)))
      else uni_trim U s)"

section \<open>Package strings\<close>

definition HasPrefix :: "string \<Rightarrow> string \<Rightarrow> bool" where
  "HasPrefix s p \<longleftrightarrow> take (length p) s = p"

definition CutPrefix :: "string \<Rightarrow> string \<Rightarrow> string \<times> bool" where
  "CutPrefix s p = (if HasPrefix s p then (drop (length p) s, True) else (s, False))"

definition TrimPrefix :: "string \<Rightarrow> string \<Rightarrow> string" where
  "TrimPrefix s p = fst (CutPrefix s p)"

text \<open>\<open>strings.Index\<close>: the offset of the first occurrence, \<open>None\<close> for \<open>-1\<close>.\<close>

fun Index :: "string \<Rightarrow> string \<Rightarrow> nat option" where
  "Index [] p = (if p = [] then Some 0 else None)"
| "Index (c # s) p = (if HasPrefix (c # s) p then Some 0 else map_option Suc (Index s p))"

definition Contains :: "string \<Rightarrow> string \<Rightarrow> bool" where
  "Contains s p \<longleftrightarrow> Index s p \<noteq> None"

definition Cut :: "string \<Rightarrow> string \<Rightarrow> string \<times> string \<times> bool" where
  "Cut s sep = (case Index s sep of
     Some i \<Rightarrow> (take i s, drop (i + length sep) s, True)
   | None \<Rightarrow> (s, [], False))"

fun IndexByte :: "string \<Rightarrow> char \<Rightarrow> nat option" where
  "IndexByte [] b = None"
| "IndexByte (c # s) b = (if c = b then Some 0 else map_option Suc (IndexByte s b))"

definition LastIndexByte :: "string \<Rightarrow> char \<Rightarrow> nat option" where
  "LastIndexByte s b = map_option (\<lambda>k. length s - 1 - k) (IndexByte (rev s) b)"

text \<open>\<open>strings.ReplaceAll\<close> with a one-byte \<open>old\<close>, the only form the driver uses.\<close>

definition ReplaceAll :: "string \<Rightarrow> char \<Rightarrow> string \<Rightarrow> string" where
  "ReplaceAll s old new = concat (map (\<lambda>c. if c = old then new else [c]) s)"

text \<open>\<open>strings.Split\<close> and \<open>strings.SplitN(s, sep, 2)\<close> with a one-byte separator.\<close>

fun Split :: "string \<Rightarrow> char \<Rightarrow> string list" where
  "Split [] b = [[]]"
| "Split (c # s) b =
     (if c = b then [] # Split s b
      else (case Split s b of [] \<Rightarrow> [[c]] | p # ps \<Rightarrow> (c # p) # ps))"

definition SplitN2 :: "string \<Rightarrow> char \<Rightarrow> string list" where
  "SplitN2 s b = (case IndexByte s b of
     None \<Rightarrow> [s]
   | Some i \<Rightarrow> [take i s, drop (Suc i) s])"

fun Join :: "string list \<Rightarrow> string \<Rightarrow> string" where
  "Join [] sep = []"
| "Join [s] sep = s"
| "Join (s # t # ts) sep = s @ sep @ Join (t # ts) sep"

definition Repeat :: "string \<Rightarrow> nat \<Rightarrow> string" where
  "Repeat s n = concat (replicate n s)"

section \<open>Package strconv and decimal formatting\<close>

definition digit_char :: "nat \<Rightarrow> char" where
  "digit_char d = char_of (48 + d)"

definition digit_val :: "char \<Rightarrow> nat option" where
  "digit_val c = (if 48 \<le> byte c \<and> byte c \<le> 57 then Some (byte c - 48) else None)"

definition all_digits :: "string \<Rightarrow> bool" where
  "all_digits s \<longleftrightarrow> (\<forall>c \<in> set s. 48 \<le> byte c \<and> byte c \<le> 57)"

fun itoa_nat :: "nat \<Rightarrow> string" where
  "itoa_nat n = (if n < 10 then [digit_char n] else itoa_nat (n div 10) @ [digit_char (n mod 10)])"

declare itoa_nat.simps [simp del]

text \<open>\<open>%d\<close> of an integer.\<close>

definition itoa :: "int \<Rightarrow> string" where
  "itoa n = (if n < 0 then CHR ''-'' # itoa_nat (nat (- n)) else itoa_nat (nat n))"

text \<open>\<open>%0wd\<close> of an integer: the sign counts towards the width and precedes the zeros.\<close>

definition pad0 :: "nat \<Rightarrow> int \<Rightarrow> string" where
  "pad0 w n =
     (if n < 0 then (let s = itoa_nat (nat (- n)) in CHR ''-'' # replicate (w - 1 - length s) CHR ''0'' @ s)
      else (let s = itoa_nat (nat n) in replicate (w - length s) CHR ''0'' @ s))"

fun digits_val :: "nat \<Rightarrow> string \<Rightarrow> nat option" where
  "digits_val acc [] = Some acc"
| "digits_val acc (c # cs) =
     (case digit_val c of None \<Rightarrow> None | Some d \<Rightarrow> digits_val (10 * acc + d) cs)"

text \<open>
  \<open>strconv.ParseInt(s, 10, bits)\<close>: an optional sign, then at least one decimal digit and nothing
  else, in range. Syntax and range errors are both \<open>None\<close>: the driver distinguishes neither.
\<close>

definition ParseUint10 :: "string \<Rightarrow> nat option" where
  "ParseUint10 s = (if s = [] then None else digits_val 0 s)"

definition ParseInt10 :: "nat \<Rightarrow> string \<Rightarrow> int option" where
  "ParseInt10 bits s =
     (let (neg, r) = (case s of
          [] \<Rightarrow> (False, [])
        | c # cs \<Rightarrow> if c = CHR ''-'' then (True, cs)
                     else if c = CHR ''+'' then (False, cs) else (False, s))
      in case ParseUint10 r of
           None \<Rightarrow> None
         | Some n \<Rightarrow>
             (let v = (if neg then - int n else int n)
              in if fits_signed bits v then Some v else None))"

text \<open>\<open>strconv.Atoi\<close> on a 64-bit platform.\<close>

abbreviation Atoi :: "string \<Rightarrow> int option" where "Atoi \<equiv> ParseInt10 64"

section \<open>Lemmas: results and integers\<close>

lemma map_err_Inr_iff [simp]: "map_err f r = Inr x \<longleftrightarrow> r = Inr x"
  by (cases r) auto

lemma map_err_Inl_iff: "map_err f r = Inl e \<longleftrightarrow> (\<exists>e'. r = Inl e' \<and> e = f e')"
  by (cases r) auto

lemma err_result_Inr_iff [simp]: "err_result e = Inr u \<longleftrightarrow> e = None"
  by (cases e) auto

lemma wrap_signed_fits [simp]: "0 < w \<Longrightarrow> fits_signed w (wrap_signed w n)"
proof -
  assume "0 < w"
  then have two: "(2::int) ^ w = 2 * 2 ^ (w - 1)"
    by (metis power_minus_mult mult.commute)
  have "0 \<le> (n + 2 ^ (w - 1)) mod 2 ^ w" "(n + 2 ^ (w - 1)) mod 2 ^ w < 2 ^ w"
    by simp_all
  with two show ?thesis by (simp add: wrap_signed_def fits_signed_def)
qed

lemma wrap_signed_id [simp]: "0 < w \<Longrightarrow> fits_signed w n \<Longrightarrow> wrap_signed w n = n"
proof -
  assume "0 < w" and n: "fits_signed w n"
  then have two: "(2::int) ^ w = 2 * 2 ^ (w - 1)"
    by (metis power_minus_mult mult.commute)
  from n two have "0 \<le> n + 2 ^ (w - 1)" "n + 2 ^ (w - 1) < 2 ^ w"
    by (simp_all add: fits_signed_def)
  then show ?thesis by (simp add: wrap_signed_def)
qed

lemma sdiv_nonneg: "0 \<le> a \<Longrightarrow> 0 < b \<Longrightarrow> (a::int) sdiv b = a div b"
  by (cases "a = 0") (simp_all add: signed_divide_int_def)

lemma smod_nonneg: "0 \<le> a \<Longrightarrow> 0 < b \<Longrightarrow> (a::int) smod b = a mod b"
  by (cases "a = 0") (simp_all add: signed_modulo_int_def)

lemma sdiv_mult_cancel:
  assumes "0 < b"
  shows "(a * b) sdiv b = (a::int)"
proof -
  have "(a * b) sdiv b = sgn a * (\<bar>a\<bar> * b div b)"
    using assms by (simp add: signed_divide_int_def abs_mult sgn_mult)
  also have "\<dots> = sgn a * \<bar>a\<bar>" using assms by simp
  finally show ?thesis by (simp add: sgn_mult_abs)
qed

section \<open>Lemmas: strings\<close>

lemma HasPrefix_append [simp]: "HasPrefix (p @ s) p"
  by (simp add: HasPrefix_def)

lemma HasPrefix_iff: "HasPrefix s p \<longleftrightarrow> (\<exists>r. s = p @ r)"
  unfolding HasPrefix_def by (metis append_eq_conv_conj append_take_drop_id)

lemma CutPrefix_append [simp]: "CutPrefix (p @ s) p = (s, True)"
  by (simp add: CutPrefix_def)

lemma ReplaceAll_Nil [simp]: "ReplaceAll [] b t = []"
  by (simp add: ReplaceAll_def)

lemma ReplaceAll_Cons [simp]:
  "ReplaceAll (c # s) b t = (if c = b then t else [c]) @ ReplaceAll s b t"
  by (simp add: ReplaceAll_def)

lemma IndexByte_append_notin: "b \<notin> set s \<Longrightarrow> IndexByte (s @ b # r) b = Some (length s)"
  by (induction s) auto

lemma IndexByte_None_iff: "IndexByte s b = None \<longleftrightarrow> b \<notin> set s"
  by (induction s) auto

lemma LastIndexByte_snoc [simp]: "LastIndexByte (s @ [b]) b = Some (length s)"
  by (simp add: LastIndexByte_def)

lemma Split_not_Nil [simp]: "Split s b \<noteq> []"
  by (cases s) (auto split: list.splits)

lemma Split_notin: "b \<notin> set s \<Longrightarrow> Split s b = [s]"
  by (induction s) auto

lemma Split_append: "b \<notin> set s \<Longrightarrow> Split (s @ b # r) b = s # Split r b"
  by (induction s) auto

lemma SplitN2_notin: "b \<notin> set s \<Longrightarrow> SplitN2 s b = [s]"
  by (simp add: SplitN2_def IndexByte_None_iff [THEN iffD2])

lemma SplitN2_append: "b \<notin> set s \<Longrightarrow> SplitN2 (s @ b # r) b = [s, r]"
  by (simp add: SplitN2_def IndexByte_append_notin)

section \<open>Lemmas: bytes and decimal numerals\<close>

lemma byte_less [simp]: "byte c < 256"
  by (simp add: byte_def)

lemma byte_char_of [simp]: "byte (char_of n) = n mod 256"
  by (simp add: byte_def)

lemma char_of_byte [simp]: "char_of (byte c) = c"
  by (simp add: byte_def)

lemma byte_digit_char [simp]: "d < 10 \<Longrightarrow> byte (digit_char d) = 48 + d"
  by (simp add: byte_def digit_char_def)

lemma digit_val_digit_char [simp]: "d < 10 \<Longrightarrow> digit_val (digit_char d) = Some d"
  by (simp add: digit_val_def)

lemma digits_val_append:
  "digits_val acc (s @ t) = (case digits_val acc s of None \<Rightarrow> None | Some n \<Rightarrow> digits_val n t)"
  by (induction s arbitrary: acc) (auto split: option.splits)

lemma digits_val_itoa_nat: "digits_val 0 (itoa_nat n) = Some n"
proof (induction n rule: itoa_nat.induct)
  case (1 n)
  then show ?case
    by (subst itoa_nat.simps) (auto simp: digits_val_append)
qed

lemma digits_val_zeros: "digits_val 0 (replicate k CHR ''0'' @ s) = digits_val 0 s"
  by (induction k) (simp_all add: digit_val_def byte_def)

lemma itoa_nat_not_Nil [simp]: "itoa_nat n \<noteq> []"
  by (subst itoa_nat.simps) auto

lemma all_digits_append [simp]: "all_digits (s @ t) \<longleftrightarrow> all_digits s \<and> all_digits t"
  by (auto simp: all_digits_def)

lemma all_digits_itoa_nat [simp]: "all_digits (itoa_nat n)"
proof (induction n rule: itoa_nat.induct)
  case (1 n)
  then show ?case
    by (subst itoa_nat.simps) (auto simp: all_digits_def)
qed

lemma all_digits_replicate [simp]: "all_digits (replicate k CHR ''0'')"
  by (auto simp: all_digits_def byte_def)

lemma all_digits_pad0 [simp]: "0 \<le> n \<Longrightarrow> all_digits (pad0 w n)"
  by (simp add: pad0_def itoa_def Let_def)

lemma all_digits_notin: "all_digits s \<Longrightarrow> byte c < 48 \<or> 57 < byte c \<Longrightarrow> c \<notin> set s"
  by (auto simp: all_digits_def)

lemma digits_val_pad0: "0 \<le> n \<Longrightarrow> digits_val 0 (pad0 w n) = Some (nat n)"
  by (simp add: pad0_def itoa_def Let_def digits_val_zeros digits_val_itoa_nat)

lemma pad0_not_Nil [simp]: "pad0 w n \<noteq> []"
  by (simp add: pad0_def itoa_def Let_def)

lemma ParseInt10_digits:
  "all_digits s \<Longrightarrow> s \<noteq> [] \<Longrightarrow> digits_val 0 s = Some n \<Longrightarrow> fits_signed bits (int n) \<Longrightarrow>
   ParseInt10 bits s = Some (int n)"
  by (cases s) (auto simp: ParseInt10_def ParseUint10_def all_digits_def byte_def)

lemma ParseInt10_pad0:
  "0 \<le> n \<Longrightarrow> fits_signed bits n \<Longrightarrow> ParseInt10 bits (pad0 w n) = Some n"
  using ParseInt10_digits [of "pad0 w n" "nat n" bits] by (simp add: digits_val_pad0)

lemma ParseInt10_itoa:
  assumes "fits_signed bits n"
  shows "ParseInt10 bits (itoa n) = Some n"
proof (cases "n < 0")
  case True
  with assms show ?thesis
    by (simp add: itoa_def ParseInt10_def ParseUint10_def digits_val_itoa_nat)
next
  case False
  then show ?thesis
    using assms ParseInt10_digits [of "itoa_nat (nat n)" "nat n" bits]
    by (simp add: itoa_def digits_val_itoa_nat)
qed

lemma ParseInt10_fits: "ParseInt10 bits s = Some n \<Longrightarrow> fits_signed bits n"
  by (auto simp: ParseInt10_def Let_def split: list.splits if_splits option.splits prod.splits)

lemma length_itoa_nat: "n < 10 ^ k \<Longrightarrow> 0 < k \<Longrightarrow> length (itoa_nat n) \<le> k"
proof (induction n arbitrary: k rule: itoa_nat.induct)
  case (1 n)
  show ?case
  proof (cases "n < 10")
    case True
    with "1.prems" show ?thesis by (subst itoa_nat.simps) simp
  next
    case False
    with "1.prems" have "k \<noteq> 1" by auto
    with "1.prems" obtain k' where k: "k = Suc k'" "0 < k'"
      by (cases k) auto
    with "1.prems" False have "length (itoa_nat (n div 10)) \<le> k'"
      by (intro "1.IH") auto
    with False k show ?thesis by (subst itoa_nat.simps) simp
  qed
qed

lemma length_pad0: "0 \<le> n \<Longrightarrow> n < 10 ^ w \<Longrightarrow> 0 < w \<Longrightarrow> length (pad0 w n) = w"
proof -
  assume "0 \<le> n" "n < 10 ^ w" "0 < w"
  then have "length (itoa_nat (nat n)) \<le> w"
    by (intro length_itoa_nat) (simp_all add: nat_less_iff)
  with \<open>0 \<le> n\<close> show ?thesis by (simp add: pad0_def itoa_def Let_def)
qed

end
