(* ===== verification/Sql_Count.thy ===== *)
theory Sql_Count
  imports Sql_Text
begin

text \<open>
  What \<open>countPlaceholders\<close> computes. \<open>cp\<close> is the same machine as a recursion on the unread
  suffix, equal to the index loop (\<open>cp_loop_eq_cp\<close>). \<open>cp_closed\<close> says that a piece of SQL text
  can be read without looking past its end and leaves the machine in \<open>plain\<close>: the count of a
  concatenation is then the sum of the counts, which is how the counts of the driver's generated
  statements are computed. \<open>segment\<close> describes SQL text from outside the machine: parameters,
  plain text, quoted text and comments.
\<close>

section \<open>The machine on the unread suffix\<close>

text \<open>One step at byte \<open>c\<close> before suffix \<open>s\<close>: bytes of \<open>s\<close> consumed, next state, parameters seen.\<close>

definition tok :: "cp_state \<Rightarrow> char \<Rightarrow> string \<Rightarrow> nat \<times> cp_state \<times> nat" where
  "tok st c s =
     (case st of
        plain \<Rightarrow>
          (if c = CHR ''?'' then (0, plain, 1)
           else if c = quot1 then (0, singleQuoted, 0)
           else if c = quot2 then (0, doubleQuoted, 0)
           else if c = btick then (0, backtickQuoted, 0)
           else if c = CHR ''#'' then (0, lineComment, 0)
           else if c = CHR ''-'' \<and> 1 < length s \<and> s ! 0 = CHR ''-'' \<and> byte (s ! 1) \<le> 32
                then (1, lineComment, 0)
           else if c = CHR ''/'' \<and> s \<noteq> [] \<and> s ! 0 = CHR ''*'' then (1, blockComment, 0)
           else (0, plain, 0))
      | lineComment \<Rightarrow> if byte c = 10 \<or> byte c = 13 then (0, plain, 0) else (0, lineComment, 0)
      | blockComment \<Rightarrow>
          if c = CHR ''*'' \<and> s \<noteq> [] \<and> s ! 0 = CHR ''/'' then (1, plain, 0)
          else (0, blockComment, 0)
      | _ \<Rightarrow>
          if c = bslash \<and> st \<noteq> backtickQuoted \<and> s \<noteq> [] then (1, st, 0)
          else if c = cp_quote st then
            (if s \<noteq> [] \<and> s ! 0 = cp_quote st then (1, st, 0) else (0, plain, 0))
          else (0, st, 0))"

function cp :: "cp_state \<Rightarrow> string \<Rightarrow> nat" where
  "cp st [] = 0"
| "cp st (c # s) = (case tok st c s of (k, st', n) \<Rightarrow> n + cp st' (drop k s))"
  by pat_completeness auto
termination
  by (relation "measure (\<lambda>(st, s). length s)") auto

text \<open>The step at \<open>c # s\<close> is decided by \<open>c # s\<close> alone, whatever text follows.\<close>

definition decided :: "cp_state \<Rightarrow> char \<Rightarrow> string \<Rightarrow> bool" where
  "decided st c s \<longleftrightarrow>
     (case st of
        plain \<Rightarrow> (c = CHR ''-'' \<longrightarrow> 1 < length s \<or> (s \<noteq> [] \<and> s ! 0 \<noteq> CHR ''-'')) \<and>
                 (c = CHR ''/'' \<longrightarrow> s \<noteq> [])
      | lineComment \<Rightarrow> True
      | blockComment \<Rightarrow> c = CHR ''*'' \<longrightarrow> s \<noteq> []
      | _ \<Rightarrow> c = bslash \<or> c = cp_quote st \<longrightarrow> s \<noteq> [])"

function cp_closed :: "cp_state \<Rightarrow> string \<Rightarrow> bool" where
  "cp_closed st [] \<longleftrightarrow> st = plain"
| "cp_closed st (c # s) \<longleftrightarrow> decided st c s \<and>
     (case tok st c s of (k, st', n) \<Rightarrow> cp_closed st' (drop k s))"
  by pat_completeness auto
termination
  by (relation "measure (\<lambda>(st, s). length s)") auto

abbreviation closed_sql :: "string \<Rightarrow> bool" where "closed_sql \<equiv> cp_closed plain"

section \<open>SQL text as segments\<close>

datatype qelem = QChar char | QEsc char | QDouble

datatype segment =
    Param
  | Text string
  | Quoted cp_state "qelem list"
  | HashComment string char
  | DashComment string char
  | BlockComment string

fun render_q :: "cp_state \<Rightarrow> qelem \<Rightarrow> string" where
  "render_q st (QChar c) = [c]"
| "render_q st (QEsc c) = [bslash, c]"
| "render_q st QDouble = [cp_quote st, cp_quote st]"

fun render_seg :: "segment \<Rightarrow> string" where
  "render_seg Param = ''?''"
| "render_seg (Text t) = t"
| "render_seg (Quoted st qs) = cp_quote st # concat (map (render_q st) qs) @ [cp_quote st]"
| "render_seg (HashComment b t) = CHR ''#'' # b @ [t]"
| "render_seg (DashComment b t) = ''--'' @ b @ [t]"
| "render_seg (BlockComment b) = ''/*'' @ b @ ''*/''"

definition render :: "segment list \<Rightarrow> string" where
  "render ss = concat (map render_seg ss)"

definition is_quoted :: "cp_state \<Rightarrow> bool" where
  "is_quoted st \<longleftrightarrow> st \<in> {singleQuoted, doubleQuoted, backtickQuoted}"

fun wf_q :: "cp_state \<Rightarrow> qelem \<Rightarrow> bool" where
  "wf_q st (QChar c) \<longleftrightarrow> c \<noteq> cp_quote st \<and> (c = bslash \<longrightarrow> st = backtickQuoted)"
| "wf_q st (QEsc c) \<longleftrightarrow> st \<noteq> backtickQuoted"
| "wf_q st QDouble \<longleftrightarrow> True"

definition is_newline :: "char \<Rightarrow> bool" where
  "is_newline c \<longleftrightarrow> byte c = 10 \<or> byte c = 13"

text \<open>Plain text before \<open>r\<close>: no byte that opens quotes, no parameter and no comment opener.\<close>

fun wf_text :: "string \<Rightarrow> string \<Rightarrow> bool" where
  "wf_text [] r \<longleftrightarrow> True"
| "wf_text (c # t) r \<longleftrightarrow>
     c \<notin> {CHR ''?'', quot1, quot2, btick, CHR ''#''} \<and>
     \<not> (c = CHR ''-'' \<and> 1 < length (t @ r) \<and> (t @ r) ! 0 = CHR ''-'' \<and> byte ((t @ r) ! 1) \<le> 32) \<and>
     \<not> (c = CHR ''/'' \<and> t @ r \<noteq> [] \<and> (t @ r) ! 0 = CHR ''*'') \<and>
     wf_text t r"

fun no_close :: "string \<Rightarrow> bool" where
  "no_close (a # b # s) \<longleftrightarrow> \<not> (a = CHR ''*'' \<and> b = CHR ''/'') \<and> no_close (b # s)"
| "no_close _ \<longleftrightarrow> True"

fun wf_seg :: "segment \<Rightarrow> string \<Rightarrow> bool" where
  "wf_seg Param r \<longleftrightarrow> True"
| "wf_seg (Text t) r \<longleftrightarrow> wf_text t r"
| "wf_seg (Quoted st qs) r \<longleftrightarrow> is_quoted st \<and> list_all (wf_q st) qs \<and>
     (r \<noteq> [] \<longrightarrow> hd r \<noteq> cp_quote st)"
| "wf_seg (HashComment b t) r \<longleftrightarrow> list_all (\<lambda>c. \<not> is_newline c) b \<and> is_newline t"
| "wf_seg (DashComment b t) r \<longleftrightarrow> list_all (\<lambda>c. \<not> is_newline c) b \<and> is_newline t \<and>
     byte (hd (b @ [t])) \<le> 32"
| "wf_seg (BlockComment b) r \<longleftrightarrow> no_close (b @ ''*'')"

fun wf_segs :: "segment list \<Rightarrow> bool" where
  "wf_segs [] \<longleftrightarrow> True"
| "wf_segs (s # ss) \<longleftrightarrow> wf_seg s (render ss) \<and> wf_segs ss"

section \<open>The index loop is the suffix machine\<close>

lemma cp_step_tok:
  assumes "i < length q"
  shows "cp_step q i st n =
    (case tok st (q ! i) (drop (i + 1) q) of (k, st', m) \<Rightarrow> (i + k, st', n + m))"
  using assms
  by (cases st) (auto simp: cp_step_def tok_def Let_def nth_append less_diff_conv)

lemma cp_loop_eq_cp: "cp_loop q i st n = n + cp st (drop i q)"
proof (induction q i st n rule: cp_loop.induct)
  case (1 q i st n)
  show ?case
  proof (cases "i < length q")
    case False
    then show ?thesis by (simp add: cp_loop.simps [of q i])
  next
    case True
    obtain k st' m where t: "tok st (q ! i) (drop (i + 1) q) = (k, st', m)"
      by (metis prod_cases3)
    have s: "cp_step q i st n = (i + k, st', n + m)"
      using cp_step_tok [OF True, of st n] t by simp
    have "cp_loop q (i + k + 1) st' (n + m) = n + m + cp st' (drop (i + k + 1) q)"
      using "1.IH" [OF True s [symmetric] refl] by simp
    then have "cp_loop q i st n = n + m + cp st' (drop (i + k + 1) q)"
      using True s by (simp add: cp_loop.simps [of q i])
    also have "\<dots> = n + cp st (q ! i # drop (i + 1) q)"
      using t by (simp add: add.commute)
    finally show ?thesis using True by (simp add: Cons_nth_drop_Suc)
  qed
qed

lemma countPlaceholders_cp: "countPlaceholders q = cp plain q"
  by (simp add: countPlaceholders_def cp_loop_eq_cp)

section \<open>Concatenation\<close>

lemma tok_le: "tok st c s = (k, st', n) \<Longrightarrow> k \<le> length s"
  by (cases st) (auto simp: tok_def Suc_le_eq split: if_splits)

lemma tok_decided: "decided st c s \<Longrightarrow> tok st c (s @ r) = tok st c s"
  by (cases st; cases s) (auto simp: decided_def tok_def nth_append)

lemma cp_closed_append: "cp_closed st a \<Longrightarrow> cp st (a @ b) = cp st a + cp plain b"
proof (induction st a rule: cp_closed.induct)
  case (2 st c s)
  obtain k st' n where t: "tok st c s = (k, st', n)" by (metis prod_cases3)
  with 2 show ?case by (simp add: tok_decided tok_le)
qed simp

lemma cp_closed_append_closed:
  "cp_closed st a \<Longrightarrow> closed_sql b \<Longrightarrow> cp_closed st (a @ b)"
proof (induction st a rule: cp_closed.induct)
  case (2 st c s)
  obtain k st' n where t: "tok st c s = (k, st', n)" by (metis prod_cases3)
  have d: "decided st c (s @ b)"
    using 2(2) by (cases st; cases s) (auto simp: decided_def nth_append)
  with 2 t show ?case by (simp add: tok_decided tok_le)
qed simp

lemma countPlaceholders_append [cp_simps]:
  "closed_sql a \<Longrightarrow> countPlaceholders (a @ b) = countPlaceholders a + countPlaceholders b"
  by (simp add: countPlaceholders_cp cp_closed_append)

lemma countPlaceholders_Nil [simp]: "countPlaceholders [] = 0"
  by (simp add: countPlaceholders_cp)

section \<open>Quoted text and comments\<close>

lemma cp_quoted_elem:
  "is_quoted st \<Longrightarrow> wf_q st q \<Longrightarrow> cp st (render_q st q @ r) = cp st r"
  by (cases q; cases st) (auto simp: is_quoted_def tok_def)

lemma cp_quoted_body:
  "is_quoted st \<Longrightarrow> list_all (wf_q st) qs \<Longrightarrow>
   cp st (concat (map (render_q st) qs) @ r) = cp st r"
  by (induction qs) (simp_all add: cp_quoted_elem)

lemma cp_quoted_close:
  "is_quoted st \<Longrightarrow> r = [] \<or> hd r \<noteq> cp_quote st \<Longrightarrow> cp st (cp_quote st # r) = cp plain r"
  by (cases st; cases r) (auto simp: is_quoted_def tok_def)

lemma cp_quoted_open: "is_quoted st \<Longrightarrow> cp plain (cp_quote st # r) = cp st r"
  by (cases st) (auto simp: is_quoted_def tok_def)

lemma cp_line_body:
  "list_all (\<lambda>c. \<not> is_newline c) b \<Longrightarrow> is_newline t \<Longrightarrow> cp lineComment (b @ t # r) = cp plain r"
  by (induction b) (auto simp: tok_def is_newline_def)

lemma no_close_append: "no_close (b @ ''*'') \<Longrightarrow> no_close b"
  by (induction b rule: no_close.induct) auto

lemma cp_block_body: "no_close (b @ ''*'') \<Longrightarrow> cp blockComment (b @ ''*/'' @ r) = cp plain r"
proof (induction b)
  case Nil
  show ?case by (simp add: tok_def)
next
  case (Cons c b)
  then show ?case by (cases b) (auto simp: tok_def)
qed

lemma cp_text: "wf_text t r \<Longrightarrow> cp plain (t @ r) = cp plain r"
  by (induction t) (auto simp: tok_def)

lemma cp_segment:
  assumes "wf_seg s r"
  shows "cp plain (render_seg s @ r) = (if s = Param then 1 else 0) + cp plain r"
proof (cases s)
  case Param
  then show ?thesis by (simp add: tok_def)
next
  case (Text t)
  with assms show ?thesis by (simp add: cp_text)
next
  case (Quoted st qs)
  with assms have q: "is_quoted st" "list_all (wf_q st) qs" "r = [] \<or> hd r \<noteq> cp_quote st"
    by auto
  have "cp plain (render_seg s @ r) = cp st (concat (map (render_q st) qs) @ cp_quote st # r)"
    using Quoted cp_quoted_open [OF q(1)] by (simp del: cp.simps)
  also have "\<dots> = cp plain r"
    using cp_quoted_body [OF q(1,2)] cp_quoted_close [OF q(1,3)] by (simp del: cp.simps)
  finally show ?thesis using Quoted by simp
next
  case (HashComment b t)
  with assms show ?thesis by (simp add: tok_def cp_line_body)
next
  case (DashComment b t)
  with assms have "cp plain (render_seg s @ r) = cp lineComment (b @ t # r)"
    by (cases b) (auto simp: tok_def)
  with DashComment assms show ?thesis by (simp add: cp_line_body)
next
  case (BlockComment b)
  with assms have "cp plain (render_seg s @ r) = cp blockComment (b @ ''*/'' @ r)"
    by (simp add: tok_def)
  with BlockComment assms cp_block_body [of b r] show ?thesis by simp
qed

lemma cp_render: "wf_segs ss \<Longrightarrow> cp plain (render ss) = length (filter (\<lambda>s. s = Param) ss)"
  by (induction ss) (simp_all add: render_def cp_segment [unfolded render_def])

section \<open>Quoted identifiers and placeholder lists\<close>

lemma cp_backtick_name:
  "cp backtickQuoted (ReplaceAll name btick [btick, btick] @ r) = cp backtickQuoted r"
  by (induction name) (auto simp: tok_def)

lemma countPlaceholders_quoteIdentifier [cp_simps]:
  "r = [] \<or> hd r \<noteq> btick \<Longrightarrow>
   countPlaceholders (quoteIdentifier name @ r) = countPlaceholders r"
  using cp_quoted_open [of backtickQuoted] cp_quoted_close [of backtickQuoted r]
  by (simp add: countPlaceholders_cp quoteIdentifier_def cp_backtick_name is_quoted_def del: cp.simps)

lemma cp_repeat: "cp plain (concat (replicate n ''?,'') @ r) = n + cp plain r"
  by (induction n) (simp_all add: tok_def)

lemma countPlaceholders_placeholders [cp_simps]:
  "countPlaceholders (placeholders n @ r) = nat n + countPlaceholders r"
  by (simp add: countPlaceholders_cp placeholders_def Repeat_def cp_repeat tok_def nat_diff_distrib)

section \<open>Text without parameters, quotes and comments\<close>

fun inert :: "string \<Rightarrow> bool" where
  "inert [] \<longleftrightarrow> True"
| "inert (c # s) \<longleftrightarrow> c \<notin> {CHR ''?'', quot1, quot2, btick, CHR ''#'', CHR ''/''} \<and>
     (c = CHR ''-'' \<longrightarrow> s \<noteq> [] \<and> hd s \<noteq> CHR ''-'') \<and> inert s"

lemma inert_append [simp]: "inert a \<Longrightarrow> inert b \<Longrightarrow> inert (a @ b)"
  by (induction a) auto

lemma countPlaceholders_inert:
  "inert s \<Longrightarrow> countPlaceholders (s @ r) = countPlaceholders r"
proof -
  have "inert s \<Longrightarrow> cp plain (s @ r) = cp plain r"
    by (induction s) (auto simp: tok_def hd_append hd_conv_nth [symmetric] split: if_splits)
  then show "inert s \<Longrightarrow> countPlaceholders (s @ r) = countPlaceholders r"
    by (simp add: countPlaceholders_cp)
qed

lemma inert_digits: "all_digits s \<Longrightarrow> inert s"
proof (induction s)
  case (Cons c s)
  then have "48 \<le> byte c" "byte c \<le> 57" by (simp_all add: all_digits_def)
  then have "c \<notin> {CHR ''?'', quot1, quot2, btick, CHR ''#'', CHR ''/'', CHR ''-''}"
    by (auto simp: byte_def)
  with Cons show ?case by (auto simp: all_digits_def)
qed simp

lemma inert_itoa [simp]: "inert (itoa n)"
proof (cases "n < 0")
  case True
  obtain c s where cs: "itoa_nat (nat (- n)) = c # s" by (metis itoa_nat_not_Nil neq_Nil_conv)
  then have "all_digits (c # s)" by (metis all_digits_itoa_nat)
  then have "inert (c # s)" "c \<noteq> CHR ''-''"
    using inert_digits by (blast, auto simp: all_digits_def byte_def)
  with True cs show ?thesis by (simp add: itoa_def)
next
  case False
  then show ?thesis by (simp add: itoa_def inert_digits)
qed

end
