(* ===== verification/Sql_Decl.thy ===== *)
theory Sql_Decl
  imports Sql_Count
begin

text \<open>
  Reading back what the driver writes, and what it reads from the server's declarations. A
  delimited code (\<open>delimited\<close>) is an encoder whose output can be read off the front of a longer
  text; quoted identifiers and the quoted values of an \<open>ENUM\<close>/\<open>SET\<close> declaration are two of them.
  From the contract alone a separated list is read back and the encoding of lists is injective.

  The theory then holds the properties of the SQL text component.
\<close>

section \<open>The contract of a delimited code\<close>

text \<open>Reading a list of items with a one-byte separator; \<open>fuel\<close> bounds the number of items.\<close>

fun read_many :: "(string \<Rightarrow> ('a \<times> string) option) \<Rightarrow> char \<Rightarrow> nat \<Rightarrow> string \<Rightarrow> 'a list option" where
  "read_many rd sep 0 s = None"
| "read_many rd sep (Suc fuel) s =
     (case rd s of
        None \<Rightarrow> None
      | Some (x, r) \<Rightarrow>
          (case r of
             [] \<Rightarrow> Some [x]
           | c # r' \<Rightarrow> if c = sep then map_option ((#) x) (read_many rd sep fuel r') else None))"

locale delimited =
  fixes enc :: "'a \<Rightarrow> string"
    and rd :: "string \<Rightarrow> ('a \<times> string) option"
    and delim :: char
  assumes rd_enc: "r = [] \<or> hd r \<noteq> delim \<Longrightarrow> rd (enc x @ r) = Some (x, r)"
begin

lemma rd_enc_Nil: "rd (enc x) = Some (x, [])"
  using rd_enc [of "[]" x] by simp

lemma enc_inject: "enc x = enc y \<longleftrightarrow> x = y"
  by (metis rd_enc_Nil option.inject prod.inject)

lemma enc_prefix_free:
  assumes "enc x @ r = enc y @ r'" and "r = [] \<or> hd r \<noteq> delim" and "r' = [] \<or> hd r' \<noteq> delim"
  shows "x = y \<and> r = r'"
proof -
  have "Some (x, r) = rd (enc x @ r)" using rd_enc [OF assms(2)] by (rule sym)
  also have "\<dots> = Some (y, r')" unfolding assms(1) using assms(3) by (rule rd_enc)
  finally have "Some (x, r) = Some (y, r')" .
  then show ?thesis by simp
qed

lemma read_many_Join:
  "sep \<noteq> delim \<Longrightarrow> xs \<noteq> [] \<Longrightarrow> length xs \<le> fuel \<Longrightarrow>
   read_many rd sep fuel (Join (map enc xs) [sep]) = Some xs"
proof (induction xs arbitrary: fuel)
  case (Cons x xs)
  obtain fuel' where f: "fuel = Suc fuel'" "length xs \<le> fuel'"
    using Cons.prems(3) by (cases fuel) auto
  show ?case
  proof (cases xs)
    case Nil
    with f show ?thesis by (simp add: rd_enc_Nil)
  next
    case (Cons y ys)
    then have "Join (map enc (x # xs)) [sep] = enc x @ sep # Join (map enc xs) [sep]"
      by simp
    with f Cons Cons.IH [of fuel'] Cons.prems(1) show ?thesis
      using rd_enc [of "sep # Join (map enc xs) [sep]" x] by simp
  qed
qed simp

lemma Join_inject:
  assumes "sep \<noteq> delim" "xs \<noteq> []" "ys \<noteq> []"
    and eq: "Join (map enc xs) [sep] = Join (map enc ys) [sep]"
  shows "xs = ys"
proof -
  let ?f = "max (length xs) (length ys)"
  have "Some xs = read_many rd sep ?f (Join (map enc xs) [sep])"
    using read_many_Join [OF assms(1,2), of ?f] by simp
  also have "\<dots> = Some ys" unfolding eq using read_many_Join [OF assms(1,3), of ?f] by simp
  finally show ?thesis by simp
qed

end

section \<open>Quoted identifiers\<close>

text \<open>MariaDB's rule for a backtick-quoted identifier, read off the front of a text.\<close>

fun read_bt :: "string \<Rightarrow> string \<Rightarrow> (string \<times> string) option" where
  "read_bt acc [] = None"
| "read_bt acc (c # s) =
     (if c = btick
      then (if s \<noteq> [] \<and> hd s = btick then read_bt (acc @ [btick]) (tl s) else Some (acc, s))
      else read_bt (acc @ [c]) s)"

fun read_ident :: "string \<Rightarrow> (string \<times> string) option" where
  "read_ident [] = None"
| "read_ident (c # s) = (if c = btick then read_bt [] s else None)"

lemma read_bt_name:
  "r = [] \<or> hd r \<noteq> btick \<Longrightarrow>
   read_bt acc (ReplaceAll name btick [btick, btick] @ btick # r) = Some (acc @ name, r)"
  by (induction name arbitrary: acc) auto

interpretation qid: delimited quoteIdentifier read_ident btick
  by unfold_locales (simp add: quoteIdentifier_def read_bt_name)

section \<open>Quoted values\<close>

text \<open>A value as the server prints it in a declaration: quotes doubled, backslashes escaped.\<close>

definition esc_char :: "char \<Rightarrow> string" where
  "esc_char c = (if c = quot1 then [quot1, quot1] else if c = bslash then [bslash, bslash] else [c])"

definition enc_value :: "string \<Rightarrow> string" where
  "enc_value v = quot1 # concat (map esc_char v) @ [quot1]"

definition rd_value :: "string \<Rightarrow> (string \<times> string) option" where
  "rd_value s = (case s of [] \<Rightarrow> None | c # s' \<Rightarrow> if c = quot1 then read_value [] s' else None)"

definition decl_text :: "string \<Rightarrow> string list \<Rightarrow> string" where
  "decl_text name vs = name @ ''('' @ Join (map enc_value vs) '','' @ '')''"

lemma read_value_enc:
  "r = [] \<or> hd r \<noteq> quot1 \<Longrightarrow>
   read_value acc (concat (map esc_char v) @ quot1 # r) = Some (acc @ v, r)"
  by (induction v arbitrary: acc) (auto simp: esc_char_def)

interpretation qval: delimited enc_value rd_value quot1
  by unfold_locales (simp add: enc_value_def rd_value_def read_value_enc)

lemma enc_value_Cons: "enc_value v @ r = quot1 # concat (map esc_char v) @ quot1 # r"
  by (simp add: enc_value_def)

text \<open>One round of the outer loop on an encoded value that is followed by a separator or nothing.\<close>

lemma parse_values_step:
  assumes "r = [] \<or> hd r = CHR '',''"
  shows "parse_values ct len vs (enc_value v @ r) = parse_values ct len (vs @ [v]) r"
proof -
  have sp: "dropWhile (\<lambda>c. c = CHR '' '') r = r" using assms by (cases r) auto
  have rv: "read_value [] (concat (map esc_char v) @ quot1 # r) = Some (v, r)"
    using assms read_value_enc [of r "[]" v] by auto
  show ?thesis
    unfolding enc_value_Cons
    by (subst parse_values.simps) (use assms sp rv in \<open>cases r; simp\<close>)
qed

lemma parse_values_comma: "parse_values ct len vs (CHR '','' # r) = parse_values ct len vs r"
  by (simp add: parse_values.simps [of ct len vs])

lemma parse_values_Nil: "parse_values ct len vs [] = Inr vs"
  by (simp add: parse_values.simps)

lemma parse_values_Join:
  "parse_values ct len acc (Join (map enc_value vs) '','') = Inr (acc @ vs)"
proof (induction vs arbitrary: acc)
  case Nil
  show ?case by (simp add: parse_values_Nil)
next
  case (Cons v vs)
  show ?case
  proof (cases vs)
    case Nil
    then show ?thesis
      using parse_values_step [of "[]" ct len acc v] by (simp add: parse_values_Nil)
  next
    case (Cons w ws)
    then have "Join (map enc_value (v # vs)) '','' = enc_value v @ CHR '','' # Join (map enc_value vs) '',''"
      by simp
    then show ?thesis
      using Cons.IH parse_values_step [of "CHR '','' # Join (map enc_value vs) '',''" ct len acc v]
      by (simp add: parse_values_comma)
  qed
qed

lemma parse_decl_text:
  assumes "CHR ''('' \<notin> set name"
  shows "parseMariaDBTypeValues (decl_text name vs) = Inr vs"
proof -
  let ?b = "Join (map enc_value vs) '',''"
  have "IndexByte (decl_text name vs) CHR ''('' = Some (length name)"
    using assms IndexByte_append_notin [of "CHR ''(''" name "?b @ '')''"]
    by (simp add: decl_text_def)
  moreover have "LastIndexByte (decl_text name vs) CHR '')'' = Some (length name + 1 + length ?b)"
    using LastIndexByte_snoc [of "name @ ''('' @ ?b" "CHR '')''"] by (simp add: decl_text_def)
  moreover have "take (length name + 1 + length ?b) (decl_text name vs) = name @ ''('' @ ?b"
    by (simp add: decl_text_def)
  ultimately show ?thesis
    by (simp add: parseMariaDBTypeValues_def parse_values_Join)
qed

section \<open>Properties\<close>

text \<open>
  C3 (functional). For every SQL text made of parameters, plain text, quoted strings, quoted
  identifiers and comments, \<open>countPlaceholders\<close> is the number of parameters: a question mark
  inside quotes or a comment is never counted, escaped and doubled quotes do not end a quoted
  string, and \<open>--\<close> starts a comment only before a blank.
\<close>
theorem countPlaceholders_render:
  assumes "wf_segs segs"
  shows "countPlaceholders (render segs) = length (filter (\<lambda>s. s = Param) segs)"
  using assms by (simp add: countPlaceholders_cp cp_render)

theorem countPlaceholders_render_witness:
  "countPlaceholders ''SELECT ? /* ? */ -- ?\<newline>, ? # ?\<newline> '' = 2"
proof -
  let ?segs = "[Text ''SELECT '', Param, Text '' '', BlockComment '' ? '', Text '' '',
    DashComment '' ?'' CHR 0x0A, Text '', '', Param, Text '' '', HashComment '' ?'' CHR 0x0A, Text '' '']"
  have wf: "wf_segs ?segs" by code_simp
  have r: "render ?segs = ''SELECT ? /* ? */ -- ?\<newline>, ? # ?\<newline> ''" by code_simp
  show ?thesis using countPlaceholders_render [OF wf] unfolding r by simp
qed

text \<open>
  C15 (roundtrip). Whatever bytes a catalog, table or column name holds, the text \<open>quoteIdentifier\<close>
  makes of it is read by MariaDB's identifier rule as exactly that name, with the reader positioned
  right behind it, as long as no backtick follows: a name cannot end its own quotes.
\<close>
theorem quoteIdentifier_reads_back:
  assumes "rest = [] \<or> hd rest \<noteq> btick"
  shows "read_ident (quoteIdentifier name @ rest) = Some (name, rest)"
  using assms by (rule qid.rd_enc)

theorem quoteIdentifier_reads_back_witness:
  "read_ident (quoteIdentifier ''a`; DROP TABLE t'' @ '' (id INT)'') =
     Some (''a`; DROP TABLE t'', '' (id INT)'')"
  by (rule quoteIdentifier_reads_back) simp

text \<open>
  \<open>QuoteIdentifiers\<close> is injective on non-empty lists of name parts: no dot,
  backtick or other byte inside a part lets two different qualified names become the same SQL text.
\<close>
theorem QuoteIdentifiers_inject:
  assumes "ps \<noteq> []" "qs \<noteq> []" "QuoteIdentifiers ps = QuoteIdentifiers qs"
  shows "ps = qs"
  using qid.Join_inject [of "CHR ''.''" ps qs] assms by (simp add: QuoteIdentifiers_def)

theorem QuoteIdentifiers_inject_witness:
  "QuoteIdentifiers [''a.b''] \<noteq> QuoteIdentifiers [''a'', ''b'']"
  using QuoteIdentifiers_inject [of "[''a.b'']" "[''a'', ''b'']"] by auto

text \<open>
  \<open>parseMariaDBTypeValues\<close> recovers every list of values from an \<open>ENUM\<close> or
  \<open>SET\<close> declaration in which quotes are doubled and backslashes escaped, whatever bytes the values
  hold (commas, parentheses, quotes, backslashes, none at all).
\<close>
theorem parseMariaDBTypeValues_declaration:
  assumes "CHR ''('' \<notin> set name"
  shows "parseMariaDBTypeValues (decl_text name vs) = Inr vs"
  by (rule parse_decl_text [OF assms])

theorem parseMariaDBTypeValues_declaration_witness:
  "parseMariaDBTypeValues (decl_text ''enum'' [''plain'', ''it'' @ [quot1] @ ''s'', ''comma,value)'']) =
     Inr [''plain'', ''it'' @ [quot1] @ ''s'', ''comma,value)'']"
  by (rule parseMariaDBTypeValues_declaration) simp

end
