(* ===== verification/Go_Errors.thy ===== *)
theory Go_Errors
  imports Prelude
begin

text \<open>
  The error values of the driver and the translation of MariaDB errors to ADBC status codes
  (\<open>error_inspector.go\<close>).

  An error is kept as the value the code builds, not as its formatted text: a \<open>fmt.Errorf\<close> as its
  format and arguments, a call of the driverbase \<open>ErrorHelper\<close> as the helper's name, format and
  arguments (\<open>ErrorHelper\<close> itself is not part of the repository), a failed type assertion or
  index as \<open>Panic\<close>. The text of an error, \<open>err.Error()\<close>, is a parameter where it is read.
\<close>

section \<open>Status codes\<close>

datatype Status =
    StatusOK | StatusUnknown | StatusNotImplemented | StatusNotFound | StatusAlreadyExists
  | StatusInvalidArgument | StatusInvalidState | StatusInvalidData | StatusIntegrity
  | StatusInternal | StatusIO | StatusCancelled | StatusTimeout | StatusUnauthenticated
  | StatusUnauthorized

text \<open>The numeric codes of \<open>pkg/adbc.h\<close>.\<close>

fun status_code :: "Status \<Rightarrow> nat" where
  "status_code StatusOK = 0"
| "status_code StatusUnknown = 1"
| "status_code StatusNotImplemented = 2"
| "status_code StatusNotFound = 3"
| "status_code StatusAlreadyExists = 4"
| "status_code StatusInvalidArgument = 5"
| "status_code StatusInvalidState = 6"
| "status_code StatusInvalidData = 7"
| "status_code StatusIntegrity = 8"
| "status_code StatusInternal = 9"
| "status_code StatusIO = 10"
| "status_code StatusCancelled = 11"
| "status_code StatusTimeout = 12"
| "status_code StatusUnauthenticated = 13"
| "status_code StatusUnauthorized = 14"

section \<open>Error values\<close>

text \<open>
  The wire library's \<open>MySQLError\<close>: a 16-bit error number and a five-byte SQLSTATE (all zero bytes
  when the server sent none).
\<close>

record mysql_error =
  Number :: "16 word"
  SQLState :: string
  Message :: string

datatype helper = InvalidArgument | InvalidState | NotFound | Internal | NotImplemented

datatype go_error =
    MySQL mysql_error
  | Errorf string "string list"
  | Wrapf string go_error
  | Joined "go_error list"
  | Helper helper string "string list"
  | WrapIO go_error string "string list"
  | AdbcError Status string
  | Panic string

text \<open>\<open>errors.Join\<close>: \<open>nil\<close> errors are dropped, and the result is \<open>nil\<close> when none is left.\<close>

definition errors_Join :: "go_error option list \<Rightarrow> go_error option" where
  "errors_Join es = (case List.map_filter id es of [] \<Rightarrow> None | es' \<Rightarrow> Some (Joined es'))"

text \<open>
  \<open>errors.As(err, &mariadbErr)\<close>: the first \<open>MySQLError\<close> of the error tree in depth-first order.
  \<open>adbc.Error\<close> values, which the helpers return, do not unwrap.
\<close>

fun as_mysql :: "go_error \<Rightarrow> mysql_error option"
  and as_mysql_list :: "go_error list \<Rightarrow> mysql_error option" where
  "as_mysql (MySQL m) = Some m"
| "as_mysql (Wrapf f e) = as_mysql e"
| "as_mysql (Joined es) = as_mysql_list es"
| "as_mysql _ = None"
| "as_mysql_list [] = None"
| "as_mysql_list (e # es) = (case as_mysql e of Some m \<Rightarrow> Some m | None \<Rightarrow> as_mysql_list es)"

section \<open>The error inspector\<close>

record adbc_error =
  Code :: Status
  Msg :: string
  SqlState :: string

text \<open>The switch on the error number.\<close>

definition number_status :: "nat \<Rightarrow> Status option" where
  "number_status n =
     (if n = 1045 then Some StatusUnauthenticated
      else if n \<in> {1044, 1142, 1143, 1227} then Some StatusUnauthorized
      else if n = 1146 then Some StatusNotFound
      else if n = 1049 then Some StatusNotFound
      else if n = 1050 then Some StatusAlreadyExists
      else if n = 1007 then Some StatusAlreadyExists
      else if n = 1062 then Some StatusIntegrity
      else if n = 1451 then Some StatusIntegrity
      else if n = 1452 then Some StatusIntegrity
      else if n = 1048 then Some StatusIntegrity
      else if n = 1364 then Some StatusIntegrity
      else if n = 1064 then Some StatusInvalidArgument
      else if n = 1054 then Some StatusInvalidArgument
      else if n = 1052 then Some StatusInvalidArgument
      else if n = 1366 then Some StatusInvalidData
      else if n = 1292 then Some StatusInvalidData
      else if n = 1264 then Some StatusInvalidData
      else if n = 1205 then Some StatusTimeout
      else if n = 1213 then Some StatusCancelled
      else if n \<in> {2002, 2003, 2006, 2013} then Some StatusIO
      else if n = 1105 then Some StatusInternal
      else None)"

text \<open>The switch on the SQLSTATE class.\<close>

definition class_status :: "string \<Rightarrow> Status option" where
  "class_status c =
     (if c = ''02'' then Some StatusNotFound
      else if c = ''07'' then Some StatusIO
      else if c = ''08'' then Some StatusIO
      else if c = ''21'' \<or> c = ''22'' then Some StatusInvalidData
      else if c = ''23'' then Some StatusIntegrity
      else if c = ''28'' then Some StatusUnauthenticated
      else if c = ''34'' then Some StatusInvalidArgument
      else if c = ''42'' then Some StatusInvalidArgument
      else if c = ''44'' then Some StatusIntegrity
      else if c = ''55'' \<or> c = ''57'' then Some StatusInvalidState
      else if c = ''58'' then Some StatusInternal
      else None)"

definition no_sqlstate :: string where
  "no_sqlstate = replicate 5 NUL"

definition or_else :: "'a option \<Rightarrow> 'a \<Rightarrow> 'a" where
  "or_else o' d = (case o' of None \<Rightarrow> d | Some x \<Rightarrow> x)"

definition InspectError :: "(go_error \<Rightarrow> string) \<Rightarrow> go_error \<Rightarrow> Status \<Rightarrow> adbc_error" where
  "InspectError Error err defaultStatus =
     (case as_mysql err of
        None \<Rightarrow> \<lparr>Code = defaultStatus, Msg = Error err, SqlState = no_sqlstate\<rparr>
      | Some m \<Rightarrow>
          (let status = or_else (number_status (unat (Number m))) defaultStatus;
               status' = (if SQLState m ! 0 \<noteq> NUL \<and> status = defaultStatus
                          then or_else (class_status (take 2 (SQLState m))) status else status)
           in \<lparr>Code = status', Msg = Error err, SqlState = SQLState m\<rparr>))"

section \<open>Lemmas\<close>

lemma status_code_inject [simp]: "status_code a = status_code b \<longleftrightarrow> a = b"
  by (cases a; cases b; simp)

lemma status_code_bound: "status_code s \<le> 14"
  by (cases s) simp_all

lemma errors_Join_None_iff: "errors_Join es = None \<longleftrightarrow> (\<forall>e \<in> set es. e = None)"
proof -
  have "List.map_filter id es = [] \<longleftrightarrow> (\<forall>e \<in> set es. e = None)"
    by (induction es) (auto simp: List.map_filter_simps split: option.splits)
  then show ?thesis by (auto simp: errors_Join_def split: list.splits)
qed

lemma errors_Join_None2 [simp]: "errors_Join [None, None] = None"
  by (simp add: errors_Join_None_iff)

lemma InspectError_cases:
  "Code (InspectError Error err d) =
     (case as_mysql err of
        None \<Rightarrow> d
      | Some m \<Rightarrow>
          (case number_status (unat (Number m)) of
             Some s \<Rightarrow> if s = d \<and> SQLState m ! 0 \<noteq> NUL
                       then or_else (class_status (take 2 (SQLState m))) d else s
           | None \<Rightarrow> if SQLState m ! 0 \<noteq> NUL
                       then or_else (class_status (take 2 (SQLState m))) d else d))"
  by (auto simp: InspectError_def Let_def or_else_def split: option.splits)

section \<open>Properties\<close>



end
