(* ===== verification/Arrow.thy ===== *)
theory Arrow
  imports Go_Errors
begin

text \<open>
  The data the driver exchanges with the libraries it is built on: Arrow types, fields and
  metadata, the column description of \<open>sqlwrapper.ColumnType\<close>, the dynamic SQL values an inserter
  receives, and the calls it makes on an Arrow builder.

  Code outside the repository enters as the record \<open>sqlwrapper\<close>: the metadata key constants, the
  default type converter and the Arrow functions the driver calls. Every definition that uses one
  of them takes the record as an argument.
\<close>

section \<open>Arrow types and fields\<close>

text \<open>\<open>arrow.TimeUnit\<close> is an integer type: \<open>OtherUnit\<close> stands for a value outside the four units.\<close>

datatype time_unit = Second | Millisecond | Microsecond | Nanosecond | OtherUnit int

datatype arrow_type =
    NullT | BooleanT
  | Int8T | Int16T | Int32T | Int64T | Uint8T | Uint16T | Uint32T | Uint64T
  | Float16T | Float32T | Float64T
  | StringT | LargeStringT | StringViewT
  | BinaryT | FixedSizeBinaryT int | BinaryViewT | LargeBinaryT
  | Date32T | Date64T
  | TimestampT time_unit string
  | Time32T time_unit | Time64T time_unit | DurationT time_unit
  | DecimalT nat int int
  | FixedSizeListT int arrow_type
  | JSONT | UUIDT
  | OtherT string

type_synonym metadata = "string \<rightharpoonup> string"

record field =
  fName :: string
  fType :: arrow_type
  fNullable :: bool
  fMetadata :: metadata

text \<open>\<open>if v, ok := md.GetValue(key); ok && v == want\<close>\<close>

definition meta_is :: "metadata \<Rightarrow> string \<Rightarrow> string \<Rightarrow> bool" where
  "meta_is md key want \<longleftrightarrow> md key = Some want"

section \<open>Columns, values and builders\<close>

record column_type =
  Name :: string
  DatabaseTypeName :: string
  Nullable :: bool
  Length :: "int option"
  Precision :: "int option"
  Scale :: "int option"

text \<open>
  A value of type \<open>any\<close> as \<open>database/sql\<close> delivers it; \<open>VOther\<close> carries the dynamic type name the
  error messages print.
\<close>

datatype go_value = VNil | VBytes string | VString string | VOther string

text \<open>The dynamic type of an Arrow builder, as far as the driver's type assertions look at it.\<close>

datatype builder_kind =
    BinaryLikeBuilder
  | Float32Builder
  | FixedSizeListBuilder int builder_kind
  | DurationBuilder time_unit
  | OtherBuilder string

text \<open>
  A builder is the sequence of calls it accepted. A float is its IEEE-754 bit pattern:
  \<open>math.Float32frombits\<close> and \<open>math.Float32bits\<close> are the identity on it.
\<close>

datatype builder_call =
    AppendNull
  | AppendBytes string
  | AppendFromString string
  | AppendDuration int
  | AppendList
  | AppendChildFloat "32 word"
  | AppendDefault go_value

type_synonym builder = "builder_call list"

text \<open>The calls that start a row; \<open>AppendChildFloat\<close> goes to the child builder of a list row.\<close>

fun is_row :: "builder_call \<Rightarrow> bool" where
  "is_row (AppendChildFloat w) \<longleftrightarrow> False"
| "is_row _ \<longleftrightarrow> True"

definition rows :: "builder \<Rightarrow> nat" where
  "rows b = length (filter is_row b)"

section \<open>Code outside the repository\<close>

record sqlwrapper =
  MetaKeyDatabaseTypeName :: string
  MetaKeyColumnName :: string
  MetaKeyPrecision :: string
  MetaKeyScale :: string
  MetaKeyLength :: string
  MetaKeyFractionalSecondsPrecision :: string
  DefaultConvertRawColumnType :: "column_type \<Rightarrow> go_error + (arrow_type \<times> bool \<times> metadata)"
  DefaultCreateInserter :: "field \<Rightarrow> builder_kind \<Rightarrow> go_error option"
  DefaultAppend :: "field \<Rightarrow> go_value \<Rightarrow> go_error option"
  AppendValueFromString :: "arrow_type \<Rightarrow> string \<Rightarrow> go_error option"
  NewJSONType :: "go_error option"
  Multiplier :: "time_unit \<Rightarrow> int"

text \<open>
  \<open>arrow.TimeUnit.Multiplier\<close> is documented as the \<open>time.Duration\<close> that converts a value of the
  unit to nanoseconds.
\<close>

definition multiplier_ok :: "sqlwrapper \<Rightarrow> bool" where
  "multiplier_ok L \<longleftrightarrow>
     Multiplier L Second = 1000000000 \<and> Multiplier L Millisecond = 1000000 \<and>
     Multiplier L Microsecond = 1000 \<and> Multiplier L Nanosecond = 1"

text \<open>
  The metadata keys are documented as the \<open>sql.*\<close> names; the driver itself spells some of them out.
\<close>

definition meta_keys_ok :: "sqlwrapper \<Rightarrow> bool" where
  "meta_keys_ok L \<longleftrightarrow>
     MetaKeyDatabaseTypeName L = ''sql.database_type_name'' \<and>
     MetaKeyColumnName L = ''sql.column_name'' \<and>
     MetaKeyPrecision L = ''sql.precision'' \<and> MetaKeyScale L = ''sql.scale'' \<and>
     MetaKeyLength L = ''sql.length'' \<and>
     MetaKeyFractionalSecondsPrecision L = ''sql.fractional_seconds_precision''"

text \<open>An instance, for the concrete evaluations: a default converter that maps everything to text.\<close>

definition sample_lib :: sqlwrapper where
  "sample_lib = \<lparr>
     MetaKeyDatabaseTypeName = ''sql.database_type_name'',
     MetaKeyColumnName = ''sql.column_name'',
     MetaKeyPrecision = ''sql.precision'',
     MetaKeyScale = ''sql.scale'',
     MetaKeyLength = ''sql.length'',
     MetaKeyFractionalSecondsPrecision = ''sql.fractional_seconds_precision'',
     DefaultConvertRawColumnType = (\<lambda>c. Inr (StringT, Nullable c, Map.empty)),
     DefaultCreateInserter = (\<lambda>f b. None),
     DefaultAppend = (\<lambda>f v. None),
     AppendValueFromString = (\<lambda>t s. None),
     NewJSONType = None,
     Multiplier = (\<lambda>u. case u of Second \<Rightarrow> 1000000000 | Millisecond \<Rightarrow> 1000000
                       | Microsecond \<Rightarrow> 1000 | _ \<Rightarrow> 1)\<rparr>"

definition sample_unicode :: unicode where
  "sample_unicode = \<lparr>uni_upper = id, uni_lower = id, uni_fold_eq = (=), uni_trim = id,
     uni_json = id\<rparr>"

section \<open>The contract of an inserter\<close>

text \<open>
  \<open>sqlwrapper.Inserter.AppendValue\<close>: a successful call adds exactly one row, a failed one leaves
  the builder as it was. Whoever drives an inserter over the rows of a result relies on this alone.
\<close>

fun append_all :: "(builder \<Rightarrow> go_value \<Rightarrow> go_error option \<times> builder) \<Rightarrow> builder \<Rightarrow> go_value list
    \<Rightarrow> go_error option \<times> builder" where
  "append_all app b [] = (None, b)"
| "append_all app b (v # vs) =
     (case app b v of
        (None, b') \<Rightarrow> append_all app b' vs
      | (Some e, b') \<Rightarrow> (Some e, b'))"

locale row_inserter =
  fixes app :: "builder \<Rightarrow> go_value \<Rightarrow> go_error option \<times> builder"
  assumes app_ok: "app b v = (None, b') \<Longrightarrow> \<exists>cs. b' = b @ cs \<and> rows cs = 1"
    and app_err: "app b v = (Some e, b') \<Longrightarrow> b' = b"
begin

lemma app_rows: "app b v = (None, b') \<Longrightarrow> rows b' = Suc (rows b)"
  by (drule app_ok) (auto simp: rows_def)

lemma app_extends: "\<exists>cs. snd (app b v) = b @ cs"
  using app_ok app_err by (cases "app b v"; cases "fst (app b v)") fastforce+

lemma append_all_rows: "append_all app b vs = (None, b') \<Longrightarrow> rows b' = rows b + length vs"
  by (induction vs arbitrary: b) (auto split: prod.splits option.splits dest: app_rows)

lemma append_all_partial:
  "append_all app b vs = (Some e, b') \<Longrightarrow>
   \<exists>us v ws. vs = us @ v # ws \<and> append_all app b us = (None, b') \<and> fst (app b' v) = Some e"
proof (induction vs arbitrary: b)
  case (Cons v vs)
  obtain r b1 where a: "app b v = (r, b1)" by fastforce
  show ?case
  proof (cases r)
    case None
    with Cons a obtain us w ws where "vs = us @ w # ws" "append_all app b1 us = (None, b')"
      "fst (app b' w) = Some e"
      by fastforce
    with None a show ?thesis by (intro exI [of _ "v # us"]) auto
  next
    case (Some e')
    with a have "b1 = b" using app_err by blast
    with Some a Cons.prems show ?thesis by (intro exI [of _ "[]"]) auto
  qed
qed simp

end

section \<open>Lemmas\<close>

lemma rows_append [simp]: "rows (b @ c) = rows b + rows c"
  by (simp add: rows_def)

lemma rows_Nil [simp]: "rows [] = 0"
  by (simp add: rows_def)

lemma rows_Cons [simp]: "rows (c # b) = (if is_row c then 1 else 0) + rows b"
  by (simp add: rows_def)

lemma rows_child [simp]: "rows (map AppendChildFloat ws) = 0"
  by (induction ws) simp_all

lemma sample_lib_ok [simp]: "multiplier_ok sample_lib" "meta_keys_ok sample_lib"
  by (simp_all add: multiplier_ok_def meta_keys_ok_def sample_lib_def)

end
