(* ===== verification/Zero_Datetime.thy ===== *)
theory Zero_Datetime
  imports Arrow
begin

text \<open>
  The zero-datetime option of \<open>mariadb.go\<close>: its values, its parser, the test for zero dates, and
  the contract the database, connection and statement objects share for getting and setting it
  (\<open>zero_datetime_option\<close>). The option's Go type is an integer type with two named constants; the
  other integers are ruled out by an invariant, not by the type.
\<close>

section \<open>The option\<close>

type_synonym zeroDatetimeBehavior = int

definition OptionKeyZeroDatetimeBehavior :: string where
  "OptionKeyZeroDatetimeBehavior = ''mariadb.query.zero_datetime_behavior''"

definition OptionValueZeroDatetimeBehaviorError :: string where
  "OptionValueZeroDatetimeBehaviorError = ''error''"

definition OptionValueZeroDatetimeBehaviorConvertToNull :: string where
  "OptionValueZeroDatetimeBehaviorConvertToNull = ''convert_to_null''"

definition zeroDatetimeBehaviorError :: zeroDatetimeBehavior where
  "zeroDatetimeBehaviorError = 0"

definition zeroDatetimeBehaviorConvertToNull :: zeroDatetimeBehavior where
  "zeroDatetimeBehaviorConvertToNull = 1"

definition zdb_String :: "zeroDatetimeBehavior \<Rightarrow> string" where
  "zdb_String b =
     (if b = zeroDatetimeBehaviorError then OptionValueZeroDatetimeBehaviorError
      else if b = zeroDatetimeBehaviorConvertToNull then OptionValueZeroDatetimeBehaviorConvertToNull
      else OptionValueZeroDatetimeBehaviorError)"

text \<open>The second argument says whether an \<open>ErrorHelper\<close> was given.\<close>

definition parseZeroDatetimeBehavior :: "string \<Rightarrow> bool \<Rightarrow> go_error + zeroDatetimeBehavior" where
  "parseZeroDatetimeBehavior val hasHelper =
     (if val = OptionValueZeroDatetimeBehaviorError then Inr zeroDatetimeBehaviorError
      else if val = OptionValueZeroDatetimeBehaviorConvertToNull
           then Inr zeroDatetimeBehaviorConvertToNull
      else (let fmt = ''invalid %s value %q, expected %q or %q'';
                args = [OptionKeyZeroDatetimeBehavior, val, OptionValueZeroDatetimeBehaviorError,
                        OptionValueZeroDatetimeBehaviorConvertToNull]
            in if hasHelper then Inl (Helper InvalidArgument fmt args) else Inl (Errorf fmt args)))"

definition valid_zdb :: "zeroDatetimeBehavior \<Rightarrow> bool" where
  "valid_zdb b \<longleftrightarrow> b = zeroDatetimeBehaviorError \<or> b = zeroDatetimeBehaviorConvertToNull"

section \<open>Zero dates\<close>

definition hasZeroDatePrefix :: "string \<Rightarrow> bool" where
  "hasZeroDatePrefix val =
     (if length val < length ''0000-00-00'' then False
      else if val ! 4 \<noteq> CHR ''-'' \<or> val ! 7 \<noteq> CHR ''-'' then False
      else (let year = take 4 val; month = drop 5 (take 7 val); day = drop 8 (take 10 val)
            in year = ''0000'' \<or> month = ''00'' \<or> day = ''00''))"

fun isZeroDatetimeValue :: "go_value \<Rightarrow> go_error + bool" where
  "isZeroDatetimeValue VNil = Inr False"
| "isZeroDatetimeValue (VBytes v) = Inr (hasZeroDatePrefix v)"
| "isZeroDatetimeValue (VString v) = Inr (hasZeroDatePrefix v)"
| "isZeroDatetimeValue (VOther t) = Inr False"

section \<open>The contract of an object that carries the option\<close>

text \<open>\<open>SetOption\<close> calls in sequence, stopping at the first error, as \<open>SetOptions\<close> does.\<close>

fun set_all :: "('s \<Rightarrow> string \<Rightarrow> string \<Rightarrow> go_error option \<times> 's) \<Rightarrow> 's \<Rightarrow> (string \<times> string) list
    \<Rightarrow> go_error option \<times> 's" where
  "set_all setopt s [] = (None, s)"
| "set_all setopt s ((k, v) # opts) =
     (case setopt s k v of (None, s') \<Rightarrow> set_all setopt s' opts | (Some e, s') \<Rightarrow> (Some e, s'))"

locale zero_datetime_option =
  fixes getopt :: "'s \<Rightarrow> string \<Rightarrow> (go_error + string) \<times> 's"
    and setopt :: "'s \<Rightarrow> string \<Rightarrow> string \<Rightarrow> go_error option \<times> 's"
    and behavior :: "'s \<Rightarrow> zeroDatetimeBehavior"
  assumes get_key: "getopt s OptionKeyZeroDatetimeBehavior = (Inr (zdb_String (behavior s)), s)"
    and set_key_ok: "parseZeroDatetimeBehavior v True = Inr b \<Longrightarrow>
          \<exists>s'. setopt s OptionKeyZeroDatetimeBehavior v = (None, s') \<and> behavior s' = b"
    and set_key_err: "parseZeroDatetimeBehavior v True = Inl e \<Longrightarrow>
          setopt s OptionKeyZeroDatetimeBehavior v = (Some e, s)"
    and set_other: "k \<noteq> OptionKeyZeroDatetimeBehavior \<Longrightarrow> behavior (snd (setopt s k v)) = behavior s"
begin

lemma parse_valid: "parseZeroDatetimeBehavior v h = Inr b \<Longrightarrow> valid_zdb b \<and> zdb_String b = v"
  by (auto simp: parseZeroDatetimeBehavior_def valid_zdb_def zdb_String_def Let_def
      zeroDatetimeBehaviorError_def zeroDatetimeBehaviorConvertToNull_def split: if_splits)

lemma get_after_set:
  "setopt s OptionKeyZeroDatetimeBehavior v = (None, s') \<Longrightarrow>
   getopt s' OptionKeyZeroDatetimeBehavior = (Inr v, s')"
proof (cases "parseZeroDatetimeBehavior v True")
  case (Inl e)
  moreover assume "setopt s OptionKeyZeroDatetimeBehavior v = (None, s')"
  ultimately show ?thesis using set_key_err [of v e s] by simp
next
  case (Inr b)
  moreover assume "setopt s OptionKeyZeroDatetimeBehavior v = (None, s')"
  ultimately have "behavior s' = b" using set_key_ok [of v b s] by auto
  then show ?thesis using get_key parse_valid [OF Inr] by simp
qed

lemma set_valid: "valid_zdb (behavior s) \<Longrightarrow> valid_zdb (behavior (snd (setopt s k v)))"
proof (cases "k = OptionKeyZeroDatetimeBehavior")
  case False
  assume "valid_zdb (behavior s)"
  then show ?thesis using set_other [OF False] by simp
next
  case True
  assume v: "valid_zdb (behavior s)"
  show ?thesis
  proof (cases "parseZeroDatetimeBehavior v True")
    case (Inl e)
    then show ?thesis using True v set_key_err [of v e s] by simp
  next
    case (Inr b)
    then show ?thesis using True set_key_ok [of v b s] parse_valid [of v True b] by auto
  qed
qed

lemma set_all_valid: "valid_zdb (behavior s) \<Longrightarrow> valid_zdb (behavior (snd (set_all setopt s opts)))"
proof (induction opts arbitrary: s)
  case (Cons kv opts)
  obtain k v where kv: "kv = (k, v)" by fastforce
  obtain r s' where rs: "setopt s k v = (r, s')" by fastforce
  with Cons.prems have "valid_zdb (behavior s')" using set_valid [of s k v] by simp
  with rs kv Cons.IH show ?case by (cases r) auto
qed simp

end

section \<open>Lemmas\<close>

lemmas zdb_defs = zeroDatetimeBehaviorError_def zeroDatetimeBehaviorConvertToNull_def
  OptionValueZeroDatetimeBehaviorError_def OptionValueZeroDatetimeBehaviorConvertToNull_def

lemma parse_zdb_String: "valid_zdb b \<Longrightarrow> parseZeroDatetimeBehavior (zdb_String b) h = Inr b"
  by (auto simp: parseZeroDatetimeBehavior_def valid_zdb_def zdb_String_def zdb_defs)

lemma parse_zdb_error_iff:
  "(\<exists>e. parseZeroDatetimeBehavior v h = Inl e) \<longleftrightarrow>
   v \<noteq> OptionValueZeroDatetimeBehaviorError \<and> v \<noteq> OptionValueZeroDatetimeBehaviorConvertToNull"
  by (auto simp: parseZeroDatetimeBehavior_def Let_def)

text \<open>A date text \<open>yyyy-mm-dd\<close>, with anything behind it.\<close>

definition date_text :: "string \<Rightarrow> string \<Rightarrow> string \<Rightarrow> string \<Rightarrow> string" where
  "date_text y m d r = y @ ''-'' @ m @ ''-'' @ d @ r"

lemma hasZeroDatePrefix_date_iff:
  assumes "length y = 4" "length m = 2" "length d = 2"
  shows "hasZeroDatePrefix (date_text y m d r) \<longleftrightarrow> y = ''0000'' \<or> m = ''00'' \<or> d = ''00''"
proof -
  obtain y1 y2 y3 y4 where y: "y = [y1, y2, y3, y4]"
    using assms(1) by (auto simp: length_Suc_conv eval_nat_numeral)
  obtain m1 m2 where m: "m = [m1, m2]" using assms(2) by (auto simp: length_Suc_conv eval_nat_numeral)
  obtain d1 d2 where d: "d = [d1, d2]" using assms(3) by (auto simp: length_Suc_conv eval_nat_numeral)
  show ?thesis by (simp add: hasZeroDatePrefix_def date_text_def y m d)
qed

end
