(* ===== verification/Session.thy ===== *)
theory Session
  imports Zero_Datetime
begin

text \<open>
  The dedicated database session a connection works on. The server and the base classes of the
  \<open>sqlwrapper\<close> library are not part of the repository: the record \<open>server\<close> gives their replies as
  arbitrary functions of the history of everything the connection has asked of them so far, so a
  reply may depend on any earlier event. A connection carries that history as its trace.

  Query results are lists of textual cells (\<open>None\<close> for NULL), and the conversions of
  \<open>database/sql\<close>'s \<open>Scan\<close> to the Go types the driver scans into are written out.
\<close>

section \<open>Events and replies\<close>

datatype event =
    EvClear
  | EvExec string
  | EvQuery string "string list"
  | EvBaseGet string
  | EvBaseSet string string
  | EvNewStatement
  | EvCloseStatement
  | EvRegisterInfo string

type_synonym cell = "string option"

text \<open>
  A result set: the rows delivered before iteration stops, the error \<open>rows.Err()\<close> then reports,
  and what the first \<open>rows.Close()\<close> returns (closing is idempotent: later calls return \<open>nil\<close>).
\<close>

record result_set =
  r_rows :: "cell list list"
  r_err :: "go_error option"
  r_close :: "go_error option"

record server =
  on_clear :: "event list \<Rightarrow> go_error option"
  on_exec :: "event list \<Rightarrow> string \<Rightarrow> go_error option"
  on_query :: "event list \<Rightarrow> string \<Rightarrow> string list \<Rightarrow> go_error + result_set"
  base_get :: "event list \<Rightarrow> string \<Rightarrow> go_error + string"
  base_set :: "event list \<Rightarrow> string \<Rightarrow> string \<Rightarrow> go_error option"
  base_new_statement :: "event list \<Rightarrow> go_error option"
  base_close_statement :: "event list \<Rightarrow> go_error option"
  register_info :: "event list \<Rightarrow> string \<Rightarrow> go_error option"

text \<open>The struct \<open>mariadbConnectionImpl\<close>, with the history of its embedded base connection.\<close>

record mariadbConnectionImpl =
  version :: string
  conn_zdb :: zeroDatetimeBehavior
  trace :: "event list"

type_synonym 'a op = "mariadbConnectionImpl \<Rightarrow> (go_error + 'a) \<times> mariadbConnectionImpl"

section \<open>Sequencing\<close>

text \<open>\<open>x, err := m(); if err != nil { return err }; k(x)\<close>\<close>

definition bindE :: "'a op \<Rightarrow> ('a \<Rightarrow> 'b op) \<Rightarrow> 'b op" where
  "bindE m k c = (case m c of (Inl e, c') \<Rightarrow> (Inl e, c') | (Inr x, c') \<Rightarrow> k x c')"

definition returnE :: "'a \<Rightarrow> 'a op" where
  "returnE x c = (Inr x, c)"

definition failE :: "go_error \<Rightarrow> 'a op" where
  "failE e c = (Inl e, c)"

text \<open>\<open>if err != nil { return wrap(err) }\<close>\<close>

definition wrapE :: "(go_error \<Rightarrow> go_error) \<Rightarrow> 'a op \<Rightarrow> 'a op" where
  "wrapE w m c = (case m c of (r, c') \<Rightarrow> (map_err w r, c'))"

definition liftE :: "(go_error + 'a) \<Rightarrow> 'a op" where
  "liftE r c = (r, c)"

definition log_event :: "event \<Rightarrow> mariadbConnectionImpl \<Rightarrow> mariadbConnectionImpl" where
  "log_event e c = c\<lparr>trace := trace c @ [e]\<rparr>"

definition ClearPending :: "server \<Rightarrow> unit op" where
  "ClearPending S c = (err_result (on_clear S (trace c)), log_event EvClear c)"

definition ExecContext :: "server \<Rightarrow> string \<Rightarrow> unit op" where
  "ExecContext S q c = (err_result (on_exec S (trace c) q), log_event (EvExec q) c)"

definition QueryContext :: "server \<Rightarrow> string \<Rightarrow> string list \<Rightarrow> result_set op" where
  "QueryContext S q args c = (on_query S (trace c) q args, log_event (EvQuery q args) c)"

definition BaseGetOption :: "server \<Rightarrow> string \<Rightarrow> string op" where
  "BaseGetOption S k c = (base_get S (trace c) k, log_event (EvBaseGet k) c)"

definition BaseSetOption :: "server \<Rightarrow> string \<Rightarrow> string \<Rightarrow> unit op" where
  "BaseSetOption S k v c = (err_result (base_set S (trace c) k v), log_event (EvBaseSet k v) c)"

definition RegisterInfoCode :: "server \<Rightarrow> string \<Rightarrow> unit op" where
  "RegisterInfoCode S v c = (err_result (register_info S (trace c) v), log_event (EvRegisterInfo v) c)"

section \<open>Scan\<close>

definition scan_string :: "cell \<Rightarrow> go_error + string" where
  "scan_string x = (case x of
     None \<Rightarrow> Inl (Errorf ''converting NULL to string is unsupported'' []) | Some s \<Rightarrow> Inr s)"

definition scan_NullString :: "cell \<Rightarrow> go_error + string option" where
  "scan_NullString x = Inr x"

definition scan_int :: "nat \<Rightarrow> cell \<Rightarrow> go_error + int" where
  "scan_int bits x = (case x of
     None \<Rightarrow> Inl (Errorf ''converting NULL to int is unsupported'' [])
   | Some s \<Rightarrow> (case ParseInt10 bits s of
       None \<Rightarrow> Inl (Errorf ''converting driver.Value type to an int: invalid syntax'' [s])
     | Some n \<Rightarrow> Inr n))"

definition scan_NullInt :: "nat \<Rightarrow> cell \<Rightarrow> go_error + int option" where
  "scan_NullInt bits x = (case x of
     None \<Rightarrow> Inr None | Some s \<Rightarrow> map_sum id Some (scan_int bits (Some s)))"

text \<open>
  One row: the number of cells has to match, then the destinations are filled from left to right
  and the first conversion error is returned.
\<close>

definition wrong_columns :: "nat \<Rightarrow> nat \<Rightarrow> go_error" where
  "wrong_columns expected got = Errorf
     ''sql: expected %d destination arguments in Scan, not %d'' [itoa (int got), itoa (int expected)]"

fun scan_strings :: "cell list \<Rightarrow> go_error + string list" where
  "scan_strings [] = Inr []"
| "scan_strings (x # xs) =
     (case scan_string x of
        Inl e \<Rightarrow> Inl e
      | Inr s \<Rightarrow> (case scan_strings xs of Inl e \<Rightarrow> Inl e | Inr ss \<Rightarrow> Inr (s # ss)))"

text \<open>\<open>QueryRowContext(...).Scan\<close> into \<open>n\<close> string destinations.\<close>

definition ErrNoRows :: go_error where
  "ErrNoRows = Errorf ''sql: no rows in result set'' []"

definition row_Scan :: "nat \<Rightarrow> result_set \<Rightarrow> go_error + string list" where
  "row_Scan n rs =
     (case r_rows rs of
        [] \<Rightarrow> Inl (or_else (r_err rs) ErrNoRows)
      | row # _ \<Rightarrow>
          (if length row \<noteq> n then Inl (wrong_columns n (length row))
           else (case scan_strings row of
                   Inl e \<Rightarrow> Inl e
                 | Inr vs \<Rightarrow> (case r_close rs of Some e \<Rightarrow> Inl e | None \<Rightarrow> Inr vs))))"

definition QueryRow :: "server \<Rightarrow> string \<Rightarrow> nat \<Rightarrow> string list op" where
  "QueryRow S q n = bindE (QueryContext S q []) (\<lambda>rs. liftE (row_Scan n rs))"

section \<open>The discipline of an operation\<close>

text \<open>
  Operations that share the session first drain what an unfinished statement left on it. An event
  is \<^emph>\<open>guarded\<close> in a run when a successful \<open>ClearPending\<close> of the same operation precedes it; only
  the operations of the base class and the registration of driver information need no guard.
\<close>

fun needs_guard :: "event \<Rightarrow> bool" where
  "needs_guard (EvExec q) \<longleftrightarrow> True"
| "needs_guard (EvQuery q args) \<longleftrightarrow> True"
| "needs_guard _ \<longleftrightarrow> False"

fun guarded :: "server \<Rightarrow> event list \<Rightarrow> bool \<Rightarrow> event list \<Rightarrow> bool" where
  "guarded S h ok [] \<longleftrightarrow> True"
| "guarded S h ok (e # es) \<longleftrightarrow>
     (needs_guard e \<longrightarrow> ok) \<and>
     guarded S (h @ [e]) (if e = EvClear then on_clear S h = None else ok) es"

text \<open>The state of the guard after a run of events.\<close>

fun cleared :: "server \<Rightarrow> event list \<Rightarrow> bool \<Rightarrow> event list \<Rightarrow> bool" where
  "cleared S h ok [] \<longleftrightarrow> ok"
| "cleared S h ok (e # es) \<longleftrightarrow>
     cleared S (h @ [e]) (if e = EvClear then on_clear S h = None else ok) es"

lemma guarded_append:
  "guarded S h ok (es @ fs) \<longleftrightarrow> guarded S h ok es \<and> guarded S (h @ es) (cleared S h ok es) fs"
  by (induction es arbitrary: h ok) auto

lemma cleared_append: "cleared S h ok (es @ fs) = cleared S (h @ es) (cleared S h ok es) fs"
  by (induction es arbitrary: h ok) auto

lemma guarded_mono: "guarded S h False es \<Longrightarrow> guarded S h ok es"
proof (induction es arbitrary: h ok)
  case (Cons e es)
  then show ?case by (cases "e = EvClear") auto
qed simp

lemma cleared_mono: "cleared S h False es \<Longrightarrow> cleared S h ok es"
proof (induction es arbitrary: h ok)
  case (Cons e es)
  then show ?case by (cases "e = EvClear") auto
qed simp

text \<open>
  \<open>disciplined S ok m\<close>: running \<open>m\<close> after a guard in state \<open>ok\<close> only appends events to the trace,
  every server event among them is guarded, and when \<open>m\<close> succeeds a guard that held still holds.
\<close>

definition disciplined :: "server \<Rightarrow> bool \<Rightarrow> 'a op \<Rightarrow> bool" where
  "disciplined S ok m \<longleftrightarrow> (\<forall>c. \<exists>es. trace (snd (m c)) = trace c @ es \<and>
     guarded S (trace c) ok es \<and>
     ((\<exists>x. fst (m c) = Inr x) \<longrightarrow> ok \<longrightarrow> cleared S (trace c) ok es))"

lemma disciplined_pure [intro, simp]:
  "disciplined S ok (returnE x)" "disciplined S ok (failE e)" "disciplined S ok (liftE r)"
  by (auto simp: disciplined_def returnE_def failE_def liftE_def)

lemma disciplined_event:
  assumes "\<And>c. trace (snd (m c)) = trace c @ [e]" "needs_guard e \<Longrightarrow> ok" "e \<noteq> EvClear"
  shows "disciplined S ok m"
  using assms by (auto simp: disciplined_def intro!: exI [of _ "[e]"])

lemma disciplined_exec [intro, simp]:
  "disciplined S True (ExecContext S q)" "disciplined S True (QueryContext S q args)"
  "disciplined S ok (BaseGetOption S k)" "disciplined S ok (BaseSetOption S k v)"
  "disciplined S ok (RegisterInfoCode S v)"
  by (auto simp: ExecContext_def QueryContext_def BaseGetOption_def BaseSetOption_def
      RegisterInfoCode_def log_event_def intro!: disciplined_event)

lemma disciplined_wrap [intro]: "disciplined S ok m \<Longrightarrow> disciplined S ok (wrapE w m)"
proof -
  assume m: "disciplined S ok m"
  have "snd (wrapE w m c) = snd (m c)" "(\<exists>x. fst (wrapE w m c) = Inr x) = (\<exists>x. fst (m c) = Inr x)" for c
    by (cases "m c"; cases "fst (m c)"; auto simp: wrapE_def)+
  with m show ?thesis by (simp add: disciplined_def)
qed

lemma disciplined_bind [intro]:
  assumes "disciplined S ok m" "\<And>x. disciplined S ok (k x)"
  shows "disciplined S ok (bindE m k)"
  unfolding disciplined_def
proof
  fix c
  obtain r c1 where m: "m c = (r, c1)" by fastforce
  obtain es where es: "trace c1 = trace c @ es" "guarded S (trace c) ok es"
    "(\<exists>x. r = Inr x) \<longrightarrow> ok \<longrightarrow> cleared S (trace c) ok es"
    using assms(1) m unfolding disciplined_def by (metis fst_conv snd_conv)
  show "\<exists>es. trace (snd (bindE m k c)) = trace c @ es \<and> guarded S (trace c) ok es \<and>
     ((\<exists>x. fst (bindE m k c) = Inr x) \<longrightarrow> ok \<longrightarrow> cleared S (trace c) ok es)"
  proof (cases r)
    case (Inl e)
    with es m show ?thesis by (auto simp: bindE_def)
  next
    case (Inr x)
    obtain fs where fs: "trace (snd (k x c1)) = trace c1 @ fs" "guarded S (trace c1) ok fs"
      "(\<exists>y. fst (k x c1) = Inr y) \<longrightarrow> ok \<longrightarrow> cleared S (trace c1) ok fs"
      using assms(2) [of x] unfolding disciplined_def by metis
    have "guarded S (trace c) ok (es @ fs)"
      using es fs Inr guarded_mono by (cases ok) (auto simp: guarded_append)
    moreover have "(\<exists>y. fst (k x c1) = Inr y) \<longrightarrow> ok \<longrightarrow> cleared S (trace c) ok (es @ fs)"
      using es fs Inr by (auto simp: cleared_append)
    moreover have "bindE m k c = k x c1" using m Inr by (simp add: bindE_def)
    ultimately show ?thesis using fs(1) es(1) by (intro exI [of _ "es @ fs"]) simp
  qed
qed

text \<open>A successful \<open>ClearPending\<close> establishes the guard for the rest of the operation.\<close>

lemma disciplined_clear [intro]:
  assumes "\<And>x. disciplined S True (k x)"
  shows "disciplined S ok (bindE (ClearPending S) k)"
  unfolding disciplined_def
proof
  fix c
  show "\<exists>es. trace (snd (bindE (ClearPending S) k c)) = trace c @ es \<and> guarded S (trace c) ok es \<and>
     ((\<exists>x. fst (bindE (ClearPending S) k c) = Inr x) \<longrightarrow> ok \<longrightarrow> cleared S (trace c) ok es)"
  proof (cases "on_clear S (trace c)")
    case (Some e)
    then show ?thesis
      by (intro exI [of _ "[EvClear]"]) (auto simp: bindE_def ClearPending_def log_event_def)
  next
    case None
    define c1 where "c1 = log_event EvClear c"
    obtain fs where fs: "trace (snd (k () c1)) = trace c1 @ fs" "guarded S (trace c1) True fs"
      "(\<exists>y. fst (k () c1) = Inr y) \<longrightarrow> cleared S (trace c1) True fs"
      using assms [of "()"] unfolding disciplined_def by metis
    have "bindE (ClearPending S) k c = k () c1"
      using None by (simp add: bindE_def ClearPending_def c1_def)
    with fs None show ?thesis
      by (intro exI [of _ "EvClear # fs"]) (auto simp: c1_def log_event_def)
  qed
qed

text \<open>The contract of an operation that shares the session, and what a sequence of them keeps.\<close>

fun run_all :: "('o \<Rightarrow> mariadbConnectionImpl \<Rightarrow> mariadbConnectionImpl) \<Rightarrow> 'o list \<Rightarrow>
    mariadbConnectionImpl \<Rightarrow> mariadbConnectionImpl" where
  "run_all run [] c = c"
| "run_all run (p # ps) c = run_all run ps (run p c)"

text \<open>Consecutive parts of a history, each of which starts without a guard.\<close>

fun guarded_parts :: "server \<Rightarrow> event list \<Rightarrow> event list list \<Rightarrow> bool" where
  "guarded_parts S h [] \<longleftrightarrow> True"
| "guarded_parts S h (es # parts) \<longleftrightarrow> guarded S h False es \<and> guarded_parts S (h @ es) parts"

locale session_ops =
  fixes S :: server
    and run :: "'o \<Rightarrow> mariadbConnectionImpl \<Rightarrow> mariadbConnectionImpl"
  assumes run_guarded: "\<exists>es. trace (run p c) = trace c @ es \<and> guarded S (trace c) False es"
begin

lemma run_all_parts:
  "\<exists>parts. length parts = length ps \<and> trace (run_all run ps c) = trace c @ concat parts \<and>
     guarded_parts S (trace c) parts"
proof (induction ps arbitrary: c)
  case Nil
  then show ?case by simp
next
  case (Cons p ps)
  obtain es where es: "trace (run p c) = trace c @ es" "guarded S (trace c) False es"
    using run_guarded [of p c] by blast
  obtain parts where "length parts = length ps"
    "trace (run_all run ps (run p c)) = trace (run p c) @ concat parts"
    "guarded_parts S (trace (run p c)) parts"
    using Cons.IH [of "run p c"] by blast
  with es show ?case by (intro exI [of _ "es # parts"]) simp
qed

end

section \<open>Shared lemmas\<close>

lemmas op_defs = bindE_def returnE_def failE_def wrapE_def liftE_def ClearPending_def
  ExecContext_def QueryContext_def BaseGetOption_def BaseSetOption_def RegisterInfoCode_def
  QueryRow_def log_event_def

lemma row_Scan_one:
  "row_Scan 1 \<lparr>r_rows = [[Some s]], r_err = None, r_close = None\<rparr> = Inr [s]"
  by (simp add: row_Scan_def scan_string_def)

end
