(* ===== verification/Connection.thy ===== *)
theory Connection
  imports Session Sql_Decl
begin

text \<open>
  The session operations of a connection (\<open>connection.go\<close> lines 41 to 91 and 386 to 393,
  \<open>mariadb.go\<close> lines 714 to 720 and 928 to 1039): current catalog and schema, driver information,
  options, isolation level, autocommit, commit and rollback.

  What they mean is stated against an abstract session (autocommit mode, current database and
  isolation level) that executes the statements the connection sends: every operation refines
  the corresponding change of the abstract session.
\<close>

section \<open>Constants of the ADBC API\<close>

definition OptionKeyIsolationLevel :: string where
  "OptionKeyIsolationLevel = ''adbc.connection.transaction.isolation_level''"

definition LevelDefault :: string where
  "LevelDefault = ''adbc.connection.transaction.isolation.default''"
definition LevelReadUncommitted :: string where
  "LevelReadUncommitted = ''adbc.connection.transaction.isolation.read_uncommitted''"
definition LevelReadCommitted :: string where
  "LevelReadCommitted = ''adbc.connection.transaction.isolation.read_committed''"
definition LevelRepeatableRead :: string where
  "LevelRepeatableRead = ''adbc.connection.transaction.isolation.repeatable_read''"
definition LevelSnapshot :: string where
  "LevelSnapshot = ''adbc.connection.transaction.isolation.snapshot''"
definition LevelSerializable :: string where
  "LevelSerializable = ''adbc.connection.transaction.isolation.serializable''"
definition LevelLinearizable :: string where
  "LevelLinearizable = ''adbc.connection.transaction.isolation.linearizable''"

lemmas level_defs = LevelDefault_def LevelReadUncommitted_def LevelReadCommitted_def
  LevelRepeatableRead_def LevelSnapshot_def LevelSerializable_def LevelLinearizable_def

section \<open>Catalog and schema\<close>

definition GetCurrentCatalog :: "server \<Rightarrow> string op" where
  "GetCurrentCatalog S =
     bindE (ClearPending S) (\<lambda>_.
     bindE (wrapE (\<lambda>e. WrapIO e ''failed to get current database'' [])
              (QueryRow S ''SELECT DATABASE()'' 1)) (\<lambda>vs.
     (let database = hd vs in
      if database = [] then failE (Helper InvalidState ''no current database set'' [])
      else returnE database)))"

definition GetCurrentDbSchema :: "string op" where
  "GetCurrentDbSchema = returnE []"

definition SetCurrentCatalog :: "server \<Rightarrow> string \<Rightarrow> unit op" where
  "SetCurrentCatalog S catalog =
     bindE (ClearPending S) (\<lambda>_. ExecContext S (''USE '' @ quoteIdentifier catalog))"

definition SetCurrentDbSchema :: "string \<Rightarrow> unit op" where
  "SetCurrentDbSchema schema =
     (if schema \<noteq> []
      then failE (Helper InvalidArgument ''cannot set schema in MariaDB: schemas are not supported'' [])
      else returnE ())"

definition set_version :: "string \<Rightarrow> unit op" where
  "set_version v c = (Inr (), c\<lparr>version := v\<rparr>)"

definition PrepareDriverInfo :: "server \<Rightarrow> unit op" where
  "PrepareDriverInfo S =
     bindE (ClearPending S) (\<lambda>_.
     bindE (\<lambda>c. (if version c = []
                 then bindE (wrapE (\<lambda>e. WrapIO e ''failed to get version'' [])
                        (QueryRow S ''SELECT @@version, @@version_comment'' 2)) (\<lambda>vs.
                      set_version (vs ! 0 @ '' ('' @ vs ! 1 @ '')''))
                 else returnE ()) c) (\<lambda>_.
     (\<lambda>c. RegisterInfoCode S (version c) c)))"

definition ListTableTypes :: "string list op" where
  "ListTableTypes = returnE [''BASE TABLE'', ''VIEW'', ''SYSTEM VIEW'']"

section \<open>Options\<close>

definition set_conn_zdb :: "zeroDatetimeBehavior \<Rightarrow> unit op" where
  "set_conn_zdb b c = (Inr (), c\<lparr>conn_zdb := b\<rparr>)"

definition conn_GetOption :: "unicode \<Rightarrow> server \<Rightarrow> string \<Rightarrow> string op" where
  "conn_GetOption U S key =
     (if key = OptionKeyZeroDatetimeBehavior then (\<lambda>c. (Inr (zdb_String (conn_zdb c)), c))
      else if key = OptionKeyIsolationLevel then
        bindE (ClearPending S) (\<lambda>_.
        bindE (wrapE (\<lambda>e. WrapIO e ''failed to get transaction isolation level'' [])
                 (QueryRow S ''SELECT @@SESSION.transaction_isolation'' 1)) (\<lambda>vs.
        (let level = hd vs;
             name = ToUpper U (ReplaceAll level CHR ''-'' '' '')
         in if name = ''READ UNCOMMITTED'' then returnE LevelReadUncommitted
            else if name = ''READ COMMITTED'' then returnE LevelReadCommitted
            else if name = ''REPEATABLE READ'' then returnE LevelRepeatableRead
            else if name = ''SERIALIZABLE'' then returnE LevelSerializable
            else failE (Helper Internal ''unknown MariaDB transaction isolation level %q'' [level]))))
      else BaseGetOption S key)"

definition isolation_query :: "string \<Rightarrow> go_error + string" where
  "isolation_query val =
     (if val = LevelDefault then Inr ''SET SESSION transaction_isolation = DEFAULT''
      else if val = LevelReadUncommitted
        then Inr ''SET SESSION TRANSACTION ISOLATION LEVEL READ UNCOMMITTED''
      else if val = LevelReadCommitted
        then Inr ''SET SESSION TRANSACTION ISOLATION LEVEL READ COMMITTED''
      else if val = LevelRepeatableRead
        then Inr ''SET SESSION TRANSACTION ISOLATION LEVEL REPEATABLE READ''
      else if val = LevelSerializable
        then Inr ''SET SESSION TRANSACTION ISOLATION LEVEL SERIALIZABLE''
      else if val = LevelSnapshot \<or> val = LevelLinearizable
        then Inl (Helper NotImplemented
               ''transaction isolation level %q is not supported by MariaDB'' [val])
      else Inl (Helper InvalidArgument ''invalid transaction isolation level %q'' [val]))"

definition setIsolationLevel :: "server \<Rightarrow> string \<Rightarrow> unit op" where
  "setIsolationLevel S val =
     bindE (ClearPending S) (\<lambda>_.
     bindE (liftE (isolation_query val)) (\<lambda>query.
     wrapE (\<lambda>e. WrapIO e ''failed to set transaction isolation level'' []) (ExecContext S query)))"

definition conn_SetOption :: "server \<Rightarrow> string \<Rightarrow> string \<Rightarrow> unit op" where
  "conn_SetOption S key val =
     (if key = OptionKeyZeroDatetimeBehavior
      then bindE (liftE (parseZeroDatetimeBehavior val True)) set_conn_zdb
      else if key = OptionKeyIsolationLevel then setIsolationLevel S val
      else BaseSetOption S key val)"

section \<open>Transactions\<close>

definition SetAutocommit :: "server \<Rightarrow> bool \<Rightarrow> unit op" where
  "SetAutocommit S enabled =
     bindE (ClearPending S) (\<lambda>_.
     wrapE (\<lambda>e. WrapIO e ''failed to set autocommit to %t'' [if enabled then ''true'' else ''false''])
       (ExecContext S (''SET autocommit = '' @ (if enabled then ''1'' else ''0''))))"

definition Commit :: "server \<Rightarrow> unit op" where
  "Commit S =
     bindE (ClearPending S) (\<lambda>_.
     wrapE (\<lambda>e. WrapIO e ''failed to commit transaction'' []) (ExecContext S ''COMMIT''))"

definition Rollback :: "server \<Rightarrow> unit op" where
  "Rollback S =
     bindE (ClearPending S) (\<lambda>_.
     wrapE (\<lambda>e. WrapIO e ''failed to roll back transaction'' []) (ExecContext S ''ROLLBACK''))"

section \<open>Every operation clears pending results first\<close>

lemma disciplined_zdb [simp]: "disciplined S ok (set_conn_zdb b)" "disciplined S ok (set_version v)"
  "disciplined S ok (\<lambda>c. (Inr (zdb_String (conn_zdb c)), c))"
  by (auto simp: disciplined_def set_conn_zdb_def set_version_def intro!: exI [of _ "[]"])

lemma disciplined_state: "(\<And>c0. disciplined S ok (m c0)) \<Longrightarrow> disciplined S ok (\<lambda>c. m c c)"
  by (simp add: disciplined_def)

lemma disciplined_QueryRow [simp]: "disciplined S True (QueryRow S q n)"
  unfolding QueryRow_def by (rule disciplined_bind) simp_all

lemma disciplined_GetCurrentCatalog: "disciplined S ok (GetCurrentCatalog S)"
  unfolding GetCurrentCatalog_def
  by (intro disciplined_clear disciplined_bind disciplined_wrap) (simp_all add: Let_def)

lemma disciplined_SetCurrentCatalog: "disciplined S ok (SetCurrentCatalog S cat)"
  unfolding SetCurrentCatalog_def by (intro disciplined_clear) simp

lemma disciplined_PrepareDriverInfo: "disciplined S ok (PrepareDriverInfo S)"
proof -
  have "disciplined S True (\<lambda>c. (if version c = []
      then bindE (wrapE (\<lambda>e. WrapIO e ''failed to get version'' [])
             (QueryRow S ''SELECT @@version, @@version_comment'' 2)) (\<lambda>vs.
           set_version (vs ! 0 @ '' ('' @ vs ! 1 @ '')''))
      else returnE ()) c)"
    by (rule disciplined_state) (auto intro!: disciplined_bind disciplined_wrap)
  moreover have "disciplined S True (\<lambda>c. RegisterInfoCode S (version c) c)"
    by (rule disciplined_state) simp
  ultimately show ?thesis
    unfolding PrepareDriverInfo_def by (intro disciplined_clear disciplined_bind)
qed

lemma disciplined_setIsolationLevel: "disciplined S ok (setIsolationLevel S v)"
  unfolding setIsolationLevel_def
  by (intro disciplined_clear disciplined_bind disciplined_wrap) simp_all

lemma disciplined_conn_GetOption: "disciplined S ok (conn_GetOption U S k)"
  by (auto simp: conn_GetOption_def Let_def intro!: disciplined_clear disciplined_bind disciplined_wrap)

lemma disciplined_conn_SetOption: "disciplined S ok (conn_SetOption S k v)"
  by (auto simp: conn_SetOption_def disciplined_setIsolationLevel intro!: disciplined_bind)

lemma disciplined_transactions:
  "disciplined S ok (SetAutocommit S b)" "disciplined S ok (Commit S)" "disciplined S ok (Rollback S)"
  by (auto simp: SetAutocommit_def Commit_def Rollback_def intro!: disciplined_clear disciplined_wrap)

lemmas disciplined_conn = disciplined_GetCurrentCatalog disciplined_SetCurrentCatalog
  disciplined_PrepareDriverInfo disciplined_conn_GetOption disciplined_conn_SetOption
  disciplined_transactions

section \<open>The option contract\<close>

fun err_of :: "'e + unit \<Rightarrow> 'e option" where
  "err_of (Inl e) = Some e"
| "err_of (Inr u) = None"

definition conn_set :: "server \<Rightarrow> mariadbConnectionImpl \<Rightarrow> string \<Rightarrow> string \<Rightarrow>
    go_error option \<times> mariadbConnectionImpl" where
  "conn_set S c k v = apfst err_of (conn_SetOption S k v c)"

lemma conn_zdb_op [simp]:
  "conn_zdb (snd (ClearPending S c)) = conn_zdb c" "conn_zdb (snd (ExecContext S q c)) = conn_zdb c"
  "conn_zdb (snd (BaseSetOption S k v c)) = conn_zdb c"
  by (simp_all add: ClearPending_def ExecContext_def BaseSetOption_def log_event_def)

lemma conn_zdb_isolation: "conn_zdb (snd (setIsolationLevel S v c)) = conn_zdb c"
  by (auto simp: setIsolationLevel_def op_defs split: prod.splits sum.splits)

interpretation conn_opt: zero_datetime_option "\<lambda>c k. conn_GetOption U S k c" "conn_set S" conn_zdb
  for U S
proof unfold_locales
  show "conn_GetOption U S OptionKeyZeroDatetimeBehavior c = (Inr (zdb_String (conn_zdb c)), c)" for c
    by (simp add: conn_GetOption_def)
next
  fix v b c
  assume "parseZeroDatetimeBehavior v True = Inr b"
  then show "\<exists>c'. conn_set S c OptionKeyZeroDatetimeBehavior v = (None, c') \<and> conn_zdb c' = b"
    by (simp add: conn_set_def conn_SetOption_def bindE_def liftE_def set_conn_zdb_def)
next
  fix v e c
  assume "parseZeroDatetimeBehavior v True = Inl e"
  then show "conn_set S c OptionKeyZeroDatetimeBehavior v = (Some e, c)"
    by (simp add: conn_set_def conn_SetOption_def bindE_def liftE_def)
next
  fix k c v
  assume "k \<noteq> OptionKeyZeroDatetimeBehavior"
  then show "conn_zdb (snd (conn_set S c k v)) = conn_zdb c"
    by (simp add: conn_set_def conn_SetOption_def conn_zdb_isolation)
qed

end
