(* ===== verification/Get_Objects.thy ===== *)
theory Get_Objects
  imports Connection Sql_Count
begin

text \<open>
  Catalog discovery, \<open>connection_getobjects.go\<close>: the query \<open>GetObjects\<close> builds for the requested
  depth and filters, the scan and grouping of its rows into catalogs, schemas, tables and columns,
  and the constraints \<open>addTableConstraints\<close> adds. Slices that may be \<open>nil\<close> are options of lists, and
  the pointers into them that the loops keep are the indices they point at.
\<close>

section \<open>The result tree\<close>

record ColumnInfo =
  ColumnName :: string
  OrdinalPosition :: int
  Remarks :: "string option"
  XdbcTypeName :: string
  XdbcColumnSize :: "int option"
  XdbcDecimalDigits :: "int option"
  XdbcNumPrecRadix :: "int option"
  XdbcNullable :: "int option"
  XdbcIsNullable :: string
  XdbcColumnDef :: "string option"
  XdbcCharOctetLength :: "int option"
  XdbcIsAutoincrement :: bool
  XdbcIsGeneratedcolumn :: bool

record ConstraintColumnUsage =
  ForeignKeyCatalog :: "string option"
  ForeignKeyDbSchema :: "string option"
  ForeignKeyTable :: string
  ForeignKeyColumn :: string

record ConstraintInfo =
  ConstraintName :: "string option"
  ConstraintType :: string
  ConstraintColumnNames :: "string list"
  ConstraintColumnUsages :: "ConstraintColumnUsage list"

record TableInfo =
  TableName :: string
  TableType :: string
  TableColumns :: "ColumnInfo list option"
  TableConstraints :: "ConstraintInfo list"

record DBSchemaInfo =
  DbSchemaName :: "string option"
  DbSchemaTables :: "TableInfo list option"

record GetObjectsInfo =
  CatalogName :: "string option"
  CatalogDbSchemas :: "DBSchemaInfo list option"

section \<open>Columns\<close>

definition clampInt32 :: "int \<Rightarrow> int" where
  "clampInt32 v = wrap32 (max (- 2147483648) (min 2147483647 v))"

definition clampInt16 :: "int \<Rightarrow> int" where
  "clampInt16 v = wrap16 (max (- 32768) (min 32767 v))"

text \<open>The nullability codes of the \<open>driverbase\<close> library.\<close>

record xdbc =
  XdbcColumnNullable :: int
  XdbcColumnNoNulls :: int

text \<open>The values scanned from one row of the query.\<close>

record obj_row =
  catalogName :: string
  schemaName :: "string option"
  tblName :: "string option"
  tblType :: "string option"
  ordinalPosition :: "int option"
  colName :: "string option"
  colComment :: "string option"
  dataType :: "string option"
  colType :: "string option"
  isNullable :: "string option"
  colDefault :: "string option"
  charMaxLength :: "int option"
  charOctetLength :: "int option"
  numericPrecision :: "int option"
  numericScale :: "int option"
  datetimePrecision :: "int option"
  extra :: "string option"
  generationExpression :: "string option"

definition integer_types :: "string list" where
  "integer_types = [''TINYINT'', ''SMALLINT'', ''MEDIUMINT'', ''INT'', ''BIGINT'']"

definition radix_10_types :: "string list" where
  "radix_10_types = [''TINYINT'', ''SMALLINT'', ''MEDIUMINT'', ''INT'', ''INTEGER'', ''BIGINT'',
     ''DECIMAL'', ''DEC'', ''NUMERIC'', ''FIXED'', ''FLOAT'', ''DOUBLE'', ''DOUBLE PRECISION'',
     ''REAL'', ''YEAR'']"

text \<open>\<open>DATA_TYPE\<close> with \<open> UNSIGNED\<close> appended for unsigned integer columns.\<close>

definition unsigned_name :: "unicode \<Rightarrow> string \<Rightarrow> string \<Rightarrow> string" where
  "unsigned_name U data_type column_type =
     (if ToUpper U data_type \<in> set integer_types \<and> Contains (ToUpper U column_type) ''UNSIGNED''
      then data_type @ '' UNSIGNED'' else data_type)"

definition invisibleMarker :: string where
  "invisibleMarker = ''[MariaDB: INVISIBLE]''"

definition column_remarks :: "unicode \<Rightarrow> string option \<Rightarrow> string option \<Rightarrow> string option" where
  "column_remarks U comment ext =
     (case ext of
        None \<Rightarrow> comment
      | Some e \<Rightarrow>
          (if Contains (ToUpper U e) ''INVISIBLE'' then
             (case comment of
                Some c \<Rightarrow> if c \<noteq> [] then Some (c @ '' '' @ invisibleMarker) else Some invisibleMarker
              | None \<Rightarrow> Some invisibleMarker)
           else comment))"

fun first_valid :: "int option list \<Rightarrow> int option" where
  "first_valid [] = None"
| "first_valid (Some v # cs) = Some v"
| "first_valid (None # cs) = first_valid cs"

definition str_of :: "string option \<Rightarrow> string" where
  "str_of s = (case s of None \<Rightarrow> [] | Some t \<Rightarrow> t)"

definition buildColumnInfo :: "unicode \<Rightarrow> xdbc \<Rightarrow> obj_row \<Rightarrow> ColumnInfo" where
  "buildColumnInfo U X r =
     (let data_type = str_of (dataType r);
          nullable = str_of (isNullable r);
          has = (\<lambda>fold' w. case extra r of None \<Rightarrow> False | Some e \<Rightarrow> Contains (fold' e) w)
      in \<lparr>ColumnName = str_of (colName r),
          OrdinalPosition = (case ordinalPosition r of None \<Rightarrow> 0 | Some p \<Rightarrow> p),
          Remarks = column_remarks U (colComment r) (extra r),
          XdbcTypeName = unsigned_name U data_type (str_of (colType r)),
          XdbcColumnSize = map_option clampInt32
            (first_valid [charMaxLength r, numericPrecision r, datetimePrecision r]),
          XdbcDecimalDigits = map_option clampInt16 (first_valid [numericScale r, datetimePrecision r]),
          XdbcNumPrecRadix =
            (if ToUpper U data_type = ''BIT'' then Some 2
             else if ToUpper U data_type \<in> set radix_10_types then Some 10 else None),
          XdbcNullable =
            (if nullable = ''YES'' then Some (wrap16 (XdbcColumnNullable X))
             else if nullable = ''NO'' then Some (wrap16 (XdbcColumnNoNulls X)) else None),
          XdbcIsNullable = nullable,
          XdbcColumnDef = colDefault r,
          XdbcCharOctetLength = map_option clampInt32 (charOctetLength r),
          XdbcIsAutoincrement = has (ToLower U) ''auto_increment'',
          XdbcIsGeneratedcolumn = (has (ToUpper U) ''GENERATED'' \<or>
            (case generationExpression r of None \<Rightarrow> False | Some g \<Rightarrow> g \<noteq> []))\<rparr>)"

section \<open>The query\<close>

text \<open>A line of a raw string: newline, tabs, text.\<close>

definition sql_line :: "nat \<Rightarrow> string \<Rightarrow> string" where
  "sql_line tabs t = CHR 0x0A # replicate tabs (CHR 0x09) @ t"

definition ObjectDepthColumns :: int where "ObjectDepthColumns = 0"
definition ObjectDepthCatalogs :: int where "ObjectDepthCatalogs = 1"
definition ObjectDepthTables :: int where "ObjectDepthTables = 3"

definition includeSchemas :: "int \<Rightarrow> bool" where
  "includeSchemas depth \<longleftrightarrow> depth \<noteq> ObjectDepthCatalogs"
definition includeTables :: "int \<Rightarrow> bool" where
  "includeTables depth \<longleftrightarrow> depth = ObjectDepthTables \<or> depth = ObjectDepthColumns"
definition includeColumns :: "int \<Rightarrow> bool" where
  "includeColumns depth \<longleftrightarrow> depth = ObjectDepthColumns"

definition objects_select :: string where
  "objects_select =
     sql_line 2 ''SELECT'' @ sql_line 3 ''s.SCHEMA_NAME AS CATALOG_NAME,'' @
     sql_line 3 ''sch.DB_SCHEMA_NAME,'' @ sql_line 3 ''t.TABLE_NAME,'' @ sql_line 3 ''t.TABLE_TYPE,'' @
     sql_line 3 ''c.ORDINAL_POSITION,'' @ sql_line 3 ''c.COLUMN_NAME,'' @
     sql_line 3 ''c.COLUMN_COMMENT,'' @ sql_line 3 ''c.DATA_TYPE,'' @ sql_line 3 ''c.COLUMN_TYPE,'' @
     sql_line 3 ''c.IS_NULLABLE,'' @ sql_line 3 ''c.COLUMN_DEFAULT,'' @
     sql_line 3 ''c.CHARACTER_MAXIMUM_LENGTH,'' @ sql_line 3 ''c.CHARACTER_OCTET_LENGTH,'' @
     sql_line 3 ''c.NUMERIC_PRECISION,'' @ sql_line 3 ''c.NUMERIC_SCALE,'' @
     sql_line 3 ''c.DATETIME_PRECISION,'' @ sql_line 3 ''c.EXTRA,'' @
     sql_line 3 ''c.GENERATION_EXPRESSION'' @ sql_line 2 ''FROM INFORMATION_SCHEMA.SCHEMATA s''"

definition objects_schema_join :: string where
  "objects_schema_join =
     sql_line 2 ''LEFT JOIN (SELECT '' @ [quot1, quot1] @ '' AS DB_SCHEMA_NAME) sch'' @
     sql_line 3 ''ON 1=1''"

definition objects_table_join :: string where
  "objects_table_join =
     sql_line 2 ''LEFT JOIN INFORMATION_SCHEMA.TABLES t'' @
     sql_line 3 ''ON s.SCHEMA_NAME = t.TABLE_SCHEMA'' @
     sql_line 3 ''AND sch.DB_SCHEMA_NAME IS NOT NULL''"

definition objects_column_join :: string where
  "objects_column_join =
     sql_line 2 ''LEFT JOIN INFORMATION_SCHEMA.COLUMNS c'' @
     sql_line 3 ''ON t.TABLE_SCHEMA = c.TABLE_SCHEMA'' @ sql_line 3 ''AND t.TABLE_NAME = c.TABLE_NAME''"

text \<open>A piece of the query and the arguments appended with it.\<close>

type_synonym piece = "string \<times> string list"

definition opt_filter :: "string \<Rightarrow> string option \<Rightarrow> piece" where
  "opt_filter sql arg = (case arg of None \<Rightarrow> ([], []) | Some a \<Rightarrow> (sql, [a]))"

definition type_filter :: "string list \<Rightarrow> piece" where
  "type_filter tableType =
     (if tableType = [] then ([], [])
      else ('' AND t.TABLE_TYPE IN ('' @ placeholders (int (length tableType)) @ '')'', tableType))"

definition no_join :: piece where
  "no_join = ('' AND 1=0'', [])"

definition build :: "piece list \<Rightarrow> piece" where
  "build ps = (concat (map fst ps), concat (map snd ps))"

definition objects_query :: "int \<Rightarrow> string option \<Rightarrow> string option \<Rightarrow> string option \<Rightarrow>
    string option \<Rightarrow> string list \<Rightarrow> piece" where
  "objects_query depth catalog dbSchema tableName columnName tableType =
     build (
       [(objects_select, []), (objects_schema_join, []),
        if \<not> includeSchemas depth then no_join
        else opt_filter '' AND sch.DB_SCHEMA_NAME LIKE ?'' dbSchema,
        (objects_table_join, [])] @
       (if \<not> includeTables depth then [no_join]
        else [opt_filter '' AND t.TABLE_NAME LIKE ?'' tableName, type_filter tableType]) @
       [(objects_column_join, []),
        if \<not> includeColumns depth then no_join
        else opt_filter '' AND c.COLUMN_NAME LIKE ?'' columnName,
        opt_filter '' WHERE s.SCHEMA_NAME LIKE ?'' catalog,
        ('' ORDER BY s.SCHEMA_NAME, t.TABLE_NAME, c.ORDINAL_POSITION'', [])])"

section \<open>Scanning\<close>

text \<open>\<open>rows.Scan\<close> into the eighteen destinations.\<close>

definition scan_objects_row :: "cell list \<Rightarrow> go_error + obj_row" where
  "scan_objects_row cells =
     (if length cells \<noteq> 18 then Inl (wrong_columns 18 (length cells))
      else case scan_string (cells ! 0) of Inl e \<Rightarrow> Inl e | Inr cat \<Rightarrow>
        (case scan_NullInt 32 (cells ! 4) of Inl e \<Rightarrow> Inl e | Inr ord \<Rightarrow>
        (case scan_NullInt 64 (cells ! 11) of Inl e \<Rightarrow> Inl e | Inr cml \<Rightarrow>
        (case scan_NullInt 64 (cells ! 12) of Inl e \<Rightarrow> Inl e | Inr col \<Rightarrow>
        (case scan_NullInt 64 (cells ! 13) of Inl e \<Rightarrow> Inl e | Inr np \<Rightarrow>
        (case scan_NullInt 64 (cells ! 14) of Inl e \<Rightarrow> Inl e | Inr ns \<Rightarrow>
        (case scan_NullInt 64 (cells ! 15) of Inl e \<Rightarrow> Inl e | Inr dp \<Rightarrow>
         Inr \<lparr>catalogName = cat, schemaName = cells ! 1, tblName = cells ! 2, tblType = cells ! 3,
              ordinalPosition = ord, colName = cells ! 5, colComment = cells ! 6,
              dataType = cells ! 7, colType = cells ! 8, isNullable = cells ! 9,
              colDefault = cells ! 10, charMaxLength = cml, charOctetLength = col,
              numericPrecision = np, numericScale = ns, datetimePrecision = dp,
              extra = cells ! 16, generationExpression = cells ! 17\<rparr>)))))))"

section \<open>Grouping\<close>

text \<open>
  The loop state: the list built so far and, as indices, the pointers \<open>currentInfo\<close> (into the list)
  and \<open>currentTable\<close> (into the tables of the first schema of \<open>currentInfo\<close>).
\<close>

record group_state =
  infos :: "GetObjectsInfo list"
  currentInfo :: "nat option"
  currentTable :: "nat option"

definition group_init :: group_state where
  "group_init = \<lparr>infos = [], currentInfo = None, currentTable = None\<rparr>"

definition new_info :: "bool \<Rightarrow> bool \<Rightarrow> obj_row \<Rightarrow> GetObjectsInfo" where
  "new_info incS incT r =
     \<lparr>CatalogName = Some (catalogName r),
      CatalogDbSchemas =
        (case schemaName r of
           Some s \<Rightarrow> Some [\<lparr>DbSchemaName = Some s, DbSchemaTables = (if incT then Some [] else None)\<rparr>]
         | None \<Rightarrow> if incS then Some [] else None)\<rparr>"

definition same_catalog :: "group_state \<Rightarrow> obj_row \<Rightarrow> bool" where
  "same_catalog st r \<longleftrightarrow>
     (case currentInfo st of
        None \<Rightarrow> False | Some i \<Rightarrow> CatalogName (infos st ! i) = Some (catalogName r))"

definition group_catalog :: "bool \<Rightarrow> bool \<Rightarrow> obj_row \<Rightarrow> group_state \<Rightarrow> group_state" where
  "group_catalog incS incT r st =
     (if same_catalog st r then st
      else (let infos' = infos st @ [new_info incS incT r]
            in \<lparr>infos = infos', currentInfo = Some (length infos' - 1), currentTable = None\<rparr>))"

text \<open>\<open>append\<close> on a slice that may be \<open>nil\<close>.\<close>

definition go_append :: "'a list option \<Rightarrow> 'a \<Rightarrow> 'a list option" where
  "go_append xs x = (case xs of None \<Rightarrow> Some [x] | Some l \<Rightarrow> Some (l @ [x]))"

text \<open>\<open>currentInfo.CatalogDbSchemas[0]\<close>, and an update through that pointer.\<close>

definition first_schema :: "GetObjectsInfo \<Rightarrow> DBSchemaInfo option" where
  "first_schema info = (case CatalogDbSchemas info of Some (s # _) \<Rightarrow> Some s | _ \<Rightarrow> None)"

definition set_first_schema :: "DBSchemaInfo \<Rightarrow> GetObjectsInfo \<Rightarrow> GetObjectsInfo" where
  "set_first_schema s info =
     info\<lparr>CatalogDbSchemas := (case CatalogDbSchemas info of Some (_ # ss) \<Rightarrow> Some (s # ss) | x \<Rightarrow> x)\<rparr>"

definition list_of :: "'a list option \<Rightarrow> 'a list" where
  "list_of xs = (case xs of None \<Rightarrow> [] | Some l \<Rightarrow> l)"

definition new_table :: "bool \<Rightarrow> obj_row \<Rightarrow> string \<Rightarrow> TableInfo" where
  "new_table incC r name =
     \<lparr>TableName = name, TableType = str_of (tblType r),
      TableColumns = (if incC then Some [] else None), TableConstraints = []\<rparr>"

definition add_column :: "unicode \<Rightarrow> xdbc \<Rightarrow> obj_row \<Rightarrow> TableInfo \<Rightarrow> TableInfo" where
  "add_column U X r t =
     (case colName r of
        None \<Rightarrow> t | Some _ \<Rightarrow> t\<lparr>TableColumns := go_append (TableColumns t) (buildColumnInfo U X r)\<rparr>)"

text \<open>One iteration; indexing an empty schema list panics.\<close>

definition group_row :: "unicode \<Rightarrow> xdbc \<Rightarrow> bool \<Rightarrow> bool \<Rightarrow> bool \<Rightarrow> obj_row \<Rightarrow> group_state \<Rightarrow>
    go_error + group_state" where
  "group_row U X incS incT incC r st0 =
     (let st = group_catalog incS incT r st0 in
      case tblName r of
        None \<Rightarrow> Inr st
      | Some name \<Rightarrow>
          (case currentInfo st of
             None \<Rightarrow> Inl (Panic ''nil pointer dereference'')
           | Some i \<Rightarrow>
               (case first_schema (infos st ! i) of
                  None \<Rightarrow> Inl (Panic ''index out of range'')
                | Some sch \<Rightarrow>
                    (let tables = list_of (DbSchemaTables sch);
                         same = (case currentTable st of
                                   None \<Rightarrow> False | Some k \<Rightarrow> TableName (tables ! k) = name);
                         tables' = (if same then tables else tables @ [new_table incC r name]);
                         k = (if same then the (currentTable st) else length tables' - 1);
                         tables'' = tables'[k := add_column U X r (tables' ! k)];
                         sch' = sch\<lparr>DbSchemaTables := Some tables''\<rparr>
                     in Inr (st\<lparr>infos := (infos st)[i := set_first_schema sch' (infos st ! i)],
                                currentTable := Some k\<rparr>)))))"

fun group_rows :: "unicode \<Rightarrow> xdbc \<Rightarrow> bool \<Rightarrow> bool \<Rightarrow> bool \<Rightarrow> cell list list \<Rightarrow> group_state \<Rightarrow>
    go_error + group_state" where
  "group_rows U X incS incT incC [] st = Inr st"
| "group_rows U X incS incT incC (cells # rest) st =
     (case scan_objects_row cells of
        Inl e \<Rightarrow> Inl (WrapIO e ''failed to scan objects row'' [])
      | Inr r \<Rightarrow>
          (case group_row U X incS incT incC r st of
             Inl e \<Rightarrow> Inl e | Inr st' \<Rightarrow> group_rows U X incS incT incC rest st'))"

end
