(* ===== verification/Table_Constraints.thy ===== *)
theory Table_Constraints
  imports Get_Objects
begin

text \<open>
  \<open>addTableConstraints\<close> and \<open>GetObjects\<close> as a whole (\<open>connection_getobjects.go\<close> lines 37 to 357 and
  462 to 474). The map from table keys to table pointers is a map to positions in the result tree.
\<close>

section \<open>Positions in the tree\<close>

type_synonym path = "nat \<times> nat \<times> nat"

definition schemas_of :: "GetObjectsInfo \<Rightarrow> DBSchemaInfo list" where
  "schemas_of info = list_of (CatalogDbSchemas info)"

definition tables_of :: "DBSchemaInfo \<Rightarrow> TableInfo list" where
  "tables_of s = list_of (DbSchemaTables s)"

fun get_table :: "GetObjectsInfo list \<Rightarrow> path \<Rightarrow> TableInfo" where
  "get_table is (i, j, k) = tables_of (schemas_of (is ! i) ! j) ! k"

definition upd_tables :: "nat \<Rightarrow> (TableInfo \<Rightarrow> TableInfo) \<Rightarrow> DBSchemaInfo \<Rightarrow> DBSchemaInfo" where
  "upd_tables k f s =
     s\<lparr>DbSchemaTables := map_option (\<lambda>ts. ts[k := f (ts ! k)]) (DbSchemaTables s)\<rparr>"

definition upd_schemas :: "nat \<Rightarrow> (DBSchemaInfo \<Rightarrow> DBSchemaInfo) \<Rightarrow> GetObjectsInfo \<Rightarrow> GetObjectsInfo" where
  "upd_schemas j f info =
     info\<lparr>CatalogDbSchemas := map_option (\<lambda>ss. ss[j := f (ss ! j)]) (CatalogDbSchemas info)\<rparr>"

fun upd_table :: "GetObjectsInfo list \<Rightarrow> path \<Rightarrow> (TableInfo \<Rightarrow> TableInfo) \<Rightarrow> GetObjectsInfo list" where
  "upd_table is (i, j, k) f = is[i := upd_schemas j (upd_tables k f) (is ! i)]"

definition table_key :: "string \<Rightarrow> string \<Rightarrow> string" where
  "table_key cat tbl = cat @ NUL # tbl"

definition table_paths :: "GetObjectsInfo list \<Rightarrow> (string \<times> path) list" where
  "table_paths is =
     concat (map (\<lambda>(i, info).
       case CatalogName info of
         None \<Rightarrow> []
       | Some cat \<Rightarrow>
           concat (map (\<lambda>(j, s).
             map (\<lambda>(k, t). (table_key cat (TableName t), (i, j, k))) (List.enumerate 0 (tables_of s)))
             (List.enumerate 0 (schemas_of info))))
       (List.enumerate 0 is))"

text \<open>Assignments to the map in order: a later table with the same key wins.\<close>

definition table_map :: "GetObjectsInfo list \<Rightarrow> string \<rightharpoonup> path" where
  "table_map is = map_of (rev (table_paths is))"

section \<open>The query\<close>

definition constraints_select :: string where
  "constraints_select =
     ''SELECT'' @ sql_line 2 ''tc.CONSTRAINT_SCHEMA,'' @ sql_line 2 ''tc.TABLE_NAME,'' @
     sql_line 2 ''tc.CONSTRAINT_NAME,'' @ sql_line 2 ''tc.CONSTRAINT_TYPE,'' @
     sql_line 2 ''kcu.ORDINAL_POSITION,'' @ sql_line 2 ''kcu.COLUMN_NAME,'' @
     sql_line 2 ''kcu.REFERENCED_TABLE_SCHEMA,'' @ sql_line 2 ''kcu.REFERENCED_TABLE_NAME,'' @
     sql_line 2 ''kcu.REFERENCED_COLUMN_NAME'' @
     sql_line 1 ''FROM INFORMATION_SCHEMA.TABLE_CONSTRAINTS tc'' @
     sql_line 1 ''JOIN INFORMATION_SCHEMA.TABLES t'' @
     sql_line 1 ''  ON t.TABLE_SCHEMA = tc.TABLE_SCHEMA AND t.TABLE_NAME = tc.TABLE_NAME'' @
     sql_line 1 ''LEFT JOIN INFORMATION_SCHEMA.KEY_COLUMN_USAGE kcu'' @
     sql_line 1 ''  ON kcu.CONSTRAINT_SCHEMA = tc.CONSTRAINT_SCHEMA'' @
     sql_line 1 '' AND kcu.TABLE_NAME = tc.TABLE_NAME'' @
     sql_line 1 '' AND kcu.CONSTRAINT_NAME = tc.CONSTRAINT_NAME'' @ sql_line 1 ''WHERE 1=1''"

definition constraints_query :: "string option \<Rightarrow> string option \<Rightarrow> string list \<Rightarrow> piece" where
  "constraints_query catalog tableName tableType =
     build [(constraints_select, []),
       opt_filter '' AND tc.CONSTRAINT_SCHEMA LIKE ?'' catalog,
       opt_filter '' AND tc.TABLE_NAME LIKE ?'' tableName,
       type_filter tableType,
       ('' ORDER BY tc.CONSTRAINT_SCHEMA, tc.TABLE_NAME, tc.CONSTRAINT_NAME, kcu.ORDINAL_POSITION'', [])]"

section \<open>Grouping the constraint rows\<close>

record con_row =
  cr_catalog :: string
  cr_table :: string
  cr_name :: string
  cr_type :: string
  cr_column :: "string option"
  cr_fcatalog :: "string option"
  cr_ftable :: "string option"
  cr_fcolumn :: "string option"

text \<open>The position in the key is scanned, and must be an integer, but not used.\<close>

definition scan_con_row :: "cell list \<Rightarrow> go_error + con_row" where
  "scan_con_row cells =
     (if length cells \<noteq> 9 then Inl (wrong_columns 9 (length cells))
      else case scan_strings (take 4 cells) of Inl e \<Rightarrow> Inl e | Inr ss \<Rightarrow>
        (case scan_NullInt 64 (cells ! 4) of Inl e \<Rightarrow> Inl e | Inr _ \<Rightarrow>
         Inr \<lparr>cr_catalog = ss ! 0, cr_table = ss ! 1, cr_name = ss ! 2, cr_type = ss ! 3,
              cr_column = cells ! 5, cr_fcatalog = cells ! 6, cr_ftable = cells ! 7,
              cr_fcolumn = cells ! 8\<rparr>))"

record con_state =
  con_infos :: "GetObjectsInfo list"
  con_table :: "path option"
  con_constraint :: "nat option"
  con_key :: string
  con_name :: string

definition con_init :: "GetObjectsInfo list \<Rightarrow> con_state" where
  "con_init is = \<lparr>con_infos = is, con_table = None, con_constraint = None, con_key = [], con_name = []\<rparr>"

definition new_constraint :: "con_row \<Rightarrow> ConstraintInfo" where
  "new_constraint r =
     \<lparr>ConstraintName = Some (cr_name r), ConstraintType = cr_type r, ConstraintColumnNames = [],
      ConstraintColumnUsages = []\<rparr>"

definition add_constraint_column :: "con_row \<Rightarrow> ConstraintInfo \<Rightarrow> ConstraintInfo" where
  "add_constraint_column r k =
     (let k1 = (case cr_column r of
                  None \<Rightarrow> k | Some col \<Rightarrow> k\<lparr>ConstraintColumnNames := ConstraintColumnNames k @ [col]\<rparr>)
      in case (cr_ftable r, cr_fcolumn r) of
           (Some ft, Some fc) \<Rightarrow>
             k1\<lparr>ConstraintColumnUsages := ConstraintColumnUsages k1 @
               [\<lparr>ForeignKeyCatalog = cr_fcatalog r, ForeignKeyDbSchema = Some [],
                 ForeignKeyTable = ft, ForeignKeyColumn = fc\<rparr>]\<rparr>
         | _ \<Rightarrow> k1)"

definition con_switch :: "(string \<rightharpoonup> path) \<Rightarrow> con_row \<Rightarrow> con_state \<Rightarrow> con_state" where
  "con_switch tables r st =
     (let key = table_key (cr_catalog r) (cr_table r)
      in if key \<noteq> con_key st
         then st\<lparr>con_table := tables key, con_constraint := None, con_key := key, con_name := []\<rparr>
         else st)"

definition add_constraint_row :: "con_row \<Rightarrow> nat \<Rightarrow> bool \<Rightarrow> TableInfo \<Rightarrow> TableInfo" where
  "add_constraint_row r n fresh t =
     (let ks = (if fresh then TableConstraints t @ [new_constraint r] else TableConstraints t)
      in t\<lparr>TableConstraints := ks[n := add_constraint_column r (ks ! n)]\<rparr>)"

definition con_row_step :: "(string \<rightharpoonup> path) \<Rightarrow> con_row \<Rightarrow> con_state \<Rightarrow> con_state" where
  "con_row_step tables r st0 =
     (let st = con_switch tables r st0 in
      case con_table st of
        None \<Rightarrow> st
      | Some p \<Rightarrow>
          (let fresh = (con_constraint st = None \<or> con_name st \<noteq> cr_name r);
               n = (if fresh then length (TableConstraints (get_table (con_infos st) p))
                    else the (con_constraint st))
           in st\<lparr>con_infos := upd_table (con_infos st) p (add_constraint_row r n fresh),
                 con_constraint := Some n, con_name := cr_name r\<rparr>))"

fun con_rows :: "(string \<rightharpoonup> path) \<Rightarrow> cell list list \<Rightarrow> con_state \<Rightarrow> go_error option \<times> con_state" where
  "con_rows tables [] st = (None, st)"
| "con_rows tables (cells # rest) st =
     (case scan_con_row cells of
        Inl e \<Rightarrow> (Some (WrapIO e ''failed to scan table constraint'' []), st)
      | Inr r \<Rightarrow> con_rows tables rest (con_row_step tables r st))"

text \<open>
  The result is the error and the tree the caller's slice then holds: the constraints are written
  through pointers into it. The deferred function joins the error of \<open>rows.Close\<close>.
\<close>

definition addTableConstraints :: "server \<Rightarrow> GetObjectsInfo list \<Rightarrow> string option \<Rightarrow> string option \<Rightarrow>
    string list \<Rightarrow> mariadbConnectionImpl \<Rightarrow>
    (go_error option \<times> GetObjectsInfo list) \<times> mariadbConnectionImpl" where
  "addTableConstraints S is catalog tableName tableType c =
     (if table_paths is = [] then ((None, is), c)
      else (case constraints_query catalog tableName tableType of (q, args) \<Rightarrow>
        (case QueryContext S q args c of
           (Inl e, c1) \<Rightarrow> ((Some (WrapIO e ''failed to query table constraints'' []), is), c1)
         | (Inr rs, c1) \<Rightarrow>
             (case con_rows (table_map is) (r_rows rs) (con_init is) of
                (err, st) \<Rightarrow>
                  (let err' = (case err of
                                 Some e \<Rightarrow> Some e
                               | None \<Rightarrow> map_option (\<lambda>e. WrapIO e
                                           ''error during table constraint iteration'' []) (r_err rs))
                   in ((errors_Join [err', r_close rs], con_infos st), c1))))))"

section \<open>GetObjects\<close>

text \<open>\<open>buildResult\<close> feeds the list in order to the reader builder of the library.\<close>

definition buildResult :: "(GetObjectsInfo list \<Rightarrow> go_error + 'r) \<Rightarrow> GetObjectsInfo list \<Rightarrow> go_error + 'r" where
  "buildResult reader is = reader is"

definition add_constraints :: "server \<Rightarrow> int \<Rightarrow> string option \<Rightarrow> string option \<Rightarrow> string list \<Rightarrow>
    GetObjectsInfo list \<Rightarrow> GetObjectsInfo list op" where
  "add_constraints S depth catalog tableName tableType is c =
     (if includeTables depth then
        (case addTableConstraints S is catalog tableName tableType c of
           ((Some e, _), c1) \<Rightarrow> (Inl e, c1) | ((None, is'), c1) \<Rightarrow> (Inr is', c1))
      else (Inr is, c))"

definition read_objects :: "unicode \<Rightarrow> xdbc \<Rightarrow> int \<Rightarrow> result_set \<Rightarrow> go_error + GetObjectsInfo list" where
  "read_objects U X depth rs =
     (case group_rows U X (includeSchemas depth) (includeTables depth) (includeColumns depth)
             (r_rows rs) group_init of
        Inl e \<Rightarrow> Inl e
      | Inr st \<Rightarrow>
          (case r_err rs of
             Some e \<Rightarrow> Inl (WrapIO e ''error during objects iteration'' [])
           | None \<Rightarrow>
               (case r_close rs of
                  Some e \<Rightarrow> Inl (WrapIO e ''failed to close objects rows'' [])
                | None \<Rightarrow> Inr (infos st))))"

definition GetObjects :: "unicode \<Rightarrow> xdbc \<Rightarrow> server \<Rightarrow> (GetObjectsInfo list \<Rightarrow> go_error + 'r) \<Rightarrow> int \<Rightarrow>
    string option \<Rightarrow> string option \<Rightarrow> string option \<Rightarrow> string option \<Rightarrow> string list \<Rightarrow> 'r op" where
  "GetObjects U X S reader depth catalog dbSchema tableName columnName tableType =
     bindE (ClearPending S) (\<lambda>_.
     bindE (case objects_query depth catalog dbSchema tableName columnName tableType of (q, args) \<Rightarrow>
              wrapE (\<lambda>e. WrapIO e ''failed to query objects'' []) (QueryContext S q args)) (\<lambda>rs.
     bindE (liftE (read_objects U X depth rs)) (\<lambda>is.
     bindE (add_constraints S depth catalog tableName tableType is) (\<lambda>is'.
     liftE (buildResult reader is')))))"

lemma disciplined_GetObjects:
  "disciplined S ok (GetObjects U X S reader depth catalog dbSchema tableName columnName tableType)"
proof -
  have "disciplined S True (add_constraints S depth catalog tableName tableType is)" for "is"
    by (auto simp: disciplined_def add_constraints_def addTableConstraints_def QueryContext_def
        log_event_def Let_def split: prod.splits sum.splits option.splits)
  then show ?thesis
    unfolding GetObjects_def
    by (intro disciplined_clear disciplined_bind) (auto split: prod.splits)
qed

end
