(* ===== verification/Objects_Props.thy ===== *)
theory Objects_Props
  imports Table_Constraints
begin

text \<open>
  Properties of catalog discovery: the queries carry one argument per placeholder, and grouping the
  rows of a catalog tree gives that tree back.
\<close>

section \<open>Queries and their arguments\<close>

definition piece_ok :: "piece \<Rightarrow> bool" where
  "piece_ok p \<longleftrightarrow> closed_sql (fst p) \<and> countPlaceholders (fst p) = length (snd p)"

lemma closed_inert: "inert s \<Longrightarrow> closed_sql s"
  by (induction s) (auto simp: tok_def decided_def hd_conv_nth)

lemma piece_inert: "inert s \<Longrightarrow> piece_ok (s, [])"
  using countPlaceholders_inert [of s "[]"] by (simp add: piece_ok_def closed_inert)

lemma piece_append: "piece_ok (a, xs) \<Longrightarrow> piece_ok (b, ys) \<Longrightarrow> piece_ok (a @ b, xs @ ys)"
  by (simp add: piece_ok_def cp_closed_append_closed countPlaceholders_append)

lemma piece_Nil [simp]: "piece_ok ([], [])"
  by (simp add: piece_ok_def)

lemma piece_build: "list_all piece_ok ps \<Longrightarrow> piece_ok (build ps)"
  by (induction ps) (auto simp: build_def piece_append)

lemma piece_param: "piece_ok (''?'', [a])"
  by (simp add: piece_ok_def countPlaceholders_cp tok_def decided_def)

lemma piece_opt: "inert s \<Longrightarrow> piece_ok (opt_filter (s @ ''?'') a)"
  using piece_append [OF piece_inert piece_param] by (simp add: opt_filter_def split: option.splits)

lemma closed_placeholders: "closed_sql (concat (replicate n ''?,'') @ r) \<longleftrightarrow> closed_sql r"
  by (induction n) (simp_all add: tok_def decided_def)

lemma piece_placeholders: "piece_ok (placeholders (int (length xs)), xs)"
  using countPlaceholders_placeholders [of "int (length xs)" "[]"]
  by (simp add: piece_ok_def placeholders_def Repeat_def closed_placeholders tok_def decided_def)

lemma piece_types: "piece_ok (type_filter types)"
  using piece_append [OF piece_inert piece_append [OF piece_placeholders piece_inert [of "'')''"]],
      of "'' AND t.TABLE_TYPE IN (''" types]
  by (simp add: type_filter_def)

lemma inert_line: "inert t \<Longrightarrow> inert (sql_line n t)"
proof -
  have "inert (replicate n (CHR 0x09) @ t)" if "inert t" using that by (induction n) auto
  then show "inert t \<Longrightarrow> inert (sql_line n t)" by (simp add: sql_line_def)
qed

lemma objects_pieces:
  "piece_ok (objects_select, [])" "piece_ok (objects_schema_join, [])"
  "piece_ok (objects_table_join, [])" "piece_ok (objects_column_join, [])" "piece_ok no_join"
  "piece_ok (constraints_select, [])"
proof -
  define mid where "mid = [quot1, quot1] @ '' AS DB_SCHEMA_NAME) sch''"
  have "piece_ok (mid, [])" unfolding mid_def by code_simp
  then have "piece_ok (sql_line 2 ''LEFT JOIN (SELECT '' @ mid @ sql_line 3 ''ON 1=1'', [])"
    using piece_append [of _ "[]" _ "[]"] piece_inert [OF inert_line] by simp
  then show "piece_ok (objects_schema_join, [])" by (simp add: objects_schema_join_def mid_def)
qed (simp_all add: objects_select_def objects_table_join_def objects_column_join_def no_join_def
    constraints_select_def piece_inert inert_line)

lemmas filters = piece_opt [of "'' AND sch.DB_SCHEMA_NAME LIKE ''"]
  piece_opt [of "'' AND t.TABLE_NAME LIKE ''"] piece_opt [of "'' AND c.COLUMN_NAME LIKE ''"]
  piece_opt [of "'' WHERE s.SCHEMA_NAME LIKE ''"] piece_opt [of "'' AND tc.CONSTRAINT_SCHEMA LIKE ''"]
  piece_opt [of "'' AND tc.TABLE_NAME LIKE ''"]

lemma objects_query_ok: "piece_ok (objects_query depth cat sch tbl col types)"
  unfolding objects_query_def
  by (rule piece_build) (use filters in \<open>simp add: objects_pieces piece_types piece_inert\<close>)

lemma constraints_query_ok: "piece_ok (constraints_query cat tbl types)"
  unfolding constraints_query_def
  by (rule piece_build) (use filters in \<open>simp add: objects_pieces piece_types piece_inert\<close>)

section \<open>A catalog tree and its rows\<close>

text \<open>
  What the server's join delivers for a tree of catalogs: one row for a catalog without tables, one
  row for a table without (matching) columns, one row per column otherwise.
\<close>

record table_spec =
  ts_name :: string
  ts_type :: "string option"
  ts_columns :: "obj_row list"

record catalog_spec =
  cs_name :: string
  cs_schema :: "string option"
  cs_tables :: "table_spec list"

definition null_row :: obj_row where
  "null_row = \<lparr>catalogName = [], schemaName = None, tblName = None, tblType = None,
     ordinalPosition = None, colName = None, colComment = None, dataType = None, colType = None,
     isNullable = None, colDefault = None, charMaxLength = None, charOctetLength = None,
     numericPrecision = None, numericScale = None, datetimePrecision = None, extra = None,
     generationExpression = None\<rparr>"

definition place :: "catalog_spec \<Rightarrow> table_spec \<Rightarrow> obj_row \<Rightarrow> obj_row" where
  "place cs ts r = r\<lparr>catalogName := cs_name cs, schemaName := cs_schema cs,
     tblName := Some (ts_name ts), tblType := ts_type ts\<rparr>"

definition table_rows :: "catalog_spec \<Rightarrow> table_spec \<Rightarrow> obj_row list" where
  "table_rows cs ts =
     map (place cs ts) (if ts_columns ts = [] then [null_row] else ts_columns ts)"

definition catalog_rows :: "catalog_spec \<Rightarrow> obj_row list" where
  "catalog_rows cs =
     (if cs_tables cs = [] then [null_row\<lparr>catalogName := cs_name cs, schemaName := cs_schema cs\<rparr>]
      else concat (map (table_rows cs) (cs_tables cs)))"

text \<open>The tree fits the requested depth, and names do not repeat.\<close>

definition table_fits :: "bool \<Rightarrow> table_spec \<Rightarrow> bool" where
  "table_fits incC ts \<longleftrightarrow> list_all (\<lambda>r. colName r \<noteq> None) (ts_columns ts) \<and>
     (ts_columns ts \<noteq> [] \<longrightarrow> incC)"

definition catalog_fits :: "bool \<Rightarrow> bool \<Rightarrow> bool \<Rightarrow> catalog_spec \<Rightarrow> bool" where
  "catalog_fits incS incT incC cs \<longleftrightarrow>
     (cs_schema cs \<noteq> None \<longrightarrow> incS) \<and>
     (cs_tables cs \<noteq> [] \<longrightarrow> incT \<and> cs_schema cs \<noteq> None) \<and>
     list_all (table_fits incC) (cs_tables cs) \<and> distinct (map ts_name (cs_tables cs))"

text \<open>The tree \<open>GetObjects\<close> should build from it.\<close>

definition table_info :: "unicode \<Rightarrow> xdbc \<Rightarrow> bool \<Rightarrow> table_spec \<Rightarrow> TableInfo" where
  "table_info U X incC ts =
     \<lparr>TableName = ts_name ts, TableType = str_of (ts_type ts),
      TableColumns = (if incC then Some (map (buildColumnInfo U X) (ts_columns ts)) else None),
      TableConstraints = []\<rparr>"

definition catalog_info :: "unicode \<Rightarrow> xdbc \<Rightarrow> bool \<Rightarrow> bool \<Rightarrow> bool \<Rightarrow> catalog_spec \<Rightarrow> GetObjectsInfo" where
  "catalog_info U X incS incT incC cs =
     \<lparr>CatalogName = Some (cs_name cs),
      CatalogDbSchemas =
        (case cs_schema cs of
           None \<Rightarrow> if incS then Some [] else None
         | Some s \<Rightarrow> Some [\<lparr>DbSchemaName = Some s,
             DbSchemaTables = (if incT then Some (map (table_info U X incC) (cs_tables cs)) else None)\<rparr>])\<rparr>"

section \<open>Grouping scanned rows\<close>

fun group_list :: "unicode \<Rightarrow> xdbc \<Rightarrow> bool \<Rightarrow> bool \<Rightarrow> bool \<Rightarrow> obj_row list \<Rightarrow> group_state \<Rightarrow>
    go_error + group_state" where
  "group_list U X incS incT incC [] st = Inr st"
| "group_list U X incS incT incC (r # rs) st =
     (case group_row U X incS incT incC r st of
        Inl e \<Rightarrow> Inl e | Inr st' \<Rightarrow> group_list U X incS incT incC rs st')"

lemma group_list_append:
  "group_list U X s t k (as @ bs) st =
     (case group_list U X s t k as st of Inl e \<Rightarrow> Inl e | Inr st' \<Rightarrow> group_list U X s t k bs st')"
  by (induction as arbitrary: st) (auto split: sum.splits)

text \<open>The state while the tables of one catalog are being filled.\<close>

definition in_catalog :: "GetObjectsInfo list \<Rightarrow> string \<Rightarrow> string \<Rightarrow> TableInfo list \<Rightarrow> group_state" where
  "in_catalog done' cat sch ts =
     \<lparr>infos = done' @ [\<lparr>CatalogName = Some cat,
         CatalogDbSchemas = Some [\<lparr>DbSchemaName = Some sch, DbSchemaTables = Some ts\<rparr>]\<rparr>],
      currentInfo = Some (length done'),
      currentTable = (if ts = [] then None else Some (length ts - 1))\<rparr>"

lemmas group_defs = group_row_def group_catalog_def same_catalog_def in_catalog_def first_schema_def
  set_first_schema_def list_of_def Let_def

lemma group_row_new_table:
  assumes "catalogName r = cat" "tblName r = Some name" "ts = [] \<or> TableName (last ts) \<noteq> name"
  shows "group_row U X s t k r (in_catalog done' cat sch ts) =
    Inr (in_catalog done' cat sch (ts @ [add_column U X r (new_table k r name)]))"
  using assms by (auto simp: group_defs last_conv_nth)

lemma group_row_same_table:
  assumes "catalogName r = cat" "tblName r = Some (TableName t)"
  shows "group_row U X s i k r (in_catalog done' cat sch (ts @ [t])) =
    Inr (in_catalog done' cat sch (ts @ [add_column U X r t]))"
  using assms by (auto simp: group_defs)

lemma buildColumnInfo_place [simp]: "buildColumnInfo U X (place cs ts r) = buildColumnInfo U X r"
  by (simp add: buildColumnInfo_def place_def Let_def)

lemma place_simps [simp]:
  "catalogName (place cs ts r) = cs_name cs" "tblName (place cs ts r) = Some (ts_name ts)"
  "colName (place cs ts r) = colName r" "schemaName (place cs ts r) = cs_schema cs"
  "tblType (place cs ts r) = ts_type ts"
  by (simp_all add: place_def)

lemma group_columns:
  assumes "list_all (\<lambda>r. colName r \<noteq> None) cols" "TableName t = ts_name ts" "TableColumns t = Some cs0"
  shows "group_list U X s i k (map (place cs ts) cols) (in_catalog done' (cs_name cs) sch (us @ [t])) =
    Inr (in_catalog done' (cs_name cs) sch
      (us @ [t\<lparr>TableColumns := Some (cs0 @ map (buildColumnInfo U X) cols)\<rparr>]))"
  using assms
proof (induction cols arbitrary: t cs0)
  case Nil
  then have "t\<lparr>TableColumns := Some cs0\<rparr> = t" by (cases t) simp
  then show ?case by simp
next
  case (Cons r cols)
  define t1 where "t1 = t\<lparr>TableColumns := Some (cs0 @ [buildColumnInfo U X r])\<rparr>"
  have "add_column U X (place cs ts r) t = t1"
    using Cons.prems by (auto simp: add_column_def go_append_def t1_def)
  then have "group_row U X s i k (place cs ts r) (in_catalog done' (cs_name cs) sch (us @ [t])) =
      Inr (in_catalog done' (cs_name cs) sch (us @ [t1]))"
    using group_row_same_table [of "place cs ts r" "cs_name cs" t] Cons.prems(2) by simp
  then show ?case using Cons.IH [of t1] Cons.prems by (simp add: t1_def)
qed

lemma group_table:
  assumes "table_fits k ts" "us = [] \<or> TableName (last us) \<noteq> ts_name ts"
  shows "group_list U X s i k (table_rows cs ts) (in_catalog done' (cs_name cs) sch us) =
    Inr (in_catalog done' (cs_name cs) sch (us @ [table_info U X k ts]))"
proof (cases "ts_columns ts")
  case Nil
  have "add_column U X (place cs ts null_row) (new_table k (place cs ts null_row) (ts_name ts)) =
      table_info U X k ts"
    using Nil by (simp add: add_column_def null_row_def new_table_def table_info_def)
  then show ?thesis
    using Nil assms(2) group_row_new_table [of "place cs ts null_row" "cs_name cs" "ts_name ts" us]
    by (simp add: table_rows_def)
next
  case (Cons r cols)
  define t where "t = add_column U X (place cs ts r) (new_table k (place cs ts r) (ts_name ts))"
  have f: "colName r \<noteq> None" "list_all (\<lambda>r. colName r \<noteq> None) cols" "k"
    using assms(1) Cons by (auto simp: table_fits_def)
  have t: "TableName t = ts_name ts" "TableColumns t = Some [buildColumnInfo U X r]"
    using f by (auto simp: t_def add_column_def new_table_def go_append_def)
  have "t\<lparr>TableColumns := Some ([buildColumnInfo U X r] @ map (buildColumnInfo U X) cols)\<rparr> =
      table_info U X k ts"
    using f Cons by (auto simp: t_def add_column_def new_table_def table_info_def go_append_def)
  then show ?thesis
    using Cons assms(2) group_columns [OF f(2) t]
      group_row_new_table [of "place cs ts r" "cs_name cs" "ts_name ts" us]
    by (simp add: table_rows_def t_def [symmetric])
qed

lemma group_tables:
  assumes "list_all (table_fits k) tabs"
    and "distinct (map ts_name tabs)" "us = [] \<or> TableName (last us) \<notin> ts_name ` set tabs"
  shows "group_list U X s i k (concat (map (table_rows cs) tabs)) (in_catalog done' (cs_name cs) sch us) =
    Inr (in_catalog done' (cs_name cs) sch (us @ map (table_info U X k) tabs))"
  using assms
proof (induction tabs arbitrary: us)
  case (Cons ts tabs)
  have "us = [] \<or> TableName (last us) \<noteq> ts_name ts" using Cons.prems by auto
  moreover have "TableName (last (us @ [table_info U X k ts])) \<notin> ts_name ` set tabs"
    using Cons.prems by (simp add: table_info_def)
  ultimately show ?case
    using Cons group_table [of k ts us U X s i cs done' sch] Cons.IH [of "us @ [table_info U X k ts]"]
    by (simp add: group_list_append)
qed simp

text \<open>The state between two catalogs: the list built so far, with a pointer to its last element.\<close>

definition at_end :: "group_state \<Rightarrow> GetObjectsInfo list \<Rightarrow> bool" where
  "at_end st is \<longleftrightarrow> infos st = is \<and>
     currentInfo st = (if is = [] then None else Some (length is - 1))"

lemma group_row_new_catalog:
  assumes "at_end st is" "is = [] \<or> CatalogName (last is) \<noteq> Some (catalogName r)"
    and "schemaName r = Some sch" "t"
  shows "group_row U X s t k r st = group_row U X s t k r (in_catalog is (catalogName r) sch [])"
proof -
  have "\<not> same_catalog st r"
    using assms(1,2) by (auto simp: same_catalog_def at_end_def last_conv_nth)
  then have "group_catalog s t r st = in_catalog is (catalogName r) sch []"
    using assms by (simp add: group_catalog_def at_end_def in_catalog_def new_info_def Let_def)
  moreover have "group_catalog s t r (in_catalog is (catalogName r) sch []) =
      in_catalog is (catalogName r) sch []"
    by (simp add: group_catalog_def same_catalog_def in_catalog_def)
  ultimately show ?thesis by (simp add: group_row_def)
qed

lemma group_one_catalog:
  assumes "at_end st is" "is = [] \<or> CatalogName (last is) \<noteq> Some (cs_name cs)"
    and "catalog_fits s t k cs"
  shows "\<exists>st'. group_list U X s t k (catalog_rows cs) st = Inr st' \<and>
    at_end st' (is @ [catalog_info U X s t k cs])"
proof (cases "cs_tables cs")
  case Nil
  define r where "r = null_row\<lparr>catalogName := cs_name cs, schemaName := cs_schema cs\<rparr>"
  have r: "tblName r = None" "catalogName r = cs_name cs" "schemaName r = cs_schema cs"
    by (simp_all add: r_def null_row_def)
  have "\<not> same_catalog st r"
    using assms(1,2) r by (auto simp: same_catalog_def at_end_def last_conv_nth)
  moreover have "new_info s t r = catalog_info U X s t k cs"
    using Nil r by (simp add: new_info_def catalog_info_def split: option.splits)
  ultimately show ?thesis
    using Nil r assms(1)
    by (auto simp: catalog_rows_def r_def [symmetric] group_row_def group_catalog_def Let_def at_end_def)
next
  case (Cons ts tabs)
  then obtain sch where sch: "cs_schema cs = Some sch" "t" "s"
    using assms(3) by (auto simp: catalog_fits_def)
  have ne: "catalog_rows cs = concat (map (table_rows cs) (cs_tables cs))"
    using Cons by (simp add: catalog_rows_def)
  obtain r rs where rr: "catalog_rows cs = r # rs" "catalogName r = cs_name cs" "schemaName r = Some sch"
    using Cons sch by (cases "ts_columns ts") (auto simp: ne table_rows_def)
  have "group_list U X s t k (catalog_rows cs) st =
      group_list U X s t k (catalog_rows cs) (in_catalog is (cs_name cs) sch [])"
    using group_row_new_catalog [OF assms(1), of r sch t] assms(2) rr sch by simp
  also have "\<dots> = Inr (in_catalog is (cs_name cs) sch (map (table_info U X k) (cs_tables cs)))"
    unfolding ne using group_tables [of k "cs_tables cs" "[]"] assms(3) by (simp add: catalog_fits_def)
  finally show ?thesis
    using sch by (simp add: at_end_def in_catalog_def catalog_info_def)
qed

lemma group_catalogs:
  assumes "at_end st is" "list_all (catalog_fits s t k) css" "distinct (map cs_name css)"
    and "is = [] \<or> (\<exists>n. CatalogName (last is) = Some n \<and> n \<notin> cs_name ` set css)"
  shows "\<exists>st'. group_list U X s t k (concat (map catalog_rows css)) st = Inr st' \<and>
    at_end st' (is @ map (catalog_info U X s t k) css)"
  using assms
proof (induction css arbitrary: st "is")
  case (Cons cs css)
  obtain st1 where st1: "group_list U X s t k (catalog_rows cs) st = Inr st1"
    "at_end st1 (is @ [catalog_info U X s t k cs])"
    using group_one_catalog [OF Cons.prems(1), of cs s t k U X] Cons.prems by auto
  have "\<exists>n. CatalogName (last (is @ [catalog_info U X s t k cs])) = Some n \<and> n \<notin> cs_name ` set css"
    using Cons.prems by (simp add: catalog_info_def)
  with Cons.IH [OF st1(2)] Cons.prems st1(1) show ?case by (auto simp: group_list_append)
qed simp

section \<open>From cells to the tree\<close>

definition int_cell :: "int option \<Rightarrow> cell" where
  "int_cell = map_option itoa"

definition cells_of :: "obj_row \<Rightarrow> cell list" where
  "cells_of r =
     [Some (catalogName r), schemaName r, tblName r, tblType r, int_cell (ordinalPosition r),
      colName r, colComment r, dataType r, colType r, isNullable r, colDefault r,
      int_cell (charMaxLength r), int_cell (charOctetLength r), int_cell (numericPrecision r),
      int_cell (numericScale r), int_cell (datetimePrecision r), extra r, generationExpression r]"

definition opt_fits :: "nat \<Rightarrow> int option \<Rightarrow> bool" where
  "opt_fits bits x \<longleftrightarrow> (case x of None \<Rightarrow> True | Some n \<Rightarrow> fits_signed bits n)"

definition row_fits :: "obj_row \<Rightarrow> bool" where
  "row_fits r \<longleftrightarrow> opt_fits 32 (ordinalPosition r) \<and> opt_fits 64 (charMaxLength r) \<and>
     opt_fits 64 (charOctetLength r) \<and> opt_fits 64 (numericPrecision r) \<and>
     opt_fits 64 (numericScale r) \<and> opt_fits 64 (datetimePrecision r)"

lemma scan_int_cell: "opt_fits bits x \<Longrightarrow> scan_NullInt bits (int_cell x) = Inr x"
  by (cases x) (auto simp: opt_fits_def scan_NullInt_def int_cell_def scan_int_def ParseInt10_itoa)

lemma scan_cells_of: "row_fits r \<Longrightarrow> scan_objects_row (cells_of r) = Inr r"
  by (simp add: scan_objects_row_def cells_of_def scan_string_def row_fits_def scan_int_cell)

lemma group_rows_list:
  "list_all row_fits rs \<Longrightarrow>
   group_rows U X s t k (map cells_of rs) st = group_list U X s t k rs st"
  by (induction rs arbitrary: st) (auto simp: scan_cells_of split: sum.splits)

definition tree_rows :: "catalog_spec list \<Rightarrow> obj_row list" where
  "tree_rows css = concat (map catalog_rows css)"

definition tree_fits :: "int \<Rightarrow> catalog_spec list \<Rightarrow> bool" where
  "tree_fits depth css \<longleftrightarrow>
     list_all (catalog_fits (includeSchemas depth) (includeTables depth) (includeColumns depth)) css \<and>
     distinct (map cs_name css) \<and> list_all row_fits (tree_rows css)"

lemma read_objects_tree_aux:
  assumes "tree_fits depth css" "r_rows rs = map cells_of (tree_rows css)"
    and "r_err rs = None" "r_close rs = None"
  shows "read_objects U X depth rs = Inr (map (catalog_info U X (includeSchemas depth)
    (includeTables depth) (includeColumns depth)) css)"
proof -
  have "at_end group_init []" by (simp add: at_end_def group_init_def)
  from group_catalogs [OF this, of "includeSchemas depth" "includeTables depth" "includeColumns depth"
      css U X] assms(1)
  obtain st where "group_list U X (includeSchemas depth) (includeTables depth) (includeColumns depth)
      (tree_rows css) group_init = Inr st"
    "at_end st (map (catalog_info U X (includeSchemas depth) (includeTables depth)
      (includeColumns depth)) css)"
    by (auto simp: tree_fits_def tree_rows_def)
  then show ?thesis
    using assms group_rows_list [of "tree_rows css"]
    by (simp add: read_objects_def tree_fits_def at_end_def)
qed

definition sample_tree :: "catalog_spec list" where
  "sample_tree =
     [\<lparr>cs_name = ''a'', cs_schema = Some [], cs_tables =
        [\<lparr>ts_name = ''t'', ts_type = Some ''BASE TABLE'', ts_columns =
            [null_row\<lparr>colName := Some ''x'', dataType := Some ''int'', ordinalPosition := Some 1\<rparr>,
             null_row\<lparr>colName := Some ''y'', dataType := Some ''text'', ordinalPosition := Some 2\<rparr>]\<rparr>,
         \<lparr>ts_name = ''u'', ts_type = Some ''VIEW'', ts_columns = []\<rparr>]\<rparr>,
      \<lparr>cs_name = ''b'', cs_schema = Some [], cs_tables = []\<rparr>]"

definition sample_xdbc :: xdbc where
  "sample_xdbc = \<lparr>XdbcColumnNullable = 1, XdbcColumnNoNulls = 0\<rparr>"

lemma sample_tree_fits: "tree_fits ObjectDepthColumns sample_tree"
  by code_simp

section \<open>Properties\<close>

text \<open>
  C14 (safety). For every depth and every combination of filters, the query of GetObjects and the
  query for table constraints have exactly as many parameter placeholders as they have arguments.
\<close>
theorem objects_query_arguments:
  "countPlaceholders (fst (objects_query depth cat sch tbl col types)) =
     length (snd (objects_query depth cat sch tbl col types)) \<and>
   countPlaceholders (fst (constraints_query cat tbl types)) =
     length (snd (constraints_query cat tbl types))"
  using objects_query_ok constraints_query_ok by (simp add: piece_ok_def)

text \<open>
  C12 (roundtrip). Grouping the rows the server's join produces for a tree of catalogs, tables and
  columns rebuilds that tree: no panic, every catalog, table and column once and in order, with the
  empty lists of levels that were asked for but have no entries and nothing for the levels beyond
  the requested depth.
\<close>
theorem read_objects_tree:
  assumes "tree_fits depth css" "r_rows rs = map cells_of (tree_rows css)"
    and "r_err rs = None" "r_close rs = None"
  shows "read_objects U X depth rs = Inr (map (catalog_info U X (includeSchemas depth)
    (includeTables depth) (includeColumns depth)) css)"
  by (rule read_objects_tree_aux [OF assms])

theorem read_objects_tree_witness:
  "read_objects sample_unicode sample_xdbc ObjectDepthColumns
     \<lparr>r_rows = map cells_of (tree_rows sample_tree), r_err = None, r_close = None\<rparr> =
   Inr (map (catalog_info sample_unicode sample_xdbc True True True) sample_tree)"
  using read_objects_tree [OF sample_tree_fits, of
      "\<lparr>r_rows = map cells_of (tree_rows sample_tree), r_err = None, r_close = None\<rparr>"]
  by (simp add: includeSchemas_def includeTables_def includeColumns_def ObjectDepthColumns_def
      ObjectDepthCatalogs_def)

text \<open>
  The sizes reported for a column are clamped, never wrapped: clampInt32 and
  clampInt16 return the argument when it fits and the nearest bound otherwise.
\<close>
theorem clamp_nearest:
  "clampInt32 v = (if v < - 2147483648 then - 2147483648 else if 2147483647 < v then 2147483647 else v) \<and>
   clampInt16 v = (if v < - 32768 then - 32768 else if 32767 < v then 32767 else v)"
  by (auto simp: clampInt32_def clampInt16_def fits_signed_def max_def min_def)

end
