(* ===== verification/Type_Convert.thy ===== *)
theory Type_Convert
  imports Zero_Datetime
begin

text \<open>
  Type mapping in both directions: \<open>ConvertRawColumnType\<close> of \<open>mariadb.go\<close> (MariaDB column to Arrow
  type and field metadata), \<open>arrowToMariaDBType\<close> and \<open>GetPlaceholder\<close> of \<open>connection.go\<close> (Arrow
  field to column definition and parameter), and \<open>CreateInserter\<close> (Arrow field to the object that
  fills its builder).
\<close>

section \<open>Metadata keys of the driver\<close>

definition metaKeyMariaDBColumnType :: string where "metaKeyMariaDBColumnType = ''mariadb.column_type''"
definition metaKeyMariaDBEnumValues :: string where "metaKeyMariaDBEnumValues = ''mariadb.enum_values''"
definition metaKeyMariaDBSetValues :: string where "metaKeyMariaDBSetValues = ''mariadb.set_values''"
definition metaKeyMariaDBNativeType :: string where "metaKeyMariaDBNativeType = ''mariadb.native_type''"
definition metaKeyMariaDBVectorDim :: string where "metaKeyMariaDBVectorDim = ''mariadb.vector_dimension''"
definition metaKeyLogicalArrowType :: string where "metaKeyLogicalArrowType = ''mariadb.logical_arrow_type''"
definition metaKeyArrowFallback :: string where "metaKeyArrowFallback = ''mariadb.arrow_fallback''"

lemmas meta_key_defs = metaKeyMariaDBColumnType_def metaKeyMariaDBEnumValues_def
  metaKeyMariaDBSetValues_def metaKeyMariaDBNativeType_def metaKeyMariaDBVectorDim_def
  metaKeyLogicalArrowType_def metaKeyArrowFallback_def

section \<open>MariaDB column to Arrow type\<close>

definition normalizeUnsignedTypeName :: "string \<Rightarrow> string" where
  "normalizeUnsignedTypeName typeName =
     (case CutPrefix typeName ''UNSIGNED '' of
        (after, ok) \<Rightarrow> if ok then after @ '' UNSIGNED'' else typeName)"

text \<open>The two entries every mapping records: the database type name and the column name.\<close>

definition base_meta :: "sqlwrapper \<Rightarrow> column_type \<Rightarrow> metadata" where
  "base_meta L c = [MetaKeyDatabaseTypeName L \<mapsto> DatabaseTypeName c, MetaKeyColumnName L \<mapsto> Name c]"

text \<open>The same entries as the BIT, spatial and ENUM/SET cases spell them.\<close>

definition literal_meta :: "column_type \<Rightarrow> metadata" where
  "literal_meta c = [''sql.database_type_name'' \<mapsto> DatabaseTypeName c, ''sql.column_name'' \<mapsto> Name c]"

definition length_meta :: "column_type \<Rightarrow> metadata \<Rightarrow> metadata" where
  "length_meta c md = (case Length c of None \<Rightarrow> md | Some n \<Rightarrow> md(''sql.length'' \<mapsto> itoa n))"

definition precision_unit :: "int \<Rightarrow> time_unit" where
  "precision_unit p = (if p \<le> 0 then Second else if p \<le> 3 then Millisecond else Microsecond)"

definition convert_decimal :: "sqlwrapper \<Rightarrow> column_type \<Rightarrow> go_error + (arrow_type \<times> bool \<times> metadata)" where
  "convert_decimal L c =
     (case (Precision c, Scale c) of
        (Some p, Some s) \<Rightarrow>
          (if p > 38 then
             Inr (StringT, Nullable c, (base_meta L c)(
               MetaKeyPrecision L \<mapsto> itoa p, MetaKeyScale L \<mapsto> itoa s,
               metaKeyLogicalArrowType \<mapsto> ''decimal256('' @ itoa p @ '','' @ itoa s @ '')'',
               metaKeyArrowFallback \<mapsto> ''string''))
           else DefaultConvertRawColumnType L c)
      | _ \<Rightarrow> DefaultConvertRawColumnType L c)"

definition convert_vector :: "sqlwrapper \<Rightarrow> column_type \<Rightarrow> go_error + (arrow_type \<times> bool \<times> metadata)" where
  "convert_vector L c =
     (let md = (base_meta L c)(metaKeyMariaDBNativeType \<mapsto> ''vector'');
          fallback = Inr (BinaryT, Nullable c, md(''mariadb.vector_encoding'' \<mapsto> ''float32_le''))
      in case Length c of
           None \<Rightarrow> fallback
         | Some n \<Rightarrow>
             (if n > 0 \<and> n smod 4 = 0 then
                (let dimension = n sdiv 4
                 in Inr (FixedSizeListT (wrap32 dimension) Float32T, Nullable c,
                         md(MetaKeyLength L \<mapsto> itoa n, metaKeyMariaDBVectorDim \<mapsto> itoa dimension)))
              else fallback))"

definition convert_time :: "sqlwrapper \<Rightarrow> column_type \<Rightarrow> go_error + (arrow_type \<times> bool \<times> metadata)" where
  "convert_time L c =
     (let md = (base_meta L c)(metaKeyMariaDBNativeType \<mapsto> ''time_duration'')
      in case Precision c of
           None \<Rightarrow> Inr (DurationT Microsecond, Nullable c, md)
         | Some p \<Rightarrow> Inr (DurationT (precision_unit p), Nullable c,
                          md(MetaKeyFractionalSecondsPrecision L \<mapsto> itoa p)))"

definition convert_timestamp :: "sqlwrapper \<Rightarrow> column_type \<Rightarrow> go_error + (arrow_type \<times> bool \<times> metadata)" where
  "convert_timestamp L c =
     (case Precision c of
        None \<Rightarrow> Inr (TimestampT Microsecond ''UTC'', Nullable c, base_meta L c)
      | Some p \<Rightarrow> Inr (TimestampT (precision_unit p) ''UTC'', Nullable c,
                       (base_meta L c)(MetaKeyFractionalSecondsPrecision L \<mapsto> itoa p)))"

definition spatial_types :: "string set" where
  "spatial_types = {''GEOMETRY'', ''POINT'', ''LINESTRING'', ''POLYGON'', ''MULTIPOINT'',
     ''MULTILINESTRING'', ''MULTIPOLYGON''}"

definition ConvertRawColumnType ::
    "unicode \<Rightarrow> sqlwrapper \<Rightarrow> column_type \<Rightarrow> go_error + (arrow_type \<times> bool \<times> metadata)" where
  "ConvertRawColumnType U L colType =
     (let typeName = normalizeUnsignedTypeName (ToUpper U (DatabaseTypeName colType));
          c = (if typeName \<noteq> ToUpper U (DatabaseTypeName colType)
               then colType\<lparr>DatabaseTypeName := typeName\<rparr> else colType)
      in if typeName = ''UUID'' then Inr (UUIDT, Nullable c, base_meta L c)
         else if typeName = ''INET4'' \<or> typeName = ''INET6'' then
           Inr (StringT, Nullable c, (base_meta L c)(
             metaKeyMariaDBNativeType \<mapsto> ToLower U typeName,
             metaKeyLogicalArrowType \<mapsto> ''mariadb.'' @ ToLower U typeName))
         else if typeName = ''DECIMAL'' \<or> typeName = ''NUMERIC'' then convert_decimal L c
         else if typeName = ''VECTOR'' then convert_vector L c
         else if typeName = ''JSON'' then
           (case NewJSONType L of
              Some e \<Rightarrow> Inl e
            | None \<Rightarrow> Inr (JSONT, Nullable c, (base_meta L c)(metaKeyMariaDBNativeType \<mapsto> ''json'')))
         else if typeName = ''YEAR'' then
           Inr (Int16T, Nullable c, (base_meta L c)(metaKeyMariaDBNativeType \<mapsto> ''year''))
         else if typeName = ''TIME'' then convert_time L c
         else if typeName = ''BIT'' then Inr (BinaryT, Nullable c, length_meta c (literal_meta c))
         else if typeName \<in> spatial_types then
           Inr (BinaryT, Nullable c, (literal_meta c)(
             ''mariadb.is_spatial'' \<mapsto> ''true'',
             ''mariadb.geometry_encoding'' \<mapsto> ''internal_srid_wkb'',
             metaKeyLogicalArrowType \<mapsto> ''geoarrow.wkb''))
         else if typeName = ''ENUM'' \<or> typeName = ''SET'' then
           Inr (StringT, Nullable c, length_meta c ((literal_meta c)(''mariadb.is_enum_set'' \<mapsto> ''true'')))
         else if typeName = ''TIMESTAMP'' then convert_timestamp L c
         else DefaultConvertRawColumnType L c)"

section \<open>Arrow field to MariaDB column\<close>

text \<open>A unit outside the four Arrow units panics.\<close>

definition timestamp_precision :: "time_unit \<Rightarrow> go_error + string" where
  "timestamp_precision u =
     (case u of Second \<Rightarrow> Inr [] | Millisecond \<Rightarrow> Inr ''(3)'' | Microsecond \<Rightarrow> Inr ''(6)''
      | Nanosecond \<Rightarrow> Inr ''(6)'' | OtherUnit n \<Rightarrow> Inl (Panic ''unexpected Arrow timestamp unit''))"

definition arrow_base_type :: "arrow_type \<Rightarrow> go_error + string" where
  "arrow_base_type t =
     (case t of
        BooleanT \<Rightarrow> Inr ''BOOLEAN''
      | Int8T \<Rightarrow> Inr ''TINYINT''
      | Int16T \<Rightarrow> Inr ''SMALLINT''
      | Int32T \<Rightarrow> Inr ''INT''
      | Int64T \<Rightarrow> Inr ''BIGINT''
      | Uint8T \<Rightarrow> Inr ''TINYINT UNSIGNED''
      | Uint16T \<Rightarrow> Inr ''SMALLINT UNSIGNED''
      | Uint32T \<Rightarrow> Inr ''INT UNSIGNED''
      | Uint64T \<Rightarrow> Inr ''BIGINT UNSIGNED''
      | Float32T \<Rightarrow> Inr ''FLOAT''
      | Float64T \<Rightarrow> Inr ''DOUBLE''
      | StringT \<Rightarrow> Inr ''TEXT''
      | BinaryT \<Rightarrow> Inr ''BLOB''
      | FixedSizeBinaryT n \<Rightarrow> Inr ''BLOB''
      | BinaryViewT \<Rightarrow> Inr ''BLOB''
      | LargeBinaryT \<Rightarrow> Inr ''LONGBLOB''
      | Date32T \<Rightarrow> Inr ''DATE''
      | TimestampT u tz \<Rightarrow>
          (case timestamp_precision u of
             Inl e \<Rightarrow> Inl e
           | Inr precision \<Rightarrow> Inr ((if tz \<noteq> [] then ''TIMESTAMP'' else ''DATETIME'') @ precision))
      | Time32T u \<Rightarrow>
          (case u of Second \<Rightarrow> Inr ''TIME'' | Millisecond \<Rightarrow> Inr ''TIME(3)''
           | _ \<Rightarrow> Inl (Panic ''unexpected Time32 unit''))
      | Time64T u \<Rightarrow>
          (case u of Microsecond \<Rightarrow> Inr ''TIME(6)'' | Nanosecond \<Rightarrow> Inr ''TIME(6)''
           | _ \<Rightarrow> Inl (Panic ''unexpected Time64 unit''))
      | DurationT u \<Rightarrow>
          (case u of Second \<Rightarrow> Inr ''TIME'' | Millisecond \<Rightarrow> Inr ''TIME(3)'' | _ \<Rightarrow> Inr ''TIME(6)'')
      | DecimalT bits p s \<Rightarrow> Inr (''DECIMAL('' @ itoa p @ '','' @ itoa s @ '')'')
      | _ \<Rightarrow> Inr ''TEXT'')"

definition arrowToMariaDBType :: "arrow_type \<Rightarrow> bool \<Rightarrow> go_error + string" where
  "arrowToMariaDBType arrowType nullable =
     (case arrow_base_type arrowType of
        Inl e \<Rightarrow> Inl e
      | Inr t \<Rightarrow> Inr (t @ (if nullable then '' NULL'' else '' NOT NULL'')))"

definition GetPlaceholder :: "field \<Rightarrow> string" where
  "GetPlaceholder f =
     (if meta_is (fMetadata f) metaKeyLogicalArrowType ''geoarrow.wkb''
      then ''ST_GeomFromWKB(CAST(? AS BINARY))'' else ''?'')"

section \<open>Arrow field to inserter\<close>

datatype inserter =
    JSONInserter
  | UUIDInserter
  | BitInserter
  | SpatialInserter
  | VectorInserter int
  | DurationInserter time_unit
  | ZeroDatetimeInserter field zeroDatetimeBehavior
  | DefaultInserter field

definition default_inserter :: "sqlwrapper \<Rightarrow> field \<Rightarrow> builder_kind \<Rightarrow> go_error + inserter" where
  "default_inserter L f b =
     (case DefaultCreateInserter L f b of Some e \<Rightarrow> Inl e | None \<Rightarrow> Inr (DefaultInserter f))"

definition zero_datetime_inserter ::
    "sqlwrapper \<Rightarrow> zeroDatetimeBehavior \<Rightarrow> field \<Rightarrow> builder_kind \<Rightarrow> go_error + inserter" where
  "zero_datetime_inserter L z f b =
     (case DefaultCreateInserter L f b of Some e \<Rightarrow> Inl e | None \<Rightarrow> Inr (ZeroDatetimeInserter f z))"

text \<open>The unchecked assertions \<open>builder.(array.BinaryLikeBuilder)\<close> panic on another builder.\<close>

definition binary_like :: "builder_kind \<Rightarrow> inserter \<Rightarrow> go_error + inserter" where
  "binary_like b i = (if b = BinaryLikeBuilder then Inr i else Inl (Panic ''interface conversion''))"

definition newMariaDBVectorInserter :: "builder_kind \<Rightarrow> go_error + inserter" where
  "newMariaDBVectorInserter b =
     (case b of
        FixedSizeListBuilder dim child \<Rightarrow>
          (if child = Float32Builder then Inr (VectorInserter dim)
           else Inl (Errorf ''expected float32 child builder for MariaDB VECTOR, got %T'' []))
      | _ \<Rightarrow> Inl (Errorf ''expected fixed-size-list builder for MariaDB VECTOR, got %T'' []))"

definition CreateInserter ::
    "sqlwrapper \<Rightarrow> zeroDatetimeBehavior \<Rightarrow> field \<Rightarrow> builder_kind \<Rightarrow> go_error + inserter" where
  "CreateInserter L z f b =
     (case fType f of
        JSONT \<Rightarrow> Inr JSONInserter
      | UUIDT \<Rightarrow> Inr UUIDInserter
      | BinaryT \<Rightarrow>
          (if meta_is (fMetadata f) ''sql.database_type_name'' ''BIT'' then binary_like b BitInserter
           else if meta_is (fMetadata f) ''mariadb.is_spatial'' ''true''
                then binary_like b SpatialInserter
           else default_inserter L f b)
      | FixedSizeListT n t \<Rightarrow>
          (if meta_is (fMetadata f) metaKeyMariaDBNativeType ''vector''
           then newMariaDBVectorInserter b else default_inserter L f b)
      | DurationT u \<Rightarrow>
          (if meta_is (fMetadata f) metaKeyMariaDBNativeType ''time_duration''
           then (case b of DurationBuilder v \<Rightarrow> Inr (DurationInserter v)
                 | _ \<Rightarrow> Inl (Panic ''interface conversion''))
           else default_inserter L f b)
      | Date32T \<Rightarrow> zero_datetime_inserter L z f b
      | Date64T \<Rightarrow> zero_datetime_inserter L z f b
      | TimestampT u tz \<Rightarrow> zero_datetime_inserter L z f b
      | _ \<Rightarrow> default_inserter L f b)"

end
