(* ===== verification/Table_Schema.thy ===== *)
theory Table_Schema
  imports Objects_Props Type_Convert
begin

text \<open>
  \<open>GetTableSchema\<close> (\<open>connection.go\<close> lines 93 to 317): the columns of a table from
  INFORMATION\_SCHEMA, the recovery of JSON columns from their check constraints, and the Arrow field
  of each column with its metadata.
\<close>

section \<open>json.Marshal of a list of strings\<close>

definition hex_digit :: "nat \<Rightarrow> char" where
  "hex_digit n = (''0123456789abcdef'' ! n)"

text \<open>An ASCII byte inside a JSON string, with HTML escaping; other strings take the Unicode path.\<close>

definition json_char :: "char \<Rightarrow> string" where
  "json_char c =
     (if c = quot2 \<or> c = bslash then [bslash, c]
      else if byte c = 8 then [bslash, CHR ''b'']
      else if byte c = 12 then [bslash, CHR ''f'']
      else if byte c = 10 then [bslash, CHR ''n'']
      else if byte c = 13 then [bslash, CHR ''r'']
      else if byte c = 9 then [bslash, CHR ''t'']
      else if byte c < 32 \<or> c = CHR ''<'' \<or> c = CHR ''>'' \<or> c = CHR ''&''
        then [bslash, CHR ''u'', CHR ''0'', CHR ''0'', hex_digit (byte c div 16), hex_digit (byte c mod 16)]
      else [c])"

definition json_string :: "unicode \<Rightarrow> string \<Rightarrow> string" where
  "json_string U s = quot2 # (if is_ascii s then concat (map json_char s) else uni_json U s) @ [quot2]"

definition json_strings :: "unicode \<Rightarrow> string list \<Rightarrow> string" where
  "json_strings U vs = ''['' @ Join (map (json_string U) vs) '','' @ '']''"

section \<open>Columns\<close>

record tableColumn =
  tc_OrdinalPosition :: int
  tc_ColumnName :: string
  tc_DataType :: string
  tc_ColumnType :: string
  tc_IsNullable :: string
  tc_CharacterMaximumLength :: "int option"
  tc_NumericPrecision :: "int option"
  tc_NumericScale :: "int option"
  tc_DatetimePrecision :: "int option"
  tc_CharacterSetName :: "string option"
  tc_CollationName :: "string option"

definition table_schema_query :: string where
  "table_schema_query =
     ''SELECT'' @ sql_line 2 ''ORDINAL_POSITION,'' @ sql_line 2 ''COLUMN_NAME,'' @
     sql_line 2 ''DATA_TYPE,'' @ sql_line 2 ''COLUMN_TYPE,'' @ sql_line 2 ''IS_NULLABLE,'' @
     sql_line 2 ''CHARACTER_MAXIMUM_LENGTH,'' @ sql_line 2 ''NUMERIC_PRECISION,'' @
     sql_line 2 ''NUMERIC_SCALE,'' @ sql_line 2 ''DATETIME_PRECISION,'' @
     sql_line 2 ''CHARACTER_SET_NAME,'' @ sql_line 2 ''COLLATION_NAME'' @
     sql_line 1 ''FROM INFORMATION_SCHEMA.COLUMNS'' @
     sql_line 1 ''WHERE TABLE_SCHEMA = ? AND TABLE_NAME = ?'' @ sql_line 1 ''ORDER BY ORDINAL_POSITION''"

definition check_query :: string where
  "check_query =
     ''SELECT cc.CHECK_CLAUSE'' @ sql_line 2 ''FROM INFORMATION_SCHEMA.TABLE_CONSTRAINTS tc'' @
     sql_line 2 ''JOIN INFORMATION_SCHEMA.CHECK_CONSTRAINTS cc'' @
     sql_line 2 ''  ON tc.CONSTRAINT_SCHEMA = cc.CONSTRAINT_SCHEMA'' @
     sql_line 2 '' AND tc.CONSTRAINT_NAME = cc.CONSTRAINT_NAME'' @
     sql_line 2 ''WHERE tc.TABLE_SCHEMA = ? AND tc.TABLE_NAME = ?'' @
     sql_line 2 ''  AND tc.CONSTRAINT_TYPE = '' @ [quot1] @ ''CHECK'' @ [quot1]"

definition scan_column :: "cell list \<Rightarrow> go_error + tableColumn" where
  "scan_column cells =
     (if length cells \<noteq> 11 then Inl (wrong_columns 11 (length cells))
      else case scan_int 32 (cells ! 0) of Inl e \<Rightarrow> Inl e | Inr ord \<Rightarrow>
        (case scan_strings (take 4 (drop 1 cells)) of Inl e \<Rightarrow> Inl e | Inr ss \<Rightarrow>
        (case scan_NullInt 64 (cells ! 5) of Inl e \<Rightarrow> Inl e | Inr cml \<Rightarrow>
        (case scan_NullInt 64 (cells ! 6) of Inl e \<Rightarrow> Inl e | Inr np \<Rightarrow>
        (case scan_NullInt 64 (cells ! 7) of Inl e \<Rightarrow> Inl e | Inr ns \<Rightarrow>
        (case scan_NullInt 64 (cells ! 8) of Inl e \<Rightarrow> Inl e | Inr dp \<Rightarrow>
         Inr \<lparr>tc_OrdinalPosition = ord, tc_ColumnName = ss ! 0, tc_DataType = ss ! 1,
              tc_ColumnType = ss ! 2, tc_IsNullable = ss ! 3, tc_CharacterMaximumLength = cml,
              tc_NumericPrecision = np, tc_NumericScale = ns, tc_DatetimePrecision = dp,
              tc_CharacterSetName = cells ! 9, tc_CollationName = cells ! 10\<rparr>))))))"

fun scan_columns :: "cell list list \<Rightarrow> tableColumn list \<Rightarrow> go_error + tableColumn list" where
  "scan_columns [] cols = Inr cols"
| "scan_columns (cells # rest) cols =
     (case scan_column cells of
        Inl e \<Rightarrow> Inl (WrapIO e ''failed to scan column information'' [])
      | Inr col \<Rightarrow> scan_columns rest (cols @ [col]))"

text \<open>
  The deferred \<open>err = errors.Join(err, rows.Close())\<close> on a path that returns an error: \<open>close'\<close> is
  what that call of \<open>Close\<close> returns.
\<close>

definition join_close :: "go_error \<Rightarrow> go_error option \<Rightarrow> go_error" where
  "join_close e close' = or_else (errors_Join [Some e, close']) e"

definition read_columns :: "string \<Rightarrow> result_set \<Rightarrow> go_error + tableColumn list" where
  "read_columns tableName rs =
     (case scan_columns (r_rows rs) [] of
        Inl e \<Rightarrow> Inl (join_close e (r_close rs))
      | Inr cols \<Rightarrow>
          (case r_err rs of
             Some e \<Rightarrow> Inl (join_close (WrapIO e ''rows error'' []) (r_close rs))
           | None \<Rightarrow>
               (case r_close rs of
                  Some e \<Rightarrow> Inl (join_close (WrapIO e ''failed to close table schema rows'' []) None)
                | None \<Rightarrow>
                    (if cols = []
                     then Inl (join_close (Helper NotFound ''table not found: %s'' [tableName]) None)
                     else Inr cols))))"

section \<open>JSON columns\<close>

definition json_valid_clause :: "unicode \<Rightarrow> string \<Rightarrow> tableColumn \<Rightarrow> bool" where
  "json_valid_clause U clause col =
     (let lowerClause = ToLower U clause;
          quotedName = ''`'' @ ToLower U (ReplaceAll (tc_ColumnName col) btick [btick, btick]) @ ''`''
      in Contains lowerClause (''json_valid('' @ quotedName @ '')'') \<or>
         Contains lowerClause (''json_valid('' @ ToLower U (tc_ColumnName col) @ '')''))"

fun json_columns :: "unicode \<Rightarrow> tableColumn list \<Rightarrow> cell list list \<Rightarrow> string list \<Rightarrow> go_error + string list" where
  "json_columns U cols [] names = Inr names"
| "json_columns U cols (cells # rest) names =
     (case (if length cells \<noteq> 1 then Inl (wrong_columns 1 (length cells)) else scan_string (cells ! 0)) of
        Inl e \<Rightarrow> Inl (WrapIO e ''failed to scan check constraint'' [])
      | Inr clause \<Rightarrow>
          json_columns U cols rest
            (names @ map tc_ColumnName (filter (json_valid_clause U clause) cols)))"

text \<open>A failing query is ignored; an error while reading its rows is not.\<close>

definition read_checks :: "unicode \<Rightarrow> tableColumn list \<Rightarrow> result_set \<Rightarrow> go_error + string list" where
  "read_checks U cols rs =
     (case json_columns U cols (r_rows rs) [] of
        Inl e \<Rightarrow> Inl e
      | Inr names \<Rightarrow>
          (case r_err rs of
             Some e \<Rightarrow> Inl (WrapIO e ''failed to read check constraints'' []) | None \<Rightarrow> Inr names))"

definition find_json_columns :: "unicode \<Rightarrow> server \<Rightarrow> tableColumn list \<Rightarrow> string list \<Rightarrow> string list op" where
  "find_json_columns U S cols args c =
     (case QueryContext S check_query args c of
        (Inl e, c1) \<Rightarrow> (Inr [], c1)
      | (Inr rs, c1) \<Rightarrow> (read_checks U cols rs, c1))"

section \<open>Fields\<close>

definition column_type_of :: "unicode \<Rightarrow> string list \<Rightarrow> tableColumn \<Rightarrow> column_type" where
  "column_type_of U jsonColumns col =
     (let data = tc_DataType col;
          upper = ToUpper U data;
          name0 = (if tc_ColumnName col \<in> set jsonColumns then ''JSON'' else data);
          name = (if upper \<in> set integer_types \<and> Contains (ToUpper U (tc_ColumnType col)) ''UNSIGNED''
                  then data @ '' UNSIGNED'' else name0);
          precision = (if upper \<in> {''TIME'', ''DATETIME'', ''TIMESTAMP''} \<and> tc_DatetimePrecision col \<noteq> None
                       then tc_DatetimePrecision col else tc_NumericPrecision col);
          len1 = (case parseTypeDimension U (tc_ColumnType col) ''VECTOR'' of
                    (dimension, ok) \<Rightarrow>
                      if EqualFold U data ''VECTOR'' \<and> ok then Some (wrap64 (dimension * 4))
                      else tc_CharacterMaximumLength col);
          len = (case parseTypeDimension U (tc_ColumnType col) ''BIT'' of
                   (bitWidth, ok) \<Rightarrow> if EqualFold U data ''BIT'' \<and> ok then Some bitWidth else len1)
      in \<lparr>Name = tc_ColumnName col, DatabaseTypeName = name, Nullable = (tc_IsNullable col = ''YES''),
          Length = len, Precision = precision, Scale = tc_NumericScale col\<rparr>)"

definition opt_meta :: "string \<Rightarrow> string option \<Rightarrow> metadata \<Rightarrow> metadata" where
  "opt_meta k v md = (case v of None \<Rightarrow> md | Some x \<Rightarrow> md(k \<mapsto> x))"

definition decl_go_error :: "decl_error \<Rightarrow> go_error" where
  "decl_go_error e =
     (case e of
        InvalidDeclaration d \<Rightarrow> Errorf ''invalid declaration %q'' [d]
      | InvalidDeclarationAt d n \<Rightarrow> Errorf ''invalid declaration %q at byte %d'' [d, itoa (int n)]
      | UnterminatedValue d \<Rightarrow> Errorf ''unterminated value in declaration %q'' [d])"

definition enum_meta :: "unicode \<Rightarrow> tableColumn \<Rightarrow> metadata \<Rightarrow> go_error + metadata" where
  "enum_meta U col md =
     (if ToUpper U (tc_DataType col) \<in> {''ENUM'', ''SET''} then
        (case parseMariaDBTypeValues (tc_ColumnType col) of
           Inl e \<Rightarrow> Inl (WrapIO (decl_go_error e) ''failed to parse %s declaration for %s''
                          [tc_DataType col, tc_ColumnName col])
         | Inr vals \<Rightarrow>
             Inr (md((if EqualFold U (tc_DataType col) ''SET'' then metaKeyMariaDBSetValues
                      else metaKeyMariaDBEnumValues) \<mapsto> json_strings U vals)))
      else Inr md)"

definition column_field :: "unicode \<Rightarrow> sqlwrapper \<Rightarrow> string list \<Rightarrow> tableColumn \<Rightarrow> go_error + field" where
  "column_field U L jsonColumns col =
     (case ConvertRawColumnType U L (column_type_of U jsonColumns col) of
        Inl e \<Rightarrow> Inl (WrapIO e ''failed to convert column type for %s'' [tc_ColumnName col])
      | Inr (arrowType, nullable, md) \<Rightarrow>
          (case enum_meta U col
                  (opt_meta ''mariadb.collation'' (tc_CollationName col)
                    (opt_meta ''mariadb.character_set'' (tc_CharacterSetName col)
                      (md(metaKeyMariaDBColumnType \<mapsto> tc_ColumnType col)))) of
             Inl e \<Rightarrow> Inl e
           | Inr md' \<Rightarrow> Inr \<lparr>fName = tc_ColumnName col, fType = arrowType, fNullable = nullable,
                             fMetadata = md'\<rparr>))"

fun column_fields :: "unicode \<Rightarrow> sqlwrapper \<Rightarrow> string list \<Rightarrow> tableColumn list \<Rightarrow> go_error + field list" where
  "column_fields U L json [] = Inr []"
| "column_fields U L json (col # cols) =
     (case column_field U L json col of
        Inl e \<Rightarrow> Inl e
      | Inr f \<Rightarrow> (case column_fields U L json cols of Inl e \<Rightarrow> Inl e | Inr fs \<Rightarrow> Inr (f # fs)))"

section \<open>GetTableSchema\<close>

definition selected_catalog :: "server \<Rightarrow> string option \<Rightarrow> string op" where
  "selected_catalog S catalog =
     (if catalog \<noteq> None \<and> catalog \<noteq> Some [] then returnE (the catalog) else GetCurrentCatalog S)"

definition GetTableSchema :: "unicode \<Rightarrow> sqlwrapper \<Rightarrow> server \<Rightarrow> string option \<Rightarrow> string option \<Rightarrow> string \<Rightarrow>
    field list op" where
  "GetTableSchema U L S catalog dbSchema tableName =
     bindE (ClearPending S) (\<lambda>_.
     bindE (selected_catalog S catalog) (\<lambda>selectedCatalog.
     bindE (wrapE (\<lambda>e. WrapIO e ''failed to query table schema'' [])
              (QueryContext S table_schema_query [selectedCatalog, tableName])) (\<lambda>rs.
     bindE (liftE (read_columns tableName rs)) (\<lambda>columns.
     wrapE (\<lambda>e. join_close e None)
       (bindE (find_json_columns U S columns [selectedCatalog, tableName]) (\<lambda>jsonColumns.
        liftE (column_fields U L jsonColumns columns)))))))"

lemma disciplined_GetTableSchema: "disciplined S ok (GetTableSchema U L S catalog dbSchema tableName)"
proof -
  have "disciplined S True (find_json_columns U S cols args)" for cols args
    by (auto simp: disciplined_def find_json_columns_def QueryContext_def log_event_def
        split: sum.splits)
  moreover have "disciplined S True (selected_catalog S catalog)"
    by (simp add: selected_catalog_def disciplined_GetCurrentCatalog)
  ultimately show ?thesis
    unfolding GetTableSchema_def
    by (intro disciplined_clear disciplined_bind disciplined_wrap) simp_all
qed

end
