(* ===== verification/Duration.thy ===== *)
theory Duration
  imports Prelude Go_Errors
begin

text \<open>
  MariaDB \<open>TIME\<close> values: the parser \<open>parseMariaDBDuration\<close> of \<open>mariadb.go\<close> and the formatting that
  \<open>ConvertArrowToGo\<close> does for the same type. A \<open>time.Duration\<close> is an \<open>int64\<close> count of nanoseconds;
  every product and sum wraps.
\<close>

section \<open>Definitions\<close>

definition time_Microsecond :: int where "time_Microsecond = 1000"
definition time_Second :: int where "time_Second = 1000000000"
definition time_Minute :: int where "time_Minute = 60 * time_Second"
definition time_Hour :: int where "time_Hour = 60 * time_Minute"

definition bad_time :: "string \<Rightarrow> go_error" where
  "bad_time v = Errorf ''invalid MariaDB TIME value %q'' [v]"

text \<open>The fraction padded or cut to six digits and parsed (lines 491--502).\<close>

definition parse_fraction :: "string list \<Rightarrow> int option" where
  "parse_fraction parts =
     (if length parts = 2
      then (let fraction = take 6 (parts ! 1)
            in ParseInt10 64 (fraction @ Repeat ''0'' (6 - length fraction)))
      else Some 0)"

definition duration_total :: "int \<Rightarrow> int \<Rightarrow> int \<Rightarrow> int \<Rightarrow> int" where
  "duration_total h m s us =
     wrap64 (wrap64 (wrap64 (wrap64 (h * time_Hour) + wrap64 (m * time_Minute))
       + wrap64 (s * time_Second)) + wrap64 (us * time_Microsecond))"

text \<open>The parser behind the sign test (lines 480--505).\<close>

definition parse_unsigned :: "int \<Rightarrow> string \<Rightarrow> go_error + int" where
  "parse_unsigned sign v =
     (let parts = SplitN2 v CHR ''.'';
          clock = Split (parts ! 0) CHR '':''
      in if length clock \<noteq> 3 then Inl (bad_time v)
         else (case (ParseInt10 64 (clock ! 0), ParseInt10 64 (clock ! 1), ParseInt10 64 (clock ! 2)) of
                 (Some h, Some m, Some s) \<Rightarrow>
                   (if h > 838 \<or> m > 59 \<or> s > 59 then Inl (bad_time v)
                    else (case parse_fraction parts of
                            None \<Rightarrow> Inl (bad_time v)
                          | Some us \<Rightarrow> Inr (wrap64 (sign * duration_total h m s us))))
               | _ \<Rightarrow> Inl (bad_time v)))"

definition parseMariaDBDuration :: "string \<Rightarrow> go_error + int" where
  "parseMariaDBDuration val =
     (if HasPrefix val ''-'' then parse_unsigned (- 1) (drop 1 val) else parse_unsigned 1 val)"

text \<open>The text \<open>ConvertArrowToGo\<close> makes of a duration (lines 689--700).\<close>

definition format_clock :: "int \<Rightarrow> string" where
  "format_clock d =
     (let hours = d sdiv time_Hour; d1 = d smod time_Hour;
          minutes = d1 sdiv time_Minute; d2 = d1 smod time_Minute;
          seconds = d2 sdiv time_Second;
          microseconds = (d2 smod time_Second) sdiv time_Microsecond
      in pad0 2 hours @ '':'' @ pad0 2 minutes @ '':'' @ pad0 2 seconds @ ''.'' @ pad0 6 microseconds)"

definition formatMariaDBDuration :: "int \<Rightarrow> string" where
  "formatMariaDBDuration duration =
     (if duration < 0 then ''-'' @ format_clock (wrap64 (- duration)) else format_clock duration)"

section \<open>Lemmas: digits without a sign\<close>

lemmas time_defs = time_Hour_def time_Minute_def time_Second_def time_Microsecond_def

lemma digit_val_less: "digit_val c = Some d \<Longrightarrow> d < 10"
  by (auto simp: digit_val_def split: if_splits)

lemma digits_val_bound: "digits_val acc s = Some n \<Longrightarrow> n < (acc + 1) * 10 ^ length s"
proof (induction s arbitrary: acc)
  case (Cons c s)
  then obtain d where d: "digit_val c = Some d" "digits_val (10 * acc + d) s = Some n"
    by (auto split: option.splits)
  have "n < (10 * acc + d + 1) * 10 ^ length s" using Cons.IH [OF d(2)] by simp
  also have "\<dots> \<le> (10 * acc + 10) * 10 ^ length s" using digit_val_less [OF d(1)] by (intro mult_le_mono1) simp
  finally show ?case by (simp add: algebra_simps)
qed simp

lemma ParseInt10_unsigned:
  assumes "ParseInt10 bits s = Some n" and "CHR ''-'' \<notin> set s"
  shows "0 \<le> n \<and> n < 10 ^ length s"
proof -
  obtain r k where r: "ParseUint10 r = Some k" "n = int k" "length r \<le> length s"
    using assms
    by (cases s) (auto simp: ParseInt10_def Let_def split: if_splits option.splits)
  then have "k < 10 ^ length r"
    using digits_val_bound [of 0 r k] by (simp add: ParseUint10_def split: if_splits)
  also have "\<dots> \<le> 10 ^ length s" using r(3) by simp
  finally show ?thesis using r(2) by simp
qed

lemma Split_set: "p \<in> set (Split s b) \<Longrightarrow> set p \<subseteq> set s"
  by (induction s arbitrary: p) (fastforce split: if_splits list.splits)+

lemma SplitN2_set: "p \<in> set (SplitN2 s b) \<Longrightarrow> set p \<subseteq> set s"
  by (auto simp: SplitN2_def dest: in_set_takeD in_set_dropD split: option.splits)

section \<open>Lemmas: ranges\<close>

definition clock_range :: "int \<Rightarrow> int \<Rightarrow> int \<Rightarrow> int \<Rightarrow> bool" where
  "clock_range h m s us \<longleftrightarrow> 0 \<le> h \<and> h \<le> 838 \<and> 0 \<le> m \<and> m \<le> 59 \<and> 0 \<le> s \<and> s \<le> 59 \<and>
     0 \<le> us \<and> us \<le> 999999"

lemma duration_total_exact:
  assumes "clock_range h m s us"
  shows "duration_total h m s us = h * time_Hour + m * time_Minute + s * time_Second + us * time_Microsecond"
proof -
  have e: "wrap64 x = x" if "- (10 ^ 18) < x" "x < 10 ^ 18" for x
    using that by (intro wrap_signed_id) (auto simp: fits_signed_def)
  show ?thesis
    using assms by (simp add: duration_total_def clock_range_def time_defs e)
qed

lemma duration_total_bound:
  "clock_range h m s us \<Longrightarrow> 0 \<le> duration_total h m s us \<and> duration_total h m s us < 839 * time_Hour"
  by (simp add: duration_total_exact) (auto simp: clock_range_def time_defs)

lemma wrap64_small: "\<bar>x\<bar> < 839 * time_Hour \<Longrightarrow> wrap64 x = x"
  by (intro wrap_signed_id) (auto simp: fits_signed_def time_defs)

section \<open>Lemmas: reading a formatted clock\<close>

definition clock_text :: "int \<Rightarrow> int \<Rightarrow> int \<Rightarrow> int \<Rightarrow> string" where
  "clock_text h m s us = pad0 2 h @ '':'' @ pad0 2 m @ '':'' @ pad0 2 s @ ''.'' @ pad0 6 us"

lemma pad0_notin: "0 \<le> n \<Longrightarrow> byte c < 48 \<or> 57 < byte c \<Longrightarrow> c \<notin> set (pad0 w n)"
  by (rule all_digits_notin [OF all_digits_pad0])

lemma clock_text_split:
  assumes "clock_range h m s us"
  shows "SplitN2 (clock_text h m s us) CHR ''.'' =
           [pad0 2 h @ CHR '':'' # pad0 2 m @ CHR '':'' # pad0 2 s, pad0 6 us]"
    and "Split (pad0 2 h @ CHR '':'' # pad0 2 m @ CHR '':'' # pad0 2 s) CHR '':'' = [pad0 2 h, pad0 2 m, pad0 2 s]"
proof -
  have n: "CHR '':'' \<notin> set (pad0 2 h)" "CHR '':'' \<notin> set (pad0 2 m)" "CHR '':'' \<notin> set (pad0 2 s)"
    "CHR ''.'' \<notin> set (pad0 2 h @ CHR '':'' # pad0 2 m @ CHR '':'' # pad0 2 s)"
    using assms by (simp_all add: pad0_notin clock_range_def byte_def)
  show "SplitN2 (clock_text h m s us) CHR ''.'' =
           [pad0 2 h @ CHR '':'' # pad0 2 m @ CHR '':'' # pad0 2 s, pad0 6 us]"
    using SplitN2_append [OF n(4), of "pad0 6 us"] by (simp add: clock_text_def)
  show "Split (pad0 2 h @ CHR '':'' # pad0 2 m @ CHR '':'' # pad0 2 s) CHR '':'' = [pad0 2 h, pad0 2 m, pad0 2 s]"
    using n by (simp add: Split_append Split_notin)
qed

lemma HasPrefix_clock_text: "0 \<le> h \<Longrightarrow> \<not> HasPrefix (clock_text h m s us) ''-''"
  using pad0_notin [of h "CHR ''-''" 2]
  by (cases "pad0 2 h") (auto simp: clock_text_def HasPrefix_def byte_def)

lemma parse_fraction_clock:
  "clock_range h m s us \<Longrightarrow> parse_fraction [c, pad0 6 us] = Some us"
  by (simp add: parse_fraction_def clock_range_def length_pad0 Repeat_def ParseInt10_pad0
      fits_signed_def)

lemma parse_clock_text:
  assumes "clock_range h m s us" and "sg = 1 \<or> sg = -1"
  shows "parseMariaDBDuration ((if sg = -1 then ''-'' else []) @ clock_text h m s us) =
           Inr (sg * duration_total h m s us)"
proof -
  have p: "ParseInt10 64 (pad0 2 h) = Some h" "ParseInt10 64 (pad0 2 m) = Some m"
    "ParseInt10 64 (pad0 2 s) = Some s"
    using assms(1) by (simp_all add: ParseInt10_pad0 clock_range_def fits_signed_def)
  have w: "wrap64 (sg * duration_total h m s us) = sg * duration_total h m s us"
    using duration_total_bound [OF assms(1)] assms(2) by (intro wrap64_small) auto
  have hp: "\<not> HasPrefix (clock_text h m s us) ''-''"
    using assms(1) by (simp add: HasPrefix_clock_text clock_range_def)
  have u: "parse_unsigned sg (clock_text h m s us) = Inr (sg * duration_total h m s us)"
    using assms(1) p w clock_text_split [OF assms(1)] parse_fraction_clock [OF assms(1)]
    by (simp add: parse_unsigned_def Let_def clock_range_def)
  from assms(2) show ?thesis
    using u hp by (auto simp: parseMariaDBDuration_def HasPrefix_def)
qed

lemma time_pos [simp]: "0 < time_Hour" "0 < time_Minute" "0 < time_Second" "0 < time_Microsecond"
  by (simp_all add: time_defs)

lemma format_clock_nonneg:
  assumes "0 \<le> d"
  shows "format_clock d =
    clock_text (d div time_Hour) (d mod time_Hour div time_Minute)
      (d mod time_Hour mod time_Minute div time_Second)
      (d mod time_Hour mod time_Minute mod time_Second div time_Microsecond)"
  using assms
  by (simp add: format_clock_def clock_text_def Let_def sdiv_nonneg smod_nonneg)

lemma clock_split_range:
  assumes "0 \<le> d" "d < 839 * time_Hour"
  shows "clock_range (d div time_Hour) (d mod time_Hour div time_Minute)
      (d mod time_Hour mod time_Minute div time_Second)
      (d mod time_Hour mod time_Minute mod time_Second div time_Microsecond)"
proof -
  have "d mod time_Hour div time_Minute < 60" "0 \<le> d mod time_Hour"
    by (simp_all add: time_defs div_less_iff_less_mult)
  moreover have "d mod time_Hour mod time_Minute div time_Second < 60"
    by (simp add: time_defs)
  moreover have "d mod time_Hour mod time_Minute mod time_Second div time_Microsecond < 1000000"
    by (simp add: time_defs)
  moreover have "d div time_Hour < 839" using assms by (simp add: time_defs)
  ultimately show ?thesis
    using assms by (simp add: clock_range_def pos_imp_zdiv_nonneg_iff)
qed

lemma clock_split_sum:
  "d div time_Hour * time_Hour + d mod time_Hour div time_Minute * time_Minute +
   d mod time_Hour mod time_Minute div time_Second * time_Second +
   d mod time_Hour mod time_Minute mod time_Second div time_Microsecond * time_Microsecond
   = d div time_Microsecond * time_Microsecond"
proof -
  define e where "e = d mod time_Hour mod time_Minute mod time_Second"
  have "d = d div time_Hour * time_Hour + d mod time_Hour" by simp
  moreover have "d mod time_Hour = d mod time_Hour div time_Minute * time_Minute + d mod time_Hour mod time_Minute"
    by simp
  moreover have "d mod time_Hour mod time_Minute =
      d mod time_Hour mod time_Minute div time_Second * time_Second + e"
    by (simp add: e_def)
  moreover have "e = e div time_Microsecond * time_Microsecond + e mod time_Microsecond" by simp
  moreover have "d = d div time_Microsecond * time_Microsecond + d mod time_Microsecond" by simp
  moreover have "e mod time_Microsecond = d mod time_Microsecond"
    by (simp add: e_def time_defs mod_mod_cancel)
  ultimately show ?thesis unfolding e_def [symmetric] by linarith
qed

lemma format_clock_text:
  assumes "0 \<le> d" "d < 839 * time_Hour"
  shows "\<exists>h m s us. clock_range h m s us \<and> format_clock d = clock_text h m s us \<and>
           duration_total h m s us = d div 1000 * 1000"
proof (intro exI conjI)
  show "format_clock d = clock_text (d div time_Hour) (d mod time_Hour div time_Minute)
      (d mod time_Hour mod time_Minute div time_Second)
      (d mod time_Hour mod time_Minute mod time_Second div time_Microsecond)"
    by (rule format_clock_nonneg [OF assms(1)])
  show "clock_range (d div time_Hour) (d mod time_Hour div time_Minute)
      (d mod time_Hour mod time_Minute div time_Second)
      (d mod time_Hour mod time_Minute mod time_Second div time_Microsecond)"
    by (rule clock_split_range [OF assms])
  then show "duration_total (d div time_Hour) (d mod time_Hour div time_Minute)
      (d mod time_Hour mod time_Minute div time_Second)
      (d mod time_Hour mod time_Minute mod time_Second div time_Microsecond) = d div 1000 * 1000"
    by (simp only: duration_total_exact clock_split_sum) (simp add: time_Microsecond_def)
qed

lemma parse_fraction_bound:
  assumes "parse_fraction parts = Some us" and "\<forall>p \<in> set parts. CHR ''-'' \<notin> set p"
  shows "0 \<le> us \<and> us \<le> 999999"
proof (cases "length parts = 2")
  case True
  let ?f = "take 6 (parts ! 1)"
  from True assms(2) have "CHR ''-'' \<notin> set (parts ! 1)" by simp
  then have n: "CHR ''-'' \<notin> set (?f @ Repeat ''0'' (6 - length ?f))"
    by (auto simp: Repeat_def dest: in_set_takeD)
  have l: "length (?f @ Repeat ''0'' (6 - length ?f)) = 6"
    by (auto simp: Repeat_def length_concat sum_list_triv)
  from True assms(1) have "ParseInt10 64 (?f @ Repeat ''0'' (6 - length ?f)) = Some us"
    by (simp add: parse_fraction_def Let_def)
  from ParseInt10_unsigned [OF this n] show ?thesis by (simp only: l) simp
next
  case False
  with assms(1) show ?thesis by (simp add: parse_fraction_def)
qed

lemma parse_unsigned_Inr:
  assumes "parse_unsigned sg v = Inr d" and "CHR ''-'' \<notin> set v"
  shows "\<exists>h m s us. clock_range h m s us \<and> d = wrap64 (sg * duration_total h m s us)"
proof -
  let ?parts = "SplitN2 v CHR ''.''"
  let ?clock = "Split (?parts ! 0) CHR '':''"
  obtain h m s us where r: "length ?clock = 3" "ParseInt10 64 (?clock ! 0) = Some h"
    "ParseInt10 64 (?clock ! 1) = Some m" "ParseInt10 64 (?clock ! 2) = Some s"
    "h \<le> 838" "m \<le> 59" "s \<le> 59" "parse_fraction ?parts = Some us"
    "d = wrap64 (sg * duration_total h m s us)"
    using assms(1) by (auto simp: parse_unsigned_def Let_def split: if_splits option.splits)
  have parts: "\<forall>p \<in> set ?parts. CHR ''-'' \<notin> set p"
    using assms(2) SplitN2_set [of _ v "CHR ''.''"] by blast
  have "?parts ! 0 \<in> set ?parts" by (auto simp: SplitN2_def split: option.splits)
  with parts have "\<forall>p \<in> set ?clock. CHR ''-'' \<notin> set p"
    using Split_set [of _ "?parts ! 0" "CHR '':''"] by blast
  then have c: "\<forall>i < 3. CHR ''-'' \<notin> set (?clock ! i)" using r(1) by auto
  have "0 \<le> h" "0 \<le> m" "0 \<le> s"
    using c ParseInt10_unsigned [OF r(2)] ParseInt10_unsigned [OF r(3)] ParseInt10_unsigned [OF r(4)]
    by auto
  with r parse_fraction_bound [OF r(8) parts] show ?thesis
    unfolding clock_range_def by blast
qed

lemma parse_formatMariaDBDuration_aux:
  assumes "\<bar>d\<bar> < 839 * time_Hour"
  shows "parseMariaDBDuration (formatMariaDBDuration d) = Inr (d sdiv 1000 * 1000)"
proof (cases "d < 0")
  case True
  have w: "wrap64 (- d) = - d" using assms by (intro wrap64_small) simp
  obtain h m s us where c: "clock_range h m s us" "format_clock (- d) = clock_text h m s us"
    "duration_total h m s us = - d div 1000 * 1000"
    using format_clock_text [of "- d"] assms True by auto
  then show ?thesis
    using parse_clock_text [OF c(1), of "- 1"] True w
    by (simp add: formatMariaDBDuration_def signed_divide_int_def)
next
  case False
  obtain h m s us where c: "clock_range h m s us" "format_clock d = clock_text h m s us"
    "duration_total h m s us = d div 1000 * 1000"
    using format_clock_text [of d] assms False by auto
  then show ?thesis
    using parse_clock_text [OF c(1), of 1] False
    by (simp add: formatMariaDBDuration_def signed_divide_int_def sgn_if)
qed

section \<open>Properties\<close>

text \<open>
  Formatting a duration and parsing the text gives the duration back, cut to whole
  microseconds towards zero, over the whole range of MariaDB's \<open>TIME\<close> (less than 839 hours either
  way), negative durations included.
\<close>
theorem parse_formatMariaDBDuration:
  assumes "\<bar>d\<bar> < 839 * time_Hour"
  shows "parseMariaDBDuration (formatMariaDBDuration d) = Inr (d sdiv 1000 * 1000)"
  using assms by (rule parse_formatMariaDBDuration_aux)

theorem parse_formatMariaDBDuration_witness:
  "parseMariaDBDuration (formatMariaDBDuration (- 3020399123456789)) = Inr (- 3020399123456000)"
  using parse_formatMariaDBDuration [of "- 3020399123456789"]
  by (simp add: time_defs signed_divide_int_def)

text \<open>
  C30 (bounds). A text with no minus sign after its first byte parses, if at all, to a duration of
  less than 839 hours either way: no wrap-around of the 64-bit arithmetic is reachable. (A minus
  sign inside a field is accepted by \<open>strconv.ParseInt\<close> and escapes the range checks, see
  \<open>parse_accepts_negative_minutes\<close>.)
\<close>
theorem parseMariaDBDuration_bounds:
  assumes "parseMariaDBDuration v = Inr d" and "CHR ''-'' \<notin> set (drop 1 v)"
  shows "\<bar>d\<bar> < 839 * time_Hour"
proof -
  obtain sg u where u: "parse_unsigned sg u = Inr d" "CHR ''-'' \<notin> set u" "sg = 1 \<or> sg = - 1"
    using assms by (cases v) (auto simp: parseMariaDBDuration_def HasPrefix_def split: if_splits)
  from parse_unsigned_Inr [OF u(1,2)] obtain h m s us
    where c: "clock_range h m s us" "d = wrap64 (sg * duration_total h m s us)" by blast
  have "\<bar>sg * duration_total h m s us\<bar> < 839 * time_Hour"
    using duration_total_bound [OF c(1)] u(3) by auto
  with c(2) show ?thesis using wrap64_small by simp
qed

lemma clock_text_838: "clock_text 838 59 59 999999 = ''838:59:59.999999''"
  by (simp add: clock_text_def pad0_def itoa_nat.simps digit_char_def) code_simp

theorem parseMariaDBDuration_bounds_witness:
  "\<exists>d. parseMariaDBDuration ''-838:59:59.999999'' = Inr d \<and> \<bar>d\<bar> < 839 * time_Hour"
proof -
  have p: "parseMariaDBDuration ''-838:59:59.999999'' = Inr (- 3020399999999000)"
    using parse_clock_text [of 838 59 59 999999 "- 1"]
    by (simp add: clock_text_838 clock_range_def duration_total_exact time_defs)
  show ?thesis using p parseMariaDBDuration_bounds [OF p] by auto
qed

text \<open>A minus sign inside a field passes the range checks, which only test upper bounds.\<close>

lemma parse_accepts_negative_minutes:
  "parseMariaDBDuration ''00:-5:00'' = Inr (- 300000000000)"
  by (simp add: parseMariaDBDuration_def parse_unsigned_def HasPrefix_def SplitN2_def ParseInt10_def
      ParseUint10_def digit_val_def byte_def parse_fraction_def duration_total_def time_defs
      wrap_signed_def fits_signed_def)

end
