(* ===== verification/Inserters.thy ===== *)
theory Inserters
  imports Type_Convert Duration
begin

text \<open>
  The inserters of \<open>mariadb.go\<close>: what \<open>AppendValue\<close> does to the builder for each of them, and that
  all of them keep the contract \<open>row_inserter\<close> (one row per accepted value, the builder untouched
  by a rejected one), also when the object is the default converter's.
\<close>

section \<open>Little-endian words\<close>

text \<open>\<open>binary.LittleEndian.Uint32\<close> and \<open>PutUint32\<close>.\<close>

definition le_Uint32 :: "string \<Rightarrow> 32 word" where
  "le_Uint32 bs = of_nat (byte (bs ! 0) + 256 * byte (bs ! 1) + 65536 * byte (bs ! 2)
     + 16777216 * byte (bs ! 3))"

definition le_PutUint32 :: "32 word \<Rightarrow> string" where
  "le_PutUint32 w = [char_of (unat w mod 256), char_of (unat w div 256 mod 256),
     char_of (unat w div 65536 mod 256), char_of (unat w div 16777216 mod 256)]"

text \<open>The loop \<open>for offset := 0; offset < len(raw); offset += 4\<close>.\<close>

function decode_floats :: "string \<Rightarrow> nat \<Rightarrow> (32 word) list" where
  "decode_floats raw offset =
     (if offset < length raw
      then le_Uint32 (drop offset (take (offset + 4) raw)) # decode_floats raw (offset + 4)
      else [])"
  by pat_completeness auto
termination
  by (relation "measure (\<lambda>(raw, offset). length raw - offset)") auto

declare decode_floats.simps [simp del]

section \<open>AppendValue\<close>

fun type_name :: "go_value \<Rightarrow> string" where
  "type_name VNil = ''<nil>''"
| "type_name (VBytes s) = ''[]uint8''"
| "type_name (VString s) = ''string''"
| "type_name (VOther t) = t"

definition append_from_string ::
    "sqlwrapper \<Rightarrow> arrow_type \<Rightarrow> builder \<Rightarrow> string \<Rightarrow> go_error option \<times> builder" where
  "append_from_string L t b s =
     (case AppendValueFromString L t s of
        Some e \<Rightarrow> (Some e, b) | None \<Rightarrow> (None, b @ [AppendFromString s]))"

fun uuid_AppendValue :: "sqlwrapper \<Rightarrow> builder \<Rightarrow> go_value \<Rightarrow> go_error option \<times> builder" where
  "uuid_AppendValue L b VNil = (None, b @ [AppendNull])"
| "uuid_AppendValue L b (VBytes v) = append_from_string L UUIDT b v"
| "uuid_AppendValue L b (VString v) = append_from_string L UUIDT b v"
| "uuid_AppendValue L b v =
     (Some (Errorf ''expected []byte or string for mariadb uuid inserter, got %T'' [type_name v]), b)"

fun json_AppendValue :: "sqlwrapper \<Rightarrow> builder \<Rightarrow> go_value \<Rightarrow> go_error option \<times> builder" where
  "json_AppendValue L b VNil = (None, b @ [AppendNull])"
| "json_AppendValue L b (VBytes v) = append_from_string L JSONT b v"
| "json_AppendValue L b (VString v) = append_from_string L JSONT b v"
| "json_AppendValue L b v =
     (Some (Errorf ''expected []byte or string for mariadb json inserter, got %T'' [type_name v]), b)"

fun bit_AppendValue :: "builder \<Rightarrow> go_value \<Rightarrow> go_error option \<times> builder" where
  "bit_AppendValue b VNil = (None, b @ [AppendNull])"
| "bit_AppendValue b (VBytes t) = (None, b @ [AppendBytes t])"
| "bit_AppendValue b v =
     (Some (Errorf ''expected []byte for mariadb bit inserter, got %T'' [type_name v]), b)"

definition strip_srid :: "string \<Rightarrow> string" where
  "strip_srid t = (if length t \<ge> 5 \<and> (byte (t ! 4) = 0 \<or> byte (t ! 4) = 1) then drop 4 t else t)"

fun spatial_AppendValue :: "builder \<Rightarrow> go_value \<Rightarrow> go_error option \<times> builder" where
  "spatial_AppendValue b VNil = (None, b @ [AppendNull])"
| "spatial_AppendValue b (VBytes t) = (None, b @ [AppendBytes (strip_srid t)])"
| "spatial_AppendValue b v =
     (Some (Errorf ''expected []byte for mariadb spatial inserter, got %T'' [type_name v]), b)"

definition vector_append_raw :: "int \<Rightarrow> builder \<Rightarrow> string \<Rightarrow> go_error option \<times> builder" where
  "vector_append_raw dim b raw =
     (if int (length raw) \<noteq> dim * 4
      then (Some (Errorf ''MariaDB VECTOR has %d bytes, expected %d for VECTOR(%d)''
                    [itoa (int (length raw)), itoa (dim * 4), itoa dim]), b)
      else (None, b @ AppendList # map AppendChildFloat (decode_floats raw 0)))"

fun vector_AppendValue :: "int \<Rightarrow> builder \<Rightarrow> go_value \<Rightarrow> go_error option \<times> builder" where
  "vector_AppendValue dim b VNil = (None, b @ [AppendNull])"
| "vector_AppendValue dim b (VBytes v) = vector_append_raw dim b v"
| "vector_AppendValue dim b (VString v) = vector_append_raw dim b v"
| "vector_AppendValue dim b v =
     (Some (Errorf ''expected []byte or string for MariaDB VECTOR, got %T'' [type_name v]), b)"

definition duration_append_text ::
    "sqlwrapper \<Rightarrow> time_unit \<Rightarrow> builder \<Rightarrow> string \<Rightarrow> go_error option \<times> builder" where
  "duration_append_text L unit b s =
     (case parseMariaDBDuration s of
        Inl e \<Rightarrow> (Some e, b)
      | Inr duration \<Rightarrow> (None, b @ [AppendDuration (duration sdiv Multiplier L unit)]))"

fun duration_AppendValue ::
    "sqlwrapper \<Rightarrow> time_unit \<Rightarrow> builder \<Rightarrow> go_value \<Rightarrow> go_error option \<times> builder" where
  "duration_AppendValue L unit b VNil = (None, b @ [AppendNull])"
| "duration_AppendValue L unit b (VBytes v) = duration_append_text L unit b v"
| "duration_AppendValue L unit b (VString v) = duration_append_text L unit b v"
| "duration_AppendValue L unit b v =
     (Some (Errorf ''expected []byte or string for MariaDB TIME, got %T'' [type_name v]), b)"

text \<open>The inserter of the default type converter, which is not part of the repository.\<close>

definition default_AppendValue ::
    "sqlwrapper \<Rightarrow> field \<Rightarrow> builder \<Rightarrow> go_value \<Rightarrow> go_error option \<times> builder" where
  "default_AppendValue L f b v =
     (case DefaultAppend L f v of Some e \<Rightarrow> (Some e, b) | None \<Rightarrow> (None, b @ [AppendDefault v]))"

definition zero_datetime_error :: go_error where
  "zero_datetime_error =
     AdbcError StatusInvalidData ''zero datetime value cannot be converted to Arrow date or timestamp''"

definition zero_datetime_AppendValue ::
    "sqlwrapper \<Rightarrow> field \<Rightarrow> zeroDatetimeBehavior \<Rightarrow> builder \<Rightarrow> go_value \<Rightarrow> go_error option \<times> builder" where
  "zero_datetime_AppendValue L f z b v =
     (case isZeroDatetimeValue v of
        Inl e \<Rightarrow> (Some e, b)
      | Inr isZero \<Rightarrow>
          (if \<not> isZero then default_AppendValue L f b v
           else if z = zeroDatetimeBehaviorError then (Some zero_datetime_error, b)
           else if z = zeroDatetimeBehaviorConvertToNull then (None, b @ [AppendNull])
           else (Some zero_datetime_error, b)))"

text \<open>The method call through the \<open>sqlwrapper.Inserter\<close> interface.\<close>

fun AppendValue :: "sqlwrapper \<Rightarrow> inserter \<Rightarrow> builder \<Rightarrow> go_value \<Rightarrow> go_error option \<times> builder" where
  "AppendValue L JSONInserter = json_AppendValue L"
| "AppendValue L UUIDInserter = uuid_AppendValue L"
| "AppendValue L BitInserter = bit_AppendValue"
| "AppendValue L SpatialInserter = spatial_AppendValue"
| "AppendValue L (VectorInserter dim) = vector_AppendValue dim"
| "AppendValue L (DurationInserter u) = duration_AppendValue L u"
| "AppendValue L (ZeroDatetimeInserter f z) = zero_datetime_AppendValue L f z"
| "AppendValue L (DefaultInserter f) = default_AppendValue L f"

section \<open>The contract holds\<close>

lemmas append_defs = append_from_string_def vector_append_raw_def duration_append_text_def
  default_AppendValue_def zero_datetime_AppendValue_def

lemma AppendValue_ok:
  "AppendValue L i b v = (None, b') \<Longrightarrow> \<exists>cs. b' = b @ cs \<and> rows cs = 1"
  by (cases i; cases v) (auto simp: append_defs split: option.splits sum.splits if_splits)

lemma AppendValue_err: "AppendValue L i b v = (Some e, b') \<Longrightarrow> b' = b"
  by (cases i; cases v) (auto simp: append_defs split: option.splits sum.splits if_splits)

interpretation ins: row_inserter "AppendValue L i" for L i
  by unfold_locales (rule AppendValue_ok, assumption, rule AppendValue_err, assumption)

section \<open>Little-endian lemmas\<close>

lemma le_bytes_sum:
  "(n::nat) mod 256 + 256 * (n div 256 mod 256) + 65536 * (n div 65536 mod 256)
     + 16777216 * (n div 16777216 mod 256) = n mod 4294967296"
  using mod_mult2_eq [of n 256 256] mod_mult2_eq [of n 65536 256] mod_mult2_eq [of n 16777216 256]
  by simp

lemma le_Uint32_bytes:
  "le_Uint32 ([char_of (n mod 256), char_of (n div 256 mod 256), char_of (n div 65536 mod 256),
     char_of (n div 16777216 mod 256)] @ r) = of_nat (n mod 4294967296)"
  unfolding le_bytes_sum [symmetric] by (simp add: le_Uint32_def del: of_nat_add of_nat_mult)

lemma le_Uint32_Put: "le_Uint32 (le_PutUint32 w @ r) = w"
proof -
  have "unat w < 4294967296" using unsigned_less [of w] by simp
  then show ?thesis unfolding le_PutUint32_def le_Uint32_bytes by simp
qed

lemma le_digit: "a < 256 \<Longrightarrow> (a + 256 * x) mod 256 = a \<and> (a + 256 * x) div 256 = (x::nat)"
  by simp

lemma le_Put_Uint32:
  assumes "length bs = 4"
  shows "le_PutUint32 (le_Uint32 bs) = bs"
proof -
  obtain a b c d where bs: "bs = [a, b, c, d]"
    using assms by (auto simp: length_Suc_conv eval_nat_numeral)
  define n where "n = byte a + 256 * (byte b + 256 * (byte c + 256 * byte d))"
  have l: "byte a < 256" "byte b < 256" "byte c < 256" "byte d < 256" by simp_all
  then have "byte a \<le> 255" "byte b \<le> 255" "byte c \<le> 255" "byte d \<le> 255" by linarith+
  then have "n < 4294967296" unfolding n_def by (simp add: algebra_simps)
  moreover have "le_Uint32 bs = of_nat n" by (simp add: le_Uint32_def bs n_def algebra_simps)
  ultimately have u: "unat (le_Uint32 bs) = n" by (simp add: unat_of_nat)
  have d1: "n mod 256 = byte a" "n div 256 = byte b + 256 * (byte c + 256 * byte d)"
    unfolding n_def using le_digit [OF l(1)] by blast+
  have d2: "n div 256 mod 256 = byte b" "n div 256 div 256 = byte c + 256 * byte d"
    unfolding d1(2) using le_digit [OF l(2)] by blast+
  have d3: "n div 256 div 256 mod 256 = byte c" "n div 256 div 256 div 256 = byte d"
    unfolding d2(2) using le_digit [OF l(3)] by blast+
  have d4: "n div 256 div 256 div 256 mod 256 = byte d" unfolding d3(2) by simp
  from d1(1) d2(1) d3(1) d4
  show ?thesis
    unfolding le_PutUint32_def u
    by (simp add: bs div_mult2_eq [of n 256 256, simplified] div_mult2_eq [of n 65536 256, simplified])
qed

lemma length_le_PutUint32 [simp]: "length (le_PutUint32 w) = 4"
  by (simp add: le_PutUint32_def)

text \<open>The decoding loop on the suffix it still has to read.\<close>

lemma decode_floats_suffix:
  "decode_floats raw i = (if i < length raw then le_Uint32 (take 4 (drop i raw)) #
     decode_floats raw (i + 4) else [])"
  by (subst decode_floats.simps) (simp add: take_drop add.commute)

lemma decode_floats_enc:
  "i = length pre \<Longrightarrow> decode_floats (pre @ concat (map le_PutUint32 ws)) i = ws"
proof (induction ws arbitrary: pre i)
  case Nil
  then show ?case by (subst decode_floats_suffix) simp
next
  case (Cons w ws)
  have "decode_floats (pre @ concat (map le_PutUint32 (w # ws))) i =
      w # decode_floats ((pre @ le_PutUint32 w) @ concat (map le_PutUint32 ws)) (i + 4)"
    using Cons.prems le_Uint32_Put [of w "[]"] by (subst decode_floats_suffix) simp
  also have "\<dots> = w # ws" using Cons.IH [of "i + 4" "pre @ le_PutUint32 w"] Cons.prems by simp
  finally show ?case .
qed

lemma enc_decode_floats:
  "length raw = i + 4 * n \<Longrightarrow> concat (map le_PutUint32 (decode_floats raw i)) = drop i raw \<and>
     length (decode_floats raw i) = n"
proof (induction n arbitrary: i)
  case 0
  then show ?case by (subst (1 2) decode_floats_suffix) simp
next
  case (Suc n)
  then have l: "i < length raw" "length (take 4 (drop i raw)) = 4" by simp_all
  have d: "decode_floats raw i = le_Uint32 (take 4 (drop i raw)) # decode_floats raw (i + 4)"
    using l by (subst decode_floats_suffix) simp
  have "concat (map le_PutUint32 (decode_floats raw i)) = take 4 (drop i raw) @ drop (i + 4) raw"
    using Suc d le_Put_Uint32 [OF l(2)] by simp
  also have "\<dots> = drop i raw" by (metis append_take_drop_id drop_drop add.commute)
  finally show ?case using d Suc by simp
qed

end
