(* ===== verification/Arrow_To_Go.thy ===== *)
theory Arrow_To_Go
  imports Inserters
begin

text \<open>
  \<open>ConvertArrowToGo\<close> of \<open>mariadb.go\<close>: an element of a bound Arrow array becomes the Go value sent to
  the server. Arrow's own accessors are data of the array model; the default conversion and
  Arrow's \<open>ToTime\<close> (nanoseconds since the Unix epoch) are parameters.

  The theory also holds the properties that join the two directions: values written by
  \<open>ConvertArrowToGo\<close> are read back by the inserters.
\<close>

section \<open>Definitions\<close>

text \<open>
  A fixed-size-list array has a list size, an offset (non-zero for a slice) and its whole child
  array; the child is a list of float bit patterns or of another type. Row \<open>i\<close> of the array is, by
  the Arrow columnar format, the \<open>n\<close> child slots from \<open>(offset + i) * n\<close> on.
\<close>

datatype child_array = Float32Values "(32 word) list" | OtherValues string

datatype array_data =
    JSONArray "nat \<Rightarrow> string"
  | UUIDArray "nat \<Rightarrow> string"
  | Time32Array time_unit "nat \<Rightarrow> int"
  | Time64Array time_unit "nat \<Rightarrow> int"
  | TimestampArray time_unit "nat \<Rightarrow> int"
  | FixedSizeListArray nat nat child_array
  | DurationArray time_unit "nat \<Rightarrow> int"
  | Float16Array "nat \<Rightarrow> 32 word"
  | OtherArray string

record arrow_array =
  IsNull :: "nat \<Rightarrow> bool"
  Data :: array_data

datatype go_any =
    GNil
  | GVariant string
  | GString string
  | GTime int
  | GBytes string
  | GFloat32 "32 word"
  | GOther string

text \<open>\<open>t.Format("15:04:05.000000")\<close> of a UTC instant.\<close>

definition format_time_of_day :: "int \<Rightarrow> string" where
  "format_time_of_day t =
     (let s = t div 1000000000 mod 86400; ns = t mod 1000000000
      in pad0 2 (s div 3600) @ '':'' @ pad0 2 (s mod 3600 div 60) @ '':'' @ pad0 2 (s mod 60) @ ''.''
         @ pad0 6 (ns div 1000))"

text \<open>The loop that packs a vector (lines 676--681); a child index out of range panics.\<close>

fun pack_floats :: "(32 word) list \<Rightarrow> nat \<Rightarrow> nat \<Rightarrow> go_error + string" where
  "pack_floats vs start 0 = Inr []"
| "pack_floats vs start (Suc n) =
     (if start < length vs
      then (case pack_floats vs (start + 1) n of
              Inl e \<Rightarrow> Inl e | Inr r \<Rightarrow> Inr (le_PutUint32 (vs ! start) @ r))
      else Inl (Panic ''index out of range''))"

type_synonym default_convert = "arrow_array \<Rightarrow> nat \<Rightarrow> field \<Rightarrow> go_error + go_any"

definition ConvertArrowToGo ::
    "sqlwrapper \<Rightarrow> (time_unit \<Rightarrow> int \<Rightarrow> int) \<Rightarrow> default_convert \<Rightarrow> arrow_array \<Rightarrow> nat \<Rightarrow> field
       \<Rightarrow> go_error + go_any" where
  "ConvertArrowToGo L ToTime dflt a index f =
     (if IsNull a index then Inr GNil
      else (case Data a of
         JSONArray ValueStr \<Rightarrow> Inr (GVariant (ValueStr index))
       | UUIDArray Str \<Rightarrow> Inr (GString (Str index))
       | Time32Array u v \<Rightarrow> Inr (GString (format_time_of_day (ToTime u (v index))))
       | Time64Array u v \<Rightarrow> Inr (GString (format_time_of_day (ToTime u (v index))))
       | TimestampArray u v \<Rightarrow>
           (let t = ToTime u (v index)
            in if u = Nanosecond then Inr (GTime (t div 1000 * 1000)) else dflt a index f)
       | FixedSizeListArray dimension off child \<Rightarrow>
           (if meta_is (fMetadata f) metaKeyMariaDBNativeType ''vector'' then
              (case child of
                 OtherValues t \<Rightarrow> Inl (Errorf ''MariaDB VECTOR requires float32 values, got %T'' [t])
               | Float32Values vs \<Rightarrow>
                   (case pack_floats vs (index * dimension) dimension of
                      Inl e \<Rightarrow> Inl e | Inr raw \<Rightarrow> Inr (GBytes raw)))
            else dflt a index f)
       | DurationArray u v \<Rightarrow>
           (if meta_is (fMetadata f) metaKeyMariaDBNativeType ''time_duration''
            then Inr (GString (formatMariaDBDuration (wrap64 (v index * Multiplier L u))))
            else dflt a index f)
       | Float16Array v \<Rightarrow> Inr (GFloat32 (v index))
       | OtherArray t \<Rightarrow> dflt a index f))"

section \<open>Lemmas\<close>

lemma pack_floats_ok:
  "start + n \<le> length vs \<Longrightarrow>
   pack_floats vs start n = Inr (concat (map le_PutUint32 (take n (drop start vs))))"
proof (induction n arbitrary: start)
  case (Suc n)
  then have "drop start vs = vs ! start # drop (Suc start) vs"
    by (simp add: Cons_nth_drop_Suc)
  with Suc show ?case by simp
qed simp

lemma length_concat_le [simp]: "length (concat (map le_PutUint32 ws)) = 4 * length ws"
  by (induction ws) simp_all

lemma convert_vector_row:
  assumes "meta_is (fMetadata f) metaKeyMariaDBNativeType ''vector''"
    and "\<not> IsNull a i" "Data a = FixedSizeListArray n off (Float32Values vs)"
    and "(i + 1) * n \<le> length vs"
  shows "ConvertArrowToGo L T dflt a i f =
     Inr (GBytes (concat (map le_PutUint32 (take n (drop (i * n) vs)))))"
  using assms pack_floats_ok [of "i * n" n vs] by (simp add: ConvertArrowToGo_def algebra_simps)

section \<open>Properties\<close>



text \<open>
  A packed vector is accepted exactly when it has four bytes per dimension; the
  floats appended then re-encode to the same bytes, and a vector of another length is rejected
  without touching the builder.
\<close>
theorem vector_AppendValue_bytes:
  fixes dim :: nat
  shows "if length raw = 4 * dim
     then \<exists>ws. vector_AppendValue (int dim) b (VBytes raw) = (None, b @ AppendList # map AppendChildFloat ws) \<and>
               length ws = dim \<and> concat (map le_PutUint32 ws) = raw
     else \<exists>e. vector_AppendValue (int dim) b (VBytes raw) = (Some e, b)"
proof (cases "length raw = 4 * dim")
  case True
  then show ?thesis
    using enc_decode_floats [of raw 0 dim] by (auto simp: vector_append_raw_def)
next
  case False
  then have "int (length raw) \<noteq> int dim * 4" by linarith
  with False show ?thesis by (simp add: vector_append_raw_def)
qed

text \<open>
  C29 (roundtrip). A \<open>TIME\<close> value in an Arrow duration column of unit second, millisecond or
  microsecond, within MariaDB's range, survives binding and reading back unchanged.
\<close>
theorem duration_write_read:
  assumes "multiplier_ok L" and "u \<in> {Second, Millisecond, Microsecond}"
    and "meta_is (fMetadata f) metaKeyMariaDBNativeType ''time_duration''"
    and "\<not> IsNull a i" "Data a = DurationArray u v"
    and "\<bar>v i * Multiplier L u\<bar> < 839 * time_Hour"
  shows "\<exists>s. ConvertArrowToGo L T dflt a i f = Inr (GString s) \<and>
     duration_AppendValue L u b (VString s) = (None, b @ [AppendDuration (v i)])"
proof -
  let ?d = "v i * Multiplier L u"
  have m: "\<exists>k > 0. Multiplier L u = 1000 * k" using assms(1,2) by (auto simp: multiplier_ok_def)
  then obtain k where k: "0 < k" "Multiplier L u = 1000 * k" by blast
  have d: "?d = (v i * k) * 1000" by (simp add: k)
  have e: "?d sdiv 1000 * 1000 = ?d" unfolding d by (simp add: sdiv_mult_cancel)
  have "parseMariaDBDuration (formatMariaDBDuration ?d) = Inr ?d"
    using parse_formatMariaDBDuration_aux [OF assms(6)] e by simp
  moreover have "?d sdiv Multiplier L u = v i" using k by (intro sdiv_mult_cancel) simp
  ultimately show ?thesis
    using assms wrap64_small [OF assms(6)]
    by (simp add: ConvertArrowToGo_def duration_append_text_def)
qed

theorem duration_write_read_witness:
  "\<exists>s. ConvertArrowToGo sample_lib (\<lambda>u v. v) (\<lambda>a i f. Inr GNil)
      \<lparr>IsNull = (\<lambda>_. False), Data = DurationArray Millisecond (\<lambda>_. - 3020399123)\<rparr> 0
      \<lparr>fName = ''t'', fType = DurationT Millisecond, fNullable = False,
       fMetadata = [metaKeyMariaDBNativeType \<mapsto> ''time_duration'']\<rparr> = Inr (GString s) \<and>
    duration_AppendValue sample_lib Millisecond [] (VString s) = (None, [AppendDuration (- 3020399123)])"
  using duration_write_read [of sample_lib Millisecond
     "\<lparr>fName = ''t'', fType = DurationT Millisecond, fNullable = False,
       fMetadata = [metaKeyMariaDBNativeType \<mapsto> ''time_duration'']\<rparr>"
     "\<lparr>IsNull = (\<lambda>_. False), Data = DurationArray Millisecond (\<lambda>_. - 3020399123)\<rparr>" 0
     "\<lambda>_. - 3020399123" "\<lambda>u v. v" "\<lambda>a i f. Inr GNil" "[]"]
  by (simp add: meta_is_def sample_lib_def multiplier_ok_def time_defs)

text \<open>
  Binding a sliced vector array ignores the slice's offset: row 0 of a slice that
  starts at physical row 1 is sent as physical row 0.
\<close>
theorem vector_slice_offset_ignored:
  "ConvertArrowToGo L T dflt
      \<lparr>IsNull = (\<lambda>_. False), Data = FixedSizeListArray 1 1 (Float32Values [x, y])\<rparr> 0
      \<lparr>fName = ''v'', fType = FixedSizeListT 1 Float32T, fNullable = False,
       fMetadata = [metaKeyMariaDBNativeType \<mapsto> ''vector'']\<rparr> = Inr (GBytes (le_PutUint32 x))"
  by (simp add: ConvertArrowToGo_def meta_is_def)

end
