(* ===== verification/Type_Props.thy ===== *)
theory Type_Props
  imports Arrow_To_Go Sql_Count
begin

text \<open>
  Properties of the type mapping as a whole: which inserter a MariaDB column ends up with, that a
  column created from an Arrow type is read back as that type, and what the inserters do with the
  values of a column.
\<close>

section \<open>Upper-case ASCII names\<close>

definition upper_ascii :: "string \<Rightarrow> bool" where
  "upper_ascii s \<longleftrightarrow> list_all (\<lambda>c. byte c < 128 \<and> \<not> (97 \<le> byte c \<and> byte c \<le> 122)) s"

lemma ToUpper_id: "upper_ascii s \<Longrightarrow> ToUpper U s = s"
  by (auto simp: upper_ascii_def ToUpper_def is_ascii_def list_all_iff ascii_upper_def
      intro!: map_idI)

lemma normalize_id: "\<not> HasPrefix s ''UNSIGNED '' \<Longrightarrow> normalizeUnsignedTypeName s = s"
  by (simp add: normalizeUnsignedTypeName_def CutPrefix_def)

text \<open>The type names the driver maps itself and that \<open>CreateInserter\<close> recognises.\<close>

definition native_types :: "string list" where
  "native_types = [''UUID'', ''JSON'', ''BIT'', ''TIME'', ''TIMESTAMP'', ''VECTOR'',
     ''GEOMETRY'', ''POINT'', ''LINESTRING'', ''POLYGON'', ''MULTIPOINT'', ''MULTILINESTRING'',
     ''MULTIPOLYGON'']"

lemma native_upper: "n \<in> set native_types \<Longrightarrow> upper_ascii n \<and> \<not> HasPrefix n ''UNSIGNED ''"
proof -
  have "list_all (\<lambda>n. upper_ascii n \<and> \<not> HasPrefix n ''UNSIGNED '') native_types" by code_simp
  then show "n \<in> set native_types \<Longrightarrow> upper_ascii n \<and> \<not> HasPrefix n ''UNSIGNED ''"
    by (simp add: list_all_iff)
qed

lemma native_name:
  assumes "DatabaseTypeName c \<in> set native_types"
  shows "normalizeUnsignedTypeName (ToUpper U (DatabaseTypeName c)) = DatabaseTypeName c"
    and "ToUpper U (DatabaseTypeName c) = DatabaseTypeName c"
  using native_upper [OF assms] by (simp_all add: ToUpper_id normalize_id)

lemma native_names:
  "n \<in> set native_types \<Longrightarrow> ToUpper U n = n"
  "n \<in> set native_types \<Longrightarrow> normalizeUnsignedTypeName n = n"
  using native_upper [of n] by (simp_all add: ToUpper_id normalize_id)

lemmas convert_defs = convert_vector_def convert_time_def convert_timestamp_def convert_decimal_def
  base_meta_def literal_meta_def length_meta_def spatial_types_def Let_def

text \<open>The builder \<open>array.NewBuilder\<close> makes for a type, as far as the assertions look at it.\<close>

fun builder_for :: "arrow_type \<Rightarrow> builder_kind" where
  "builder_for BinaryT = BinaryLikeBuilder"
| "builder_for Float32T = Float32Builder"
| "builder_for (FixedSizeListT n t) = FixedSizeListBuilder n (builder_for t)"
| "builder_for (DurationT u) = DurationBuilder u"
| "builder_for t = OtherBuilder []"

definition field_of :: "column_type \<Rightarrow> arrow_type \<times> bool \<times> metadata \<Rightarrow> field" where
  "field_of c r = (case r of (t, nl, md) \<Rightarrow>
     \<lparr>fName = Name c, fType = t, fNullable = nl, fMetadata = md\<rparr>)"

text \<open>The inserter of a column: convert the type, build the field, create the inserter.\<close>

definition column_inserter ::
    "unicode \<Rightarrow> sqlwrapper \<Rightarrow> zeroDatetimeBehavior \<Rightarrow> column_type \<Rightarrow> go_error + inserter" where
  "column_inserter U L z c =
     (case ConvertRawColumnType U L c of
        Inl e \<Rightarrow> Inl e
      | Inr r \<Rightarrow> CreateInserter L z (field_of c r) (builder_for (fst r)))"

text \<open>What it should be.\<close>

definition time_column_unit :: "column_type \<Rightarrow> time_unit" where
  "time_column_unit c = (case Precision c of None \<Rightarrow> Microsecond | Some p \<Rightarrow> precision_unit p)"

definition is_zero_datetime :: "zeroDatetimeBehavior \<Rightarrow> inserter \<Rightarrow> bool" where
  "is_zero_datetime z i \<longleftrightarrow> (\<exists>f. i = ZeroDatetimeInserter f z)"

definition native_inserter :: "zeroDatetimeBehavior \<Rightarrow> column_type \<Rightarrow> inserter \<Rightarrow> bool" where
  "native_inserter z c i \<longleftrightarrow>
     (let n = DatabaseTypeName c in
      if n = ''UUID'' then i = UUIDInserter
      else if n = ''JSON'' then i = JSONInserter
      else if n = ''BIT'' then i = BitInserter
      else if n = ''TIME'' then i = DurationInserter (time_column_unit c)
      else if n = ''TIMESTAMP'' then is_zero_datetime z i
      else if n = ''VECTOR'' then
        (\<forall>l. Length c = Some l \<longrightarrow> 0 < l \<longrightarrow> l < 2 ^ 33 \<longrightarrow> l mod 4 = 0 \<longrightarrow> i = VectorInserter (l div 4))
      else i = SpatialInserter)"

lemma vector_dim:
  assumes "0 < (l::int)" "l < 2 ^ 33" "l mod 4 = 0"
  shows "wrap32 (l div 4) = l div 4" "l sdiv 4 = l div 4" "l smod 4 = 0"
proof -
  have "l div 4 < 2147483648" "0 \<le> l div 4" using assms by auto
  then have "fits_signed 32 (l div 4)" by (simp add: fits_signed_def)
  then show "wrap32 (l div 4) = l div 4" by simp
qed (use assms in \<open>simp_all add: sdiv_nonneg smod_nonneg\<close>)

section \<open>Column types in DDL\<close>

text \<open>
  How the server reads a temporal column type: the name and the fractional-seconds precision in
  parentheses, 0 when there is none.
\<close>

definition ddl_type :: "string \<Rightarrow> string \<times> int" where
  "ddl_type s = (case IndexByte s CHR ''('' of
     None \<Rightarrow> (s, 0)
   | Some i \<Rightarrow> (take i s, case Atoi (butlast (drop (i + 1) s)) of None \<Rightarrow> 0 | Some p \<Rightarrow> p))"

definition temporal_column :: "string \<Rightarrow> column_type" where
  "temporal_column s = \<lparr>Name = ''c'', DatabaseTypeName = fst (ddl_type s), Nullable = True,
     Length = None, Precision = Some (snd (ddl_type s)), Scale = None\<rparr>"

definition cap_unit :: "time_unit \<Rightarrow> time_unit" where
  "cap_unit u = (if u = Nanosecond then Microsecond else u)"

lemma ddl_types:
  "ddl_type ''TIMESTAMP'' = (''TIMESTAMP'', 0)" "ddl_type ''TIMESTAMP(3)'' = (''TIMESTAMP'', 3)"
  "ddl_type ''TIMESTAMP(6)'' = (''TIMESTAMP'', 6)" "ddl_type ''TIME'' = (''TIME'', 0)"
  "ddl_type ''TIME(3)'' = (''TIME'', 3)" "ddl_type ''TIME(6)'' = (''TIME'', 6)"
  by code_simp+

lemma precision_units:
  "precision_unit 0 = Second" "precision_unit 3 = Millisecond" "precision_unit 6 = Microsecond"
  by (simp_all add: precision_unit_def)

lemma ConvertRaw_time:
  "DatabaseTypeName c = ''TIME'' \<Longrightarrow> ConvertRawColumnType U L c = convert_time L c"
  using native_name [of c U] by (simp add: ConvertRawColumnType_def spatial_types_def native_types_def)

lemma ConvertRaw_timestamp:
  "DatabaseTypeName c = ''TIMESTAMP'' \<Longrightarrow> ConvertRawColumnType U L c = convert_timestamp L c"
  using native_name [of c U] by (simp add: ConvertRawColumnType_def spatial_types_def native_types_def)

section \<open>Zero dates in a column\<close>

text \<open>What a date or timestamp column does with a textual value, by the option in force.\<close>

lemma zero_datetime_cases:
  "isZeroDatetimeValue v = Inr True \<Longrightarrow>
     zero_datetime_AppendValue L f z b v =
       (if z = zeroDatetimeBehaviorConvertToNull then (None, b @ [AppendNull])
        else (Some zero_datetime_error, b))"
  "isZeroDatetimeValue v = Inr False \<Longrightarrow>
     zero_datetime_AppendValue L f z b v = default_AppendValue L f b v"
  by (simp_all add: zero_datetime_AppendValue_def zdb_defs)

section \<open>Well-known binary\<close>

text \<open>
  MariaDB's geometry value: a four-byte SRID, then the WKB payload, whose first byte is the byte
  order (0 big endian, 1 little endian).
\<close>

definition wkb_payload :: "string \<Rightarrow> bool" where
  "wkb_payload w \<longleftrightarrow> w \<noteq> [] \<and> (byte (w ! 0) = 0 \<or> byte (w ! 0) = 1)"

definition geometry_value :: "32 word \<Rightarrow> string \<Rightarrow> string" where
  "geometry_value srid w = le_PutUint32 srid @ w"

text \<open>A little-endian WKB payload of geometry type \<open>t\<close> with coordinates \<open>body\<close>.\<close>

definition wkb_le :: "32 word \<Rightarrow> string \<Rightarrow> string" where
  "wkb_le t body = char_of (1::nat) # le_PutUint32 t @ body"

lemma strip_srid_geometry: "wkb_payload w \<Longrightarrow> strip_srid (geometry_value srid w) = w"
  by (cases w) (auto simp: strip_srid_def geometry_value_def wkb_payload_def nth_append)

section \<open>Properties\<close>

text \<open>
  A column of one of the types the driver maps itself (UUID, JSON, BIT, TIME,
  TIMESTAMP, VECTOR of a positive multiple of four bytes, the seven spatial types) gets that
  type's inserter from the field the conversion produces: the metadata \<open>ConvertRawColumnType\<close>
  writes and the metadata \<open>CreateInserter\<close> dispatches on agree, for every column name, length,
  precision and zero-date option.
\<close>
theorem native_column_inserter:
  assumes "DatabaseTypeName c \<in> set native_types"
    and "meta_keys_ok L" "NewJSONType L = None" "\<And>f b. DefaultCreateInserter L f b = None"
  shows "\<exists>i. column_inserter U L z c = Inr i \<and> native_inserter z c i"
proof -
  note defs = column_inserter_def ConvertRawColumnType_def CreateInserter_def field_of_def
    native_inserter_def meta_is_def convert_defs meta_key_defs assms(2-4) native_names native_types_def
    default_inserter_def zero_datetime_inserter_def binary_like_def newMariaDBVectorInserter_def
    is_zero_datetime_def time_column_unit_def meta_keys_ok_def [THEN iffD1, OF assms(2)]
  from assms(1) consider
      "DatabaseTypeName c = ''VECTOR''"
    | "DatabaseTypeName c = ''TIME''" | "DatabaseTypeName c = ''TIMESTAMP''"
    | "DatabaseTypeName c \<in> {''UUID'', ''JSON''}" | "DatabaseTypeName c = ''BIT''"
    | "DatabaseTypeName c \<in> spatial_types"
    by (auto simp: native_types_def spatial_types_def)
  then show ?thesis
  proof cases
    case 1
    show ?thesis
    proof (cases "Length c")
      case None
      with 1 show ?thesis by (simp add: defs)
    next
      case (Some l)
      show ?thesis
      proof (cases "l > 0 \<and> l smod 4 = 0")
        case True
        then have "0 < l" "l smod 4 = 0" by simp_all
        then have "0 < l" "l mod 4 = 0" "l smod 4 = 0" using smod_nonneg [of l 4] by simp_all
        with 1 Some show ?thesis by (simp add: defs vector_dim)
      next
        case False
        then have "\<not> (0 < l \<and> l mod 4 = 0)" using smod_nonneg [of l 4] by auto
        with False 1 Some show ?thesis by (simp add: defs)
      qed
    qed
  next
    case 2
    then show ?thesis by (auto simp: defs split: option.splits)
  next
    case 3
    then show ?thesis by (auto simp: defs split: option.splits)
  next
    case 4
    then show ?thesis by (elim insertE emptyE) (simp_all add: defs)
  next
    case 5
    then show ?thesis by (auto simp: defs split: option.splits)
  next
    case 6
    then show ?thesis
      by (subst (asm) spatial_types_def, elim insertE emptyE) (simp_all add: defs)
  qed
qed

theorem native_column_inserter_witness:
  "\<exists>i. column_inserter sample_unicode sample_lib zeroDatetimeBehaviorError
      \<lparr>Name = ''v'', DatabaseTypeName = ''VECTOR'', Nullable = True, Length = Some 12,
       Precision = None, Scale = None\<rparr> = Inr i \<and>
    native_inserter zeroDatetimeBehaviorError
      \<lparr>Name = ''v'', DatabaseTypeName = ''VECTOR'', Nullable = True, Length = Some 12,
       Precision = None, Scale = None\<rparr> i"
  by (rule native_column_inserter) (simp_all add: native_types_def, simp_all add: sample_lib_def)

text \<open>
  C33 (roundtrip). A table created for an Arrow timestamp with a time zone, or for an Arrow
  duration, has a column that is read back with the same Arrow type, except that nanoseconds
  become microseconds and every zone becomes UTC: the DDL type of \<open>arrowToMariaDBType\<close>, split into
  name and fractional-seconds precision as the server reports it, converts to that type.
\<close>
theorem temporal_ddl_roundtrip:
  assumes "u \<in> {Second, Millisecond, Microsecond, Nanosecond}" "tz \<noteq> []"
  shows "(\<exists>s md. arrow_base_type (TimestampT u tz) = Inr s \<and>
           ConvertRawColumnType U L (temporal_column s) = Inr (TimestampT (cap_unit u) ''UTC'', True, md)) \<and>
    (\<exists>s md. arrow_base_type (DurationT u) = Inr s \<and>
           ConvertRawColumnType U L (temporal_column s) = Inr (DurationT (cap_unit u), True, md))"
  using assms
  by (auto simp: arrow_base_type_def timestamp_precision_def temporal_column_def ddl_types
      ConvertRaw_time ConvertRaw_timestamp convert_time_def convert_timestamp_def
      precision_units cap_unit_def)

theorem temporal_ddl_roundtrip_witness:
  "\<exists>s md. arrow_base_type (TimestampT Nanosecond ''Europe/Brussels'') = Inr s \<and>
     ConvertRawColumnType sample_unicode sample_lib (temporal_column s) =
       Inr (TimestampT Microsecond ''UTC'', True, md)"
  using temporal_ddl_roundtrip [of Nanosecond "''Europe/Brussels''" sample_unicode sample_lib]
  by (simp add: cap_unit_def)


text \<open>
  C31 (functional). In a date or timestamp column, a date text with year 0000, month 00 or day 00
  becomes a null row when the option says \<open>convert_to_null\<close> and is rejected with status
  InvalidData, the builder unchanged, otherwise; every other date text goes to the default
  inserter untouched.
\<close>
theorem zero_date_column:
  assumes "length y = 4" "length m = 2" "length d = 2"
  shows "AppendValue L (ZeroDatetimeInserter f z) b (VBytes (date_text y m d r)) =
    (if y = ''0000'' \<or> m = ''00'' \<or> d = ''00''
     then (if z = zeroDatetimeBehaviorConvertToNull then (None, b @ [AppendNull])
           else (Some zero_datetime_error, b))
     else default_AppendValue L f b (VBytes (date_text y m d r)))"
  using zero_datetime_cases [of "VBytes (date_text y m d r)"]
  by (simp add: hasZeroDatePrefix_date_iff [OF assms])

theorem zero_date_column_witness:
  "AppendValue sample_lib (ZeroDatetimeInserter
      \<lparr>fName = ''d'', fType = Date32T, fNullable = True, fMetadata = Map.empty\<rparr>
      zeroDatetimeBehaviorConvertToNull) []
     (VBytes (date_text ''0000'' ''00'' ''00'' [])) = (None, [AppendNull])"
  using zero_date_column [of "''0000''" "''00''" "''00''"] by simp

text \<open>
  A spatial column delivers the WKB payload of every SRID-prefixed geometry value;
  but a value that is already a little-endian WKB payload (without the prefix, of any geometry type
  below 2^24) loses its first four bytes too: the test on the fifth byte does not tell the two
  apart.
\<close>
theorem spatial_value_stripped:
  assumes "wkb_payload w" "t < 16777216"
  shows "AppendValue L SpatialInserter b (VBytes (geometry_value srid w)) = (None, b @ [AppendBytes w]) \<and>
    AppendValue L SpatialInserter b (VBytes (wkb_le t body)) =
      (None, b @ [AppendBytes (drop 4 (wkb_le t body))])"
proof (rule conjI)
  show "AppendValue L SpatialInserter b (VBytes (geometry_value srid w)) = (None, b @ [AppendBytes w])"
    using assms(1) by (simp add: strip_srid_geometry)
  have "unat t < 16777216" using assms(2) by (simp add: word_less_nat_alt)
  then show "AppendValue L SpatialInserter b (VBytes (wkb_le t body)) =
      (None, b @ [AppendBytes (drop 4 (wkb_le t body))])"
    by (simp add: strip_srid_def wkb_le_def le_PutUint32_def)
qed

theorem spatial_value_stripped_witness:
  "AppendValue sample_lib SpatialInserter [] (VBytes (geometry_value 4326 (wkb_le 1 []))) =
     (None, [AppendBytes (wkb_le 1 [])]) \<and>
   AppendValue sample_lib SpatialInserter [] (VBytes (wkb_le 1 [])) =
     (None, [AppendBytes (drop 4 (wkb_le 1 []))])"
  using spatial_value_stripped [of "wkb_le 1 []" 1 sample_lib "[]" 4326 "[]"]
  by (simp add: wkb_payload_def wkb_le_def)

end
