(* ===== verification/Connection_Props.thy ===== *)
theory Connection_Props
  imports Connection
begin

text \<open>
  The abstract session, the refinement of it by the connection's operations, and the round trips
  through a server that keeps such a session.
\<close>

section \<open>The abstract session\<close>

record session =
  autocommit :: bool
  database :: "string option"
  isolation :: string

datatype sql_stmt = UseDb string | SetAuto bool | SetIso string | SetIsoDefault | OtherSql

text \<open>
  How MariaDB reads the statements that change the session. The isolation variable holds the level
  with hyphens (\<open>READ-COMMITTED\<close>).
\<close>

definition read_stmt :: "string \<Rightarrow> sql_stmt" where
  "read_stmt q =
     (if HasPrefix q ''USE '' then
        (case read_ident (drop 4 q) of Some (n, []) \<Rightarrow> UseDb n | _ \<Rightarrow> OtherSql)
      else if q = ''SET autocommit = 1'' then SetAuto True
      else if q = ''SET autocommit = 0'' then SetAuto False
      else if q = ''SET SESSION transaction_isolation = DEFAULT'' then SetIsoDefault
      else if HasPrefix q ''SET SESSION TRANSACTION ISOLATION LEVEL ''
        then SetIso (ReplaceAll (drop 40 q) CHR '' '' ''-'')
      else OtherSql)"

fun exec_stmt :: "string \<Rightarrow> sql_stmt \<Rightarrow> session \<Rightarrow> session" where
  "exec_stmt d (UseDb n) s = s\<lparr>database := Some n\<rparr>"
| "exec_stmt d (SetAuto b) s = s\<lparr>autocommit := b\<rparr>"
| "exec_stmt d (SetIso l) s = s\<lparr>isolation := l\<rparr>"
| "exec_stmt d SetIsoDefault s = s\<lparr>isolation := d\<rparr>"
| "exec_stmt d OtherSql s = s"

definition session_step :: "server \<Rightarrow> string \<Rightarrow> event list \<Rightarrow> event \<Rightarrow> session \<Rightarrow> session" where
  "session_step S d h e s =
     (case e of
        EvExec q \<Rightarrow> (if on_exec S h q = None then exec_stmt d (read_stmt q) s else s)
      | _ \<Rightarrow> s)"

fun session_after :: "server \<Rightarrow> string \<Rightarrow> event list \<Rightarrow> session \<Rightarrow> event list \<Rightarrow> session" where
  "session_after S d h s [] = s"
| "session_after S d h s (e # es) = session_after S d (h @ [e]) (session_step S d h e s) es"

definition session_of :: "server \<Rightarrow> string \<Rightarrow> session \<Rightarrow> mariadbConnectionImpl \<Rightarrow> session" where
  "session_of S d s0 c = session_after S d [] s0 (trace c)"

lemma session_after_snoc:
  "session_after S d h s (es @ [e]) = session_step S d (h @ es) e (session_after S d h s es)"
  by (induction es arbitrary: h s) auto

lemma session_of_ops [simp]:
  "session_of S d s0 (log_event EvClear c) = session_of S d s0 c"
  "session_of S d s0 (log_event (EvQuery q args) c) = session_of S d s0 c"
  "session_of S d s0 (log_event (EvExec q) c) =
     (if on_exec S (trace c) q = None then exec_stmt d (read_stmt q) (session_of S d s0 c)
      else session_of S d s0 c)"
  by (simp_all add: session_of_def log_event_def session_after_snoc session_step_def)

section \<open>The operations that change the session\<close>

datatype session_op =
    ASetCatalog string | ASetAutocommit bool | ASetIsolation string | ACommit | ARollback

fun impl_op :: "server \<Rightarrow> session_op \<Rightarrow> unit op" where
  "impl_op S (ASetCatalog n) = SetCurrentCatalog S n"
| "impl_op S (ASetAutocommit b) = SetAutocommit S b"
| "impl_op S (ASetIsolation l) = conn_SetOption S OptionKeyIsolationLevel l"
| "impl_op S ACommit = Commit S"
| "impl_op S ARollback = Rollback S"

text \<open>The isolation variable for an ADBC level, given the server's default.\<close>

definition server_level :: "string \<Rightarrow> string \<Rightarrow> string" where
  "server_level d l =
     (if l = LevelReadUncommitted then ''READ-UNCOMMITTED''
      else if l = LevelReadCommitted then ''READ-COMMITTED''
      else if l = LevelRepeatableRead then ''REPEATABLE-READ''
      else if l = LevelSerializable then ''SERIALIZABLE'' else d)"

fun spec_op :: "string \<Rightarrow> session_op \<Rightarrow> session \<Rightarrow> session" where
  "spec_op d (ASetCatalog n) s = s\<lparr>database := Some n\<rparr>"
| "spec_op d (ASetAutocommit b) s = s\<lparr>autocommit := b\<rparr>"
| "spec_op d (ASetIsolation l) s = s\<lparr>isolation := server_level d l\<rparr>"
| "spec_op d ACommit s = s"
| "spec_op d ARollback s = s"

text \<open>The statement each operation sends, when it sends one.\<close>

fun op_sql :: "session_op \<Rightarrow> go_error + string" where
  "op_sql (ASetCatalog n) = Inr (''USE '' @ quoteIdentifier n)"
| "op_sql (ASetAutocommit b) = Inr (''SET autocommit = '' @ (if b then ''1'' else ''0''))"
| "op_sql (ASetIsolation l) = isolation_query l"
| "op_sql ACommit = Inr ''COMMIT''"
| "op_sql ARollback = Inr ''ROLLBACK''"

lemma read_stmt_USE: "read_stmt (''USE '' @ quoteIdentifier n) = UseDb n"
proof -
  have "read_ident (quoteIdentifier n @ []) = Some (n, [])" by (rule qid.rd_enc) simp
  then show ?thesis by (simp add: read_stmt_def HasPrefix_def)
qed

lemma read_stmt_fixed:
  "read_stmt ''COMMIT'' = OtherSql" "read_stmt ''ROLLBACK'' = OtherSql"
  "read_stmt ''SET autocommit = 1'' = SetAuto True" "read_stmt ''SET autocommit = 0'' = SetAuto False"
  "read_stmt ''SET SESSION transaction_isolation = DEFAULT'' = SetIsoDefault"
  "read_stmt ''SET SESSION TRANSACTION ISOLATION LEVEL READ UNCOMMITTED'' = SetIso ''READ-UNCOMMITTED''"
  "read_stmt ''SET SESSION TRANSACTION ISOLATION LEVEL READ COMMITTED'' = SetIso ''READ-COMMITTED''"
  "read_stmt ''SET SESSION TRANSACTION ISOLATION LEVEL REPEATABLE READ'' = SetIso ''REPEATABLE-READ''"
  "read_stmt ''SET SESSION TRANSACTION ISOLATION LEVEL SERIALIZABLE'' = SetIso ''SERIALIZABLE''"
  by (simp_all add: read_stmt_def HasPrefix_def ReplaceAll_def)

lemma levels_distinct:
  "distinct [LevelDefault, LevelReadUncommitted, LevelReadCommitted, LevelRepeatableRead,
     LevelSnapshot, LevelSerializable, LevelLinearizable]"
  by code_simp

lemma exec_op_sql: "op_sql p = Inr q \<Longrightarrow> exec_stmt d (read_stmt q) s = spec_op d p s"
proof (cases p)
  case (ASetIsolation l)
  assume "op_sql p = Inr q"
  then show ?thesis
    using ASetIsolation levels_distinct
    by (auto simp: isolation_query_def server_level_def read_stmt_fixed split: if_splits)
qed (auto simp: read_stmt_USE [simplified] read_stmt_fixed)

lemma conn_SetOption_isolation:
  "conn_SetOption S OptionKeyIsolationLevel l = setIsolationLevel S l"
  by (simp add: conn_SetOption_def OptionKeyIsolationLevel_def OptionKeyZeroDatetimeBehavior_def)

text \<open>All five are a clear, then the statement, if there is one.\<close>

definition send :: "server \<Rightarrow> (go_error + string) \<Rightarrow> mariadbConnectionImpl \<Rightarrow> mariadbConnectionImpl" where
  "send S q c =
     (let c1 = log_event EvClear c
      in if on_clear S (trace c) \<noteq> None then c1
         else case q of Inl e \<Rightarrow> c1 | Inr sql \<Rightarrow> log_event (EvExec sql) c1)"

lemma impl_op_send:
  "snd (impl_op S p c) = send S (op_sql p) c"
  "fst (impl_op S p c) = Inr () \<longleftrightarrow> on_clear S (trace c) = None \<and>
     (\<exists>q. op_sql p = Inr q \<and> on_exec S (trace c @ [EvClear]) q = None)"
  by (cases p; auto simp: send_def SetCurrentCatalog_def SetAutocommit_def Commit_def Rollback_def
      conn_SetOption_isolation setIsolationLevel_def op_defs Let_def
      split: option.splits sum.splits elim!: err_result.elims)+

section \<open>A server that keeps the session\<close>

definition one_cell :: "cell \<Rightarrow> result_set" where
  "one_cell x = \<lparr>r_rows = [[x]], r_err = None, r_close = None\<rparr>"

text \<open>
  Documented behaviour of MariaDB: \<open>DATABASE()\<close> is the current database or NULL, and the session
  variable holds the isolation level in force.
\<close>

definition mariadb_replies :: "server \<Rightarrow> string \<Rightarrow> session \<Rightarrow> bool" where
  "mariadb_replies S d s0 \<longleftrightarrow> (\<forall>h.
     on_query S h ''SELECT DATABASE()'' [] = Inr (one_cell (database (session_after S d [] s0 h))) \<and>
     on_query S h ''SELECT @@SESSION.transaction_isolation'' [] =
       Inr (one_cell (Some (isolation (session_after S d [] s0 h)))))"

text \<open>Such a server: every statement succeeds and every query is answered from the history.\<close>

definition quiet_server :: server where
  "quiet_server = \<lparr>on_clear = (\<lambda>h. None), on_exec = (\<lambda>h q. None),
     on_query = (\<lambda>h q args. Inr (one_cell None)),
     base_get = (\<lambda>h k. Inr []), base_set = (\<lambda>h k v. None),
     base_new_statement = (\<lambda>h. None), base_close_statement = (\<lambda>h. None),
     register_info = (\<lambda>h v. None)\<rparr>"

definition sample_session :: session where
  "sample_session = \<lparr>autocommit = True, database = None, isolation = ''REPEATABLE-READ''\<rparr>"

definition sample_server :: server where
  "sample_server = quiet_server\<lparr>on_query := (\<lambda>h q args.
     let s = session_after quiet_server ''REPEATABLE-READ'' [] sample_session h in
     Inr (if q = ''SELECT DATABASE()'' then one_cell (database s)
          else if q = ''SELECT @@version, @@version_comment''
            then \<lparr>r_rows = [[Some ''11.8.2-MariaDB'', Some ''mariadb.org'']], r_err = None, r_close = None\<rparr>
          else one_cell (Some (isolation s))))\<rparr>"

definition new_connection :: mariadbConnectionImpl where
  "new_connection = \<lparr>version = [], conn_zdb = zeroDatetimeBehaviorError, trace = []\<rparr>"

lemma session_after_on_exec:
  "on_exec S = on_exec S' \<Longrightarrow> session_after S d h s es = session_after S' d h s es"
  by (induction es arbitrary: h s) (simp_all add: session_step_def split: event.splits)

lemma sample_server_replies: "mariadb_replies sample_server ''REPEATABLE-READ'' sample_session"
proof -
  have "session_after sample_server ''REPEATABLE-READ'' [] sample_session h =
      session_after quiet_server ''REPEATABLE-READ'' [] sample_session h" for h
    by (rule session_after_on_exec) (simp add: sample_server_def)
  then show ?thesis by (simp add: mariadb_replies_def sample_server_def Let_def)
qed

lemma sample_server_ok [simp]: "on_clear sample_server h = None" "on_exec sample_server h q = None"
  "register_info sample_server h v = None"
  by (simp_all add: sample_server_def quiet_server_def)

lemma trace_impl_op:
  "impl_op S p c = (Inr (), c1) \<Longrightarrow> \<exists>q. trace c1 = trace c @ [EvClear, EvExec q]"
  using impl_op_send [of S p c] by (auto simp: send_def Let_def log_event_def)

lemma GetCurrentCatalog_reply:
  assumes "mariadb_replies S d s0" "on_clear S (trace c) = None"
  shows "fst (GetCurrentCatalog S c) =
    (case database (session_of S d s0 c) of
       None \<Rightarrow> Inl (WrapIO (Errorf ''converting NULL to string is unsupported'' [])
                     ''failed to get current database'' [])
     | Some n \<Rightarrow> if n = [] then Inl (Helper InvalidState ''no current database set'' []) else Inr n)"
proof -
  have "session_after S d [] s0 (trace c @ [EvClear]) = session_of S d s0 c"
    by (simp add: session_of_def session_after_snoc session_step_def)
  with assms show ?thesis
    by (auto simp: GetCurrentCatalog_def op_defs mariadb_replies_def one_cell_def row_Scan_def
        scan_string_def Let_def split: option.splits)
qed

lemma conn_GetOption_isolation:
  assumes "mariadb_replies S d s0" "on_clear S (trace c) = None"
    "isolation (session_of S d s0 c) = server_level d l"
    "l \<in> {LevelReadUncommitted, LevelReadCommitted, LevelRepeatableRead, LevelSerializable}"
  shows "fst (conn_GetOption U S OptionKeyIsolationLevel c) = Inr l"
proof -
  have s: "isolation (session_after S d [] s0 (trace c @ [EvClear])) = server_level d l"
    using assms(3) by (simp add: session_of_def session_after_snoc session_step_def)
  have u: "ToUpper U ''READ UNCOMMITTED'' = ''READ UNCOMMITTED''"
    "ToUpper U ''READ COMMITTED'' = ''READ COMMITTED''"
    "ToUpper U ''REPEATABLE READ'' = ''REPEATABLE READ''"
    "ToUpper U ''SERIALIZABLE'' = ''SERIALIZABLE''"
    by (simp_all add: ToUpper_def is_ascii_def ascii_upper_def byte_def)
  have k: "OptionKeyIsolationLevel \<noteq> OptionKeyZeroDatetimeBehavior"
    by (simp add: OptionKeyIsolationLevel_def OptionKeyZeroDatetimeBehavior_def)
  from assms(1,2,4) s u k levels_distinct show ?thesis
    by (auto simp: conn_GetOption_def op_defs mariadb_replies_def one_cell_def row_Scan_def
        scan_string_def Let_def server_level_def ReplaceAll_def)
qed

lemma session_refines:
  "session_of S d s0 (snd (impl_op S p c)) =
     (if fst (impl_op S p c) = Inr () then spec_op d p (session_of S d s0 c)
      else session_of S d s0 c)"
proof -
  define c1 where "c1 = log_event EvClear c"
  have c1: "trace c1 = trace c @ [EvClear]" "session_of S d s0 c1 = session_of S d s0 c"
    by (simp_all add: c1_def) (simp add: log_event_def)
  show ?thesis
    unfolding impl_op_send send_def Let_def c1_def [symmetric]
    by (cases "op_sql p") (auto simp: c1 exec_op_sql)
qed

lemma session_refines_aux:
  "impl_op S p c = (Inr (), c1) \<Longrightarrow> session_of S d s0 c1 = spec_op d p (session_of S d s0 c)"
  using session_refines [of S d s0 p c] by simp

section \<open>Properties\<close>


text \<open>
  With a server that keeps the session, GetCurrentCatalog after a successful
  SetCurrentCatalog returns that catalog, for every non-empty name.
\<close>
theorem catalog_roundtrip:
  assumes "mariadb_replies S d s0" "SetCurrentCatalog S n c = (Inr (), c1)"
    and "on_clear S (trace c1) = None" "n \<noteq> []"
  shows "fst (GetCurrentCatalog S c1) = Inr n"
proof -
  have i: "impl_op S (ASetCatalog n) c = (Inr (), c1)" using assms(2) by simp
  have "database (session_of S d s0 c1) = Some n"
    using session_refines_aux [OF i] by simp
  then show ?thesis using GetCurrentCatalog_reply [OF assms(1,3)] assms(4) by simp
qed

theorem catalog_roundtrip_witness:
  "fst (GetCurrentCatalog sample_server
     (snd (SetCurrentCatalog sample_server ''my`db'' new_connection))) = Inr ''my`db''"
  by (rule catalog_roundtrip [OF sample_server_replies])
    (simp_all add: SetCurrentCatalog_def op_defs)

text \<open>
  With a server that keeps the session, reading the isolation level option after
  it was set to one of the four supported levels returns that level.
\<close>
theorem isolation_roundtrip:
  assumes "mariadb_replies S d s0" "conn_SetOption S OptionKeyIsolationLevel l c = (Inr (), c1)"
    and "on_clear S (trace c1) = None" "l \<noteq> LevelDefault"
  shows "fst (conn_GetOption U S OptionKeyIsolationLevel c1) = Inr l"
proof -
  have i: "impl_op S (ASetIsolation l) c = (Inr (), c1)" using assms(2) by simp
  then have "\<exists>q. isolation_query l = Inr q" using impl_op_send(2) [of S "ASetIsolation l" c] by auto
  with assms(4)
  have "l \<in> {LevelReadUncommitted, LevelReadCommitted, LevelRepeatableRead, LevelSerializable}"
    by (auto simp: isolation_query_def split: if_splits)
  moreover have "isolation (session_of S d s0 c1) = server_level d l"
    using session_refines_aux [OF i] by simp
  ultimately show ?thesis using conn_GetOption_isolation [OF assms(1,3)] by blast
qed

theorem isolation_roundtrip_witness:
  "fst (conn_GetOption sample_unicode sample_server OptionKeyIsolationLevel
     (snd (conn_SetOption sample_server OptionKeyIsolationLevel LevelSerializable new_connection))) =
   Inr LevelSerializable"
  by (rule isolation_roundtrip [OF sample_server_replies])
    (simp_all add: conn_SetOption_isolation setIsolationLevel_def isolation_query_def op_defs level_defs)

text \<open>
  On a session without a current database, GetCurrentCatalog never reports the
  invalid-state error \<open>no current database set\<close> its code has for that case: \<open>DATABASE()\<close> is then
  NULL, which does not scan into a Go string, so the result is an I/O error about the conversion.
\<close>
theorem no_current_database_error:
  assumes "mariadb_replies S d s0" "on_clear S (trace c) = None"
    and "database (session_of S d s0 c) = None"
  shows "fst (GetCurrentCatalog S c) =
    Inl (WrapIO (Errorf ''converting NULL to string is unsupported'' [])
           ''failed to get current database'' [])"
  using GetCurrentCatalog_reply [OF assms(1,2)] assms(3) by simp

theorem no_current_database_error_witness:
  "fst (GetCurrentCatalog sample_server new_connection) =
    Inl (WrapIO (Errorf ''converting NULL to string is unsupported'' [])
           ''failed to get current database'' [])"
  by (rule no_current_database_error [OF sample_server_replies])
    (simp_all add: new_connection_def session_of_def sample_session_def)

text \<open>
  After a successful PrepareDriverInfo the version is cached: the next call on
  the connection asks the server nothing, keeps the version and registers it again.
\<close>
theorem driver_info_cached:
  assumes "PrepareDriverInfo S c = (Inr (), c1)" "on_clear S (trace c1) = None"
  shows "PrepareDriverInfo S c1 =
    (err_result (register_info S (trace c1 @ [EvClear]) (version c1)),
     c1\<lparr>trace := trace c1 @ [EvClear, EvRegisterInfo (version c1)]\<rparr>)"
proof -
  have "version c1 \<noteq> []"
    using assms(1)
    by (auto simp: PrepareDriverInfo_def op_defs set_version_def split: prod.splits sum.splits if_splits)
  then show ?thesis
    using assms(2) by (simp add: PrepareDriverInfo_def op_defs)
qed

theorem driver_info_cached_witness:
  "\<exists>c1. PrepareDriverInfo sample_server new_connection = (Inr (), c1) \<and>
     version c1 = ''11.8.2-MariaDB (mariadb.org)'' \<and>
     PrepareDriverInfo sample_server c1 =
       (Inr (), c1\<lparr>trace := trace c1 @ [EvClear, EvRegisterInfo (version c1)]\<rparr>)"
proof -
  obtain r c1 where p: "PrepareDriverInfo sample_server new_connection = (r, c1)" by fastforce
  then have "r = Inr ()" "version c1 = ''11.8.2-MariaDB (mariadb.org)''"
    by (auto simp: PrepareDriverInfo_def op_defs set_version_def new_connection_def sample_server_def
        quiet_server_def row_Scan_def scan_string_def Let_def)
  with p driver_info_cached [of sample_server new_connection c1] show ?thesis by simp
qed

end
