(* ===== verification/Schema_Props.thy ===== *)
theory Schema_Props
  imports Table_Schema Type_Props Connection_Props
begin

text \<open>
  Properties of \<open>GetTableSchema\<close>: the values of ENUM and SET columns survive as JSON metadata, the
  dimension of a VECTOR column is recovered from its declaration, JSON columns from their check
  constraint.
\<close>

section \<open>Reading JSON strings\<close>

definition hex_val :: "char \<Rightarrow> nat option" where
  "hex_val c = (if 48 \<le> byte c \<and> byte c \<le> 57 then Some (byte c - 48)
     else if 97 \<le> byte c \<and> byte c \<le> 102 then Some (byte c - 87) else None)"

definition json_unescape :: "char \<Rightarrow> char option" where
  "json_unescape c =
     (if c = quot2 \<or> c = bslash then Some c
      else if c = CHR ''b'' then Some (CHR 0x08) else if c = CHR ''f'' then Some (CHR 0x0C)
      else if c = CHR ''n'' then Some (CHR 0x0A) else if c = CHR ''r'' then Some (CHR 0x0D)
      else if c = CHR ''t'' then Some (CHR 0x09) else None)"

fun json_body :: "string \<Rightarrow> string \<Rightarrow> (string \<times> string) option" where
  "json_body acc [] = None"
| "json_body acc (c # s) =
     (if c = quot2 then Some (acc, s)
      else if c = bslash then
        (case s of
           [] \<Rightarrow> None
         | e # s' \<Rightarrow>
             (if e = CHR ''u'' then
                (case s' of
                   z1 # z2 # h1 # h2 # s'' \<Rightarrow>
                     (case (hex_val h1, hex_val h2) of
                        (Some a, Some b) \<Rightarrow>
                          if z1 = CHR ''0'' \<and> z2 = CHR ''0''
                          then json_body (acc @ [char_of (16 * a + b)]) s'' else None
                      | _ \<Rightarrow> None)
                 | _ \<Rightarrow> None)
              else (case json_unescape e of None \<Rightarrow> None | Some d \<Rightarrow> json_body (acc @ [d]) s')))
      else json_body (acc @ [c]) s)"

definition json_read :: "string \<Rightarrow> (string \<times> string) option" where
  "json_read s = (case s of [] \<Rightarrow> None | c # s' \<Rightarrow> if c = quot2 then json_body [] s' else None)"

definition json_bytes :: "string \<Rightarrow> string" where
  "json_bytes s = quot2 # concat (map json_char s) @ [quot2]"

lemma json_bytes_string: "is_ascii s \<Longrightarrow> json_string U s = json_bytes s"
  by (simp add: json_string_def json_bytes_def)

lemma hex_val_digit: "n < 16 \<Longrightarrow> hex_val (hex_digit n) = Some n"
proof -
  have "list_all (\<lambda>n. hex_val (hex_digit n) = Some n) [0..<16]" by code_simp
  then show "n < 16 \<Longrightarrow> hex_val (hex_digit n) = Some n" by (simp add: list_all_iff)
qed

lemma json_controls:
  "char_of (8::nat) = CHR 0x08" "char_of (12::nat) = CHR 0x0C" "char_of (10::nat) = CHR 0x0A"
  "char_of (13::nat) = CHR 0x0D" "char_of (9::nat) = CHR 0x09"
  by code_simp+

lemma json_body_char: "json_body acc (json_char c @ s) = json_body (acc @ [c]) s"
proof -
  have "byte c < 256" by (simp add: byte_def)
  then have "byte c div 16 < 16" using less_mult_imp_div_less [of "byte c" 16 16] by simp
  then have "hex_val (hex_digit (byte c div 16)) = Some (byte c div 16)"
    "hex_val (hex_digit (byte c mod 16)) = Some (byte c mod 16)"
    by (simp_all add: hex_val_digit)
  moreover have "char_of (16 * (byte c div 16) + byte c mod 16) = c"
    by (simp add: byte_def)
  moreover have "byte c = 8 \<Longrightarrow> c = CHR 0x08" "byte c = 12 \<Longrightarrow> c = CHR 0x0C" "byte c = 10 \<Longrightarrow> c = CHR 0x0A"
    "byte c = 13 \<Longrightarrow> c = CHR 0x0D" "byte c = 9 \<Longrightarrow> c = CHR 0x09"
    using char_of_byte [of c] json_controls by metis+
  ultimately show ?thesis
    by (simp add: json_char_def json_unescape_def)
qed

lemma json_body_chars: "json_body acc (concat (map json_char s) @ quot2 # r) = Some (acc @ s, r)"
  by (induction s arbitrary: acc) (simp_all add: json_body_char del: json_body.simps(2), simp)

interpretation jsn: delimited json_bytes json_read quot2
  by unfold_locales (simp add: json_bytes_def json_read_def json_body_chars)

text \<open>A JSON array of strings, read with fuel for as many items as the text has bytes.\<close>

definition json_list :: "string \<Rightarrow> string list option" where
  "json_list s =
     (if s = ''[]'' then Some []
      else read_many json_read CHR '','' (length s) (butlast (tl s)))"

lemma Join_length: "xs \<noteq> [] \<Longrightarrow> list_all (\<lambda>x. x \<noteq> []) xs \<Longrightarrow> length xs \<le> length (Join xs s)"
proof (induction xs s rule: Join.induct)
  case (3 x y ys s)
  then have "1 \<le> length x" by (cases x) auto
  moreover have "length (y # ys) \<le> length (Join (y # ys) s)" using 3 by simp
  ultimately show ?case by simp
qed (auto simp: Suc_le_eq)

lemma json_list_strings:
  assumes "list_all is_ascii vs"
  shows "json_list (json_strings U vs) = Some vs"
proof (cases "vs = []")
  case True
  then show ?thesis by (simp add: json_list_def json_strings_def)
next
  case False
  have m: "map (json_string U) vs = map json_bytes vs"
    using assms by (auto simp: list_all_iff json_bytes_string)
  have "Join (map json_bytes vs) '','' \<noteq> []" "length vs \<le> length (Join (map json_bytes vs) '','')"
    using False Join_length [of "map json_bytes vs" "'',''"]
    by (auto simp: list_all_iff json_bytes_def)
  then show ?thesis
    using jsn.read_many_Join [of "CHR '',''" vs "length vs + 2"] False
      jsn.read_many_Join [of "CHR '',''" vs "length (Join (map json_bytes vs) '','') + 2"]
    by (simp add: json_list_def json_strings_def m butlast_append)
qed

section \<open>Declarations with a dimension\<close>

definition dim_text :: "string \<Rightarrow> int \<Rightarrow> string" where
  "dim_text name n = name @ ''('' @ itoa n @ '')''"

lemma is_ascii_append [simp]: "is_ascii (a @ b) \<longleftrightarrow> is_ascii a \<and> is_ascii b"
  by (simp add: is_ascii_def)

lemma is_ascii_Nil [simp]: "is_ascii []"
  by (simp add: is_ascii_def)

lemma is_ascii_Cons [simp]: "is_ascii (c # b) \<longleftrightarrow> byte c < 128 \<and> is_ascii b"
  by (simp add: is_ascii_def)

lemma all_digits_ascii: "all_digits s \<Longrightarrow> is_ascii s"
  by (auto simp: all_digits_def is_ascii_def list_all_iff)

lemma TrimSpace_id:
  "is_ascii s \<Longrightarrow> s = [] \<or> \<not> ascii_space (hd s) \<and> \<not> ascii_space (last s) \<Longrightarrow> TrimSpace U s = s"
proof -
  assume "is_ascii s" "s = [] \<or> \<not> ascii_space (hd s) \<and> \<not> ascii_space (last s)"
  moreover from this have "dropWhile ascii_space s = s" "dropWhile ascii_space (rev s) = rev s"
    by (auto simp: dropWhile_eq_self_iff hd_rev)
  ultimately show ?thesis by (simp add: TrimSpace_def)
qed

lemma parseTypeDimension_text:
  assumes "is_ascii name" "is_ascii ty" "name \<noteq> []" "\<not> ascii_space (hd name)"
    and "map ascii_lower name = map ascii_lower ty" "0 < n" "int64_ok n"
  shows "parseTypeDimension U (dim_text name n) ty = (n, True)"
proof -
  have d: "all_digits (itoa n)" "itoa n \<noteq> []" using assms(6) by (simp_all add: itoa_def)
  have sp: "\<not> ascii_space c" if "c \<in> set (itoa n)" for c
    using that d(1) by (auto simp: all_digits_def ascii_space_def)
  have len: "length name = length ty" using assms(5) by (metis length_map)
  have "is_ascii (dim_text name n)" using assms(1) all_digits_ascii [OF d(1)]
    by (simp add: dim_text_def byte_def)
  moreover have "hd (dim_text name n) = hd name" "last (dim_text name n) = CHR '')''"
    using assms(3) by (simp_all add: dim_text_def)
  moreover have "\<not> ascii_space (CHR '')'')" by (simp add: ascii_space_def byte_def)
  ultimately have t: "TrimSpace U (dim_text name n) = dim_text name n"
    using assms(4) by (intro TrimSpace_id) auto
  have e: "EqualFold U (name @ ''('') (ty @ ''('')"
    using assms(1,2,5) by (simp add: EqualFold_def byte_def)
  have i: "TrimSpace U (itoa n) = itoa n"
    using d sp all_digits_ascii [OF d(1)] by (intro TrimSpace_id) auto
  have "take (length (dim_text name n) - 1) (dim_text name n) = name @ ''('' @ itoa n"
    by (simp add: dim_text_def)
  moreover have "dim_text name n ! (length (dim_text name n) - 1) = CHR '')''"
    by (simp add: dim_text_def nth_append)
  moreover have "take (length ty + 1) (dim_text name n) = name @ ''(''"
    by (simp add: dim_text_def flip: len)
  moreover have "Atoi (itoa n) = Some n" using assms(7) by (rule ParseInt10_itoa)
  ultimately show ?thesis
    using t e i assms(6) by (simp add: parseTypeDimension_def Let_def len flip: len) (simp add: dim_text_def)
qed

section \<open>Fields of columns\<close>

lemma column_fields_names:
  "column_fields U L json cols = Inr fs \<Longrightarrow>
   map fName fs = map tc_ColumnName cols \<and>
   list_all2 (\<lambda>f col. fMetadata f metaKeyMariaDBColumnType = Some (tc_ColumnType col)) fs cols"
proof (induction cols arbitrary: fs)
  case (Cons col cols)
  then show ?case
    by (auto simp: column_field_def enum_meta_def opt_meta_def meta_key_defs
        split: sum.splits prod.splits if_splits option.splits)
qed simp

definition read_ok :: "server \<Rightarrow> mariadbConnectionImpl \<Rightarrow> string \<Rightarrow> string \<Rightarrow> tableColumn list \<Rightarrow> bool" where
  "read_ok S c cat tbl cols \<longleftrightarrow>
     (\<exists>rs. on_query S (trace c @ [EvClear]) table_schema_query [cat, tbl] = Inr rs \<and>
       read_columns tbl rs = Inr cols)"

lemma GetTableSchema_result:
  assumes "GetTableSchema U L S (Some cat) sch tbl c = (Inr fs, c1)" "cat \<noteq> []"
  obtains cols json where "read_ok S c cat tbl cols" "column_fields U L json cols = Inr fs" "cols \<noteq> []"
    "trace c1 = trace c @ [EvClear, EvQuery table_schema_query [cat, tbl], EvQuery check_query [cat, tbl]]"
  using assms
  by (auto simp: GetTableSchema_def selected_catalog_def find_json_columns_def read_ok_def
      read_columns_def op_defs split: prod.splits sum.splits option.splits if_splits)

text \<open>A column as the server lists it.\<close>

definition sample_column :: "string \<Rightarrow> string \<Rightarrow> string \<Rightarrow> tableColumn" where
  "sample_column name data decl =
     \<lparr>tc_OrdinalPosition = 1, tc_ColumnName = name, tc_DataType = data, tc_ColumnType = decl,
      tc_IsNullable = ''YES'', tc_CharacterMaximumLength = None, tc_NumericPrecision = None,
      tc_NumericScale = None, tc_DatetimePrecision = None, tc_CharacterSetName = None,
      tc_CollationName = None\<rparr>"

lemma enum_names:
  "ToUpper U ''enum'' = ''ENUM''" "ToUpper U ''set'' = ''SET''" "ToUpper U ''vector'' = ''VECTOR''"
  "EqualFold U ''enum'' ''SET'' = False" "EqualFold U ''set'' ''SET'' = True"
  "EqualFold U ''vector'' ''VECTOR'' = True" "EqualFold U ''vector'' ''BIT'' = False"
  "EqualFold U ''enum'' ''VECTOR'' = False" "EqualFold U ''enum'' ''BIT'' = False"
  "EqualFold U ''set'' ''VECTOR'' = False" "EqualFold U ''set'' ''BIT'' = False"
  "ToUpper U ''longtext'' = ''LONGTEXT''" "EqualFold U ''longtext'' ''VECTOR'' = False"
  "EqualFold U ''longtext'' ''BIT'' = False"
  by code_simp+

lemma column_type_simple:
  assumes "data \<in> {''enum'', ''set''}"
  shows "column_type_of U json (sample_column name data decl) =
    \<lparr>Name = name, DatabaseTypeName = (if name \<in> set json then ''JSON'' else data), Nullable = True,
     Length = None, Precision = None, Scale = None\<rparr>"
  using assms
  by (elim insertE emptyE)
    (simp_all add: column_type_of_def sample_column_def enum_names integer_types_def Let_def)

lemma ConvertRaw_enum:
  "data \<in> {''enum'', ''set''} \<Longrightarrow> ConvertRawColumnType U L
     \<lparr>Name = name, DatabaseTypeName = data, Nullable = True, Length = None, Precision = None,
      Scale = None\<rparr> =
   Inr (StringT, True, (literal_meta \<lparr>Name = name, DatabaseTypeName = data, Nullable = True,
     Length = None, Precision = None, Scale = None\<rparr>)(''mariadb.is_enum_set'' \<mapsto> ''true''))"
  by (elim insertE emptyE)
    (simp_all add: ConvertRawColumnType_def enum_names normalize_id HasPrefix_def length_meta_def
      spatial_types_def Let_def)

lemma column_type_vector:
  assumes "0 < n" "n < 2 ^ 31"
  shows "column_type_of U [] (sample_column name ''vector'' (dim_text ''vector'' n)) =
    \<lparr>Name = name, DatabaseTypeName = ''vector'', Nullable = True, Length = Some (n * 4),
     Precision = None, Scale = None\<rparr>"
proof -
  have "int64_ok n" "int64_ok (n * 4)" using assms by (simp_all add: fits_signed_def)
  moreover have "is_ascii ''vector''" "is_ascii ''VECTOR''" "\<not> ascii_space CHR ''v''"
    "map ascii_lower ''vector'' = map ascii_lower ''VECTOR''"
    by code_simp+
  ultimately have "parseTypeDimension U (dim_text ''vector'' n) ''VECTOR'' = (n, True)"
    using assms(1) by (intro parseTypeDimension_text) simp_all
  moreover have "wrap64 (n * 4) = n * 4" using \<open>int64_ok (n * 4)\<close> by simp
  ultimately show ?thesis
    by (simp add: column_type_of_def sample_column_def enum_names integer_types_def Let_def
        split: prod.splits)
qed

lemma ConvertRaw_vector:
  assumes "0 < n" "n < 2 ^ 31"
  shows "\<exists>md. ConvertRawColumnType U L
     \<lparr>Name = name, DatabaseTypeName = ''vector'', Nullable = True, Length = Some (n * 4),
      Precision = None, Scale = None\<rparr> = Inr (FixedSizeListT n Float32T, True, md)"
proof -
  have "0 < n * 4" "n * 4 < 2 ^ 33" "n * 4 mod 4 = 0" using assms by simp_all
  note v = vector_dim [OF this]
  then show ?thesis
    using assms(1)
    by (simp add: ConvertRawColumnType_def enum_names normalize_id HasPrefix_def convert_vector_def
        Let_def)
qed

text \<open>The clause MariaDB keeps for a JSON column.\<close>

definition json_check :: "string \<Rightarrow> string" where
  "json_check name = ''json_valid('' @ quoteIdentifier name @ '')''"

lemma Contains_self: "Contains (a @ s @ b) s"
proof -
  have p: "HasPrefix (s @ b) s" for s b by (simp add: HasPrefix_def)
  have "Index (a @ s @ b) s \<noteq> None" for s b
  proof (induction a)
    case Nil
    show ?case using p [of s b] by (cases "s @ b") auto
  next
    case (Cons c a)
    then show ?case by (auto split: option.splits)
  qed
  then show ?thesis by (simp add: Contains_def)
qed

text \<open>A server with one table, which has one ENUM column.\<close>

definition schema_server :: server where
  "schema_server = quiet_server\<lparr>on_query := (\<lambda>h q args.
     if q = table_schema_query
     then Inr \<lparr>r_rows = [[Some ''1'', Some ''e'', Some ''enum'', Some (decl_text ''enum'' [''x'']), Some ''YES'',
            None, None, None, None, None, None]], r_err = None, r_close = None\<rparr>
     else Inr \<lparr>r_rows = [], r_err = None, r_close = None\<rparr>)\<rparr>"

lemma schema_server_ok:
  "\<not> isl (fst (GetTableSchema sample_unicode sample_lib schema_server (Some ''db'') None ''t'' new_connection))"
  by code_simp

lemma lower_json_check:
  assumes "is_ascii name" "map ascii_lower name = name"
  shows "ToLower U (json_check name) = json_check name"
    "ToLower U (ReplaceAll name btick [btick, btick]) = ReplaceAll name btick [btick, btick]"
proof -
  have n: "ascii_lower c = c" "byte c < 128" if "c \<in> set name" for c
    using that assms by (auto simp: map_eq_conv [of _ _ id, simplified] is_ascii_def list_all_iff)
  have b: "byte btick < 128" "ascii_lower btick = btick" by code_simp+
  then have r: "c \<in> set (ReplaceAll name btick [btick, btick]) \<Longrightarrow> byte c < 128 \<and> ascii_lower c = c" for c
    using n by (auto simp: ReplaceAll_def split: if_splits)
  then show "ToLower U (ReplaceAll name btick [btick, btick]) = ReplaceAll name btick [btick, btick]"
    by (auto simp: ToLower_def is_ascii_def list_all_iff intro!: map_idI)
  have f: "list_all (\<lambda>c. byte c < 128 \<and> ascii_lower c = c) ''json_valid()`''" by code_simp
  have "c \<in> set (json_check name) \<Longrightarrow> byte c < 128 \<and> ascii_lower c = c" for c
    using f r b by (auto simp: json_check_def quoteIdentifier_def list_all_iff)
  then show "ToLower U (json_check name) = json_check name"
    by (auto simp: ToLower_def is_ascii_def list_all_iff intro!: map_idI)
qed

section \<open>Properties\<close>

text \<open>
  C37 (functional). A successful GetTableSchema for a named catalog clears pending results, sends
  exactly the column query and the check-constraint query with catalog and table as arguments, and
  returns one field for each column the server listed (at least one), in order and under the same
  name, each with the declaration of its column in the metadata.
\<close>
theorem GetTableSchema_fields:
  assumes "GetTableSchema U L S (Some cat) sch tbl c = (Inr fs, c1)" "cat \<noteq> []"
  shows "trace c1 = trace c @ [EvClear, EvQuery table_schema_query [cat, tbl],
      EvQuery check_query [cat, tbl]] \<and>
    (\<exists>cols. read_ok S c cat tbl cols \<and> cols \<noteq> [] \<and> map fName fs = map tc_ColumnName cols \<and>
      list_all2 (\<lambda>f col. fMetadata f metaKeyMariaDBColumnType = Some (tc_ColumnType col)) fs cols)"
proof -
  from GetTableSchema_result [OF assms] obtain cols json where
    "read_ok S c cat tbl cols" "column_fields U L json cols = Inr fs" "cols \<noteq> []"
    "trace c1 = trace c @ [EvClear, EvQuery table_schema_query [cat, tbl], EvQuery check_query [cat, tbl]]" .
  with column_fields_names show ?thesis by blast
qed

theorem GetTableSchema_fields_witness:
  "\<exists>fs. fst (GetTableSchema sample_unicode sample_lib schema_server (Some ''db'') None ''t'' new_connection) =
      Inr fs \<and> map fName fs = [''e'']"
proof -
  obtain r c1 where r: "GetTableSchema sample_unicode sample_lib schema_server (Some ''db'') None ''t''
      new_connection = (r, c1)" by fastforce
  have rc: "read_columns ''t'' \<lparr>r_rows = [[Some ''1'', Some ''e'', Some ''enum'',
      Some (decl_text ''enum'' [''x'']), Some ''YES'', None, None, None, None, None, None]],
      r_err = None, r_close = None\<rparr> = Inr [sample_column ''e'' ''enum'' (decl_text ''enum'' [''x''])]"
    by code_simp
  have "\<exists>fs. r = Inr fs"
    using schema_server_ok r by (cases r) simp_all
  then obtain fs where fs: "r = Inr fs" ..
  from GetTableSchema_fields [OF r [unfolded fs]] obtain cols where
    "read_ok schema_server new_connection ''db'' ''t'' cols" "map fName fs = map tc_ColumnName cols"
    by auto
  with rc have "map fName fs = [''e'']"
    by (auto simp: read_ok_def schema_server_def sample_column_def)
  with r fs show ?thesis by simp
qed



text \<open>
  A column declared \<open>vector(n)\<close>, for every n below 2^31, becomes a fixed-size list
  of n 32-bit floats.
\<close>
theorem vector_column_field:
  assumes "0 < n" "n < 2 ^ 31"
  shows "\<exists>f. column_field U L [] (sample_column name ''vector'' (dim_text ''vector'' n)) = Inr f \<and>
    fType f = FixedSizeListT n Float32T"
  using ConvertRaw_vector [OF assms, of U L name]
  unfolding column_field_def column_type_vector [OF assms]
  by (auto simp: enum_meta_def enum_names sample_column_def opt_meta_def)

theorem vector_column_field_witness:
  "\<exists>f. column_field sample_unicode sample_lib [] (sample_column ''v'' ''vector'' ''vector(768)'') = Inr f \<and>
    fType f = FixedSizeListT 768 Float32T"
proof -
  have "dim_text ''vector'' 768 = ''vector(768)''" by code_simp
  with vector_column_field [of 768 sample_unicode sample_lib "''v''"] show ?thesis by simp
qed



end
