(* ===== verification/Constraint_Props.thy ===== *)
theory Constraint_Props
  imports Objects_Props
begin

text \<open>
  The constraints of \<open>addTableConstraints\<close>: reading and writing through positions of the tree, and
  the theorem that every table ends up with exactly its own constraints.
\<close>

section \<open>Positions\<close>

fun valid_path :: "GetObjectsInfo list \<Rightarrow> path \<Rightarrow> bool" where
  "valid_path is (i, j, k) \<longleftrightarrow> i < length is \<and> j < length (schemas_of (is ! i)) \<and>
     k < length (tables_of (schemas_of (is ! i) ! j))"

fun key_at :: "GetObjectsInfo list \<Rightarrow> path \<Rightarrow> string option" where
  "key_at is (i, j, k) =
     map_option (\<lambda>cat. table_key cat (TableName (get_table is (i, j, k)))) (CatalogName (is ! i))"

lemma schemas_upd [simp]:
  "schemas_of (upd_schemas j f info) =
     (if j < length (schemas_of info) then (schemas_of info)[j := f (schemas_of info ! j)]
      else schemas_of info)"
  "CatalogName (upd_schemas j f info) = CatalogName info"
  by (auto simp: schemas_of_def upd_schemas_def list_of_def list_update_beyond split: option.splits)

lemma tables_upd [simp]:
  "tables_of (upd_tables k f s) =
     (if k < length (tables_of s) then (tables_of s)[k := f (tables_of s ! k)] else tables_of s)"
  by (auto simp: tables_of_def upd_tables_def list_of_def list_update_beyond split: option.splits)

lemma get_upd_table:
  "valid_path is p \<Longrightarrow> get_table (upd_table is p f) q =
     (if q = p then f (get_table is p) else get_table is q)" if "valid_path is q" for q
  using that by (cases p; cases q) (auto simp: nth_list_update)

lemma valid_upd_table: "valid_path is p \<Longrightarrow> valid_path (upd_table is p f) q \<longleftrightarrow> valid_path is q"
  by (cases p; cases q) (auto simp: nth_list_update)

lemma schemas_swap:
  "upd_schemas j (upd_tables k g) (upd_schemas j (upd_tables k f) info) =
     upd_schemas j (upd_tables k (g \<circ> f)) info"
  if "j < length (schemas_of info)" "k < length (tables_of (schemas_of info ! j))"
  using that
  by (auto simp: upd_schemas_def upd_tables_def schemas_of_def tables_of_def list_of_def
      split: option.splits)

lemma upd_upd_table:
  "valid_path is p \<Longrightarrow> upd_table (upd_table is p f) p g = upd_table is p (g \<circ> f)"
  by (cases p) (simp add: schemas_swap)

lemma table_paths_valid:
  "(key, p) \<in> set (table_paths is) \<Longrightarrow> valid_path is p \<and> key_at is p = Some key"
  by (cases p) (auto simp: table_paths_def in_set_enumerate_eq eq_commute [of "Some _" "CatalogName _"]
      split: option.splits)

lemma table_map_valid: "table_map is key = Some p \<Longrightarrow> valid_path is p \<and> key_at is p = Some key"
  using table_paths_valid map_of_SomeD by (fastforce simp: table_map_def)

section \<open>Constraints of one table\<close>

definition set_cons :: "GetObjectsInfo list \<Rightarrow> path \<Rightarrow> ConstraintInfo list \<Rightarrow> GetObjectsInfo list" where
  "set_cons is p ks = upd_table is p (\<lambda>t. t\<lparr>TableConstraints := ks\<rparr>)"

lemma set_cons_get:
  "valid_path is p \<Longrightarrow> TableConstraints (get_table (set_cons is p ks) p) = ks"
  by (simp add: set_cons_def get_upd_table)

record con_spec =
  k_name :: string
  k_type :: string
  k_columns :: "(string \<times> (string option \<times> string \<times> string) option) list"

definition usage_of :: "(string option \<times> string \<times> string) option \<Rightarrow> ConstraintColumnUsage list" where
  "usage_of f = (case f of None \<Rightarrow> []
     | Some (fcat, ft, fc) \<Rightarrow> [\<lparr>ForeignKeyCatalog = fcat, ForeignKeyDbSchema = Some [],
         ForeignKeyTable = ft, ForeignKeyColumn = fc\<rparr>])"

definition con_of :: "con_spec \<Rightarrow> ConstraintInfo" where
  "con_of k = \<lparr>ConstraintName = Some (k_name k), ConstraintType = k_type k,
     ConstraintColumnNames = map fst (k_columns k),
     ConstraintColumnUsages = concat (map (usage_of \<circ> snd) (k_columns k))\<rparr>"

text \<open>The rows of a constraint: one per column, or a single one without columns (CHECK).\<close>

definition con_base :: "string \<Rightarrow> string \<Rightarrow> con_spec \<Rightarrow> con_row" where
  "con_base cat tbl k = \<lparr>cr_catalog = cat, cr_table = tbl, cr_name = k_name k, cr_type = k_type k,
     cr_column = None, cr_fcatalog = None, cr_ftable = None, cr_fcolumn = None\<rparr>"

fun con_col_row :: "con_row \<Rightarrow> string \<times> (string option \<times> string \<times> string) option \<Rightarrow> con_row" where
  "con_col_row b (col, None) = b\<lparr>cr_column := Some col\<rparr>"
| "con_col_row b (col, Some (fcat, ft, fc)) =
     b\<lparr>cr_column := Some col, cr_fcatalog := fcat, cr_ftable := Some ft, cr_fcolumn := Some fc\<rparr>"

definition spec_rows :: "string \<Rightarrow> string \<Rightarrow> con_spec \<Rightarrow> con_row list" where
  "spec_rows cat tbl k =
     (if k_columns k = [] then [con_base cat tbl k]
      else map (con_col_row (con_base cat tbl k)) (k_columns k))"

definition at_table :: "GetObjectsInfo list \<Rightarrow> path \<Rightarrow> string \<Rightarrow> ConstraintInfo list \<Rightarrow> nat option \<Rightarrow> string \<Rightarrow> con_state" where
  "at_table is p key ks c nm = \<lparr>con_infos = set_cons is p ks, con_table = Some p, con_constraint = c,
     con_key = key, con_name = nm\<rparr>"

lemma con_step_fresh:
  assumes "valid_path is p" "key = table_key (cr_catalog r) (cr_table r)" "c = None \<or> nm \<noteq> cr_name r"
  shows "con_row_step tables r (at_table is p key ks c nm) =
    at_table is p key (ks @ [add_constraint_column r (new_constraint r)]) (Some (length ks)) (cr_name r)"
  using assms upd_upd_table [of "is" p] set_cons_get [of "is" p ks, unfolded set_cons_def]
  by (auto simp: con_row_step_def con_switch_def at_table_def Let_def
      add_constraint_row_def set_cons_def comp_def)

lemma con_step_same:
  assumes "valid_path is p" "key = table_key (cr_catalog r) (cr_table r)" "nm = cr_name r"
  shows "con_row_step tables r (at_table is p key (ks @ [k]) (Some (length ks)) nm) =
    at_table is p key (ks @ [add_constraint_column r k]) (Some (length ks)) nm"
  using assms upd_upd_table [of "is" p]
  by (auto simp: con_row_step_def con_switch_def at_table_def Let_def
      add_constraint_row_def set_cons_def comp_def)

definition con_list :: "(string \<rightharpoonup> path) \<Rightarrow> con_row list \<Rightarrow> con_state \<Rightarrow> con_state" where
  "con_list tables rs st = fold (con_row_step tables) rs st"

lemma con_col_row_simps [simp]:
  "cr_catalog (con_col_row b x) = cr_catalog b" "cr_table (con_col_row b x) = cr_table b"
  "cr_name (con_col_row b x) = cr_name b" "cr_type (con_col_row b x) = cr_type b"
  by (induction b x rule: con_col_row.induct; simp)+

lemma add_col:
  assumes "cr_ftable b = None" "cr_fcolumn b = None" "cr_fcatalog b = None"
  shows "add_constraint_column (con_col_row b x) k =
    k\<lparr>ConstraintColumnNames := ConstraintColumnNames k @ [fst x],
      ConstraintColumnUsages := ConstraintColumnUsages k @ usage_of (snd x)\<rparr>"
  using assms
  by (induction b x rule: con_col_row.induct)
    (simp_all add: add_constraint_column_def usage_of_def)

lemma con_list_columns:
  assumes "valid_path is p" "b = con_base cat tbl kk"
  shows "con_list tables (map (con_col_row b) cols)
      (at_table is p (table_key cat tbl) (ks @ [k]) (Some (length ks)) (k_name kk)) =
    at_table is p (table_key cat tbl)
      (ks @ [k\<lparr>ConstraintColumnNames := ConstraintColumnNames k @ map fst cols,
         ConstraintColumnUsages := ConstraintColumnUsages k @ concat (map (usage_of \<circ> snd) cols)\<rparr>])
      (Some (length ks)) (k_name kk)"
proof (induction cols arbitrary: k)
  case (Cons x cols)
  have b: "cr_catalog b = cat" "cr_table b = tbl" "cr_name b = k_name kk" "cr_ftable b = None"
    "cr_fcolumn b = None" "cr_fcatalog b = None"
    using assms(2) by (simp_all add: con_base_def)
  have "con_row_step tables (con_col_row b x)
      (at_table is p (table_key cat tbl) (ks @ [k]) (Some (length ks)) (k_name kk)) =
    at_table is p (table_key cat tbl) (ks @ [add_constraint_column (con_col_row b x) k])
      (Some (length ks)) (k_name kk)"
    by (rule con_step_same [OF assms(1)]) (simp_all add: b)
  then show ?case using Cons [of "add_constraint_column (con_col_row b x) k"]
    by (simp add: con_list_def add_col [OF b(4-6)])
qed (simp add: con_list_def)

lemma con_list_constraint:
  assumes "valid_path is p" "c = None \<or> nm \<noteq> k_name kk"
  shows "con_list tables (spec_rows cat tbl kk) (at_table is p (table_key cat tbl) ks c nm) =
    at_table is p (table_key cat tbl) (ks @ [con_of kk]) (Some (length ks)) (k_name kk)"
proof (cases "k_columns kk")
  case Nil
  have "con_row_step tables (con_base cat tbl kk) (at_table is p (table_key cat tbl) ks c nm) =
    at_table is p (table_key cat tbl)
      (ks @ [add_constraint_column (con_base cat tbl kk) (new_constraint (con_base cat tbl kk))])
      (Some (length ks)) (cr_name (con_base cat tbl kk))"
    by (rule con_step_fresh [OF assms(1)]) (use assms(2) in \<open>simp_all add: con_base_def\<close>)
  then show ?thesis
    using Nil by (simp add: spec_rows_def con_list_def con_of_def con_base_def new_constraint_def
        add_constraint_column_def)
next
  case (Cons x cols)
  define b where "b = con_base cat tbl kk"
  define k where "k = add_constraint_column (con_col_row b x) (new_constraint (con_col_row b x))"
  have "con_row_step tables (con_col_row b x) (at_table is p (table_key cat tbl) ks c nm) =
    at_table is p (table_key cat tbl) (ks @ [k]) (Some (length ks)) (cr_name (con_col_row b x))"
    unfolding k_def by (rule con_step_fresh [OF assms(1)])
      (use assms(2) in \<open>simp_all add: b_def con_base_def\<close>)
  moreover have "con_of kk = k\<lparr>ConstraintColumnNames := ConstraintColumnNames k @ map fst cols,
         ConstraintColumnUsages := ConstraintColumnUsages k @ concat (map (usage_of \<circ> snd) cols)\<rparr>"
    using Cons by (simp add: k_def con_of_def add_col b_def con_base_def new_constraint_def)
  ultimately show ?thesis
    using Cons con_list_columns [OF assms(1) b_def, of tables cols ks k]
    by (simp add: spec_rows_def con_list_def b_def [symmetric]) (simp add: b_def con_base_def)
qed

lemma con_list_append: "con_list tables (as @ bs) st = con_list tables bs (con_list tables as st)"
  by (simp add: con_list_def)

lemma con_list_constraints:
  assumes "valid_path is p" "distinct (map k_name kks)" "c = None \<or> nm \<notin> k_name ` set kks"
  shows "\<exists>c' nm'. con_list tables (concat (map (spec_rows cat tbl) kks))
      (at_table is p (table_key cat tbl) ks c nm) =
    at_table is p (table_key cat tbl) (ks @ map con_of kks) c' nm'"
  using assms(2,3)
proof (induction kks arbitrary: ks c nm)
  case Nil
  then show ?case by (auto simp: con_list_def)
next
  case (Cons kk kks)
  have "con_list tables (spec_rows cat tbl kk) (at_table is p (table_key cat tbl) ks c nm) =
    at_table is p (table_key cat tbl) (ks @ [con_of kk]) (Some (length ks)) (k_name kk)"
    by (rule con_list_constraint [OF assms(1)]) (use Cons.prems in auto)
  with Cons.IH [of "Some (length ks)" "k_name kk" "ks @ [con_of kk]"] Cons.prems show ?case
    by (simp add: con_list_append)
qed

section \<open>Constraints of all tables\<close>

record table_cons =
  tc_catalog :: string
  tc_table :: string
  tc_cons :: "con_spec list"

definition tc_key :: "table_cons \<Rightarrow> string" where
  "tc_key tc = table_key (tc_catalog tc) (tc_table tc)"

definition tc_rows :: "table_cons \<Rightarrow> con_row list" where
  "tc_rows tc = concat (map (spec_rows (tc_catalog tc) (tc_table tc)) (tc_cons tc))"

text \<open>What one table's rows add to the tree.\<close>

definition add_cons :: "(string \<rightharpoonup> path) \<Rightarrow> table_cons \<Rightarrow> GetObjectsInfo list \<Rightarrow> GetObjectsInfo list" where
  "add_cons tables tc is =
     (case tables (tc_key tc) of
        None \<Rightarrow> is
      | Some p \<Rightarrow> set_cons is p (TableConstraints (get_table is p) @ map con_of (tc_cons tc)))"

lemma set_cons_self: "valid_path is p \<Longrightarrow> set_cons is p (TableConstraints (get_table is p)) = is"
proof -
  assume v: "valid_path is p"
  obtain i j k where p: "p = (i, j, k)" by (cases p)
  obtain ss where ss: "CatalogDbSchemas (is ! i) = Some ss" "j < length ss"
    using v p by (auto simp: schemas_of_def list_of_def split: option.splits)
  obtain ts where ts: "DbSchemaTables (ss ! j) = Some ts" "k < length ts"
    using v p ss by (auto simp: schemas_of_def tables_of_def list_of_def split: option.splits)
  have t: "get_table is p = ts ! k" using p ss ts by (simp add: schemas_of_def tables_of_def list_of_def)
  have "upd_tables k (\<lambda>t. t\<lparr>TableConstraints := TableConstraints (ts ! k)\<rparr>) (ss ! j) = ss ! j"
    using ts by (simp add: upd_tables_def)
  then have "upd_schemas j (upd_tables k (\<lambda>t. t\<lparr>TableConstraints := TableConstraints (ts ! k)\<rparr>)) (is ! i) =
      is ! i"
    using ss by (simp add: upd_schemas_def)
  then show ?thesis using t p by (simp add: set_cons_def)
qed

lemma row_keys: "r \<in> set (tc_rows tc) \<Longrightarrow> table_key (cr_catalog r) (cr_table r) = tc_key tc"
  by (auto simp: tc_rows_def spec_rows_def con_base_def tc_key_def split: if_splits)

lemma con_list_unknown:
  assumes "\<forall>r \<in> set rs. table_key (cr_catalog r) (cr_table r) = key" "con_table st = None" "con_key st = key"
  shows "con_list tables rs st = st"
  using assms
  by (induction rs) (auto simp: con_list_def con_row_step_def con_switch_def Let_def)

lemma con_list_switch:
  assumes "rs \<noteq> []" "\<forall>r \<in> set rs. table_key (cr_catalog r) (cr_table r) = key" "con_key st \<noteq> key"
  shows "con_list tables rs st = con_list tables rs
    (st\<lparr>con_table := tables key, con_constraint := None, con_key := key, con_name := []\<rparr>)"
proof (cases rs)
  case (Cons r rs')
  then have "con_switch tables r st =
      st\<lparr>con_table := tables key, con_constraint := None, con_key := key, con_name := []\<rparr>"
    using assms by (auto simp: con_switch_def Let_def)
  moreover have "con_switch tables r (st\<lparr>con_table := tables key, con_constraint := None,
      con_key := key, con_name := []\<rparr>) =
      st\<lparr>con_table := tables key, con_constraint := None, con_key := key, con_name := []\<rparr>"
    using assms(2) Cons by (simp add: con_switch_def)
  ultimately show ?thesis using Cons by (simp add: con_list_def con_row_step_def)
qed (use assms in simp)

lemma con_list_table:
  assumes "\<And>key p. tables key = Some p \<Longrightarrow> valid_path (con_infos st) p"
    and "distinct (map k_name (tc_cons tc))" "con_key st \<noteq> tc_key tc" "tc_cons tc \<noteq> []"
  shows "con_infos (con_list tables (tc_rows tc) st) = add_cons tables tc (con_infos st) \<and>
    con_key (con_list tables (tc_rows tc) st) = tc_key tc"
proof -
  define st1 where "st1 = st\<lparr>con_table := tables (tc_key tc), con_constraint := None,
    con_key := tc_key tc, con_name := []\<rparr>"
  have "tc_rows tc \<noteq> []" using assms(4) by (cases "tc_cons tc") (auto simp: tc_rows_def spec_rows_def)
  then have sw: "con_list tables (tc_rows tc) st = con_list tables (tc_rows tc) st1"
    unfolding st1_def using row_keys assms(3) by (intro con_list_switch) auto
  show ?thesis
  proof (cases "tables (tc_key tc)")
    case None
    then have "con_list tables (tc_rows tc) st1 = st1"
      using row_keys by (intro con_list_unknown) (auto simp: st1_def)
    then show ?thesis using None sw by (simp add: add_cons_def st1_def)
  next
    case (Some p)
    then have v: "valid_path (con_infos st) p" using assms(1) by blast
    have st1: "st1 = at_table (con_infos st) p (table_key (tc_catalog tc) (tc_table tc))
        (TableConstraints (get_table (con_infos st) p)) None []"
      using Some by (simp add: st1_def at_table_def set_cons_self [OF v] tc_key_def)
    obtain c' nm' where "con_list tables (tc_rows tc) st1 =
        at_table (con_infos st) p (table_key (tc_catalog tc) (tc_table tc))
          (TableConstraints (get_table (con_infos st) p) @ map con_of (tc_cons tc)) c' nm'"
      using con_list_constraints [OF v assms(2), of None "[]" tables "tc_catalog tc" "tc_table tc"
          "TableConstraints (get_table (con_infos st) p)"]
      unfolding st1 tc_rows_def by blast
    then show ?thesis using Some by (simp add: sw at_table_def add_cons_def tc_key_def)
  qed
qed

lemma valid_add_cons:
  "(\<And>key p. tables key = Some p \<Longrightarrow> valid_path is p) \<Longrightarrow> valid_path (add_cons tables tc is) q = valid_path is q"
  by (auto simp: add_cons_def set_cons_def valid_upd_table split: option.splits)

lemma con_list_tables:
  assumes "\<And>key p. tables key = Some p \<Longrightarrow> valid_path (con_infos st) p"
    and "list_all (\<lambda>tc. distinct (map k_name (tc_cons tc)) \<and> tc_cons tc \<noteq> []) tcs"
    and "distinct (map tc_key tcs)" "con_key st \<notin> tc_key ` set tcs"
  shows "con_infos (con_list tables (concat (map tc_rows tcs)) st) = fold (add_cons tables) tcs (con_infos st)"
  using assms
proof (induction tcs arbitrary: st)
  case (Cons tc tcs)
  define st' where "st' = con_list tables (tc_rows tc) st"
  have st': "con_infos st' = add_cons tables tc (con_infos st)" "con_key st' = tc_key tc"
    unfolding st'_def using con_list_table [OF Cons.prems(1), where tc = tc] Cons.prems by auto
  have "con_infos (con_list tables (concat (map tc_rows tcs)) st') =
      fold (add_cons tables) tcs (con_infos st')"
    using Cons.prems st' by (intro Cons.IH) (auto simp: valid_add_cons [OF Cons.prems(1)])
  then show ?case by (simp add: con_list_append st'_def [symmetric] st')
qed (simp add: con_list_def)

text \<open>Each table receives the constraints of its own key and nothing else.\<close>

lemma fold_add_cons:
  assumes "\<And>key p. tables key = Some p \<Longrightarrow> valid_path is p" "inj_on tables (dom tables)"
    and "distinct (map tc_key tcs)" "tables key = Some p"
  shows "get_table (fold (add_cons tables) tcs is) p = (get_table is p)
    \<lparr>TableConstraints := TableConstraints (get_table is p) @
       (case find (\<lambda>tc. tc_key tc = key) tcs of None \<Rightarrow> [] | Some tc \<Rightarrow> map con_of (tc_cons tc))\<rparr>"
  using assms(1,3)
proof (induction tcs arbitrary: "is")
  case (Cons tc tcs)
  have ih: "get_table (fold (add_cons tables) tcs (add_cons tables tc is)) p =
      (get_table (add_cons tables tc is) p)
      \<lparr>TableConstraints := TableConstraints (get_table (add_cons tables tc is) p) @
       (case find (\<lambda>tc. tc_key tc = key) tcs of None \<Rightarrow> [] | Some tc \<Rightarrow> map con_of (tc_cons tc))\<rparr>"
    using Cons.prems by (intro Cons.IH) (auto simp: valid_add_cons [OF Cons.prems(1)])
  have v: "valid_path is p" using Cons.prems(1) assms(4) by blast
  show ?case
  proof (cases "tc_key tc = key")
    case True
    then have "find (\<lambda>tc. tc_key tc = key) tcs = None"
      using Cons.prems(2) by (auto simp: find_None_iff image_iff)
    moreover have "get_table (add_cons tables tc is) p =
        (get_table is p)\<lparr>TableConstraints := TableConstraints (get_table is p) @ map con_of (tc_cons tc)\<rparr>"
      using True v assms(4) by (simp add: add_cons_def set_cons_def get_upd_table)
    ultimately show ?thesis using True ih by simp
  next
    case False
    have "get_table (add_cons tables tc is) p = get_table is p"
    proof (cases "tables (tc_key tc)")
      case None
      then show ?thesis by (simp add: add_cons_def)
    next
      case (Some q)
      then have "q \<noteq> p" using False assms(2,4) inj_onD [of tables "dom tables" "tc_key tc" key] by auto
      then show ?thesis
        using Some v Cons.prems(1) [OF Some] by (simp add: add_cons_def set_cons_def get_upd_table)
    qed
    with False ih show ?thesis by simp
  qed
qed simp

lemma table_map_inj: "inj_on (table_map is) (dom (table_map is))"
  by (rule inj_onI) (metis domD option.inject table_map_valid)

section \<open>From cells\<close>

definition con_cells :: "con_row \<Rightarrow> cell list" where
  "con_cells r = [Some (cr_catalog r), Some (cr_table r), Some (cr_name r), Some (cr_type r), None,
     cr_column r, cr_fcatalog r, cr_ftable r, cr_fcolumn r]"

lemma scan_con_cells: "scan_con_row (con_cells r) = Inr r"
  by (cases r) (simp add: con_cells_def scan_con_row_def scan_string_def scan_NullInt_def)

lemma con_rows_list: "con_rows tables (map con_cells rs) st = (None, con_list tables rs st)"
  by (induction rs arbitrary: st) (simp_all add: con_list_def scan_con_cells)

definition cons_fit :: "table_cons list \<Rightarrow> bool" where
  "cons_fit tcs \<longleftrightarrow> distinct (map tc_key tcs) \<and>
     list_all (\<lambda>tc. distinct (map k_name (tc_cons tc)) \<and> tc_cons tc \<noteq> []) tcs"

lemma con_key_nonempty: "[] \<notin> tc_key ` set tcs"
  by (auto simp: tc_key_def table_key_def)

definition sample_constraints :: "table_cons list" where
  "sample_constraints =
     [\<lparr>tc_catalog = ''a'', tc_table = ''t'', tc_cons =
        [\<lparr>k_name = ''PRIMARY'', k_type = ''PRIMARY KEY'', k_columns = [(''x'', None), (''y'', None)]\<rparr>,
         \<lparr>k_name = ''fk'', k_type = ''FOREIGN KEY'', k_columns = [(''y'', Some (Some ''b'', ''u'', ''z''))]\<rparr>]\<rparr>]"

section \<open>Properties\<close>



end
