(* ===== verification/Bulk_Ingest.thy ===== *)
theory Bulk_Ingest
  imports Connection_Props Type_Convert
begin

text \<open>
  Bulk ingestion (\<open>connection.go\<close> lines 417 to 527): validation of the request, creation or
  replacement of the target table, and the batch size handed to the batched INSERT loop of the
  \<open>sqlwrapper\<close> library, which is a parameter.
\<close>

section \<open>The request\<close>

definition MariaDBDefaultIngestBatchSize :: int where "MariaDBDefaultIngestBatchSize = 1000"
definition MariaDBMaxPlaceholders :: int where "MariaDBMaxPlaceholders = 65535"

definition OptionValueIngestModeCreate :: string where
  "OptionValueIngestModeCreate = ''adbc.ingest.mode.create''"
definition OptionValueIngestModeAppend :: string where
  "OptionValueIngestModeAppend = ''adbc.ingest.mode.append''"
definition OptionValueIngestModeReplace :: string where
  "OptionValueIngestModeReplace = ''adbc.ingest.mode.replace''"
definition OptionValueIngestModeCreateAppend :: string where
  "OptionValueIngestModeCreateAppend = ''adbc.ingest.mode.create_append''"

lemmas mode_defs = OptionValueIngestModeCreate_def OptionValueIngestModeAppend_def
  OptionValueIngestModeReplace_def OptionValueIngestModeCreateAppend_def

record BulkIngestOptions =
  TableName :: string
  Mode :: string
  Temporary :: bool
  IngestBatchSize :: int
  MaxQuerySizeBytes :: int

section \<open>Data definition statements\<close>

text \<open>The loop over the fields; a panic of \<open>arrowToMariaDBType\<close> ends it.\<close>

fun column_defs :: "field list \<Rightarrow> nat \<Rightarrow> string \<Rightarrow> go_error + string" where
  "column_defs [] i query = Inr query"
| "column_defs (f # fs) i query =
     (let query1 = (if i > 0 then query @ '', '' else query);
          query2 = query1 @ quoteIdentifier (fName f) @ '' ''
      in case arrowToMariaDBType (fType f) (fNullable f) of
           Inl e \<Rightarrow> Inl e
         | Inr mariadbType \<Rightarrow> column_defs fs (i + 1) (query2 @ mariadbType))"

definition createTable_sql :: "string \<Rightarrow> field list \<Rightarrow> bool \<Rightarrow> bool \<Rightarrow> go_error + string" where
  "createTable_sql tableName schema ifNotExists temporary =
     (case column_defs schema 0
             ((if temporary then ''CREATE TEMPORARY TABLE '' else ''CREATE TABLE '') @
              (if ifNotExists then ''IF NOT EXISTS '' else []) @
              quoteIdentifier tableName @ '' ('') of
        Inl e \<Rightarrow> Inl e | Inr query \<Rightarrow> Inr (query @ '')''))"

definition createTable :: "server \<Rightarrow> string \<Rightarrow> field list \<Rightarrow> bool \<Rightarrow> bool \<Rightarrow> unit op" where
  "createTable S tableName schema ifNotExists temporary =
     bindE (liftE (createTable_sql tableName schema ifNotExists temporary)) (ExecContext S)"

definition dropTable_sql :: "string \<Rightarrow> bool \<Rightarrow> string" where
  "dropTable_sql tableName temporary =
     ''DROP '' @ (if temporary then ''TEMPORARY TABLE'' else ''TABLE'') @ '' IF EXISTS '' @
     quoteIdentifier tableName"

definition dropTable :: "server \<Rightarrow> string \<Rightarrow> bool \<Rightarrow> unit op" where
  "dropTable S tableName temporary = ExecContext S (dropTable_sql tableName temporary)"

definition createTableIfNeeded :: "server \<Rightarrow> string \<Rightarrow> field list \<Rightarrow> BulkIngestOptions \<Rightarrow> unit op" where
  "createTableIfNeeded S tableName schema options =
     (if Mode options = OptionValueIngestModeCreate
      then createTable S tableName schema False (Temporary options)
      else if Mode options = OptionValueIngestModeCreateAppend
      then createTable S tableName schema True (Temporary options)
      else if Mode options = OptionValueIngestModeReplace
      then bindE (dropTable S tableName (Temporary options)) (\<lambda>_.
             createTable S tableName schema False (Temporary options))
      else if Mode options = OptionValueIngestModeAppend then returnE ()
      else failE (Helper InvalidArgument ''unsupported ingest mode: %s'' [Mode options]))"

section \<open>ExecuteBulkIngest\<close>

text \<open>
  \<open>sqlwrapper.ExecuteBatchedBulkIngest\<close>, with the options and the zero-datetime setting of the
  statement's type converter; its result is the row count and the error.
\<close>

type_synonym batched_ingest =
  "event list \<Rightarrow> BulkIngestOptions \<Rightarrow> zeroDatetimeBehavior \<Rightarrow> int \<times> go_error option"

definition effective_batch_size :: "int \<Rightarrow> int \<Rightarrow> int" where
  "effective_batch_size requested numCols =
     (let maxBatchSize = MariaDBMaxPlaceholders sdiv numCols
      in if requested = 0 then min MariaDBDefaultIngestBatchSize maxBatchSize
         else if requested > maxBatchSize then maxBatchSize else requested)"

text \<open>The option keys of the \<open>driverbase\<close> library that an error message names.\<close>

record driverbase =
  OptionKeyIngestMaxQuerySizeBytes :: string
  OptionKeyIngestBatchSize :: string

text \<open>A panic passes through the wrapping of the error.\<close>

definition wrap_create :: "go_error \<Rightarrow> go_error" where
  "wrap_create e = (case e of Panic m \<Rightarrow> e | _ \<Rightarrow> WrapIO e ''failed to create table'' [])"

definition ExecuteBulkIngest :: "driverbase \<Rightarrow> server \<Rightarrow> batched_ingest \<Rightarrow> zeroDatetimeBehavior \<Rightarrow> BulkIngestOptions \<Rightarrow>
    field list \<Rightarrow> mariadbConnectionImpl \<Rightarrow> (int \<times> go_error option) \<times> mariadbConnectionImpl" where
  "ExecuteBulkIngest D S batched z options schema c =
     (let numCols = int (length schema) in
      if MaxQuerySizeBytes options > 0 then
        ((-1, Some (Helper InvalidArgument
           (''MariaDB driver does not support '' @ [quot1] @ ''%s'' @ [quot1] @ ''. Use '' @ [quot1] @
            ''%s'' @ [quot1] @ '' instead to control the number of rows per INSERT statement.'')
           [OptionKeyIngestMaxQuerySizeBytes D, OptionKeyIngestBatchSize D])), c)
      else if numCols = 0 then
        ((-1, Some (Helper InvalidArgument ''bulk ingest schema must have at least one column'' [])), c)
      else if numCols > MariaDBMaxPlaceholders then
        ((-1, Some (Helper InvalidArgument
           ''bulk ingest schema has %d columns, exceeding the MariaDB placeholder limit of %d''
           [itoa numCols, itoa MariaDBMaxPlaceholders])), c)
      else (case createTableIfNeeded S (TableName options) schema options c of
              (Inl e, c1) \<Rightarrow> ((-1, Some (wrap_create e)), c1)
            | (Inr u, c1) \<Rightarrow>
                (batched (trace c1)
                   (options\<lparr>IngestBatchSize := effective_batch_size (IngestBatchSize options) numCols\<rparr>) z,
                 c1)))"

section \<open>The statements sent\<close>

text \<open>A column definition, and the statement as a whole.\<close>

definition column_def :: "field \<Rightarrow> string \<Rightarrow> string" where
  "column_def f t = quoteIdentifier (fName f) @ '' '' @ t"

definition column_types :: "field list \<Rightarrow> (go_error + string) list" where
  "column_types = map (\<lambda>f. arrowToMariaDBType (fType f) (fNullable f))"

definition create_text :: "string \<Rightarrow> field list \<Rightarrow> string list \<Rightarrow> bool \<Rightarrow> bool \<Rightarrow> string" where
  "create_text tableName schema types ifNotExists temporary =
     ''CREATE '' @ (if temporary then ''TEMPORARY '' else []) @ ''TABLE '' @
     (if ifNotExists then ''IF NOT EXISTS '' else []) @ quoteIdentifier tableName @ '' ('' @
     Join (map (\<lambda>(f, t). column_def f t) (zip schema types)) '', '' @ '')''"

lemma column_defs_text:
  "column_defs schema i q = Inr r \<Longrightarrow> \<exists>types. column_types schema = map Inr types \<and>
     r = q @ (if i > 0 \<and> schema \<noteq> [] then '', '' else []) @
         Join (map (\<lambda>(f, t). column_def f t) (zip schema types)) '', ''"
proof (induction schema arbitrary: i q)
  case Nil
  then show ?case by (intro exI [of _ "[]"]) (simp add: column_types_def)
next
  case (Cons f fs)
  then obtain t where t: "arrowToMariaDBType (fType f) (fNullable f) = Inr t"
    and d: "column_defs fs (i + 1)
        ((if i > 0 then q @ '', '' else q) @ quoteIdentifier (fName f) @ '' '' @ t) = Inr r"
    by (auto simp: Let_def split: sum.splits)
  from Cons.IH [OF d] obtain ts where ts: "column_types fs = map Inr ts"
    "r = ((if i > 0 then q @ '', '' else q) @ quoteIdentifier (fName f) @ '' '' @ t) @
       (if i + 1 > 0 \<and> fs \<noteq> [] then '', '' else []) @
       Join (map (\<lambda>(f, t). column_def f t) (zip fs ts)) '', ''"
    by blast
  moreover from ts(1) have "length fs = length ts" unfolding column_types_def by (metis length_map)
  ultimately show ?case using t
    by (cases fs; cases ts)
      (auto intro!: exI [of _ "t # ts"] simp: column_types_def column_def_def)
qed

lemma column_defs_error:
  "column_defs schema i q = Inl e \<Longrightarrow> \<exists>m. e = Panic m \<and> Inl e \<in> set (column_types schema)"
proof (induction schema arbitrary: i q)
  case (Cons f fs)
  have "arrowToMariaDBType t n = Inl e' \<Longrightarrow> \<exists>m. e' = Panic m" for t n e'
    by (auto simp: arrowToMariaDBType_def arrow_base_type_def timestamp_precision_def
        split: sum.splits arrow_type.splits time_unit.splits)
  with Cons show ?case
    by (fastforce simp: column_types_def Let_def split: sum.splits)
qed simp

lemma createTable_sql_text:
  "createTable_sql t schema ine tmp = Inr q \<Longrightarrow>
   \<exists>types. column_types schema = map Inr types \<and> q = create_text t schema types ine tmp"
  by (auto simp: createTable_sql_def create_text_def split: sum.splits dest!: column_defs_text)

lemma inert_types: "arrowToMariaDBType t n = Inr s \<Longrightarrow> inert s"
  by (auto simp: arrowToMariaDBType_def arrow_base_type_def timestamp_precision_def
      split: sum.splits arrow_type.splits time_unit.splits if_splits)

lemma count_column_defs:
  "list_all inert types \<Longrightarrow>
   countPlaceholders (Join (map (\<lambda>(f, t). column_def f t) (zip schema types)) '', '' @ '')'') = 0"
proof (induction schema arbitrary: types)
  case Nil
  then show ?case using countPlaceholders_inert [of "'')''" "[]"] by simp
next
  case (Cons f fs)
  show ?case
  proof (cases types)
    case Nil
    then show ?thesis using countPlaceholders_inert [of "'')''" "[]"] by simp
  next
    case (Cons t ts)
    define rest where "rest = Join (map (\<lambda>(f, t). column_def f t) (zip fs ts)) '', '' @ '')''"
    have r: "countPlaceholders rest = 0" "countPlaceholders '')'' = 0"
      using Cons.IH [of ts] Cons Cons.prems countPlaceholders_inert [of "'')''" "[]"]
      by (simp_all add: rest_def)
    have t: "inert ('' '' @ t)" "inert ('' '' @ t @ '', '')" using Cons Cons.prems by simp_all
    have "countPlaceholders (column_def f t @ '')'') = 0"
      "countPlaceholders (column_def f t @ '', '' @ rest) = 0"
      using countPlaceholders_inert [OF t(1), of "'')''"] countPlaceholders_inert [OF t(2), of rest] r
        countPlaceholders_quoteIdentifier
      by (simp_all add: column_def_def)
    then show ?thesis
      using Cons by (cases fs; cases ts) (simp_all add: rest_def)
  qed
qed

lemma count_create_text:
  assumes "column_types schema = map Inr types"
  shows "countPlaceholders (create_text t schema types ine tmp) = 0"
proof -
  have "list_all inert types"
  proof (clarsimp simp: list_all_iff)
    fix s assume "s \<in> set types"
    then have "Inr s \<in> set (column_types schema)" using assms by simp
    then show "inert s" by (auto simp: column_types_def dest: inert_types [OF sym])
  qed
  then have "countPlaceholders ('' ('' @
      Join (map (\<lambda>(f, t). column_def f t) (zip schema types)) '', '' @ '')'') = 0"
    using count_column_defs countPlaceholders_inert [of "'' (''"] by simp
  then have "countPlaceholders (quoteIdentifier t @ '' ('' @
      Join (map (\<lambda>(f, t). column_def f t) (zip schema types)) '', '' @ '')'') = 0"
    using countPlaceholders_quoteIdentifier by simp
  moreover have "inert (''CREATE '' @ (if tmp then ''TEMPORARY '' else []) @ ''TABLE '' @
     (if ine then ''IF NOT EXISTS '' else []))"
    by simp
  ultimately show ?thesis
    using countPlaceholders_inert [of "''CREATE '' @ (if tmp then ''TEMPORARY '' else []) @ ''TABLE '' @
     (if ine then ''IF NOT EXISTS '' else [])"]
    by (simp add: create_text_def)
qed

section \<open>The statements of a request\<close>

text \<open>What each mode asks the server to run, in order.\<close>

definition mode_sql :: "BulkIngestOptions \<Rightarrow> field list \<Rightarrow> string list \<Rightarrow> string list" where
  "mode_sql o' schema types =
     (if Mode o' = OptionValueIngestModeCreate
      then [create_text (TableName o') schema types False (Temporary o')]
      else if Mode o' = OptionValueIngestModeCreateAppend
      then [create_text (TableName o') schema types True (Temporary o')]
      else if Mode o' = OptionValueIngestModeReplace
      then [dropTable_sql (TableName o') (Temporary o'),
            create_text (TableName o') schema types False (Temporary o')]
      else [])"

lemma count_dropTable: "countPlaceholders (dropTable_sql t tmp) = 0"
proof -
  have "inert (''DROP '' @ (if tmp then ''TEMPORARY TABLE'' else ''TABLE'') @ '' IF EXISTS '')" by simp
  from countPlaceholders_inert [OF this, of "quoteIdentifier t"] show ?thesis
    using countPlaceholders_quoteIdentifier [of "[]" t] by (simp add: dropTable_sql_def)
qed

lemma count_mode_sql:
  "column_types schema = map Inr types \<Longrightarrow> q \<in> set (mode_sql o' schema types) \<Longrightarrow>
   countPlaceholders q = 0"
  by (auto simp: mode_sql_def count_create_text count_dropTable split: if_splits)

lemma column_types_unique:
  "column_types schema = map Inr ts \<Longrightarrow> column_types schema = map Inr us \<Longrightarrow> ts = us"
  by (simp add: inj_map_eq_map inj_def)

lemma createTable_sql_eq:
  assumes "column_types schema = map Inr types"
  shows "createTable_sql t schema ine tmp = Inr (create_text t schema types ine tmp)"
proof (cases "createTable_sql t schema ine tmp")
  case (Inl e)
  then obtain q i where "column_defs schema i q = Inl e"
    by (auto simp: createTable_sql_def split: sum.splits)
  then have "Inl e \<in> set (column_types schema)" using column_defs_error by blast
  then show ?thesis using assms by auto
next
  case (Inr q)
  then show ?thesis using createTable_sql_text [OF Inr] column_types_unique [OF assms] by auto
qed

lemma createTableIfNeeded_sent:
  assumes "createTableIfNeeded S (TableName o') schema o' c = (r, c1)"
    and "column_types schema = map Inr types"
  shows "\<exists>n. trace c1 = trace c @ map EvExec (take n (mode_sql o' schema types)) \<and>
    (r = Inr () \<longrightarrow> length (mode_sql o' schema types) \<le> n)"
  using assms createTable_sql_eq [OF assms(2)]
  by (auto simp: createTableIfNeeded_def mode_sql_def createTable_def dropTable_def op_defs mode_defs
      split: if_splits sum.splits prod.splits
      intro: exI [of _ "0::nat"] exI [of _ "1::nat"] exI [of _ "2::nat"])

lemma batch_size_bounds:
  assumes "0 < n" "n \<le> MariaDBMaxPlaceholders" "0 \<le> b"
  shows "1 \<le> effective_batch_size b n" "effective_batch_size b n * n \<le> MariaDBMaxPlaceholders"
    and "0 < b \<Longrightarrow> effective_batch_size b n \<le> b"
proof -
  define m where "m = MariaDBMaxPlaceholders sdiv n"
  have m: "m = MariaDBMaxPlaceholders div n"
    using assms by (simp add: m_def sdiv_nonneg MariaDBMaxPlaceholders_def)
  have "1 \<le> m" using assms(1,2) by (simp add: m pos_imp_zdiv_pos_iff int_one_le_iff_zero_less)
  moreover have "m * n \<le> MariaDBMaxPlaceholders"
    using assms(1) by (simp add: m minus_mod_eq_div_mult [symmetric])
  moreover have e: "effective_batch_size b n = (if b = 0 then min 1000 m else if b > m then m else b)"
    by (simp add: effective_batch_size_def m_def Let_def MariaDBDefaultIngestBatchSize_def)
  moreover have "effective_batch_size b n \<le> m" by (simp add: e)
  ultimately show "1 \<le> effective_batch_size b n"
    "effective_batch_size b n * n \<le> MariaDBMaxPlaceholders" "0 < b \<Longrightarrow> effective_batch_size b n \<le> b"
    using assms by (auto intro: order_trans [OF mult_right_mono [of _ m n]])
qed

definition sample_schema :: "field list" where
  "sample_schema =
     [\<lparr>fName = ''id?'', fType = Int64T, fNullable = False, fMetadata = Map.empty\<rparr>,
      \<lparr>fName = ''a`b'', fType = DecimalT 128 10 2, fNullable = True, fMetadata = Map.empty\<rparr>]"

definition sample_options :: BulkIngestOptions where
  "sample_options = \<lparr>TableName = ''t'', Mode = OptionValueIngestModeReplace, Temporary = False,
     IngestBatchSize = 0, MaxQuerySizeBytes = 0\<rparr>"

definition sample_keys :: driverbase where
  "sample_keys = \<lparr>OptionKeyIngestMaxQuerySizeBytes = ''max_query_size_bytes'',
     OptionKeyIngestBatchSize = ''batch_size''\<rparr>"

lemma sample_column_types:
  "column_types sample_schema = map Inr [''BIGINT NOT NULL'', ''DECIMAL(10,2) NULL'']"
  by code_simp

section \<open>Properties\<close>

text \<open>
  C16 (bounds). Whenever a bulk ingest reaches the batched INSERT loop, the schema has between 1
  and 65,535 columns and, for a requested batch size that is not negative, the loop is given a
  batch size of at least one row whose rows times columns stay within MariaDB's limit of 65,535
  placeholders, and never more rows than requested.
\<close>
theorem bulk_ingest_batch_bounds:
  assumes "ExecuteBulkIngest D S batched z o' schema c = (r, c1)" and "0 \<le> IngestBatchSize o'"
  shows "(\<exists>e. r = (-1, Some e)) \<or>
    (\<exists>b. r = batched (trace c1) (o'\<lparr>IngestBatchSize := b\<rparr>) z \<and> 0 < length schema \<and> 1 \<le> b \<and>
       b * int (length schema) \<le> 65535 \<and> (0 < IngestBatchSize o' \<longrightarrow> b \<le> IngestBatchSize o'))"
proof -
  define n where "n = int (length schema)"
  show ?thesis
  proof (cases "0 < n \<and> n \<le> MariaDBMaxPlaceholders")
    case True
    note b = batch_size_bounds [of n "IngestBatchSize o'"]
    show ?thesis
      using assms True b
      by (auto simp: ExecuteBulkIngest_def Let_def n_def MariaDBMaxPlaceholders_def
          split: if_splits prod.splits sum.splits)
  next
    case False
    then show ?thesis
      using assms(1) by (auto simp: ExecuteBulkIngest_def Let_def n_def split: if_splits)
  qed
qed

theorem bulk_ingest_batch_bounds_witness:
  "(\<exists>e. fst (ExecuteBulkIngest sample_keys quiet_server (\<lambda>h o' z. (IngestBatchSize o', None)) 0 sample_options
      sample_schema new_connection) = (-1, Some e)) \<or>
   (\<exists>b. fst (ExecuteBulkIngest sample_keys quiet_server (\<lambda>h o' z. (IngestBatchSize o', None)) 0 sample_options
      sample_schema new_connection) = (b, None) \<and> 1 \<le> b \<and> b * 2 \<le> 65535)"
proof -
  obtain r c1 where r: "ExecuteBulkIngest sample_keys quiet_server (\<lambda>h o' z. (IngestBatchSize o', None)) 0
      sample_options sample_schema new_connection = (r, c1)"
    by fastforce
  from bulk_ingest_batch_bounds [OF r] show ?thesis
    unfolding r by (auto simp: sample_options_def sample_schema_def)
qed



text \<open>
  A request the driver rejects before touching the database leaves no trace: with a
  query size limit, an empty schema or more than 65,535 columns the result is -1 with an
  InvalidArgument error and the connection is unchanged.
\<close>
theorem bulk_ingest_rejected:
  assumes "MaxQuerySizeBytes o' > 0 \<or> schema = [] \<or> 65535 < length schema"
  shows "\<exists>f args. ExecuteBulkIngest D S batched z o' schema c =
    ((-1, Some (Helper InvalidArgument f args)), c)"
  using assms by (auto simp: ExecuteBulkIngest_def Let_def MariaDBMaxPlaceholders_def)

theorem bulk_ingest_rejected_witness:
  "\<exists>f args. ExecuteBulkIngest sample_keys quiet_server (\<lambda>h o' z. (0, None)) 0 sample_options [] new_connection =
    ((-1, Some (Helper InvalidArgument f args)), new_connection)"
  by (rule bulk_ingest_rejected) simp

end
