(* ===== verification/Statement.thy ===== *)
theory Statement
  imports Connection_Props Arrow
begin

text \<open>
  Databases, statements and the factory that creates them (\<open>mariadb.go\<close> lines 734 to 843, 913 to
  926 and 1041 to 1064). The base objects they embed belong to the \<open>sqlwrapper\<close> library: the record
  \<open>base_object\<close> gives their replies as functions of the calls made on them so far.
\<close>

section \<open>Base objects\<close>

datatype obj_event =
    ObjGet string
  | ObjSet string string
  | ObjSetSqlQuery string
  | ObjPrepare

record base_object =
  obj_get :: "obj_event list \<Rightarrow> string \<Rightarrow> go_error + string"
  obj_set :: "obj_event list \<Rightarrow> string \<Rightarrow> string \<Rightarrow> go_error option"
  obj_set_query :: "obj_event list \<Rightarrow> string \<Rightarrow> go_error option"
  obj_prepare :: "obj_event list \<Rightarrow> go_error option"

section \<open>Database\<close>

record mariadbDatabase =
  db_zdb :: zeroDatetimeBehavior
  db_trace :: "obj_event list"

definition CreateDatabase :: "obj_event list \<Rightarrow> mariadbDatabase" where
  "CreateDatabase base = \<lparr>db_zdb = zeroDatetimeBehaviorError, db_trace = base\<rparr>"

definition db_GetOption :: "base_object \<Rightarrow> mariadbDatabase \<Rightarrow> string \<Rightarrow>
    (go_error + string) \<times> mariadbDatabase" where
  "db_GetOption B db key =
     (if key = OptionKeyZeroDatetimeBehavior then (Inr (zdb_String (db_zdb db)), db)
      else (obj_get B (db_trace db) key, db\<lparr>db_trace := db_trace db @ [ObjGet key]\<rparr>))"

definition db_SetOption :: "base_object \<Rightarrow> mariadbDatabase \<Rightarrow> string \<Rightarrow> string \<Rightarrow>
    go_error option \<times> mariadbDatabase" where
  "db_SetOption B db key val =
     (if key = OptionKeyZeroDatetimeBehavior
      then (case parseZeroDatetimeBehavior val True of
              Inl e \<Rightarrow> (Some e, db) | Inr behavior \<Rightarrow> (None, db\<lparr>db_zdb := behavior\<rparr>))
      else (obj_set B (db_trace db) key val, db\<lparr>db_trace := db_trace db @ [ObjSet key val]\<rparr>))"

text \<open>The options of the map arrive in an unspecified order: the list is any enumeration of it.\<close>

definition SetOptions :: "base_object \<Rightarrow> mariadbDatabase \<Rightarrow> (string \<times> string) list \<Rightarrow>
    go_error option \<times> mariadbDatabase" where
  "SetOptions B = set_all (db_SetOption B)"

interpretation db_opt: zero_datetime_option "db_GetOption B" "db_SetOption B" db_zdb for B
  by unfold_locales (auto simp: db_GetOption_def db_SetOption_def)

section \<open>Statement\<close>

record mariadbStatement =
  st_zdb :: zeroDatetimeBehavior
  query :: string
  prepared :: bool
  st_trace :: "obj_event list"

text \<open>The type converter of a statement: the vendor name of the embedded converter and the option.\<close>

record mariaDBTypeConverter =
  tc_VendorName :: string
  tc_zdb :: zeroDatetimeBehavior

definition makeTypeConverter :: "zeroDatetimeBehavior \<Rightarrow> mariaDBTypeConverter" where
  "makeTypeConverter z = \<lparr>tc_VendorName = ''MariaDB'', tc_zdb = z\<rparr>"

definition MakeTypeConverter :: "mariadbStatement \<Rightarrow> mariaDBTypeConverter" where
  "MakeTypeConverter s = makeTypeConverter (st_zdb s)"

definition SetSqlQuery :: "base_object \<Rightarrow> string \<Rightarrow> mariadbStatement \<Rightarrow>
    go_error option \<times> mariadbStatement" where
  "SetSqlQuery B q s =
     (let s' = s\<lparr>st_trace := st_trace s @ [ObjSetSqlQuery q]\<rparr> in
      case obj_set_query B (st_trace s) q of
        Some e \<Rightarrow> (Some e, s')
      | None \<Rightarrow> (None, s'\<lparr>query := q, prepared := False\<rparr>))"

definition Prepare :: "base_object \<Rightarrow> mariadbStatement \<Rightarrow> go_error option \<times> mariadbStatement" where
  "Prepare B s =
     (let s' = s\<lparr>st_trace := st_trace s @ [ObjPrepare]\<rparr> in
      case obj_prepare B (st_trace s) of
        Some e \<Rightarrow> (Some e, s'\<lparr>prepared := False\<rparr>)
      | None \<Rightarrow> (None, s'\<lparr>prepared := True\<rparr>))"

definition parameter_field :: field where
  "parameter_field = \<lparr>fName = [], fType = NullT, fNullable = True, fMetadata = Map.empty\<rparr>"

definition GetParameterSchema :: "mariadbStatement \<Rightarrow> go_error + field list" where
  "GetParameterSchema s =
     (if \<not> prepared s
      then Inl (Helper InvalidState ''statement must be prepared before getting parameter schema'' [])
      else Inr (replicate (countPlaceholders (query s)) parameter_field))"

definition st_GetOption :: "base_object \<Rightarrow> mariadbStatement \<Rightarrow> string \<Rightarrow>
    (go_error + string) \<times> mariadbStatement" where
  "st_GetOption B s key =
     (if key = OptionKeyZeroDatetimeBehavior then (Inr (zdb_String (st_zdb s)), s)
      else (obj_get B (st_trace s) key, s\<lparr>st_trace := st_trace s @ [ObjGet key]\<rparr>))"

definition st_SetOption :: "base_object \<Rightarrow> mariadbStatement \<Rightarrow> string \<Rightarrow> string \<Rightarrow>
    go_error option \<times> mariadbStatement" where
  "st_SetOption B s key val =
     (if key = OptionKeyZeroDatetimeBehavior
      then (case parseZeroDatetimeBehavior val True of
              Inl e \<Rightarrow> (Some e, s) | Inr behavior \<Rightarrow> (None, s\<lparr>st_zdb := behavior\<rparr>))
      else (obj_set B (st_trace s) key val, s\<lparr>st_trace := st_trace s @ [ObjSet key val]\<rparr>))"

interpretation st_opt: zero_datetime_option "st_GetOption B" "st_SetOption B" st_zdb for B
  by unfold_locales (auto simp: st_GetOption_def st_SetOption_def)

section \<open>The factory\<close>

definition CreateConnection :: "mariadbDatabase \<Rightarrow> event list \<Rightarrow> mariadbConnectionImpl" where
  "CreateConnection db base = \<lparr>version = [], conn_zdb = db_zdb db, trace = base\<rparr>"

definition CreateStatement :: "mariadbConnectionImpl \<Rightarrow> obj_event list \<Rightarrow> mariadbStatement" where
  "CreateStatement c base =
     \<lparr>st_zdb = conn_zdb c, query = [], prepared = False, st_trace = base\<rparr>"

definition BaseNewStatement :: "server \<Rightarrow> mariadbStatement op" where
  "BaseNewStatement S c =
     (case base_new_statement S (trace c) of Some e \<Rightarrow> Inl e | None \<Rightarrow> Inr (CreateStatement c []),
      log_event EvNewStatement c)"

definition CloseStatement :: "server \<Rightarrow> go_error option op" where
  "CloseStatement S c = (Inr (base_close_statement S (trace c)), log_event EvCloseStatement c)"

text \<open>The connection's option is set on the new statement; if that fails the statement is closed.\<close>

definition copy_option :: "server \<Rightarrow> base_object \<Rightarrow> mariadbStatement \<Rightarrow> mariadbStatement op" where
  "copy_option S B stmt c =
     (case st_SetOption B stmt OptionKeyZeroDatetimeBehavior (zdb_String (conn_zdb c)) of
        (None, stmt') \<Rightarrow> (Inr stmt', c)
      | (Some err, stmt') \<Rightarrow>
          bindE (CloseStatement S) (\<lambda>closeErr.
            case closeErr of
              Some ce \<Rightarrow> failE (or_else (errors_Join [Some err, Some ce]) err)
            | None \<Rightarrow> failE err) c)"

definition NewStatement :: "server \<Rightarrow> base_object \<Rightarrow> mariadbStatement op" where
  "NewStatement S B = bindE (BaseNewStatement S) (copy_option S B)"

section \<open>What the base statement holds\<close>

text \<open>
  The query text and the prepared flag of the base statement, as its replies tell: an accepted
  query replaces the text and drops the prepared state, a Prepare sets or drops it.
\<close>

definition base_step :: "base_object \<Rightarrow> obj_event list \<Rightarrow> obj_event \<Rightarrow> string \<times> bool \<Rightarrow> string \<times> bool" where
  "base_step B h e qp =
     (case e of
        ObjSetSqlQuery q \<Rightarrow> if obj_set_query B h q = None then (q, False) else qp
      | ObjPrepare \<Rightarrow> (fst qp, obj_prepare B h = None)
      | _ \<Rightarrow> qp)"

fun base_state :: "base_object \<Rightarrow> obj_event list \<Rightarrow> string \<times> bool \<Rightarrow> obj_event list \<Rightarrow> string \<times> bool" where
  "base_state B h qp [] = qp"
| "base_state B h qp (e # es) = base_state B (h @ [e]) (base_step B h e qp) es"

lemma base_state_snoc:
  "base_state B h qp (es @ [e]) = base_step B (h @ es) e (base_state B h qp es)"
  by (induction es arbitrary: h qp) auto

text \<open>The calls a client can make on a statement, as a step relation.\<close>

datatype stmt_call =
    CallSetSqlQuery string | CallPrepare | CallGetOption string | CallSetOption string string

inductive stmt_step :: "base_object \<Rightarrow> mariadbStatement \<Rightarrow> stmt_call \<Rightarrow> mariadbStatement \<Rightarrow> bool"
  for B where
  step_query: "stmt_step B s (CallSetSqlQuery q) (snd (SetSqlQuery B q s))"
| step_prepare: "stmt_step B s CallPrepare (snd (Prepare B s))"
| step_get: "stmt_step B s (CallGetOption k) (snd (st_GetOption B s k))"
| step_set: "stmt_step B s (CallSetOption k v) (snd (st_SetOption B s k v))"

inductive stmt_run :: "base_object \<Rightarrow> mariadbStatement \<Rightarrow> stmt_call list \<Rightarrow> mariadbStatement \<Rightarrow> bool"
  for B where
  run_nil: "stmt_run B s [] s"
| run_snoc: "stmt_run B s cs s' \<Longrightarrow> stmt_step B s' c s'' \<Longrightarrow> stmt_run B s (cs @ [c]) s''"

inductive_simps stmt_step_simps [simp]:
  "stmt_step B s (CallSetSqlQuery q) s'" "stmt_step B s CallPrepare s'"
  "stmt_step B s (CallGetOption k) s'" "stmt_step B s (CallSetOption k v) s'"

definition stmt_inv :: "base_object \<Rightarrow> mariadbStatement \<Rightarrow> bool" where
  "stmt_inv B s \<longleftrightarrow> valid_zdb (st_zdb s) \<and> (query s, prepared s) = base_state B [] ([], False) (st_trace s)"

lemma stmt_step_inv: "stmt_step B s c s' \<Longrightarrow> stmt_inv B s \<Longrightarrow> stmt_inv B s'"
proof (cases c)
  case (CallSetOption k v)
  assume "stmt_step B s c s'" "stmt_inv B s"
  then show ?thesis
    using CallSetOption st_opt.set_valid [of s B k v]
    by (auto simp: stmt_inv_def st_SetOption_def base_state_snoc base_step_def
        split: prod.splits sum.splits if_splits)
qed (auto simp: stmt_inv_def SetSqlQuery_def Prepare_def st_GetOption_def base_state_snoc
    base_step_def Let_def prod_eq_iff split: option.splits)

lemma stmt_run_inv: "stmt_run B s cs s' \<Longrightarrow> stmt_inv B s \<Longrightarrow> stmt_inv B s'"
  by (induction rule: stmt_run.induct) (auto dest: stmt_step_inv)

lemma CreateStatement_inv: "valid_zdb (conn_zdb c) \<Longrightarrow> stmt_inv B (CreateStatement c [])"
  by (simp add: stmt_inv_def CreateStatement_def)

text \<open>With a valid option in the connection, the call that copies it never fails.\<close>

lemma NewStatement_valid:
  assumes "valid_zdb (conn_zdb c)"
  shows "NewStatement S B c =
    (case base_new_statement S (trace c) of Some e \<Rightarrow> Inl e | None \<Rightarrow> Inr (CreateStatement c []),
     log_event EvNewStatement c)"
  using assms parse_zdb_String [OF assms, of True]
  by (auto simp: NewStatement_def copy_option_def BaseNewStatement_def bindE_def st_SetOption_def CreateStatement_def
      log_event_def split: option.splits)

lemma SetOptions_other:
  "OptionKeyZeroDatetimeBehavior \<notin> fst ` set opts \<Longrightarrow> db_zdb (snd (SetOptions B db opts)) = db_zdb db"
proof (induction opts arbitrary: db)
  case (Cons kv opts)
  obtain k v where kv: "kv = (k, v)" by fastforce
  obtain r db' where s: "db_SetOption B db k v = (r, db')" by fastforce
  then have "db_zdb db' = db_zdb db" using Cons.prems kv db_opt.set_other [of k B db v] by auto
  with s kv Cons show ?case by (cases r) (simp_all add: SetOptions_def)
qed (simp add: SetOptions_def)

lemma SetOptions_key:
  assumes "SetOptions B db opts = (None, db')" "distinct (map fst opts)"
    "(OptionKeyZeroDatetimeBehavior, v) \<in> set opts"
  shows "parseZeroDatetimeBehavior v True = Inr (db_zdb db')"
  using assms
proof (induction opts arbitrary: db)
  case (Cons kw opts)
  obtain k w where kw: "kw = (k, w)" by fastforce
  obtain r db1 where s: "db_SetOption B db k w = (r, db1)" by fastforce
  then have r: "r = None" "SetOptions B db1 opts = (None, db')"
    using Cons.prems(1) kw by (auto simp: SetOptions_def split: option.splits)
  show ?case
  proof (cases "k = OptionKeyZeroDatetimeBehavior")
    case True
    then have "w = v" using Cons.prems kw by force
    moreover have "OptionKeyZeroDatetimeBehavior \<notin> fst ` set opts" using Cons.prems(2) kw True by simp
    then have "db_zdb db' = db_zdb db1" using SetOptions_other [of opts B db1] r(2) by simp
    ultimately show ?thesis
      using s r True by (auto simp: db_SetOption_def split: sum.splits)
  next
    case False
    then show ?thesis using Cons.IH [OF r(2)] Cons.prems kw by auto
  qed
qed simp

text \<open>A base object that accepts everything, and a prepared statement on it.\<close>

definition sample_base :: base_object where
  "sample_base = \<lparr>obj_get = (\<lambda>h k. Inr []), obj_set = (\<lambda>h k v. None),
     obj_set_query = (\<lambda>h q. None), obj_prepare = (\<lambda>h. None)\<rparr>"

definition sample_statement :: mariadbStatement where
  "sample_statement = snd (Prepare sample_base
     (snd (SetSqlQuery sample_base ''SELECT ?, `?` -- ?'' (CreateStatement new_connection []))))"

section \<open>Properties\<close>

text \<open>
  C5 (invariant). After any sequence of SetSqlQuery, Prepare, GetOption and SetOption calls on a
  new statement, whatever the base statement answers, GetParameterSchema fails with InvalidState
  unless the last accepted query has since been prepared successfully, and otherwise returns one
  nullable null-typed field for each placeholder of that query.
\<close>
theorem GetParameterSchema_run:
  assumes "stmt_run B (CreateStatement c []) calls s" "valid_zdb (conn_zdb c)"
  shows "GetParameterSchema s =
    (case base_state B [] ([], False) (st_trace s) of (q, prep) \<Rightarrow>
       if prep then Inr (replicate (countPlaceholders q) parameter_field)
       else Inl (Helper InvalidState
              ''statement must be prepared before getting parameter schema'' []))"
proof -
  have "stmt_inv B s" using stmt_run_inv [OF assms(1) CreateStatement_inv [OF assms(2)]] .
  then have "base_state B [] ([], False) (st_trace s) = (query s, prepared s)"
    by (simp add: stmt_inv_def)
  then show ?thesis by (simp add: GetParameterSchema_def)
qed

theorem GetParameterSchema_run_witness:
  "GetParameterSchema sample_statement =
     Inr (replicate (countPlaceholders ''SELECT ?, `?` -- ?'') parameter_field)"
proof -
  have "stmt_run sample_base (CreateStatement new_connection [])
      (([] @ [CallSetSqlQuery ''SELECT ?, `?` -- ?'']) @ [CallPrepare]) sample_statement"
    unfolding sample_statement_def by (intro run_snoc) (simp_all add: run_nil)
  from GetParameterSchema_run [OF this] show ?thesis
    by (simp add: new_connection_def valid_zdb_def sample_statement_def Prepare_def SetSqlQuery_def
        CreateStatement_def sample_base_def base_step_def Let_def)
qed



text \<open>
  C34 (functional). The zero-datetime option is inherited: a connection created from a database,
  after any sequence of SetOption calls on that database, reports the database's value, and a
  statement created on a connection, after any sequence of SetOption calls on it, reports and uses
  the connection's value; creating the statement fails only when the base class does.
\<close>
theorem zero_datetime_inherited:
  assumes "db = snd (set_all (db_SetOption B) (CreateDatabase []) db_opts)"
    and "c = snd (set_all (conn_set S) (CreateConnection db []) conn_opts)"
  shows "fst (conn_GetOption U S OptionKeyZeroDatetimeBehavior (CreateConnection db [])) =
      fst (db_GetOption B db OptionKeyZeroDatetimeBehavior) \<and>
    (case fst (NewStatement S B' c) of
        Inl e \<Rightarrow> base_new_statement S (trace c) = Some e
      | Inr s \<Rightarrow> tc_zdb (MakeTypeConverter s) = conn_zdb c \<and>
          fst (st_GetOption B' s OptionKeyZeroDatetimeBehavior) =
            fst (conn_GetOption U S OptionKeyZeroDatetimeBehavior c))"
proof (rule conjI)
  have "valid_zdb (db_zdb (CreateDatabase []))" by (simp add: CreateDatabase_def valid_zdb_def)
  then have "valid_zdb (db_zdb db)"
    using db_opt.set_all_valid [of "CreateDatabase []" B db_opts] assms(1) by simp
  then have "valid_zdb (conn_zdb (CreateConnection db []))" by (simp add: CreateConnection_def)
  then have v: "valid_zdb (conn_zdb c)"
    using conn_opt.set_all_valid [of "CreateConnection db []" S conn_opts] assms(2) by simp
  show "fst (conn_GetOption U S OptionKeyZeroDatetimeBehavior (CreateConnection db [])) =
      fst (db_GetOption B db OptionKeyZeroDatetimeBehavior)"
    by (simp add: conn_opt.get_key db_opt.get_key) (simp add: CreateConnection_def)
  show "case fst (NewStatement S B' c) of
        Inl e \<Rightarrow> base_new_statement S (trace c) = Some e
      | Inr s \<Rightarrow> tc_zdb (MakeTypeConverter s) = conn_zdb c \<and>
          fst (st_GetOption B' s OptionKeyZeroDatetimeBehavior) =
            fst (conn_GetOption U S OptionKeyZeroDatetimeBehavior c)"
    unfolding NewStatement_valid [OF v]
    by (simp add: conn_opt.get_key st_opt.get_key split: option.splits)
      (simp add: CreateStatement_def MakeTypeConverter_def makeTypeConverter_def)
qed

theorem zero_datetime_inherited_witness:
  "\<exists>s. fst (NewStatement quiet_server sample_base (snd (set_all (conn_set quiet_server)
      (CreateConnection (snd (set_all (db_SetOption sample_base) (CreateDatabase [])
        [(OptionKeyZeroDatetimeBehavior, ''convert_to_null'')])) []) []))) = Inr s \<and>
     tc_zdb (MakeTypeConverter s) = zeroDatetimeBehaviorConvertToNull"
  using zero_datetime_inherited [where B = sample_base and S = quiet_server and B' = sample_base
      and conn_opts = "[]" and U = sample_unicode
      and db_opts = "[(OptionKeyZeroDatetimeBehavior, ''convert_to_null'')]", OF refl refl]
  by (auto simp: CreateConnection_def CreateDatabase_def db_SetOption_def quiet_server_def
      parseZeroDatetimeBehavior_def zdb_defs split: sum.splits)

end
