(* ===== verification/Statistics.thy ===== *)
theory Statistics
  imports Objects_Props
begin

text \<open>
  Table and column statistics, \<open>connection_statistics.go\<close>. The Go maps keyed by catalog and schema
  are kept as functions of the catalog: the only schema key is the empty string.
\<close>

section \<open>Statistic keys\<close>

definition StatisticDistinctCountKey :: int where "StatisticDistinctCountKey = 1"
definition StatisticRowCountKey :: int where "StatisticRowCountKey = 6"
definition statisticDataLengthKey :: int where "statisticDataLengthKey = 1024"
definition statisticIndexLengthKey :: int where "statisticIndexLengthKey = 1025"
definition statisticAvgRowLengthKey :: int where "statisticAvgRowLengthKey = 1026"

definition mariadbStatisticNames :: "(string \<times> int) list" where
  "mariadbStatisticNames =
     [(''mariadb.statistic.data_length'', statisticDataLengthKey),
      (''mariadb.statistic.index_length'', statisticIndexLengthKey),
      (''mariadb.statistic.avg_row_length'', statisticAvgRowLengthKey)]"

definition GetStatisticNames :: "((string \<times> int) list \<Rightarrow> go_error + 'r) \<Rightarrow> go_error + 'r" where
  "GetStatisticNames reader = reader mariadbStatisticNames"

lemmas stat_key_defs = StatisticDistinctCountKey_def StatisticRowCountKey_def statisticDataLengthKey_def
  statisticIndexLengthKey_def statisticAvgRowLengthKey_def

section \<open>Queries\<close>

definition statisticsFilter :: "string option \<Rightarrow> string option \<Rightarrow> piece" where
  "statisticsFilter catalog tableName =
     build [opt_filter '' AND TABLE_SCHEMA LIKE ?'' catalog, opt_filter '' AND TABLE_NAME LIKE ?'' tableName]"

definition stats_table_query :: "string \<Rightarrow> string" where
  "stats_table_query filt =
     sql_line 2 ''SELECT TABLE_SCHEMA, TABLE_NAME, TABLE_ROWS, AVG_ROW_LENGTH,'' @
     sql_line 2 ''       DATA_LENGTH, INDEX_LENGTH'' @ sql_line 2 ''FROM INFORMATION_SCHEMA.TABLES'' @
     sql_line 2 ''WHERE TABLE_TYPE = '' @ [quot1] @ ''BASE TABLE'' @ [quot1] @ filt @
     sql_line 2 ''ORDER BY TABLE_SCHEMA, TABLE_NAME''"

definition stats_index_query :: "string \<Rightarrow> string" where
  "stats_index_query filt =
     sql_line 2 ''SELECT TABLE_SCHEMA, TABLE_NAME, COLUMN_NAME, MAX(CARDINALITY)'' @
     sql_line 2 ''FROM INFORMATION_SCHEMA.STATISTICS'' @ sql_line 2 ''WHERE CARDINALITY IS NOT NULL'' @ filt @
     sql_line 2 ''GROUP BY TABLE_SCHEMA, TABLE_NAME, COLUMN_NAME'' @
     sql_line 2 ''ORDER BY TABLE_SCHEMA, TABLE_NAME, COLUMN_NAME''"

section \<open>Rows\<close>

definition scan_NullUint64 :: "cell \<Rightarrow> go_error + nat option" where
  "scan_NullUint64 x = (case x of
     None \<Rightarrow> Inr None
   | Some s \<Rightarrow> (case ParseUint10 s of
       Some n \<Rightarrow> if n < 2 ^ 64 then Inr (Some n)
                 else Inl (Errorf ''converting driver.Value type to a uint64: value out of range'' [s])
     | None \<Rightarrow> Inl (Errorf ''converting driver.Value type to a uint64: invalid syntax'' [s])))"

record Statistic =
  stat_table :: string
  stat_column :: "string option"
  stat_key :: int
  stat_value :: nat
  stat_approximate :: bool

definition NewUint64Stat :: "string \<Rightarrow> string option \<Rightarrow> int \<Rightarrow> nat \<Rightarrow> bool \<Rightarrow> Statistic" where
  "NewUint64Stat t col k v a =
     \<lparr>stat_table = t, stat_column = col, stat_key = k, stat_value = v, stat_approximate = a\<rparr>"

record table_row =
  tr_catalog :: string
  tr_table :: string
  tr_rows :: "nat option"
  tr_avg :: "nat option"
  tr_data :: "nat option"
  tr_index :: "nat option"

definition scan_table_row :: "cell list \<Rightarrow> go_error + table_row" where
  "scan_table_row cells =
     (if length cells \<noteq> 6 then Inl (wrong_columns 6 (length cells))
      else case scan_strings (take 2 cells) of Inl e \<Rightarrow> Inl e | Inr ss \<Rightarrow>
        (case scan_NullUint64 (cells ! 2) of Inl e \<Rightarrow> Inl e | Inr rc \<Rightarrow>
        (case scan_NullUint64 (cells ! 3) of Inl e \<Rightarrow> Inl e | Inr av \<Rightarrow>
        (case scan_NullUint64 (cells ! 4) of Inl e \<Rightarrow> Inl e | Inr da \<Rightarrow>
        (case scan_NullUint64 (cells ! 5) of Inl e \<Rightarrow> Inl e | Inr ix \<Rightarrow>
         Inr \<lparr>tr_catalog = ss ! 0, tr_table = ss ! 1, tr_rows = rc, tr_avg = av, tr_data = da,
              tr_index = ix\<rparr>)))))"

record index_row =
  ir_catalog :: string
  ir_table :: string
  ir_column :: string
  ir_cardinality :: "nat option"

definition scan_index_row :: "cell list \<Rightarrow> go_error + index_row" where
  "scan_index_row cells =
     (if length cells \<noteq> 4 then Inl (wrong_columns 4 (length cells))
      else case scan_strings (take 3 cells) of Inl e \<Rightarrow> Inl e | Inr ss \<Rightarrow>
        (case scan_NullUint64 (cells ! 3) of Inl e \<Rightarrow> Inl e | Inr ca \<Rightarrow>
         Inr \<lparr>ir_catalog = ss ! 0, ir_table = ss ! 1, ir_column = ss ! 2, ir_cardinality = ca\<rparr>))"

section \<open>Collecting\<close>

record stats_state =
  catalogOrder :: "string list"
  schemaOrder :: "string \<rightharpoonup> string list"
  statsByCatalog :: "string \<rightharpoonup> Statistic list"
  knownTables :: "string list"

definition stats_init :: stats_state where
  "stats_init = \<lparr>catalogOrder = [], schemaOrder = Map.empty, statsByCatalog = Map.empty, knownTables = []\<rparr>"

definition opt_stat :: "string \<Rightarrow> int \<Rightarrow> nat option \<Rightarrow> Statistic list" where
  "opt_stat t k v = (case v of None \<Rightarrow> [] | Some n \<Rightarrow> [NewUint64Stat t None k n True])"

definition table_stats :: "table_row \<Rightarrow> Statistic list" where
  "table_stats r =
     opt_stat (tr_table r) StatisticRowCountKey (tr_rows r) @
     opt_stat (tr_table r) statisticDataLengthKey (tr_data r) @
     opt_stat (tr_table r) statisticIndexLengthKey (tr_index r) @
     opt_stat (tr_table r) statisticAvgRowLengthKey (tr_avg r)"

definition known_key :: "string \<Rightarrow> string \<Rightarrow> string" where
  "known_key cat t = cat @ NUL # t"

definition stats_table_row :: "table_row \<Rightarrow> stats_state \<Rightarrow> stats_state" where
  "stats_table_row r st0 =
     (let cat = tr_catalog r;
          st = (if statsByCatalog st0 cat = None
                then st0\<lparr>catalogOrder := catalogOrder st0 @ [cat],
                         schemaOrder := (schemaOrder st0)(cat \<mapsto> [[]]),
                         statsByCatalog := (statsByCatalog st0)(cat \<mapsto> [])\<rparr>
                else st0);
          stats = (case statsByCatalog st cat of None \<Rightarrow> [] | Some l \<Rightarrow> l)
      in st\<lparr>knownTables := known_key cat (tr_table r) # knownTables st,
            statsByCatalog := (statsByCatalog st)(cat \<mapsto> stats @ table_stats r)\<rparr>)"

text \<open>Assigning through the map of a catalog that has none panics.\<close>

definition stats_index_row :: "index_row \<Rightarrow> stats_state \<Rightarrow> go_error + stats_state" where
  "stats_index_row r st =
     (case ir_cardinality r of
        None \<Rightarrow> Inr st
      | Some n \<Rightarrow>
          (if known_key (ir_catalog r) (ir_table r) \<notin> set (knownTables st) then Inr st
           else (case statsByCatalog st (ir_catalog r) of
                   None \<Rightarrow> Inl (Panic ''assignment to entry in nil map'')
                 | Some l \<Rightarrow> Inr (st\<lparr>statsByCatalog := (statsByCatalog st)(ir_catalog r \<mapsto>
                     l @ [NewUint64Stat (ir_table r) (Some (ir_column r)) StatisticDistinctCountKey n True])\<rparr>))))"

fun stats_tables :: "cell list list \<Rightarrow> stats_state \<Rightarrow> go_error + stats_state" where
  "stats_tables [] st = Inr st"
| "stats_tables (cells # rest) st =
     (case scan_table_row cells of
        Inl e \<Rightarrow> Inl (WrapIO e ''failed to scan table statistics'' [])
      | Inr r \<Rightarrow> stats_tables rest (stats_table_row r st))"

fun stats_indexes :: "cell list list \<Rightarrow> stats_state \<Rightarrow> go_error + stats_state" where
  "stats_indexes [] st = Inr st"
| "stats_indexes (cells # rest) st =
     (case scan_index_row cells of
        Inl e \<Rightarrow> Inl (WrapIO e ''failed to scan index statistics'' [])
      | Inr r \<Rightarrow> (case stats_index_row r st of Inl e \<Rightarrow> Inl e | Inr st' \<Rightarrow> stats_indexes rest st'))"

text \<open>\<open>errors.Join(rows.Err(), rows.Close())\<close> after the loop.\<close>

definition finish_rows :: "result_set \<Rightarrow> string \<Rightarrow> 'a \<Rightarrow> go_error + 'a" where
  "finish_rows rs msg x =
     (case errors_Join [r_err rs, r_close rs] of Some e \<Rightarrow> Inl (WrapIO e msg []) | None \<Rightarrow> Inr x)"

definition read_table_stats :: "result_set \<Rightarrow> go_error + stats_state" where
  "read_table_stats rs =
     (case stats_tables (r_rows rs) stats_init of
        Inl e \<Rightarrow> Inl e | Inr st \<Rightarrow> finish_rows rs ''failed to read table statistics'' st)"

definition read_index_stats :: "result_set \<Rightarrow> stats_state \<Rightarrow> go_error + stats_state" where
  "read_index_stats rs st0 =
     (case stats_indexes (r_rows rs) st0 of
        Inl e \<Rightarrow> Inl e | Inr st \<Rightarrow> finish_rows rs ''failed to read index statistics'' st)"

text \<open>The reader builders of the library: of an empty result, and of the collected maps.\<close>

record 'r stats_reader =
  EmptyGetStatisticsReader :: "go_error + 'r"
  BuildGetStatisticsReader :: "string list \<Rightarrow> (string \<rightharpoonup> string list) \<Rightarrow> (string \<rightharpoonup> Statistic list) \<Rightarrow>
    go_error + 'r"

definition GetStatistics :: "server \<Rightarrow> 'r stats_reader \<Rightarrow> string option \<Rightarrow> string option \<Rightarrow> string option \<Rightarrow>
    bool \<Rightarrow> 'r op" where
  "GetStatistics S R catalog dbSchema tableName approximate =
     bindE (ClearPending S) (\<lambda>_.
     (if dbSchema \<noteq> None \<and> dbSchema \<noteq> Some [] then liftE (EmptyGetStatisticsReader R)
      else (case statisticsFilter catalog tableName of (filt, args) \<Rightarrow>
        bindE (wrapE (\<lambda>e. WrapIO e ''failed to query table statistics'' [])
                 (QueryContext S (stats_table_query filt) args)) (\<lambda>rs.
        bindE (liftE (read_table_stats rs)) (\<lambda>st.
        bindE (wrapE (\<lambda>e. WrapIO e ''failed to query index statistics'' [])
                 (QueryContext S (stats_index_query filt) args)) (\<lambda>rs'.
        bindE (liftE (read_index_stats rs' st)) (\<lambda>st'.
        liftE (if catalogOrder st' = [] then EmptyGetStatisticsReader R
               else BuildGetStatisticsReader R (catalogOrder st') (schemaOrder st')
                      (statsByCatalog st')))))))))"

lemma disciplined_GetStatistics:
  "disciplined S ok (GetStatistics S R catalog dbSchema tableName approximate)"
  unfolding GetStatistics_def
  by (intro disciplined_clear) (auto split: prod.splits intro!: disciplined_bind disciplined_wrap)

section \<open>What is collected\<close>

text \<open>The statistics of one catalog, from the scanned rows of the two queries.\<close>

definition catalog_stats :: "table_row list \<Rightarrow> index_row list \<Rightarrow> string \<Rightarrow> Statistic list" where
  "catalog_stats trs irs cat =
     concat (map table_stats (filter (\<lambda>r. tr_catalog r = cat) trs)) @
     concat (map (\<lambda>r. case ir_cardinality r of None \<Rightarrow> []
         | Some n \<Rightarrow> [NewUint64Stat (ir_table r) (Some (ir_column r)) StatisticDistinctCountKey n True])
       (filter (\<lambda>r. ir_catalog r = cat \<and> (ir_catalog r, ir_table r) \<in> (\<lambda>t. (tr_catalog t, tr_table t)) ` set trs)
          irs))"

text \<open>Names as MariaDB allows them: without a NUL byte.\<close>

definition row_names_ok :: "table_row list \<Rightarrow> index_row list \<Rightarrow> bool" where
  "row_names_ok trs irs \<longleftrightarrow> list_all (\<lambda>r. NUL \<notin> set (tr_catalog r)) trs \<and>
     list_all (\<lambda>r. NUL \<notin> set (ir_catalog r)) irs"

lemma known_key_inject:
  "NUL \<notin> set a \<Longrightarrow> NUL \<notin> set b \<Longrightarrow> known_key a s = known_key b t \<longleftrightarrow> a = b \<and> s = t"
proof (induction a arbitrary: b)
  case Nil
  then show ?case by (cases b) (auto simp: known_key_def)
next
  case (Cons c a)
  then show ?case by (cases b) (auto simp: known_key_def)
qed

text \<open>The state after the table rows: one entry per catalog, in order of first appearance.\<close>

definition tables_state :: "table_row list \<Rightarrow> stats_state" where
  "tables_state trs =
     \<lparr>catalogOrder = rev (remdups (rev (map tr_catalog trs))),
      schemaOrder = (\<lambda>cat. if cat \<in> tr_catalog ` set trs then Some [[]] else None),
      statsByCatalog = (\<lambda>cat. if cat \<in> tr_catalog ` set trs then Some (catalog_stats trs [] cat) else None),
      knownTables = rev (map (\<lambda>r. known_key (tr_catalog r) (tr_table r)) trs)\<rparr>"

lemma stats_table_row_state: "stats_table_row r (tables_state trs) = tables_state (trs @ [r])"
  by (auto simp: stats_table_row_def tables_state_def catalog_stats_def Let_def fun_eq_iff image_iff)

lemma stats_tables_state:
  "fold stats_table_row trs (tables_state us) = tables_state (us @ trs)"
  by (induction trs arbitrary: us) (simp_all add: stats_table_row_state)

definition indexed_state :: "table_row list \<Rightarrow> index_row list \<Rightarrow> stats_state" where
  "indexed_state trs irs = (tables_state trs)\<lparr>statsByCatalog :=
     (\<lambda>cat. if cat \<in> tr_catalog ` set trs then Some (catalog_stats trs irs cat) else None)\<rparr>"

lemma indexed_state_Nil: "indexed_state trs [] = tables_state trs"
  by (simp add: indexed_state_def tables_state_def)

lemma stats_index_row_state:
  assumes "row_names_ok trs (irs @ [r])"
    and "st = indexed_state trs irs"
  shows "stats_index_row r st = Inr (indexed_state trs (irs @ [r]))"
proof -
  let ?k = "known_key (ir_catalog r) (ir_table r)"
  have k: "?k \<in> set (knownTables st) \<longleftrightarrow>
      (ir_catalog r, ir_table r) \<in> (\<lambda>t. (tr_catalog t, tr_table t)) ` set trs"
    using assms(1) known_key_inject
    by (auto simp: assms(2) indexed_state_def tables_state_def row_names_ok_def list_all_iff image_iff)
  show ?thesis
  proof (cases "ir_cardinality r = None \<or> ?k \<notin> set (knownTables st)")
    case True
    then have "catalog_stats trs (irs @ [r]) = catalog_stats trs irs"
      by (auto simp: catalog_stats_def fun_eq_iff k)
    then have "indexed_state trs (irs @ [r]) = indexed_state trs irs" by (simp add: indexed_state_def cong: if_cong)
    then show ?thesis using True by (auto simp: stats_index_row_def assms(2) split: option.splits)
  next
    case False
    then obtain n where n: "ir_cardinality r = Some n" by auto
    have i: "ir_catalog r \<in> tr_catalog ` set trs" using False k by auto
    show ?thesis
      using False n i k
      by (auto simp: stats_index_row_def assms(2) indexed_state_def catalog_stats_def fun_eq_iff)
  qed
qed

text \<open>Scanning rows that are well-formed.\<close>

definition uint_cell :: "nat option \<Rightarrow> cell" where
  "uint_cell = map_option itoa_nat"

definition uint_fits :: "nat option \<Rightarrow> bool" where
  "uint_fits x \<longleftrightarrow> (case x of None \<Rightarrow> True | Some n \<Rightarrow> n < 2 ^ 64)"

definition table_row_cells :: "table_row \<Rightarrow> cell list" where
  "table_row_cells r = [Some (tr_catalog r), Some (tr_table r), uint_cell (tr_rows r),
     uint_cell (tr_avg r), uint_cell (tr_data r), uint_cell (tr_index r)]"

definition index_row_cells :: "index_row \<Rightarrow> cell list" where
  "index_row_cells r = [Some (ir_catalog r), Some (ir_table r), Some (ir_column r),
     uint_cell (ir_cardinality r)]"

definition rows_fit :: "table_row list \<Rightarrow> index_row list \<Rightarrow> bool" where
  "rows_fit trs irs \<longleftrightarrow> row_names_ok trs irs \<and>
     list_all (\<lambda>r. uint_fits (tr_rows r) \<and> uint_fits (tr_avg r) \<and> uint_fits (tr_data r) \<and>
       uint_fits (tr_index r)) trs \<and>
     list_all (\<lambda>r. uint_fits (ir_cardinality r)) irs"

lemma scan_uint_cell: "uint_fits x \<Longrightarrow> scan_NullUint64 (uint_cell x) = Inr x"
  by (cases x) (auto simp: uint_fits_def scan_NullUint64_def uint_cell_def ParseUint10_def digits_val_itoa_nat)

lemma stats_tables_cells:
  "list_all (\<lambda>r. uint_fits (tr_rows r) \<and> uint_fits (tr_avg r) \<and> uint_fits (tr_data r) \<and>
     uint_fits (tr_index r)) trs \<Longrightarrow>
   stats_tables (map table_row_cells trs) st = Inr (fold stats_table_row trs st)"
proof (induction trs arbitrary: st)
  case (Cons r trs)
  then have "scan_table_row (table_row_cells r) = Inr r"
    by (simp add: scan_table_row_def table_row_cells_def scan_string_def scan_uint_cell)
  with Cons show ?case by simp
qed simp

lemma stats_indexes_cells:
  assumes "list_all (\<lambda>r. uint_fits (ir_cardinality r)) irs" "row_names_ok trs (jrs @ irs)"
  shows "stats_indexes (map index_row_cells irs) (indexed_state trs jrs) =
    Inr (indexed_state trs (jrs @ irs))"
  using assms
proof (induction irs arbitrary: jrs)
  case (Cons r irs)
  then have "scan_index_row (index_row_cells r) = Inr r"
    by (simp add: scan_index_row_def index_row_cells_def scan_string_def scan_uint_cell)
  moreover have "row_names_ok trs (jrs @ [r])" using Cons.prems by (simp add: row_names_ok_def)
  ultimately show ?case
    using Cons.IH [of "jrs @ [r]"] Cons.prems stats_index_row_state [of trs jrs r, OF _ refl] by simp
qed simp

lemma piece_quoted:
  assumes "piece_ok (s, args)" "hd s \<noteq> quot1" "s \<noteq> []"
  shows "piece_ok ([quot1] @ ''BASE TABLE'' @ [quot1] @ s, args)"
proof (cases s)
  case (Cons c r)
  have "closed_sql ([quot1] @ ''BASE TABLE'' @ [quot1] @ s) = closed_sql s"
    "cp plain ([quot1] @ ''BASE TABLE'' @ [quot1] @ s) = cp plain s"
    using assms(2) Cons by (simp_all add: tok_def decided_def)
  with assms show ?thesis by (simp add: piece_ok_def countPlaceholders_cp del: append.simps)
qed (use assms in simp)

lemma stats_queries_ok:
  assumes "statisticsFilter cat tbl = (filt, args)"
  shows "piece_ok (stats_table_query filt, args)" "piece_ok (stats_index_query filt, args)"
proof -
  have f: "piece_ok (filt, args)"
    using assms piece_build [of "[opt_filter '' AND TABLE_SCHEMA LIKE ?'' cat,
        opt_filter '' AND TABLE_NAME LIKE ?'' tbl]"]
      piece_opt [of "'' AND TABLE_SCHEMA LIKE ''" cat] piece_opt [of "'' AND TABLE_NAME LIKE ''" tbl]
    by (simp add: statisticsFilter_def)
  have tail: "piece_ok (filt @ sql_line 2 ''ORDER BY TABLE_SCHEMA, TABLE_NAME'', args)"
    using piece_append [OF f piece_inert [OF inert_line]] by simp
  define h where "h = sql_line 2 ''SELECT TABLE_SCHEMA, TABLE_NAME, TABLE_ROWS, AVG_ROW_LENGTH,'' @
     sql_line 2 ''       DATA_LENGTH, INDEX_LENGTH'' @ sql_line 2 ''FROM INFORMATION_SCHEMA.TABLES'' @
     sql_line 2 ''WHERE TABLE_TYPE = ''"
  have h: "piece_ok (h, [])" unfolding h_def by (rule piece_inert) (simp add: inert_line)
  have hd: "hd (filt @ sql_line 2 ''ORDER BY TABLE_SCHEMA, TABLE_NAME'') \<noteq> quot1"
    using assms by (auto simp: statisticsFilter_def build_def opt_filter_def sql_line_def split: option.splits)
  have "piece_ok ([quot1] @ ''BASE TABLE'' @ [quot1] @
      (filt @ sql_line 2 ''ORDER BY TABLE_SCHEMA, TABLE_NAME''), args)"
    by (rule piece_quoted [OF tail hd]) (simp add: sql_line_def)
  from piece_append [OF h this] show "piece_ok (stats_table_query filt, args)"
    by (simp add: stats_table_query_def h_def)
  show "piece_ok (stats_index_query filt, args)"
    using piece_append [OF piece_inert, of "sql_line 2 ''SELECT TABLE_SCHEMA, TABLE_NAME, COLUMN_NAME, MAX(CARDINALITY)'' @
     sql_line 2 ''FROM INFORMATION_SCHEMA.STATISTICS'' @ sql_line 2 ''WHERE CARDINALITY IS NOT NULL''" _ args]
      piece_append [OF f piece_inert, of "sql_line 2 ''GROUP BY TABLE_SCHEMA, TABLE_NAME, COLUMN_NAME'' @
     sql_line 2 ''ORDER BY TABLE_SCHEMA, TABLE_NAME, COLUMN_NAME''"]
    by (simp add: stats_index_query_def inert_line)
qed

lemma read_stats:
  assumes "rows_fit trs irs"
    and "r_rows rs = map table_row_cells trs" "r_err rs = None" "r_close rs = None"
    and "r_rows rs' = map index_row_cells irs" "r_err rs' = None" "r_close rs' = None"
  shows "read_table_stats rs = Inr (tables_state trs)"
    "read_index_stats rs' (tables_state trs) = Inr (indexed_state trs irs)"
proof -
  have fin: "finish_rows rs m x = Inr x" "finish_rows rs' m x = Inr x" for m x
    using assms by (simp_all add: finish_rows_def errors_Join_def map_filter_def)
  have "stats_init = tables_state []"
    by (simp add: stats_init_def tables_state_def catalog_stats_def fun_eq_iff)
  then show "read_table_stats rs = Inr (tables_state trs)"
    using assms stats_tables_cells [of trs stats_init] stats_tables_state [of trs "[]"]
    by (simp add: read_table_stats_def rows_fit_def fin)
  show "read_index_stats rs' (tables_state trs) = Inr (indexed_state trs irs)"
    using assms stats_indexes_cells [of irs trs "[]"]
    by (simp add: read_index_stats_def rows_fit_def fin indexed_state_Nil)
qed

definition sample_table_rows :: "table_row list" where
  "sample_table_rows =
     [\<lparr>tr_catalog = ''a'', tr_table = ''t'', tr_rows = Some 3, tr_avg = Some 16, tr_data = Some 48,
        tr_index = None\<rparr>]"

definition sample_index_rows :: "index_row list" where
  "sample_index_rows =
     [\<lparr>ir_catalog = ''a'', ir_table = ''t'', ir_column = ''x'', ir_cardinality = Some 2\<rparr>,
      \<lparr>ir_catalog = ''a'', ir_table = ''gone'', ir_column = ''x'', ir_cardinality = Some 9\<rparr>]"

lemma sample_rows_fit: "rows_fit sample_table_rows sample_index_rows"
proof -
  have "NUL \<noteq> CHR ''a''" by code_simp
  then show ?thesis
    by (simp add: rows_fit_def row_names_ok_def sample_table_rows_def sample_index_rows_def uint_fits_def)
qed

section \<open>Properties\<close>

text \<open>
  Both statistics queries have exactly as many parameter placeholders as arguments,
  for every combination of catalog and table filters.
\<close>
theorem statistics_query_arguments:
  "case statisticsFilter cat tbl of (filt, args) \<Rightarrow>
     countPlaceholders (stats_table_query filt) = length args \<and>
     countPlaceholders (stats_index_query filt) = length args"
  using stats_queries_ok [of cat tbl] by (auto simp: piece_ok_def split: prod.splits)

text \<open>
  C40 (functional). From the rows of the table query and of the index query, GetStatistics collects
  for each catalog, in order of first appearance and under the single schema \<open>""\<close>, the row count,
  data length, index length and average row length of its tables as far as they are known, followed
  by one distinct count per indexed column of those tables, all marked approximate; index rows of
  other tables are dropped, and no catalog is missing from the maps (no nil map is written).
\<close>
theorem statistics_collected:
  assumes "rows_fit trs irs"
    and "r_rows rs = map table_row_cells trs" "r_err rs = None" "r_close rs = None"
    and "r_rows rs' = map index_row_cells irs" "r_err rs' = None" "r_close rs' = None"
  shows "\<exists>st st'. read_table_stats rs = Inr st \<and> read_index_stats rs' st = Inr st' \<and>
    catalogOrder st' = rev (remdups (rev (map tr_catalog trs))) \<and>
    (\<forall>cat. schemaOrder st' cat = (if cat \<in> set (catalogOrder st') then Some [[]] else None) \<and>
       statsByCatalog st' cat =
         (if cat \<in> set (catalogOrder st') then Some (catalog_stats trs irs cat) else None))"
  using read_stats [OF assms] by (auto simp: indexed_state_def tables_state_def)

theorem statistics_collected_witness:
  "\<exists>st st'. read_table_stats
      \<lparr>r_rows = map table_row_cells sample_table_rows, r_err = None, r_close = None\<rparr> = Inr st \<and>
    read_index_stats
      \<lparr>r_rows = map index_row_cells sample_index_rows, r_err = None, r_close = None\<rparr> st = Inr st' \<and>
    catalogOrder st' = [''a''] \<and>
    map_option (map stat_value) (statsByCatalog st' ''a'') = Some [3, 48, 16, 2]"
proof -
  obtain st st' where st: "read_table_stats
      \<lparr>r_rows = map table_row_cells sample_table_rows, r_err = None, r_close = None\<rparr> = Inr st"
    "read_index_stats
      \<lparr>r_rows = map index_row_cells sample_index_rows, r_err = None, r_close = None\<rparr> st = Inr st'"
    "catalogOrder st' = [''a'']"
    "statsByCatalog st' ''a'' = Some (catalog_stats sample_table_rows sample_index_rows ''a'')"
    using statistics_collected [OF sample_rows_fit,
        of "\<lparr>r_rows = map table_row_cells sample_table_rows, r_err = None, r_close = None\<rparr>"
           "\<lparr>r_rows = map index_row_cells sample_index_rows, r_err = None, r_close = None\<rparr>"]
    by (auto simp: sample_table_rows_def)
  moreover have "map stat_value (catalog_stats sample_table_rows sample_index_rows ''a'') = [3, 48, 16, 2]"
    by code_simp
  ultimately show ?thesis by auto
qed

end
