(* ===== verification/Driver_Ops.thy ===== *)
theory Driver_Ops
  imports Statement Table_Constraints Statistics Table_Schema
begin

text \<open>
  All operations of a connection together, as the calls a client can make in any order, and the
  discipline they keep on the shared session: no statement or query is sent unless the same
  operation has first drained the results an earlier statement left behind.
\<close>

section \<open>The calls\<close>

datatype conn_call =
    CallGetCurrentCatalog
  | CallSetCurrentCatalog string
  | CallGetCurrentDbSchema
  | CallSetCurrentDbSchema string
  | CallPrepareDriverInfo
  | CallListTableTypes
  | CallGetOpt string
  | CallSetOpt string string
  | CallSetAutocommit bool
  | CallCommit
  | CallRollback
  | CallNewStatement
  | CallGetTableSchema "string option" "string option" string
  | CallGetObjects int "string option" "string option" "string option" "string option" "string list"
  | CallGetStatistics "string option" "string option" "string option" bool

text \<open>The code outside the repository that the calls rely on.\<close>

record environment =
  env_unicode :: unicode
  env_lib :: sqlwrapper
  env_xdbc :: xdbc
  env_server :: server
  env_base :: base_object
  env_objects :: "GetObjectsInfo list \<Rightarrow> go_error + unit"
  env_stats :: "unit stats_reader"

fun run_call :: "environment \<Rightarrow> conn_call \<Rightarrow> mariadbConnectionImpl \<Rightarrow> mariadbConnectionImpl" where
  "run_call E CallGetCurrentCatalog c = snd (GetCurrentCatalog (env_server E) c)"
| "run_call E (CallSetCurrentCatalog n) c = snd (SetCurrentCatalog (env_server E) n c)"
| "run_call E CallGetCurrentDbSchema c = snd (GetCurrentDbSchema c)"
| "run_call E (CallSetCurrentDbSchema n) c = snd (SetCurrentDbSchema n c)"
| "run_call E CallPrepareDriverInfo c = snd (PrepareDriverInfo (env_server E) c)"
| "run_call E CallListTableTypes c = snd (ListTableTypes c)"
| "run_call E (CallGetOpt k) c = snd (conn_GetOption (env_unicode E) (env_server E) k c)"
| "run_call E (CallSetOpt k v) c = snd (conn_SetOption (env_server E) k v c)"
| "run_call E (CallSetAutocommit b) c = snd (SetAutocommit (env_server E) b c)"
| "run_call E CallCommit c = snd (Commit (env_server E) c)"
| "run_call E CallRollback c = snd (Rollback (env_server E) c)"
| "run_call E CallNewStatement c = snd (NewStatement (env_server E) (env_base E) c)"
| "run_call E (CallGetTableSchema cat sch tbl) c =
     snd (GetTableSchema (env_unicode E) (env_lib E) (env_server E) cat sch tbl c)"
| "run_call E (CallGetObjects d cat sch tbl col types) c =
     snd (GetObjects (env_unicode E) (env_xdbc E) (env_server E) (env_objects E) d cat sch tbl col types c)"
| "run_call E (CallGetStatistics cat sch tbl approx) c =
     snd (GetStatistics (env_server E) (env_stats E) cat sch tbl approx c)"

section \<open>The contract\<close>

lemma disciplined_copy_option: "disciplined S ok (copy_option S B stmt)"
proof -
  define close :: "go_error \<Rightarrow> mariadbStatement op" where
    "close err = bindE (CloseStatement S) (\<lambda>closeErr.
       case closeErr of
         Some ce \<Rightarrow> failE (or_else (errors_Join [Some err, Some ce]) err)
       | None \<Rightarrow> failE err)" for err
  have "disciplined S ok (CloseStatement S)"
    by (auto simp: CloseStatement_def log_event_def intro!: disciplined_event)
  then have c: "disciplined S ok (close err)" for err
    unfolding close_def by (rule disciplined_bind) (simp split: option.splits)
  show ?thesis
    unfolding disciplined_def
  proof
    fix c :: mariadbConnectionImpl
    obtain r stmt' where
      "st_SetOption B stmt OptionKeyZeroDatetimeBehavior (zdb_String (conn_zdb c)) = (r, stmt')"
      by fastforce
    then have "copy_option S B stmt c = (case r of None \<Rightarrow> (Inr stmt', c) | Some err \<Rightarrow> close err c)"
      by (simp add: copy_option_def close_def split: option.splits)
    then show "\<exists>es. trace (snd (copy_option S B stmt c)) = trace c @ es \<and> guarded S (trace c) ok es \<and>
        ((\<exists>x. fst (copy_option S B stmt c) = Inr x) \<longrightarrow> ok \<longrightarrow> cleared S (trace c) ok es)"
      using c [unfolded disciplined_def] by (cases r) auto
  qed
qed

lemma disciplined_NewStatement: "disciplined S ok (NewStatement S B)"
  unfolding NewStatement_def
  by (rule disciplined_bind)
    (auto simp: BaseNewStatement_def log_event_def disciplined_copy_option intro!: disciplined_event)

lemma run_disciplined:
  "disciplined S False m \<Longrightarrow> \<exists>es. trace (snd (m c)) = trace c @ es \<and> guarded S (trace c) False es"
  by (auto simp: disciplined_def)

lemmas disciplined_all = disciplined_conn disciplined_NewStatement disciplined_GetObjects
  disciplined_GetStatistics disciplined_GetTableSchema

interpretation calls: session_ops "env_server E" "run_call E" for E
proof unfold_locales
  fix p c
  show "\<exists>es. trace (run_call E p c) = trace c @ es \<and> guarded (env_server E) (trace c) False es"
    by (cases p)
      (auto intro!: run_disciplined disciplined_all
        simp: GetCurrentDbSchema_def SetCurrentDbSchema_def ListTableTypes_def)
qed

section \<open>Properties\<close>

text \<open>
  C1 (invariant). Whatever sequence of connection operations a client runs, on a connection in any
  state and against a server with any behaviour, the session's history only grows, and within the
  part each single operation adds every statement or query is preceded by a \<open>ClearPending\<close> of that
  operation that succeeded.
\<close>
theorem clear_before_use:
  "\<exists>parts. length parts = length calls \<and>
     trace (run_all (run_call E) calls c) = trace c @ concat parts \<and>
     guarded_parts (env_server E) (trace c) parts"
  by (rule calls.run_all_parts)

end
