(* ===== verification/Go_Url.thy ===== *)
theory Go_Url
  imports Prelude
begin

text \<open>
  The part of Go's package \<open>net/url\<close> that the database factory uses: \<open>url.Parse\<close>, the accessors
  \<open>Hostname\<close> and \<open>Port\<close>, and percent-decoding. Hosts with an opening bracket (IP literals) or with
  more than one colon are treated differently by different releases of Go; what \<open>parseHost\<close> makes
  of those is the parameter \<open>irregular_host\<close>. Errors are the reasons \<open>url.Parse\<close> wraps
  (\<open>InvalidPort\<close> is the message about an invalid port after the host).
\<close>

section \<open>Percent-decoding\<close>

datatype encoding = encodePath | encodeHost | encodeUserPassword | encodeFragment

definition ishex :: "char \<Rightarrow> bool" where
  "ishex c \<longleftrightarrow> (48 \<le> byte c \<and> byte c \<le> 57) \<or> (97 \<le> byte c \<and> byte c \<le> 102) \<or> (65 \<le> byte c \<and> byte c \<le> 70)"

definition unhex :: "char \<Rightarrow> nat" where
  "unhex c =
     (if 48 \<le> byte c \<and> byte c \<le> 57 then byte c - 48
      else if 97 \<le> byte c \<and> byte c \<le> 102 then byte c - 97 + 10
      else if 65 \<le> byte c \<and> byte c \<le> 70 then byte c - 65 + 10 else 0)"

definition alnum :: "char \<Rightarrow> bool" where
  "alnum c \<longleftrightarrow> (97 \<le> byte c \<and> byte c \<le> 122) \<or> (65 \<le> byte c \<and> byte c \<le> 90) \<or> (48 \<le> byte c \<and> byte c \<le> 57)"

text \<open>
  The ASCII bytes a host may hold unescaped: \<open>shouldEscape(c, encodeHost)\<close> is false for letters,
  digits and the bytes \<open>! " $ & ' ( ) * + , - . : ; < = > [ ] _ ~\<close>.
\<close>

definition host_byte :: "char \<Rightarrow> bool" where
  "host_byte c \<longleftrightarrow> alnum c \<or> byte c \<in> {33, 34, 36, 38, 39, 40, 41, 42, 43, 44, 45, 46, 58, 59, 60, 61, 62, 91, 93, 95, 126}"

datatype url_error =
    EscapeError string
  | InvalidHostError string
  | InvalidPort string
  | url_message string

text \<open>
  \<open>unescape\<close>: one pass that checks and decodes. A host may only escape bytes from 128 on, and the
  percent sign itself. (The plus sign is special in query components only, which are not decoded
  here.)
\<close>

fun unescape_from :: "encoding \<Rightarrow> string \<Rightarrow> url_error + string" where
  "unescape_from mode [] = Inr []"
| "unescape_from mode (c # r) =
     (if c = CHR ''%'' then
        (case r of
           a # b # r' \<Rightarrow>
             if \<not> (ishex a \<and> ishex b) then Inl (EscapeError (take 3 (c # r)))
             else if mode = encodeHost \<and> unhex a < 8 \<and> \<not> (a = CHR ''2'' \<and> b = CHR ''5'')
             then Inl (EscapeError [c, a, b])
             else (case unescape_from mode r' of
                     Inl e \<Rightarrow> Inl e
                   | Inr t \<Rightarrow> Inr (char_of (unhex a * 16 + unhex b) # t))
         | _ \<Rightarrow> Inl (EscapeError (take 3 (c # r))))
      else if mode = encodeHost \<and> byte c < 128 \<and> \<not> host_byte c then Inl (InvalidHostError [c])
      else (case unescape_from mode r of Inl e \<Rightarrow> Inl e | Inr t \<Rightarrow> Inr (c # t)))"

definition unescape :: "encoding \<Rightarrow> string \<Rightarrow> url_error + string" where
  "unescape mode s = unescape_from mode s"

section \<open>The authority\<close>

record userinfo =
  ui_username :: string
  ui_password :: "string option"

text \<open>Letters, digits and \<open>- . _ : ~ ! $ & ' ( ) * + , ; = % @\<close>.\<close>

definition userinfo_byte :: "char \<Rightarrow> bool" where
  "userinfo_byte c \<longleftrightarrow> alnum c \<or> byte c \<in> {33, 36, 37, 38, 39, 40, 41, 42, 43, 44, 45, 46, 58, 59, 61, 64, 95, 126}"

definition validUserinfo :: "string \<Rightarrow> bool" where
  "validUserinfo s \<longleftrightarrow> list_all userinfo_byte s"

definition validOptionalPort :: "string \<Rightarrow> bool" where
  "validOptionalPort port = (case port of [] \<Rightarrow> True | c # r \<Rightarrow> c = CHR '':'' \<and> all_digits r)"

text \<open>What \<open>parseHost\<close> makes of bracketed and many-colon hosts.\<close>

type_synonym irregular_host = "string \<Rightarrow> url_error + string"

definition regular_host :: "string \<Rightarrow> bool" where
  "regular_host h \<longleftrightarrow> CHR ''['' \<notin> set h \<and> length (filter (\<lambda>c. c = CHR '':'') h) \<le> 1"

definition parseHost :: "irregular_host \<Rightarrow> string \<Rightarrow> url_error + string" where
  "parseHost H host =
     (if \<not> regular_host host then H host
      else case LastIndexByte host CHR '':'' of
             Some i \<Rightarrow>
               if validOptionalPort (drop i host) then unescape encodeHost host
               else Inl (InvalidPort (drop i host))
           | None \<Rightarrow> unescape encodeHost host)"

definition parseUserinfo :: "string \<Rightarrow> url_error + userinfo" where
  "parseUserinfo userinfo =
     (if \<not> validUserinfo userinfo then Inl (url_message ''net/url: invalid userinfo'')
      else if CHR '':'' \<notin> set userinfo
      then (case unescape encodeUserPassword userinfo of
              Inl e \<Rightarrow> Inl e | Inr u \<Rightarrow> Inr \<lparr>ui_username = u, ui_password = None\<rparr>)
      else (let (username, password, found) = Cut userinfo '':'' in
            case unescape encodeUserPassword username of
              Inl e \<Rightarrow> Inl e
            | Inr u \<Rightarrow> (case unescape encodeUserPassword password of
                Inl e \<Rightarrow> Inl e | Inr p \<Rightarrow> Inr \<lparr>ui_username = u, ui_password = Some p\<rparr>)))"

definition parseAuthority :: "irregular_host \<Rightarrow> string \<Rightarrow> url_error + userinfo option \<times> string" where
  "parseAuthority H authority =
     (case LastIndexByte authority CHR ''@'' of
        None \<Rightarrow> (case parseHost H authority of Inl e \<Rightarrow> Inl e | Inr host \<Rightarrow> Inr (None, host))
      | Some i \<Rightarrow>
          (case parseHost H (drop (Suc i) authority) of
             Inl e \<Rightarrow> Inl e
           | Inr host \<Rightarrow> (case parseUserinfo (take i authority) of
               Inl e \<Rightarrow> Inl e | Inr u \<Rightarrow> Inr (Some u, host))))"

section \<open>Parsing\<close>

record URL =
  url_Scheme :: string
  url_User :: "userinfo option"
  url_Host :: string
  url_Path :: string
  url_RawQuery :: string

definition scheme_letter :: "char \<Rightarrow> bool" where
  "scheme_letter c \<longleftrightarrow> (97 \<le> byte c \<and> byte c \<le> 122) \<or> (65 \<le> byte c \<and> byte c \<le> 90)"

definition scheme_extra :: "char \<Rightarrow> bool" where
  "scheme_extra c \<longleftrightarrow> (48 \<le> byte c \<and> byte c \<le> 57) \<or> c = CHR ''+'' \<or> c = CHR ''-'' \<or> c = CHR ''.''"

text \<open>\<open>getScheme\<close>: the loop at index \<open>i\<close>; \<open>None\<close> is the error of a leading colon.\<close>

fun getScheme_from :: "string \<Rightarrow> nat \<Rightarrow> string \<Rightarrow> (string \<times> string) option" where
  "getScheme_from raw i [] = Some ([], raw)"
| "getScheme_from raw i (c # r) =
     (if scheme_letter c then getScheme_from raw (Suc i) r
      else if scheme_extra c then (if i = 0 then Some ([], raw) else getScheme_from raw (Suc i) r)
      else if c = CHR '':'' then (if i = 0 then None else Some (take i raw, r))
      else Some ([], raw))"

definition getScheme :: "string \<Rightarrow> (string \<times> string) option" where
  "getScheme raw = getScheme_from raw 0 raw"

definition stringContainsCTLByte :: "string \<Rightarrow> bool" where
  "stringContainsCTLByte s \<longleftrightarrow> list_ex (\<lambda>c. byte c < 32 \<or> byte c = 127) s"

text \<open>A lone trailing question mark sets \<open>ForceQuery\<close> only; the query is empty in both cases.\<close>

definition split_query :: "string \<Rightarrow> string \<times> string" where
  "split_query rest = (let (p, q, found) = Cut rest ''?'' in (p, q))"

definition with_path :: "string \<Rightarrow> userinfo option \<Rightarrow> string \<Rightarrow> string \<Rightarrow> string \<Rightarrow> url_error + URL" where
  "with_path scheme user host query p =
     (case unescape encodePath p of
        Inl e \<Rightarrow> Inl e
      | Inr path \<Rightarrow> Inr \<lparr>url_Scheme = scheme, url_User = user, url_Host = host, url_Path = path, url_RawQuery = query\<rparr>)"

definition url_parse :: "irregular_host \<Rightarrow> string \<Rightarrow> url_error + URL" where
  "url_parse H raw =
     (if stringContainsCTLByte raw then Inl (url_message ''net/url: invalid control character in URL'')
      else if raw = ''*''
      then Inr \<lparr>url_Scheme = [], url_User = None, url_Host = [], url_Path = ''*'', url_RawQuery = []\<rparr>
      else case getScheme raw of
        None \<Rightarrow> Inl (url_message ''missing protocol scheme'')
      | Some (scheme0, rest0) \<Rightarrow>
          (let scheme = map ascii_lower scheme0; (rest, query) = split_query rest0 in
           if \<not> HasPrefix rest ''/'' \<and> scheme \<noteq> []
           then Inr \<lparr>url_Scheme = scheme, url_User = None, url_Host = [], url_Path = [], url_RawQuery = query\<rparr>
           else if \<not> HasPrefix rest ''/'' \<and> Contains (fst (Cut rest ''/'')) '':''
           then Inl (url_message ''first path segment in URL cannot contain colon'')
           else if (scheme \<noteq> [] \<or> \<not> HasPrefix rest ''///'') \<and> HasPrefix rest ''//''
           then (let a = drop 2 rest;
                     (authority, p) = (case IndexByte a CHR ''/'' of
                        Some i \<Rightarrow> (take i a, drop i a) | None \<Rightarrow> (a, [])) in
                 case parseAuthority H authority of
                   Inl e \<Rightarrow> Inl e
                 | Inr (user, host) \<Rightarrow> with_path scheme user host query p)
           else with_path scheme None [] query rest))"

text \<open>
  \<open>url.Parse\<close>: the fragment is cut off first and must decode. An error carries the text that was
  being parsed.
\<close>

definition url_Parse :: "irregular_host \<Rightarrow> string \<Rightarrow> (string \<times> url_error) + URL" where
  "url_Parse H rawURL =
     (let (u, frag, found) = Cut rawURL ''#'' in
      case url_parse H u of
        Inl e \<Rightarrow> Inl (u, e)
      | Inr url \<Rightarrow>
          if frag = [] then Inr url
          else case unescape encodeFragment frag of Inl e \<Rightarrow> Inl (rawURL, e) | Inr f \<Rightarrow> Inr url)"

section \<open>Host and port\<close>

definition splitHostPort :: "string \<Rightarrow> string \<times> string" where
  "splitHostPort hostPort =
     (let (host, port) = (case LastIndexByte hostPort CHR '':'' of
            Some colon \<Rightarrow>
              if validOptionalPort (drop colon hostPort)
              then (take colon hostPort, drop (Suc colon) hostPort) else (hostPort, [])
          | None \<Rightarrow> (hostPort, [])) in
      if HasPrefix host ''['' \<and> host \<noteq> [] \<and> last host = CHR '']''
      then (butlast (tl host), port) else (host, port))"

definition Hostname :: "URL \<Rightarrow> string" where
  "Hostname u = fst (splitHostPort (url_Host u))"

definition Port :: "URL \<Rightarrow> string" where
  "Port u = snd (splitHostPort (url_Host u))"

section \<open>Percent-encoding every byte that is not a letter or digit\<close>

definition hex_digit :: "nat \<Rightarrow> char" where
  "hex_digit d = (if d < 10 then char_of (48 + d) else char_of (55 + d))"

definition percent_encode :: "string \<Rightarrow> string" where
  "percent_encode s = concat (map (\<lambda>c. if alnum c then [c]
     else [CHR ''%'', hex_digit (byte c div 16), hex_digit (byte c mod 16)]) s)"

text \<open>The bytes an encoded text consists of.\<close>

definition encoded_byte :: "char \<Rightarrow> bool" where
  "encoded_byte c \<longleftrightarrow> alnum c \<or> c = CHR ''%''"

lemma byte_hex_digit: "d < 16 \<Longrightarrow> byte (hex_digit d) = (if d < 10 then 48 + d else 55 + d)"
  by (simp add: hex_digit_def byte_char_of)

lemma ishex_hex_digit [simp]: "d < 16 \<Longrightarrow> ishex (hex_digit d)"
  by (auto simp: ishex_def byte_hex_digit)

lemma unhex_hex_digit [simp]: "d < 16 \<Longrightarrow> unhex (hex_digit d) = d"
  by (auto simp: unhex_def byte_hex_digit)

lemma alnum_hex_digit [simp]: "d < 16 \<Longrightarrow> alnum (hex_digit d)"
  by (auto simp: alnum_def byte_hex_digit)

lemma percent_not_alnum [simp]: "\<not> alnum CHR ''%''"
  by (simp add: alnum_def byte_def)

lemma percent_encode_Nil [simp]: "percent_encode [] = []"
  by (simp add: percent_encode_def)

lemma percent_encode_Cons:
  "percent_encode (c # s) = (if alnum c then [c]
     else [CHR ''%'', hex_digit (byte c div 16), hex_digit (byte c mod 16)]) @ percent_encode s"
  by (simp add: percent_encode_def)

lemma byte_high [simp]: "byte c div 16 < 16"
  using byte_less [of c] by (simp add: less_mult_imp_div_less)

lemma percent_encode_bytes: "list_all encoded_byte (percent_encode s)"
  by (induction s) (auto simp: percent_encode_Cons encoded_byte_def)

lemma percent_encode_eq_Nil [simp]: "percent_encode s = [] \<longleftrightarrow> s = []"
  by (cases s) (auto simp: percent_encode_Cons)

lemma unescape_percent_encode_append:
  assumes "mode \<noteq> encodeHost"
  shows "unescape_from mode (percent_encode s @ r) =
    (case unescape_from mode r of Inl e \<Rightarrow> Inl e | Inr t \<Rightarrow> Inr (s @ t))"
proof (induction s)
  case Nil
  then show ?case by (simp split: sum.splits)
next
  case (Cons c s)
  have "byte c div 16 * 16 + byte c mod 16 = byte c" by (rule div_mult_mod_eq)
  moreover have "c \<noteq> CHR ''%''" if "alnum c" using that by auto
  ultimately show ?case
    using Cons assms by (auto simp: percent_encode_Cons split: sum.splits)
qed

text \<open>Decoding undoes the encoding, for every sequence of bytes.\<close>

lemma unescape_percent_encode:
  "mode \<noteq> encodeHost \<Longrightarrow> unescape mode (percent_encode s) = Inr s"
  using unescape_percent_encode_append [of mode s "[]"] by (simp add: unescape_def)

lemma unescape_slash_percent_encode:
  "mode \<noteq> encodeHost \<Longrightarrow> unescape mode (CHR ''/'' # percent_encode s) = Inr (CHR ''/'' # s)"
  using unescape_percent_encode_append [of mode s "[]"] by (simp add: unescape_def)

end
