(* ===== verification/DB_Factory.thy ===== *)
theory DB_Factory
  imports Go_Url Go_Errors Sql_Text
begin

text \<open>
  The database factory (\<open>db_factory.go\<close>): from the options of the database to the DSN of the wire
  library, with the time zone forced to UTC. The wire library's \<open>Config\<close>, \<open>ParseDSN\<close> and
  \<open>FormatDSN\<close> and the success of \<open>sql.Open\<close> are parameters (record \<open>wire_lib\<close>); errors of the
  library are their texts.
\<close>

section \<open>The wire library\<close>

text \<open>
  The fields of \<open>mysql.Config\<close> the factory reads or writes; the others are \<open>cfg_other\<close>. \<open>None\<close> as
  the parameters is the nil map.
\<close>

record 'o Config =
  cfg_User :: string
  cfg_Passwd :: string
  cfg_Net :: string
  cfg_Addr :: string
  cfg_DBName :: string
  cfg_Params :: "(string \<rightharpoonup> string) option"
  cfg_other :: 'o

record 'o wire_lib =
  NewConfig :: "'o Config"
  ParseDSN :: "string \<Rightarrow> string + 'o Config"
  FormatDSN :: "'o Config \<Rightarrow> string"
  sql_Open :: "string \<Rightarrow> string \<Rightarrow> string option"
  wire_host :: irregular_host

text \<open>An opened \<open>sql.DB\<close>: its driver, its DSN and the limit on idle connections.\<close>

record sql_DB =
  db_driver :: string
  db_dsn :: string
  db_max_idle :: nat

definition OptionKeyURI :: string where "OptionKeyURI = ''uri''"
definition OptionKeyUsername :: string where "OptionKeyUsername = ''username''"
definition OptionKeyPassword :: string where "OptionKeyPassword = ''password''"

text \<open>Reading a Go map: a missing key gives the empty string.\<close>

definition map_get :: "(string \<rightharpoonup> string) \<Rightarrow> string \<Rightarrow> string" where
  "map_get m k = (case m k of None \<Rightarrow> [] | Some v \<Rightarrow> v)"

section \<open>Building the DSN\<close>

text \<open>The parts of a URL error that its text is made of.\<close>

fun url_error_args :: "string \<times> url_error \<Rightarrow> string list" where
  "url_error_args (u, EscapeError s) = [''parse'', u, ''invalid URL escape'', s]"
| "url_error_args (u, InvalidHostError s) = [''parse'', u, ''invalid character in host name'', s]"
| "url_error_args (u, InvalidPort s) = [''parse'', u, ''invalid port after host'', s]"
| "url_error_args (u, url_message s) = [''parse'', u, s]"

definition override_credentials :: "string \<Rightarrow> string \<Rightarrow> 'o Config \<Rightarrow> 'o Config" where
  "override_credentials username password cfg =
     (let cfg = (if username \<noteq> [] then cfg\<lparr>cfg_User := username\<rparr> else cfg) in
      if password \<noteq> [] then cfg\<lparr>cfg_Passwd := password\<rparr> else cfg)"

definition url_credentials :: "URL \<Rightarrow> 'o Config \<Rightarrow> 'o Config" where
  "url_credentials u cfg =
     (case url_User u of
        None \<Rightarrow> cfg
      | Some ui \<Rightarrow>
          (let cfg = cfg\<lparr>cfg_User := ui_username ui\<rparr> in
           case ui_password ui of None \<Rightarrow> cfg | Some pass \<Rightarrow> cfg\<lparr>cfg_Passwd := pass\<rparr>))"

text \<open>The switch on the host name: network, address and the path that names the database.\<close>

definition url_address :: "string \<Rightarrow> URL \<Rightarrow> 'o Config \<Rightarrow> go_error + 'o Config \<times> string" where
  "url_address mariadbURI u cfg =
     (if Hostname u = ''('' then
        (case Index (url_Path u) '')'' of
           None \<Rightarrow> Inl (Errorf ''invalid MariaDB URI: missing closing ')' for socket path in %s'' [url_Path u])
         | Some closeParenIndex \<Rightarrow>
             Inr (cfg\<lparr>cfg_Net := ''unix'', cfg_Addr := take closeParenIndex (url_Path u)\<rparr>,
                  drop (closeParenIndex + 1) (url_Path u)))
      else if Hostname u = [] then
        Inl (Errorf ''missing hostname in URI: %s. Use explicit hostname or socket syntax: mariadb://user@(socketpath)/db''
          [mariadbURI])
      else
        Inr (cfg\<lparr>cfg_Net := ''tcp'',
                cfg_Addr := (if Port u \<noteq> [] then url_Host u else url_Host u @ '':3306'')\<rparr>, url_Path u))"

definition set_dbname :: "string \<Rightarrow> 'o Config \<Rightarrow> 'o Config" where
  "set_dbname dbPath cfg =
     (if dbPath \<noteq> [] \<and> dbPath \<noteq> ''/'' then cfg\<lparr>cfg_DBName := TrimPrefix dbPath ''/''\<rparr> else cfg)"

definition parseToMariaDBDSN :: "'o wire_lib \<Rightarrow> string \<Rightarrow> string \<Rightarrow> string \<Rightarrow> go_error + string" where
  "parseToMariaDBDSN L mariadbURI username password =
     (case url_Parse (wire_host L) mariadbURI of
        Inl e \<Rightarrow> Inl (Errorf ''invalid MariaDB URI format: %v'' (url_error_args e))
      | Inr u \<Rightarrow>
          (let cfg = override_credentials username password (url_credentials u (NewConfig L)) in
           case url_address mariadbURI u cfg of
             Inl e \<Rightarrow> Inl e
           | Inr (cfg, dbPath) \<Rightarrow>
               (let dsn = FormatDSN L (set_dbname dbPath cfg) in
                Inr (if url_RawQuery u \<noteq> [] then dsn @ ''?'' @ url_RawQuery u else dsn))))"

definition buildFromNativeDSN :: "'o wire_lib \<Rightarrow> string \<Rightarrow> string \<Rightarrow> string \<Rightarrow> go_error + string" where
  "buildFromNativeDSN L baseURI username password =
     (let cfg = (if Contains baseURI ''@'' \<or> Contains baseURI ''/''
                 then map_err (\<lambda>e. Errorf ''invalid MariaDB DSN format: %v'' [e]) (ParseDSN L baseURI)
                 else Inr ((NewConfig L)\<lparr>cfg_Addr := baseURI, cfg_Net := ''tcp''\<rparr>)) in
      case cfg of
        Inl e \<Rightarrow> Inl e
      | Inr cfg \<Rightarrow> Inr (FormatDSN L (override_credentials username password cfg)))"

definition BuildMariaDBDSN :: "'o wire_lib \<Rightarrow> (string \<rightharpoonup> string) \<Rightarrow> go_error + string" where
  "BuildMariaDBDSN L opts =
     (let baseURI = map_get opts OptionKeyURI;
          username = map_get opts OptionKeyUsername;
          password = map_get opts OptionKeyPassword in
      if baseURI = [] then Inl (Errorf ''missing required option %s'' [OptionKeyURI])
      else if HasPrefix baseURI ''mariadb://'' then parseToMariaDBDSN L baseURI username password
      else (let (scheme, _, found) = Cut baseURI ''://'' in
            if found then Inl (Errorf ''unsupported URI scheme %q: expected mariadb://'' [scheme])
            else if username = [] \<and> password = [] then Inr baseURI
            else buildFromNativeDSN L baseURI username password))"

section \<open>Forcing UTC\<close>

datatype warning = WarnTimeZone string | WarnLoc string

text \<open>The value \<open>'+00:00'\<close>, with its quotes, and \<open>'UTC'\<close>.\<close>

definition utc_offset :: string where "utc_offset = quot1 # ''+00:00'' @ [quot1]"
definition utc_name :: string where "utc_name = quot1 # ''UTC'' @ [quot1]"

definition params_of :: "'o Config \<Rightarrow> string \<rightharpoonup> string" where
  "params_of cfg = (case cfg_Params cfg of None \<Rightarrow> Map.empty | Some m \<Rightarrow> m)"

definition timezone_warnings :: "'o Config \<Rightarrow> warning list" where
  "timezone_warnings cfg =
     (case params_of cfg ''time_zone'' of
        Some existingTz \<Rightarrow> if existingTz \<noteq> utc_offset \<and> existingTz \<noteq> utc_name then [WarnTimeZone existingTz] else []
      | None \<Rightarrow> []) @
     (case params_of cfg ''loc'' of
        Some existingLoc \<Rightarrow> if existingLoc \<noteq> ''UTC'' then [WarnLoc existingLoc] else []
      | None \<Rightarrow> [])"

definition utc_config :: "'o Config \<Rightarrow> 'o Config" where
  "utc_config cfg =
     cfg\<lparr>cfg_Params := Some ((params_of cfg)(''time_zone'' \<mapsto> utc_offset, ''loc'' \<mapsto> ''UTC''))\<rparr>"

text \<open>The result, and the warnings logged when there is a logger.\<close>

definition forceUTCTimezone :: "'o wire_lib \<Rightarrow> string \<Rightarrow> bool \<Rightarrow> (go_error + string) \<times> warning list" where
  "forceUTCTimezone L dsn has_logger =
     (case ParseDSN L dsn of
        Inl err \<Rightarrow> (Inl (Errorf ''failed to parse DSN for timezone override: %v'' [err]), [])
      | Inr cfg \<Rightarrow> (Inr (FormatDSN L (utc_config cfg)), if has_logger then timezone_warnings cfg else []))"

section \<open>Opening the database\<close>

text \<open>\<open>sql.Open\<close> starts with two idle connections allowed; the factory allows none.\<close>

definition CreateDB :: "'o wire_lib \<Rightarrow> string \<Rightarrow> (string \<rightharpoonup> string) \<Rightarrow> bool \<Rightarrow>
    (go_error + sql_DB) \<times> warning list" where
  "CreateDB L driverName opts has_logger =
     (case BuildMariaDBDSN L opts of
        Inl err \<Rightarrow> (Inl err, [])
      | Inr dsn0 \<Rightarrow>
          (case forceUTCTimezone L dsn0 has_logger of
             (Inl err, w) \<Rightarrow> (Inl err, w)
           | (Inr dsn, w) \<Rightarrow>
               (case sql_Open L driverName dsn of
                  Some err \<Rightarrow> (Inl (Errorf err []), w)
                | None \<Rightarrow>
                    (let db = \<lparr>db_driver = driverName, db_dsn = dsn, db_max_idle = 2\<rparr> in
                     (Inr (db\<lparr>db_max_idle := 0\<rparr>), w)))))"

end
