(* ===== verification/Registration.thy ===== *)
theory Registration
  imports DB_Factory Statement
begin

text \<open>
  The driver object that \<open>NewDriver\<close> (\<open>mariadb.go\<close> lines 1064 to 1085) puts together from the parts of
  the development. The driver type belongs to \<open>sqlwrapper\<close>: the record has what \<open>NewDriver\<close> stores in
  it, and \<open>MustRegister\<close>, which adds the driver's information to what the library registered, is a
  parameter.
\<close>

section \<open>The driver object\<close>

datatype info_value = InfoText string | InfoBool bool

record 'o sql_driver =
  drv_sqlName :: string
  drv_vendorName :: string
  drv_dbFactory :: "string \<Rightarrow> (string \<rightharpoonup> string) \<Rightarrow> bool \<Rightarrow> (go_error + sql_DB) \<times> warning list"
  drv_databaseFactory :: "obj_event list \<Rightarrow> mariadbDatabase"
  drv_connectionFactory :: "mariadbDatabase \<Rightarrow> event list \<Rightarrow> mariadbConnectionImpl"
  drv_statementFactory :: "mariadbConnectionImpl \<Rightarrow> obj_event list \<Rightarrow> mariadbStatement"
  drv_errorInspector :: "(go_error \<Rightarrow> string) \<Rightarrow> go_error \<Rightarrow> Status \<Rightarrow> adbc_error"
  drv_info :: "nat \<rightharpoonup> info_value"

text \<open>The codes of \<open>adbc.h\<close>, and the code of the quote character.\<close>

definition InfoVendorSql :: nat where "InfoVendorSql = 3"
definition InfoVendorSubstrait :: nat where "InfoVendorSubstrait = 4"
definition InfoDriverName :: nat where "InfoDriverName = 100"
definition infoSqlIdentifierQuoteChar :: nat where "infoSqlIdentifierQuoteChar = 504"

definition driver_info :: "nat \<rightharpoonup> info_value" where
  "driver_info =
     [InfoDriverName \<mapsto> InfoText ''ADBC Driver Foundry Driver for MariaDB'',
      InfoVendorSql \<mapsto> InfoBool True,
      InfoVendorSubstrait \<mapsto> InfoBool False,
      infoSqlIdentifierQuoteChar \<mapsto> InfoText [btick]]"

definition NewDriver :: "((nat \<rightharpoonup> info_value) \<Rightarrow> nat \<rightharpoonup> info_value) \<Rightarrow> 'o wire_lib \<Rightarrow> 'o sql_driver" where
  "NewDriver MustRegister W =
     \<lparr>drv_sqlName = ''mysql'', drv_vendorName = ''MariaDB'', drv_dbFactory = CreateDB W,
      drv_databaseFactory = CreateDatabase, drv_connectionFactory = CreateConnection,
      drv_statementFactory = CreateStatement, drv_errorInspector = InspectError,
      drv_info = MustRegister driver_info\<rparr>"

section \<open>Lemmas\<close>

text \<open>
  The quote character that the driver registers is the one it quotes identifiers with, and no quote
  character is left unescaped inside.
\<close>

lemma NewDriver_quote_char:
  assumes "\<And>m k v. m k = Some v \<Longrightarrow> MustRegister m k = Some v"
  shows "\<exists>q. drv_info (NewDriver MustRegister W) infoSqlIdentifierQuoteChar = Some (InfoText q) \<and>
    quoteIdentifier name = q @ ReplaceAll name btick (q @ q) @ q"
proof -
  have "MustRegister driver_info infoSqlIdentifierQuoteChar = Some (InfoText [btick])"
    by (rule assms) (simp add: driver_info_def)
  then show ?thesis by (auto simp: NewDriver_def quoteIdentifier_def)
qed

text \<open>A statement made through the factories of the driver object converts with the option of its database.\<close>

lemma NewDriver_statement_zdb:
  "tc_zdb (MakeTypeConverter (drv_statementFactory D (drv_connectionFactory D db evs) ovs)) = db_zdb db"
  if "D = NewDriver MustRegister W"
  using that by (simp add: NewDriver_def CreateStatement_def CreateConnection_def MakeTypeConverter_def
      makeTypeConverter_def)

end
