(* ===== verification/C_Errors.thy ===== *)
theory C_Errors
  imports Go_Errors
begin

text \<open>
  Error structs and option buffers of the C interface (\<open>pkg/driver.go\<close> lines 88 to 218, 293 to
  313, 1056 to 1070 and 1100 to 1122, and the error functions of \<open>pkg/utils.c\<close>).

  A pointer argument is an \<open>option\<close>: \<open>None\<close> is the null pointer, \<open>Some\<close> the memory it points to. A Go
  panic is a value of \<open>go_panic\<close>. What belongs to other libraries or to the process is the parameter
  \<open>cgo_env\<close>: the release callbacks of errors this driver did not fill, the ADBC error inside a Go
  error and the texts of errors and panics, environment variables and temporary files, and the
  order in which a Go map is traversed.
\<close>

section \<open>Panics and the environment\<close>

datatype go_panic =
    NilDereference
  | IndexOutOfRange int int
  | InvalidHandle
  | BadTypeAssertion
  | OutOfHandles
  | BytesLengthOutOfRange int
  | LibraryPanic string

text \<open>\<open>struct AdbcError\<close>, and what its \<open>private_data\<close> points to, \<open>struct MariaDBError\<close>.\<close>

datatype c_release = MariaDB_release_error | MariaDBReleaseErrWithDetails | other_release

record MariaDBError =
  det_message :: string
  det_keys :: "string list"
  det_values :: "string list"
  det_lengths :: "nat list"
  det_count :: nat

record c_error =
  ce_message :: "string option"
  ce_vendor_code :: int
  ce_sqlstate :: string
  ce_release :: "c_release option"
  ce_private_data :: "MariaDBError option"

text \<open>An \<open>adbc.Error\<close> with its vendor code and details; a detail serialises to bytes or fails.\<close>

record adbc_Error = adbc_error +
  VendorCode :: int
  Details :: "(string \<times> (go_error + string)) list"

record cgo_env =
  env_release :: "c_error \<Rightarrow> c_error"
  env_as_adbc :: "go_error \<Rightarrow> adbc_Error option"
  env_error_text :: "go_error \<Rightarrow> string"
  env_panic_text :: "go_panic \<Rightarrow> string"
  env_getenv :: "string \<Rightarrow> string"
  env_temp_file :: "string + string"
  env_range_opts :: "string list \<Rightarrow> string list"
  env_case :: unicode

definition ADBC_ERROR_VENDOR_CODE_PRIVATE_DATA :: int where
  "ADBC_ERROR_VENDOR_CODE_PRIVATE_DATA = - (2 ^ 31)"

definition errPrefix :: string where
  "errPrefix = ''[mariadb] ''"

text \<open>\<open>C.CString\<close>: what a C reader sees of the copy, the bytes before the first zero byte.\<close>

definition CString :: "string \<Rightarrow> string" where
  "CString s = takeWhile (\<lambda>c. c \<noteq> NUL) s"

text \<open>\<open>C.GoString\<close>: the null pointer gives the empty string.\<close>

definition GoString :: "string option \<Rightarrow> string" where
  "GoString p = (case p of None \<Rightarrow> [] | Some s \<Rightarrow> s)"

section \<open>Releasing and filling error structs\<close>

text \<open>Calling the release function of an error.\<close>

fun call_release :: "cgo_env \<Rightarrow> c_release \<Rightarrow> c_error \<Rightarrow> c_error" where
  "call_release R MariaDB_release_error e = e\<lparr>ce_message := None, ce_release := None\<rparr>"
| "call_release R MariaDBReleaseErrWithDetails e =
     (if ce_private_data e = None then e
      else e\<lparr>ce_message := None, ce_release := None, ce_private_data := None\<rparr>)"
| "call_release R other_release e = env_release R e"

definition MariaDBerrRelease :: "cgo_env \<Rightarrow> c_error \<Rightarrow> c_error" where
  "MariaDBerrRelease R e =
     (case ce_release e of None \<Rightarrow> e | Some f \<Rightarrow> (call_release R f e)\<lparr>ce_release := None\<rparr>)"

definition prefixed :: "string \<Rightarrow> string \<Rightarrow> string" where
  "prefixed format text = (if HasPrefix format errPrefix then text else errPrefix @ text)"

definition set_message :: "cgo_env \<Rightarrow> string \<Rightarrow> c_error \<Rightarrow> c_error" where
  "set_message R msg e =
     (let e = (if ce_release e \<noteq> None then MariaDBerrRelease R e else e) in
      e\<lparr>ce_message := Some (CString msg), ce_release := Some MariaDB_release_error\<rparr>)"

definition setErr :: "cgo_env \<Rightarrow> string \<Rightarrow> c_error option \<Rightarrow> c_error option" where
  "setErr R format err =
     (case err of None \<Rightarrow> None | Some e \<Rightarrow> Some (set_message R (prefixed format format) e))"

text \<open>\<open>fmtErr\<close> with a format and the text that \<open>fmt.Sprintf\<close> makes of it.\<close>

definition fmtErr :: "cgo_env \<Rightarrow> string \<Rightarrow> string \<Rightarrow> c_error option \<Rightarrow> c_error option" where
  "fmtErr R format text err =
     (case err of None \<Rightarrow> None | Some e \<Rightarrow> Some (set_message R (prefixed format text) e))"

text \<open>The value and length stored for a detail: its bytes, or the text of the error it fails with.\<close>

definition detail_value :: "cgo_env \<Rightarrow> go_error + string \<Rightarrow> string" where
  "detail_value R v = (case v of Inl e \<Rightarrow> env_error_text R e | Inr b \<Rightarrow> b)"

definition error_details :: "cgo_env \<Rightarrow> adbc_Error \<Rightarrow> MariaDBError" where
  "error_details R a =
     \<lparr>det_message = CString (Msg a),
      det_keys = map (\<lambda>d. CString (fst d)) (Details a),
      det_values = map (\<lambda>d. detail_value R (snd d)) (Details a),
      det_lengths = map (\<lambda>d. length (detail_value R (snd d))) (Details a),
      det_count = length (Details a)\<rparr>"

definition setErrWithDetails :: "cgo_env \<Rightarrow> adbc_Error \<Rightarrow> c_error option \<Rightarrow> c_error option" where
  "setErrWithDetails R a err =
     (case err of
        None \<Rightarrow> None
      | Some e0 \<Rightarrow>
          (let e = e0\<lparr>ce_sqlstate := take 5 (SqlState a)\<rparr> in
           if ce_vendor_code e \<noteq> ADBC_ERROR_VENDOR_CODE_PRIVATE_DATA
           then setErr R (Msg a)
                  (Some (if VendorCode a \<noteq> ADBC_ERROR_VENDOR_CODE_PRIVATE_DATA
                         then e\<lparr>ce_vendor_code := VendorCode a\<rparr> else e))
           else if Details a = [] \<and> VendorCode a \<noteq> 0 \<and> VendorCode a \<noteq> ADBC_ERROR_VENDOR_CODE_PRIVATE_DATA
           then setErr R (Msg a) (Some (e\<lparr>ce_vendor_code := VendorCode a\<rparr>))
           else Some (e\<lparr>ce_message := Some (CString (Msg a)),
                        ce_release := Some MariaDBReleaseErrWithDetails,
                        ce_private_data := Some (error_details R a)\<rparr>)))"

definition errToAdbcErr :: "cgo_env \<Rightarrow> go_error option \<Rightarrow> c_error option \<Rightarrow> Status \<times> c_error option" where
  "errToAdbcErr R err adbcerr =
     (case err of
        None \<Rightarrow> (StatusOK, adbcerr)
      | Some e \<Rightarrow>
          (case env_as_adbc R e of
             Some a \<Rightarrow> (Code a, setErrWithDetails R a adbcerr)
           | None \<Rightarrow> (StatusUnknown, setErr R (env_error_text R e) adbcerr)))"

section \<open>Reading the details\<close>

definition has_details :: "c_error option \<Rightarrow> MariaDBError option" where
  "has_details err =
     (case err of
        None \<Rightarrow> None
      | Some e \<Rightarrow> if ce_release e \<noteq> Some MariaDBReleaseErrWithDetails then None else ce_private_data e)"

definition MariaDBErrorGetDetailCount :: "c_error option \<Rightarrow> nat" where
  "MariaDBErrorGetDetailCount err = (case has_details err of None \<Rightarrow> 0 | Some d \<Rightarrow> det_count d)"

text \<open>Key, value and length; \<open>None\<close> is the struct of null pointers.\<close>

definition MariaDBErrorGetDetail :: "c_error option \<Rightarrow> int \<Rightarrow> (string \<times> string \<times> nat) option" where
  "MariaDBErrorGetDetail err index =
     (case has_details err of
        None \<Rightarrow> None
      | Some d \<Rightarrow>
          if index < 0 \<or> index \<ge> int (det_count d) then None
          else Some (det_keys d ! nat index, det_values d ! nat index, det_lengths d ! nat index))"

section \<open>Option values and lengths\<close>

text \<open>
  \<open>exportStringOption\<close>: the buffer \<open>out\<close> and the length it has. \<open>fromCArr\<close> of a null pointer is an
  empty slice: the copy does nothing and storing the terminator is out of range.
\<close>

definition exportStringOption :: "string \<Rightarrow> string option \<Rightarrow> 64 word option \<Rightarrow>
    go_panic + string option \<times> 64 word option" where
  "exportStringOption val out len =
     (case len of
        None \<Rightarrow> Inl NilDereference
      | Some n \<Rightarrow>
          (let lenWithTerminator = word_of_nat (length val + 1) in
           if lenWithTerminator \<le> n
           then (case out of
                   None \<Rightarrow> Inl (IndexOutOfRange (int (length val)) 0)
                 | Some b \<Rightarrow> Inr (Some (val @ NUL # drop (length val + 1) b), Some lenWithTerminator))
           else Inr (out, Some lenWithTerminator)))"

definition exportBytesOption :: "string \<Rightarrow> string option \<Rightarrow> 64 word option \<Rightarrow>
    go_panic + string option \<times> 64 word option" where
  "exportBytesOption val out len =
     (case len of
        None \<Rightarrow> Inl NilDereference
      | Some n \<Rightarrow>
          Inr (if word_of_nat (length val) \<le> n
               then map_option (\<lambda>b. val @ drop (length val) b) out else out,
               Some (word_of_nat (length val))))"

definition MaxInt :: nat where
  "MaxInt = 2 ^ 63 - 1"

definition length_format :: string where
  "length_format = ''Length %d exceeds max Go int %d''"

definition checkLengthToInt :: "cgo_env \<Rightarrow> 64 word \<Rightarrow> c_error option \<Rightarrow> (Status + int) \<times> c_error option" where
  "checkLengthToInt R len err =
     (if len > word_of_nat MaxInt
      then (Inl StatusInvalidArgument,
            fmtErr R length_format
              (''Length '' @ itoa_nat (unat len) @ '' exceeds max Go int '' @ itoa_nat MaxInt) err)
      else (Inr (int (unat len)), err))"

text \<open>\<open>C.GoBytes(ptr, C.int(n))\<close>: the conversion to \<open>C.int\<close> keeps the low 32 bits.\<close>

definition GoBytes :: "string option \<Rightarrow> int \<Rightarrow> go_panic + string" where
  "GoBytes mem n =
     (let n = wrap32 n in
      if n < 0 then Inl (BytesLengthOutOfRange n)
      else if n = 0 then Inr []
      else case mem of None \<Rightarrow> Inl NilDereference | Some b \<Rightarrow> Inr (take (nat n) b))"

text \<open>\<open>fromCArr\<close>: the slice of the first \<open>sz\<close> elements at a pointer.\<close>

definition fromCArr :: "'a list option \<Rightarrow> nat \<Rightarrow> 'a list" where
  "fromCArr p sz = (case p of None \<Rightarrow> [] | Some mem \<Rightarrow> if sz = 0 then [] else take sz mem)"

text \<open>A null-terminated array of C strings.\<close>

datatype c_strings = NullEnd | CEntry string c_strings

definition toStrPtr :: "string option \<Rightarrow> string option" where
  "toStrPtr p = (case p of None \<Rightarrow> None | Some s \<Rightarrow> Some (GoString (Some s)))"

fun str_slice_loop :: "c_strings \<Rightarrow> string list \<Rightarrow> string list" where
  "str_slice_loop NullEnd out = out"
| "str_slice_loop (CEntry s r) out = str_slice_loop r (out @ [GoString (Some s)])"

definition toStrSlice :: "c_strings option \<Rightarrow> string list" where
  "toStrSlice p = (case p of None \<Rightarrow> [] | Some a \<Rightarrow> str_slice_loop a [])"

end
