(* ===== verification/C_State.thy ===== *)
theory C_State
  imports C_Errors Arrow
begin

text \<open>
  The state behind the C interface and the actions its functions are made of (\<open>pkg/driver.go\<close>
  lines 84 to 86, 220 to 230, 275 to 291 and 315 to 351, with the object types and checks of
  connections and statements).

  The caller's structs keep a handle in \<open>private_data\<close>; the handle is a number, zero for the null
  pointer, and the table of \<open>runtime/cgo\<close> maps it to the Go object. \<open>priv\<close> gives the \<open>private_data\<close>
  of every struct of the caller by its kind and address. The Go driver below the interface, its
  contexts and its readers are the parameter \<open>driverlib\<close>: every call takes and returns the state
  \<open>'w\<close> of that world, and may panic.
\<close>

section \<open>The driver below\<close>

text \<open>The cancellable context of an object, and the second one of a statement.\<close>

datatype ctx_owner = MainContext nat | ExecutionContext nat

datatype target = OnDatabase nat | OnConnection nat | OnStatement nat

datatype log_level = LevelDebug | LevelInfo | LevelWarn | LevelError

datatype log_sink = SinkStderr | SinkFile string

datatype err_call =
    LSetOption target nat string string
  | LSetOptionBytes target nat string string
  | LSetOptionDouble target nat string "64 word"
  | LSetOptionInt target nat string "64 word"
  | LClose target nat
  | LSetLogger nat log_level log_sink
  | LConnCommit nat nat
  | LConnRollback nat nat
  | LStmtPrepare nat nat
  | LStmtSetSqlQuery nat nat string
  | LStmtSetSubstraitPlan nat nat string
  | LStmtBind nat nat nat
  | LStmtBindStream nat nat nat
  | LStmtCancel nat

datatype str_call = LGetOption target nat string | LGetOptionBytes target nat string

datatype num_call = LGetOptionDouble target nat string | LGetOptionInt target nat string

datatype obj_call =
    LNewDatabaseWithContext nat "string \<rightharpoonup> string"
  | LOpen nat
  | LNewStatement nat nat

datatype rdr_call =
    LGetInfo nat nat "32 word list"
  | LGetObjects nat nat int "string option" "string option" "string option" "string option" "string list"
  | LGetStatistics nat nat "string option" "string option" "string option" bool
  | LGetStatisticNames nat nat
  | LGetTableTypes nat nat
  | LReadPartition nat nat string
  | LExecuteQuery nat nat

datatype sch_call =
    LGetTableSchema nat nat "string option" "string option" string
  | LExecuteSchema nat nat
  | LGetParameterSchema nat nat

text \<open>Interfaces an object may or may not implement.\<close>

datatype iface =
    iGetSetOptionsWithContext | iConnectionGetStatistics | iStatementExecuteSchema | iStatementCanceler

record Partitions =
  NumPartitions :: nat
  PartitionIDs :: "string list"

text \<open>A call that panics gives the panic's value, as text.\<close>

type_synonym ('w, 'a) lib_call = "'w \<Rightarrow> (string + 'a) \<times> 'w"

record 'w driverlib =
  lib_new_context :: "ctx_owner \<Rightarrow> ('w, nat) lib_call"
  lib_cancel_context :: "ctx_owner \<Rightarrow> ('w, bool) lib_call"
  lib_finish_context :: "ctx_owner \<Rightarrow> nat \<Rightarrow> ('w, unit) lib_call"
  lib_err :: "err_call \<Rightarrow> ('w, go_error option) lib_call"
  lib_str :: "str_call \<Rightarrow> ('w, go_error + string) lib_call"
  lib_num :: "num_call \<Rightarrow> ('w, 64 word \<times> go_error option) lib_call"
  lib_obj :: "obj_call \<Rightarrow> ('w, go_error + nat) lib_call"
  lib_rdr :: "rdr_call \<Rightarrow> ('w, go_error + nat \<times> int) lib_call"
  lib_update :: "nat \<Rightarrow> nat \<Rightarrow> ('w, go_error + int) lib_call"
  lib_schema :: "sch_call \<Rightarrow> ('w, go_error + field list) lib_call"
  lib_partitions :: "nat \<Rightarrow> nat \<Rightarrow> ('w, go_error + field list option \<times> Partitions \<times> int) lib_call"
  lib_import_batch :: "nat option \<Rightarrow> nat option \<Rightarrow> ('w, go_error + nat) lib_call"
  lib_import_reader :: "nat option \<Rightarrow> ('w, go_error + nat) lib_call"
  lib_release_array :: "nat option \<Rightarrow> ('w, unit) lib_call"
  lib_next :: "nat \<Rightarrow> ('w, bool) lib_call"
  lib_record :: "nat \<Rightarrow> ('w, nat) lib_call"
  lib_reader_err :: "nat \<Rightarrow> ('w, go_error option) lib_call"
  lib_reader_schema :: "nat \<Rightarrow> ('w, field list option) lib_call"
  lib_implements :: "iface \<Rightarrow> target \<Rightarrow> bool"

section \<open>Objects and state\<close>

record unappliedOpt =
  stringVal :: "string option"
  int64Val :: "64 word option"
  byteVal :: "string option"
  doubleVal :: "64 word option"

text \<open>Go maps with string keys are association lists with distinct keys.\<close>

record cDatabase =
  cdb_opts :: "(string \<times> unappliedOpt) list"
  cdb_db :: "nat option"

record cConn =
  conn_cnxn :: "nat option"
  conn_initArgs :: "(string \<times> string) list option"

record cStmt =
  stmt_stmt :: "nat option"

record cArrayStream =
  str_rdr :: nat
  str_adbcErr :: "c_error option"
  str_status :: Status

datatype cobj = ObjDatabase cDatabase | ObjConn cConn | ObjStmt cStmt | ObjStream cArrayStream

datatype slot = DatabaseAt nat | ConnectionAt nat | StatementAt nat | StreamAt nat

text \<open>Readers and record batches, which are reference counted.\<close>

datatype counted = Reader nat | Batch nat

text \<open>\<open>struct AdbcPartitions\<close>: each partition is an offset into the block at \<open>private_data\<close>.\<close>

record c_partitions =
  num_partitions :: nat
  part_offsets :: "nat list"
  part_lengths :: "nat list"
  part_data :: "string option"
  part_release :: bool

text \<open>
  \<open>panics\<close> is a history of the panics recovered so far. The fields from \<open>arg_err\<close> on are the memory the pointer arguments of the current call point to:
  the error, the option buffer and its length, a number, a schema, partitions and an array.
\<close>

record 'w shim =
  globalPoison :: bool
  handles :: "nat \<rightharpoonup> cobj"
  handleIdx :: nat
  priv :: "slot \<Rightarrow> nat"
  stream_ours :: "nat \<Rightarrow> bool"
  world :: 'w
  refs :: "counted \<Rightarrow> int"
  stderr_lines :: "string list"
  panics :: "go_panic list"
  arg_err :: "c_error option"
  arg_buf :: "string option"
  arg_len :: "64 word option"
  arg_num :: "64 word option"
  arg_schema :: "field list option option"
  arg_parts :: "c_partitions option"
  arg_array :: "nat option option"

section \<open>Actions\<close>

type_synonym ('w, 'a) cgo = "'w shim \<Rightarrow> (go_panic + 'a) \<times> 'w shim"

definition returnC :: "'a \<Rightarrow> ('w, 'a) cgo" where
  "returnC x s = (Inr x, s)"

definition panicC :: "go_panic \<Rightarrow> ('w, 'a) cgo" where
  "panicC p s = (Inl p, s)"

definition bindC :: "('w, 'a) cgo \<Rightarrow> ('a \<Rightarrow> ('w, 'b) cgo) \<Rightarrow> ('w, 'b) cgo" where
  "bindC m f s = (case m s of (Inl p, s') \<Rightarrow> (Inl p, s') | (Inr x, s') \<Rightarrow> f x s')"

definition readC :: "('w shim \<Rightarrow> 'a) \<Rightarrow> ('w, 'a) cgo" where
  "readC f s = (Inr (f s), s)"

definition modifyC :: "('w shim \<Rightarrow> 'w shim) \<Rightarrow> ('w, unit) cgo" where
  "modifyC f s = (Inr (), f s)"

text \<open>A call of the driver below.\<close>

definition libC :: "('w, 'a) lib_call \<Rightarrow> ('w, 'a) cgo" where
  "libC f s = (let (r, w) = f (world s) in (map_err LibraryPanic r, s\<lparr>world := w\<rparr>))"

text \<open>\<open>defer\<close>: the deferred call runs also when the body panics.\<close>

definition deferC :: "('w, unit) cgo \<Rightarrow> ('w, 'a) cgo \<Rightarrow> ('w, 'a) cgo" where
  "deferC fin m s =
     (let (r, s') = m s in
      case fin s' of (Inl p, s'') \<Rightarrow> (Inl p, s'') | (Inr u, s'') \<Rightarrow> (r, s''))"

definition setErrC :: "cgo_env \<Rightarrow> string \<Rightarrow> ('w, unit) cgo" where
  "setErrC R format = modifyC (\<lambda>s. s\<lparr>arg_err := setErr R format (arg_err s)\<rparr>)"

text \<open>\<open>fmtErr\<close> with a format of the shape \<open>%s: text\<close>.\<close>

definition fmtErrC :: "cgo_env \<Rightarrow> string \<Rightarrow> string \<Rightarrow> ('w, unit) cgo" where
  "fmtErrC R fname text =
     modifyC (\<lambda>s. s\<lparr>arg_err := fmtErr R (''%s: '' @ text) (fname @ '': '' @ text) (arg_err s)\<rparr>)"

definition failC :: "cgo_env \<Rightarrow> string \<Rightarrow> Status \<Rightarrow> ('w, Status) cgo" where
  "failC R msg code = bindC (setErrC R msg) (\<lambda>_. returnC code)"

definition errToAdbcErrC :: "cgo_env \<Rightarrow> go_error option \<Rightarrow> ('w, Status) cgo" where
  "errToAdbcErrC R e s =
     (let (code, err) = errToAdbcErr R e (arg_err s) in (Inr code, s\<lparr>arg_err := err\<rparr>))"

text \<open>The usual shapes: a new context, a result or an error, a call that returns only an error.\<close>

definition in_context :: "'w driverlib \<Rightarrow> ctx_owner \<Rightarrow> (nat \<Rightarrow> ('w, 'a) cgo) \<Rightarrow> ('w, 'a) cgo" where
  "in_context L owner f = bindC (libC (lib_new_context L owner)) f"

definition orErr :: "cgo_env \<Rightarrow> ('w, go_error + 'a) lib_call \<Rightarrow> ('a \<Rightarrow> ('w, Status) cgo) \<Rightarrow> ('w, Status) cgo" where
  "orErr R f k = bindC (libC f) (\<lambda>r.
     case r of Inl e \<Rightarrow> errToAdbcErrC R (Some e) | Inr x \<Rightarrow> k x)"

definition onlyErr :: "cgo_env \<Rightarrow> 'w driverlib \<Rightarrow> err_call \<Rightarrow> ('w, Status) cgo" where
  "onlyErr R L call = bindC (libC (lib_err L call)) (errToAdbcErrC R)"

definition writeC :: "go_panic + 'a \<Rightarrow> ('a \<Rightarrow> 'w shim \<Rightarrow> 'w shim) \<Rightarrow> ('w, unit) cgo" where
  "writeC r f = (case r of Inl p \<Rightarrow> panicC p | Inr x \<Rightarrow> modifyC (f x))"

definition set_option_args :: "string option \<times> 64 word option \<Rightarrow> 'w shim \<Rightarrow> 'w shim" where
  "set_option_args bl s = s\<lparr>arg_buf := fst bl, arg_len := snd bl\<rparr>"

definition exportStringC :: "string \<Rightarrow> ('w, Status) cgo" where
  "exportStringC val = bindC (readC (\<lambda>s. exportStringOption val (arg_buf s) (arg_len s))) (\<lambda>r.
     bindC (writeC r set_option_args) (\<lambda>_. returnC StatusOK))"

definition exportBytesC :: "string \<Rightarrow> ('w, Status) cgo" where
  "exportBytesC val = bindC (readC (\<lambda>s. exportBytesOption val (arg_buf s) (arg_len s))) (\<lambda>r.
     bindC (writeC r set_option_args) (\<lambda>_. returnC StatusOK))"

text \<open>\<open>*value = v\<close> through a pointer that may be null.\<close>

definition write_num :: "64 word \<Rightarrow> ('w, unit) cgo" where
  "write_num v = bindC (readC arg_num) (\<lambda>p.
     case p of None \<Rightarrow> panicC NilDereference | Some _ \<Rightarrow> modifyC (\<lambda>s. s\<lparr>arg_num := Some v\<rparr>))"

definition numC :: "cgo_env \<Rightarrow> 'w driverlib \<Rightarrow> num_call \<Rightarrow> ('w, Status) cgo" where
  "numC R L call = bindC (libC (lib_num L call)) (\<lambda>(val, e).
     bindC (write_num val) (\<lambda>_. errToAdbcErrC R e))"

text \<open>A length argument, checked; and the bytes of an argument.\<close>

definition lengthC :: "cgo_env \<Rightarrow> 64 word \<Rightarrow> (int \<Rightarrow> ('w, Status) cgo) \<Rightarrow> ('w, Status) cgo" where
  "lengthC R len k s =
     (case checkLengthToInt R len (arg_err s) of
        (Inl code, err) \<Rightarrow> (Inr code, s\<lparr>arg_err := err\<rparr>)
      | (Inr safeLen, err) \<Rightarrow> k safeLen s)"

definition goBytesC :: "string option \<Rightarrow> int \<Rightarrow> ('w, string) cgo" where
  "goBytesC mem n = (case GoBytes mem n of Inl p \<Rightarrow> panicC p | Inr v \<Rightarrow> returnC v)"

section \<open>Poison\<close>

definition poison :: "cgo_env \<Rightarrow> string \<Rightarrow> go_panic \<Rightarrow> 'w shim \<Rightarrow> Status \<times> 'w shim" where
  "poison R fname e s =
     (let s = (if globalPoison s then s
               else s\<lparr>globalPoison := True,
                      stderr_lines := stderr_lines s @ [''mariadb driver panicked, stack traces:'']\<rparr>) in
      (StatusInternal,
       s\<lparr>panics := panics s @ [e],
         arg_err := fmtErr R ''%s: Go panic in mariadb driver (see stderr): %#v''
           (fname @ '': Go panic in mariadb driver (see stderr): '' @ env_panic_text R e) (arg_err s)\<rparr>))"

text \<open>The deferred function of every exported function.\<close>

definition recovering :: "cgo_env \<Rightarrow> string \<Rightarrow> ('w, Status) cgo \<Rightarrow> 'w shim \<Rightarrow> Status \<times> 'w shim" where
  "recovering R fname body s =
     (case body s of (Inr code, s') \<Rightarrow> (code, s') | (Inl e, s') \<Rightarrow> poison R fname e s')"

section \<open>Handles\<close>

definition NewHandle :: "cobj \<Rightarrow> ('w, nat) cgo" where
  "NewHandle obj s =
     (let h = (handleIdx s + 1) mod 2 ^ 64 in
      if h = 0 then (Inl OutOfHandles, s\<lparr>handleIdx := 0\<rparr>)
      else (Inr h, s\<lparr>handleIdx := h, handles := (handles s)(h \<mapsto> obj)\<rparr>))"

definition handle_Value :: "nat \<Rightarrow> ('w, cobj) cgo" where
  "handle_Value h s = (case handles s h of None \<Rightarrow> (Inl InvalidHandle, s) | Some obj \<Rightarrow> (Inr obj, s))"

definition handle_Delete :: "nat \<Rightarrow> ('w, unit) cgo" where
  "handle_Delete h s =
     (case handles s h of
        None \<Rightarrow> (Inl InvalidHandle, s)
      | Some obj \<Rightarrow> (Inr (), s\<lparr>handles := (handles s)(h := None)\<rparr>))"

definition createHandle :: "nat \<Rightarrow> nat" where
  "createHandle h = h"

definition handleFromPtr :: "nat \<Rightarrow> nat" where
  "handleFromPtr p = p"

fun as_database :: "cobj \<Rightarrow> cDatabase option" where
  "as_database (ObjDatabase d) = Some d" | "as_database _ = None"

fun as_conn :: "cobj \<Rightarrow> cConn option" where
  "as_conn (ObjConn c) = Some c" | "as_conn _ = None"

fun as_stmt :: "cobj \<Rightarrow> cStmt option" where
  "as_stmt (ObjStmt t) = Some t" | "as_stmt _ = None"

fun as_stream :: "cobj \<Rightarrow> cArrayStream option" where
  "as_stream (ObjStream t) = Some t" | "as_stream _ = None"

text \<open>\<open>getFromHandle[T]\<close>: the value of the handle, asserted to have the type.\<close>

definition getFromHandle :: "(cobj \<Rightarrow> 'a option) \<Rightarrow> nat \<Rightarrow> ('w, 'a) cgo" where
  "getFromHandle as p =
     bindC (handle_Value (handleFromPtr p)) (\<lambda>obj.
       case as obj of None \<Rightarrow> panicC BadTypeAssertion | Some x \<Rightarrow> returnC x)"

text \<open>
  Writing through the pointer that a handle stands for. An object keeps its type, and one whose
  handle was deleted is no longer seen by any call.
\<close>

datatype kind = KDatabase | KConnection | KStatement | KStream

fun obj_kind :: "cobj \<Rightarrow> kind" where
  "obj_kind (ObjDatabase d) = KDatabase"
| "obj_kind (ObjConn c) = KConnection"
| "obj_kind (ObjStmt t) = KStatement"
| "obj_kind (ObjStream t) = KStream"

definition store_object :: "nat \<Rightarrow> cobj \<Rightarrow> (nat \<rightharpoonup> cobj) \<Rightarrow> (nat \<rightharpoonup> cobj)" where
  "store_object h obj t =
     (case t h of None \<Rightarrow> t | Some old \<Rightarrow> if obj_kind old = obj_kind obj then t(h \<mapsto> obj) else t)"

definition put_object :: "nat \<Rightarrow> cobj \<Rightarrow> ('w, unit) cgo" where
  "put_object h obj = modifyC (\<lambda>s. s\<lparr>handles := store_object h obj (handles s)\<rparr>)"

definition set_priv :: "slot \<Rightarrow> nat \<Rightarrow> ('w, unit) cgo" where
  "set_priv sl h = modifyC (\<lambda>s. s\<lparr>priv := (priv s)(sl := h)\<rparr>)"

section \<open>Checks\<close>

text \<open>
  \<open>checkDBAlloc\<close>, \<open>checkConnAlloc\<close> and \<open>checkStmtAlloc\<close> are the same code for the three structs.
\<close>

definition check_alloc :: "cgo_env \<Rightarrow> string \<Rightarrow> (nat \<Rightarrow> slot) \<Rightarrow> string \<Rightarrow> nat option \<Rightarrow> ('w, bool) cgo" where
  "check_alloc R what at fname p =
     bindC (readC globalPoison) (\<lambda>poisoned.
       if poisoned
       then bindC (fmtErrC R fname ''Go panicked, driver is in unknown state'') (\<lambda>_. returnC False)
       else case p of
              None \<Rightarrow> bindC (fmtErrC R fname (what @ '' not allocated'')) (\<lambda>_. returnC False)
            | Some a \<Rightarrow>
                bindC (readC (\<lambda>s. priv s (at a))) (\<lambda>h.
                  if h = 0 then bindC (fmtErrC R fname (what @ '' not allocated'')) (\<lambda>_. returnC False)
                  else returnC True))"

definition checkDBAlloc :: "cgo_env \<Rightarrow> nat option \<Rightarrow> string \<Rightarrow> ('w, bool) cgo" where
  "checkDBAlloc R db fname = check_alloc R ''database'' DatabaseAt fname db"

definition checkConnAlloc :: "cgo_env \<Rightarrow> nat option \<Rightarrow> string \<Rightarrow> ('w, bool) cgo" where
  "checkConnAlloc R cnxn fname = check_alloc R ''connection'' ConnectionAt fname cnxn"

definition checkStmtAlloc :: "cgo_env \<Rightarrow> nat option \<Rightarrow> string \<Rightarrow> ('w, bool) cgo" where
  "checkStmtAlloc R stmt fname = check_alloc R ''statement'' StatementAt fname stmt"

text \<open>
  \<open>checkDBInit\<close>, \<open>checkConnInit\<close> and \<open>checkStmtInit\<close>: the object with its handle, \<open>None\<close> for nil. The
  driver object inside is given too.
\<close>

definition check_init :: "cgo_env \<Rightarrow> ('w, bool) cgo \<Rightarrow> (nat \<Rightarrow> slot) \<Rightarrow> (cobj \<Rightarrow> 'a option) \<Rightarrow>
    ('a \<Rightarrow> nat option) \<Rightarrow> string \<Rightarrow> string \<Rightarrow> nat option \<Rightarrow> ('w, (nat \<times> 'a \<times> nat) option) cgo" where
  "check_init R alloc at as inner fname missing p =
     bindC alloc (\<lambda>ok.
       if \<not> ok then returnC None
       else case p of
              None \<Rightarrow> panicC NilDereference
            | Some a \<Rightarrow>
                bindC (readC (\<lambda>s. priv s (at a))) (\<lambda>h.
                bindC (getFromHandle as h) (\<lambda>obj.
                  case inner obj of
                    None \<Rightarrow> bindC (fmtErrC R fname missing) (\<lambda>_. returnC None)
                  | Some d \<Rightarrow> returnC (Some (h, obj, d)))))"

definition checkDBInit :: "cgo_env \<Rightarrow> nat option \<Rightarrow> string \<Rightarrow> ('w, (nat \<times> cDatabase \<times> nat) option) cgo" where
  "checkDBInit R db fname =
     check_init R (checkDBAlloc R db fname) DatabaseAt as_database cdb_db fname ''database not initialized'' db"

definition checkConnInit :: "cgo_env \<Rightarrow> nat option \<Rightarrow> string \<Rightarrow> ('w, (nat \<times> cConn \<times> nat) option) cgo" where
  "checkConnInit R cnxn fname =
     check_init R (checkConnAlloc R cnxn fname) ConnectionAt as_conn conn_cnxn fname
       ''connection not initialized'' cnxn"

definition checkStmtInit :: "cgo_env \<Rightarrow> nat option \<Rightarrow> string \<Rightarrow> ('w, (nat \<times> cStmt \<times> nat) option) cgo" where
  "checkStmtInit R stmt fname =
     check_init R (checkStmtAlloc R stmt fname) StatementAt as_stmt stmt_stmt fname
       ''statement not allocated'' stmt"

text \<open>\<open>if x == nil { return C.ADBC_STATUS_INVALID_STATE }\<close> after a check.\<close>

definition withC :: "('w, (nat \<times> 'a \<times> nat) option) cgo \<Rightarrow> (nat \<Rightarrow> 'a \<Rightarrow> nat \<Rightarrow> ('w, Status) cgo) \<Rightarrow> ('w, Status) cgo" where
  "withC check k = bindC check (\<lambda>r.
     case r of None \<Rightarrow> returnC StatusInvalidState | Some (h, obj, d) \<Rightarrow> k h obj d)"

text \<open>\<open>getFromHandle\<close> after one of the allocation checks.\<close>

definition allocatedC :: "('w, bool) cgo \<Rightarrow> (nat \<Rightarrow> slot) \<Rightarrow> (cobj \<Rightarrow> 'a option) \<Rightarrow> nat option \<Rightarrow>
    (nat \<Rightarrow> 'a \<Rightarrow> ('w, Status) cgo) \<Rightarrow> ('w, Status) cgo" where
  "allocatedC check at as p k = bindC check (\<lambda>ok.
     if \<not> ok then returnC StatusInvalidState
     else case p of
            None \<Rightarrow> panicC NilDereference
          | Some a \<Rightarrow>
              bindC (readC (\<lambda>s. priv s (at a))) (\<lambda>h. bindC (getFromHandle as h) (k h)))"

text \<open>
  The start of every release function: the struct is cleared, the object read and its handle
  deleted.
\<close>

definition take_object :: "('w, bool) cgo \<Rightarrow> (nat \<Rightarrow> slot) \<Rightarrow> (cobj \<Rightarrow> 'a option) \<Rightarrow> nat option \<Rightarrow>
    (nat \<Rightarrow> 'a \<Rightarrow> ('w, Status) cgo) \<Rightarrow> ('w, Status) cgo" where
  "take_object check at as p k = bindC check (\<lambda>ok.
     if \<not> ok then returnC StatusInvalidState
     else case p of
            None \<Rightarrow> panicC NilDereference
          | Some a \<Rightarrow>
              bindC (readC (\<lambda>s. handleFromPtr (priv s (at a)))) (\<lambda>h.
              bindC (set_priv (at a) 0) (\<lambda>_.
              bindC (getFromHandle as h) (\<lambda>obj.
              bindC (handle_Delete h) (\<lambda>_. k h obj)))))"

text \<open>The start of every allocating function.\<close>

definition unallocatedC :: "cgo_env \<Rightarrow> string \<Rightarrow> string \<Rightarrow> (nat \<Rightarrow> slot) \<Rightarrow> nat option \<Rightarrow>
    (nat \<Rightarrow> ('w, Status) cgo) \<Rightarrow> ('w, Status) cgo" where
  "unallocatedC R fname what at p k = bindC (readC globalPoison) (\<lambda>poisoned.
     if poisoned then failC R (fname @ '': Go panicked, driver is in unknown state'') StatusInternal
     else case p of
            None \<Rightarrow> panicC NilDereference
          | Some a \<Rightarrow>
              bindC (readC (\<lambda>s. priv s (at a))) (\<lambda>h.
                if h \<noteq> 0 then failC R (fname @ '': '' @ what @ '' already allocated'') StatusInvalidState
                else k a))"

definition allocate :: "slot \<Rightarrow> cobj \<Rightarrow> ('w, unit) cgo" where
  "allocate sl obj = bindC (NewHandle obj) (\<lambda>h. set_priv sl (createHandle h))"

end
