(* ===== verification/C_Database.thy ===== *)
theory C_Database
  imports C_State
begin

text \<open>
  The database functions of the C interface and the logging set up from the environment
  (\<open>pkg/driver.go\<close> lines 89 and 90, 233 to 273 and 496 to 772).
\<close>

section \<open>Maps\<close>

text \<open>Assigning to a key of a Go map, and the pairs in the order a \<open>range\<close> loop meets them.\<close>

fun map_set :: "'k \<Rightarrow> 'v \<Rightarrow> ('k \<times> 'v) list \<Rightarrow> ('k \<times> 'v) list" where
  "map_set k v [] = [(k, v)]"
| "map_set k v (p # ps) = (if fst p = k then (k, v) # ps else p # map_set k v ps)"

definition range_map :: "cgo_env \<Rightarrow> (string \<times> 'v) list \<Rightarrow> (string \<times> 'v) list" where
  "range_map R m = List.map_filter (\<lambda>k. map_option (Pair k) (map_of m k)) (env_range_opts R (map fst m))"

definition string_opt :: "string \<Rightarrow> unappliedOpt" where
  "string_opt v = \<lparr>stringVal = Some v, int64Val = None, byteVal = None, doubleVal = None\<rparr>"

definition int_opt :: "64 word \<Rightarrow> unappliedOpt" where
  "int_opt v = \<lparr>stringVal = None, int64Val = Some v, byteVal = None, doubleVal = None\<rparr>"

definition bytes_opt :: "string \<Rightarrow> unappliedOpt" where
  "bytes_opt v = \<lparr>stringVal = None, int64Val = None, byteVal = Some v, doubleVal = None\<rparr>"

definition double_opt :: "64 word \<Rightarrow> unappliedOpt" where
  "double_opt v = \<lparr>stringVal = None, int64Val = None, byteVal = None, doubleVal = Some v\<rparr>"

section \<open>Logging from the environment\<close>

definition logLevelEnvVar :: string where "logLevelEnvVar = ''ADBC_DRIVER_MARIADB_LOG_LEVEL''"
definition logSinkEnvVar :: string where "logSinkEnvVar = ''ADBC_DRIVER_MARIADB_LOG_SINK''"

datatype log_choice = LogAt log_level | LogOff | LogUnknown

definition log_level_choice :: "string \<Rightarrow> log_choice" where
  "log_level_choice v =
     (if v = ''debug'' then LogAt LevelDebug
      else if v = ''info'' then LogAt LevelInfo
      else if v = ''warn'' \<or> v = ''warning'' then LogAt LevelWarn
      else if v = ''error'' then LogAt LevelError
      else if v = [] then LogOff
      else LogUnknown)"

definition stderrC :: "string \<Rightarrow> ('w, unit) cgo" where
  "stderrC line = modifyC (\<lambda>s. s\<lparr>stderr_lines := stderr_lines s @ [line]\<rparr>)"

definition log_sink_choice :: "cgo_env \<Rightarrow> ('w, log_sink) cgo" where
  "log_sink_choice R =
     (let v = ToLower (env_case R) (env_getenv R logSinkEnvVar) in
      if v = ''tempfile'' then
        (case env_temp_file R of
           Inr f \<Rightarrow> returnC (SinkFile f)
         | Inl err \<Rightarrow>
             bindC (stderrC (''[mariadb] could not open temporary log file: '' @ err)) (\<lambda>_. returnC SinkStderr))
      else returnC SinkStderr)"

definition initLoggingFromEnv :: "cgo_env \<Rightarrow> 'w driverlib \<Rightarrow> nat \<Rightarrow> ('w, unit) cgo" where
  "initLoggingFromEnv R L db =
     (case log_level_choice (ToLower (env_case R) (env_getenv R logLevelEnvVar)) of
        LogOff \<Rightarrow> returnC ()
      | LogUnknown \<Rightarrow>
          stderrC (''mariadb: to enable logging, set '' @ logLevelEnvVar @
            '' to 'debug', 'info', 'warn', or 'error'' @ [CHR 0x27])
      | LogAt level \<Rightarrow>
          bindC (log_sink_choice R) (\<lambda>sink.
          bindC (libC (lib_err L (LSetLogger db level sink))) (\<lambda>_. returnC ())))"

section \<open>Reading options\<close>

definition MariaDBDatabaseGetOption :: "cgo_env \<Rightarrow> 'w driverlib \<Rightarrow> nat option \<Rightarrow> string option \<Rightarrow>
    'w shim \<Rightarrow> Status \<times> 'w shim" where
  "MariaDBDatabaseGetOption R L db key = recovering R ''AdbcDatabaseGetOption''
     (withC (checkDBInit R db ''AdbcDatabaseGetOption'') (\<lambda>h cdb d.
        if \<not> lib_implements L iGetSetOptionsWithContext (OnDatabase d)
        then failC R ''AdbcDatabaseGetOption: options are not supported'' StatusNotImplemented
        else in_context L (MainContext h) (\<lambda>ctx.
          orErr R (lib_str L (LGetOption (OnDatabase d) ctx (GoString key))) exportStringC)))"

definition MariaDBDatabaseGetOptionBytes :: "cgo_env \<Rightarrow> 'w driverlib \<Rightarrow> nat option \<Rightarrow> string option \<Rightarrow>
    'w shim \<Rightarrow> Status \<times> 'w shim" where
  "MariaDBDatabaseGetOptionBytes R L db key = recovering R ''AdbcDatabaseGetOptionBytes''
     (withC (checkDBInit R db ''AdbcDatabaseGetOptionBytes'') (\<lambda>h cdb d.
        if \<not> lib_implements L iGetSetOptionsWithContext (OnDatabase d)
        then failC R ''AdbcDatabaseGetOptionBytes: options are not supported'' StatusNotImplemented
        else in_context L (MainContext h) (\<lambda>ctx.
          orErr R (lib_str L (LGetOptionBytes (OnDatabase d) ctx (GoString key))) exportBytesC)))"

definition MariaDBDatabaseGetOptionDouble :: "cgo_env \<Rightarrow> 'w driverlib \<Rightarrow> nat option \<Rightarrow> string option \<Rightarrow>
    'w shim \<Rightarrow> Status \<times> 'w shim" where
  "MariaDBDatabaseGetOptionDouble R L db key = recovering R ''AdbcDatabaseGetOptionDouble''
     (withC (checkDBInit R db ''AdbcDatabaseGetOptionDouble'') (\<lambda>h cdb d.
        in_context L (MainContext h) (\<lambda>ctx.
          numC R L (LGetOptionDouble (OnDatabase d) ctx (GoString key)))))"

definition MariaDBDatabaseGetOptionInt :: "cgo_env \<Rightarrow> 'w driverlib \<Rightarrow> nat option \<Rightarrow> string option \<Rightarrow>
    'w shim \<Rightarrow> Status \<times> 'w shim" where
  "MariaDBDatabaseGetOptionInt R L db key = recovering R ''AdbcDatabaseGetOptionInt''
     (withC (checkDBInit R db ''AdbcDatabaseGetOptionInt'') (\<lambda>h cdb d.
        in_context L (MainContext h) (\<lambda>ctx.
          numC R L (LGetOptionInt (OnDatabase d) ctx (GoString key)))))"

section \<open>Life cycle\<close>

text \<open>The second loop of \<open>AdbcDatabaseInit\<close>: options that are not strings are set on the new database.\<close>

definition apply_opt :: "'w driverlib \<Rightarrow> nat \<Rightarrow> nat \<Rightarrow> string \<Rightarrow> unappliedOpt \<Rightarrow> ('w, go_error option) cgo" where
  "apply_opt L d ctx k v =
     (case int64Val v of
        Some n \<Rightarrow> libC (lib_err L (LSetOptionInt (OnDatabase d) ctx k n))
      | None \<Rightarrow>
          (case byteVal v of
             Some b \<Rightarrow> libC (lib_err L (LSetOptionBytes (OnDatabase d) ctx k b))
           | None \<Rightarrow>
               (case doubleVal v of
                  Some x \<Rightarrow> libC (lib_err L (LSetOptionDouble (OnDatabase d) ctx k x))
                | None \<Rightarrow> returnC None)))"

fun apply_opts :: "cgo_env \<Rightarrow> 'w driverlib \<Rightarrow> nat \<Rightarrow> nat \<Rightarrow> (string \<times> unappliedOpt) list \<Rightarrow> ('w, Status) cgo" where
  "apply_opts R L d ctx [] = bindC (initLoggingFromEnv R L d) (\<lambda>_. returnC StatusOK)"
| "apply_opts R L d ctx ((k, v) # kvs) =
     (if stringVal v \<noteq> None then apply_opts R L d ctx kvs
      else bindC (apply_opt L d ctx k v) (\<lambda>aerr.
             if aerr \<noteq> None then errToAdbcErrC R aerr else apply_opts R L d ctx kvs))"

definition string_opts :: "(string \<times> unappliedOpt) list \<Rightarrow> string \<rightharpoonup> string" where
  "string_opts m k = (case map_of m k of None \<Rightarrow> None | Some v \<Rightarrow> stringVal v)"

definition MariaDBDatabaseInit :: "cgo_env \<Rightarrow> 'w driverlib \<Rightarrow> nat option \<Rightarrow> 'w shim \<Rightarrow> Status \<times> 'w shim" where
  "MariaDBDatabaseInit R L db = recovering R ''AdbcDatabaseInit''
     (allocatedC (checkDBAlloc R db ''AdbcDatabaseInit'') DatabaseAt as_database db (\<lambda>h cdb.
        if cdb_db cdb \<noteq> None then failC R ''AdbcDatabaseInit: database already initialized'' StatusInvalidState
        else in_context L (MainContext h) (\<lambda>ctx.
          orErr R (lib_obj L (LNewDatabaseWithContext ctx (string_opts (cdb_opts cdb)))) (\<lambda>adb.
          bindC (put_object h (ObjDatabase (cdb\<lparr>cdb_db := Some adb\<rparr>))) (\<lambda>_.
          apply_opts R L adb ctx (range_map R (cdb_opts cdb)))))))"

definition MariaDBDatabaseNew :: "cgo_env \<Rightarrow> nat option \<Rightarrow> 'w shim \<Rightarrow> Status \<times> 'w shim" where
  "MariaDBDatabaseNew R db = recovering R ''AdbcDatabaseNew''
     (unallocatedC R ''AdbcDatabaseNew'' ''database'' DatabaseAt db (\<lambda>a.
        bindC (allocate (DatabaseAt a) (ObjDatabase \<lparr>cdb_opts = [], cdb_db = None\<rparr>)) (\<lambda>_. returnC StatusOK)))"

text \<open>The name reported after a panic is that of \<open>AdbcDatabaseInit\<close>. An error of \<open>Close\<close> is ignored.\<close>

definition MariaDBDatabaseRelease :: "cgo_env \<Rightarrow> 'w driverlib \<Rightarrow> nat option \<Rightarrow> 'w shim \<Rightarrow> Status \<times> 'w shim" where
  "MariaDBDatabaseRelease R L db = recovering R ''AdbcDatabaseInit''
     (take_object (checkDBAlloc R db ''AdbcDatabaseRelease'') DatabaseAt as_database db (\<lambda>h cdb.
        case cdb_db cdb of
          None \<Rightarrow> returnC StatusOK
        | Some d \<Rightarrow> in_context L (MainContext h) (\<lambda>ctx.
            bindC (libC (lib_err L (LClose (OnDatabase d) ctx))) (\<lambda>_. returnC StatusOK))))"

section \<open>Setting options\<close>

text \<open>Before the database is initialised an option is kept for later.\<close>

definition keep_option :: "nat \<Rightarrow> cDatabase \<Rightarrow> string \<Rightarrow> unappliedOpt \<Rightarrow> ('w, Status) cgo" where
  "keep_option h cdb k v =
     bindC (put_object h (ObjDatabase (cdb\<lparr>cdb_opts := map_set k v (cdb_opts cdb)\<rparr>))) (\<lambda>_. returnC StatusOK)"

definition MariaDBDatabaseSetOption :: "cgo_env \<Rightarrow> 'w driverlib \<Rightarrow> nat option \<Rightarrow> string option \<Rightarrow> string option \<Rightarrow>
    'w shim \<Rightarrow> Status \<times> 'w shim" where
  "MariaDBDatabaseSetOption R L db key val = recovering R ''AdbcDatabaseSetOption''
     (allocatedC (checkDBAlloc R db ''AdbcDatabaseSetOption'') DatabaseAt as_database db (\<lambda>h cdb.
        case cdb_db cdb of
          Some d \<Rightarrow> in_context L (MainContext h) (\<lambda>ctx.
            onlyErr R L (LSetOption (OnDatabase d) ctx (GoString key) (GoString val)))
        | None \<Rightarrow> keep_option h cdb (GoString key) (string_opt (GoString val))))"

definition MariaDBDatabaseSetOptionBytes :: "cgo_env \<Rightarrow> 'w driverlib \<Rightarrow> nat option \<Rightarrow> string option \<Rightarrow>
    string option \<Rightarrow> 64 word \<Rightarrow> 'w shim \<Rightarrow> Status \<times> 'w shim" where
  "MariaDBDatabaseSetOptionBytes R L db key val len = recovering R ''AdbcDatabaseSetOptionBytes''
     (allocatedC (checkDBAlloc R db ''AdbcDatabaseSetOptionBytes'') DatabaseAt as_database db (\<lambda>h cdb.
        lengthC R len (\<lambda>safeLen.
        bindC (goBytesC val safeLen) (\<lambda>v.
          case cdb_db cdb of
            Some d \<Rightarrow> in_context L (MainContext h) (\<lambda>ctx.
              onlyErr R L (LSetOptionBytes (OnDatabase d) ctx (GoString key) v))
          | None \<Rightarrow> keep_option h cdb (GoString key) (bytes_opt v)))))"

definition MariaDBDatabaseSetOptionDouble :: "cgo_env \<Rightarrow> 'w driverlib \<Rightarrow> nat option \<Rightarrow> string option \<Rightarrow>
    64 word \<Rightarrow> 'w shim \<Rightarrow> Status \<times> 'w shim" where
  "MariaDBDatabaseSetOptionDouble R L db key val = recovering R ''AdbcDatabaseSetOptionDouble''
     (allocatedC (checkDBAlloc R db ''AdbcDatabaseSetOptionDouble'') DatabaseAt as_database db (\<lambda>h cdb.
        case cdb_db cdb of
          Some d \<Rightarrow> in_context L (MainContext h) (\<lambda>ctx.
            onlyErr R L (LSetOptionDouble (OnDatabase d) ctx (GoString key) val))
        | None \<Rightarrow> keep_option h cdb (GoString key) (double_opt val)))"

definition MariaDBDatabaseSetOptionInt :: "cgo_env \<Rightarrow> 'w driverlib \<Rightarrow> nat option \<Rightarrow> string option \<Rightarrow>
    64 word \<Rightarrow> 'w shim \<Rightarrow> Status \<times> 'w shim" where
  "MariaDBDatabaseSetOptionInt R L db key val = recovering R ''AdbcDatabaseSetOptionInt''
     (allocatedC (checkDBAlloc R db ''AdbcDatabaseSetOptionInt'') DatabaseAt as_database db (\<lambda>h cdb.
        case cdb_db cdb of
          Some d \<Rightarrow> in_context L (MainContext h) (\<lambda>ctx.
            onlyErr R L (LSetOptionInt (OnDatabase d) ctx (GoString key) val))
        | None \<Rightarrow> keep_option h cdb (GoString key) (int_opt val)))"

end
