(* ===== verification/C_Stream.thy ===== *)
theory C_Stream
  imports C_State
begin

text \<open>
  Record streams handed to C (\<open>pkg/driver.go\<close> lines 353 to 479). The callbacks of a stream have no
  \<open>recover\<close>: a panic there ends the process, so their results keep the \<open>go_panic\<close>.
\<close>

section \<open>Errors of a stream\<close>

datatype c_errno = Success | EIO | ENOTSUP | ENOENT | EEXIST | EINVAL | ECANCELED | ETIMEDOUT | EACCES

fun stream_errno :: "Status \<Rightarrow> c_errno" where
  "stream_errno StatusUnknown = EIO"
| "stream_errno StatusNotImplemented = ENOTSUP"
| "stream_errno StatusNotFound = ENOENT"
| "stream_errno StatusAlreadyExists = EEXIST"
| "stream_errno StatusInvalidArgument = EINVAL"
| "stream_errno StatusInvalidState = EINVAL"
| "stream_errno StatusInvalidData = EIO"
| "stream_errno StatusIntegrity = EIO"
| "stream_errno StatusInternal = EIO"
| "stream_errno StatusIO = EIO"
| "stream_errno StatusCancelled = ECANCELED"
| "stream_errno StatusTimeout = ETIMEDOUT"
| "stream_errno StatusUnauthenticated = EACCES"
| "stream_errno StatusUnauthorized = EACCES"
| "stream_errno StatusOK = EIO"

text \<open>A struct from \<open>calloc\<close>.\<close>

definition zero_error :: c_error where
  "zero_error = \<lparr>ce_message = None, ce_vendor_code = 0, ce_sqlstate = replicate 5 NUL,
     ce_release = None, ce_private_data = None\<rparr>"

definition maybeError :: "cgo_env \<Rightarrow> 'w driverlib \<Rightarrow> nat \<Rightarrow> cArrayStream \<Rightarrow> ('w, c_errno) cgo" where
  "maybeError R L h cStream =
     bindC (libC (lib_reader_err L (str_rdr cStream))) (\<lambda>err.
       case err of
         None \<Rightarrow> returnC Success
       | Some e \<Rightarrow>
           (let a = (case str_adbcErr cStream of None \<Rightarrow> zero_error | Some a \<Rightarrow> MariaDBerrRelease R a);
                (status, a') = errToAdbcErr R (Some e)
                  (Some (a\<lparr>ce_vendor_code := ADBC_ERROR_VENDOR_CODE_PRIVATE_DATA\<rparr>)) in
            bindC (put_object h (ObjStream (cStream\<lparr>str_adbcErr := a', str_status := status\<rparr>))) (\<lambda>_.
            returnC (stream_errno status))))"

section \<open>The callbacks\<close>

text \<open>The struct is one of ours and not released: its handle.\<close>

definition own_stream :: "nat option \<Rightarrow> 'w shim \<Rightarrow> nat option" where
  "own_stream stream s =
     (case stream of
        None \<Rightarrow> None
      | Some a \<Rightarrow> if \<not> stream_ours s a \<or> priv s (StreamAt a) = 0 then None else Some (priv s (StreamAt a)))"

definition streamC :: "nat option \<Rightarrow> 'a \<Rightarrow> (nat \<Rightarrow> cArrayStream \<Rightarrow> ('w, 'a) cgo) \<Rightarrow> ('w, 'a) cgo" where
  "streamC stream bad k = bindC (readC (own_stream stream)) (\<lambda>own.
     case own of None \<Rightarrow> returnC bad | Some h \<Rightarrow> bindC (getFromHandle as_stream h) (k h))"

definition MariaDBArrayStreamGetLastError :: "nat option \<Rightarrow> ('w, string option) cgo" where
  "MariaDBArrayStreamGetLastError stream = streamC stream None (\<lambda>h cStream.
     case str_adbcErr cStream of None \<Rightarrow> returnC None | Some a \<Rightarrow> returnC (ce_message a))"

definition write_array :: "nat option \<Rightarrow> ('w, unit) cgo" where
  "write_array v = bindC (readC arg_array) (\<lambda>p.
     case p of None \<Rightarrow> panicC NilDereference | Some _ \<Rightarrow> modifyC (\<lambda>s. s\<lparr>arg_array := Some v\<rparr>))"

definition write_schema :: "field list \<Rightarrow> ('w, unit) cgo" where
  "write_schema sc = bindC (readC arg_schema) (\<lambda>p.
     case p of None \<Rightarrow> panicC NilDereference | Some _ \<Rightarrow> modifyC (\<lambda>s. s\<lparr>arg_schema := Some (Some sc)\<rparr>))"

definition MariaDBArrayStreamGetNext :: "cgo_env \<Rightarrow> 'w driverlib \<Rightarrow> nat option \<Rightarrow> ('w, c_errno) cgo" where
  "MariaDBArrayStreamGetNext R L stream = streamC stream EINVAL (\<lambda>h cStream.
     bindC (libC (lib_next L (str_rdr cStream))) (\<lambda>more.
       if more
       then bindC (libC (lib_record L (str_rdr cStream))) (\<lambda>batch.
            bindC (write_array (Some batch)) (\<lambda>_. returnC Success))
       else bindC (write_array None) (\<lambda>_. maybeError R L h cStream)))"

definition MariaDBArrayStreamGetSchema :: "cgo_env \<Rightarrow> 'w driverlib \<Rightarrow> nat option \<Rightarrow> ('w, c_errno) cgo" where
  "MariaDBArrayStreamGetSchema R L stream = streamC stream EINVAL (\<lambda>h cStream.
     bindC (libC (lib_reader_schema L (str_rdr cStream))) (\<lambda>s.
       case s of
         None \<Rightarrow> maybeError R L h cStream
       | Some sc \<Rightarrow> bindC (write_schema sc) (\<lambda>_. returnC Success)))"

text \<open>
  What the members of the struct point to: \<open>memset\<close> of the output, then the function above. A null
  pointer ends the process there, as an unrecovered panic does.
\<close>

definition MariaDBArrayStreamGetNextTrampoline :: "cgo_env \<Rightarrow> 'w driverlib \<Rightarrow> nat option \<Rightarrow> ('w, c_errno) cgo" where
  "MariaDBArrayStreamGetNextTrampoline R L stream =
     bindC (write_array None) (\<lambda>_. MariaDBArrayStreamGetNext R L stream)"

definition clear_schema :: "('w, unit) cgo" where
  "clear_schema = bindC (readC arg_schema) (\<lambda>p.
     case p of None \<Rightarrow> panicC NilDereference | Some _ \<Rightarrow> modifyC (\<lambda>s. s\<lparr>arg_schema := Some None\<rparr>))"

definition MariaDBArrayStreamGetSchemaTrampoline :: "cgo_env \<Rightarrow> 'w driverlib \<Rightarrow> nat option \<Rightarrow> ('w, c_errno) cgo" where
  "MariaDBArrayStreamGetSchemaTrampoline R L stream =
     bindC clear_schema (\<lambda>_. MariaDBArrayStreamGetSchema R L stream)"

definition add_ref :: "counted \<Rightarrow> int \<Rightarrow> ('w, unit) cgo" where
  "add_ref r n = modifyC (\<lambda>s. s\<lparr>refs := (refs s)(r := refs s r + n)\<rparr>)"

text \<open>The \<open>release\<close> member of the struct is left as it is.\<close>

definition MariaDBArrayStreamRelease :: "nat option \<Rightarrow> ('w, unit) cgo" where
  "MariaDBArrayStreamRelease stream = bindC (readC (own_stream stream)) (\<lambda>own.
     case (stream, own) of
       (Some a, Some h) \<Rightarrow>
         bindC (set_priv (StreamAt a) 0) (\<lambda>_.
         bindC (getFromHandle as_stream (handleFromPtr h)) (\<lambda>cStream.
         bindC (handle_Delete h) (\<lambda>_.
         add_ref (Reader (str_rdr cStream)) (- 1))))
     | _ \<Rightarrow> returnC ())"

definition MariaDBErrorFromArrayStream :: "nat option \<Rightarrow> ('w, (c_error option \<times> Status) option) cgo" where
  "MariaDBErrorFromArrayStream stream = streamC stream None (\<lambda>h cStream.
     returnC (Some (str_adbcErr cStream, str_status cStream)))"

section \<open>Handing out a reader\<close>

definition exportRecordReader :: "nat \<Rightarrow> nat option \<Rightarrow> ('w, unit) cgo" where
  "exportRecordReader rdr stream =
     (case stream of
        None \<Rightarrow> panicC NilDereference
      | Some a \<Rightarrow>
          bindC (modifyC (\<lambda>s. s\<lparr>stream_ours := (stream_ours s)(a := True)\<rparr>)) (\<lambda>_.
          bindC (allocate (StreamAt a)
            (ObjStream \<lparr>str_rdr = rdr, str_adbcErr = None, str_status = StatusOK\<rparr>)) (\<lambda>_.
          add_ref (Reader rdr) 1)))"

text \<open>\<open>defer rdr.Release()\<close> around the export.\<close>

definition give_reader :: "nat \<Rightarrow> nat option \<Rightarrow> ('w, Status) cgo" where
  "give_reader rdr out =
     deferC (add_ref (Reader rdr) (- 1)) (bindC (exportRecordReader rdr out) (\<lambda>_. returnC StatusOK))"

end
