(* ===== verification/C_Connection.thy ===== *)
theory C_Connection
  imports C_Database C_Stream
begin

text \<open>
  The connection functions of the C interface (\<open>pkg/driver.go\<close> lines 811 to 1053 and 1085 to 1322).
\<close>

section \<open>Options\<close>

definition MariaDBConnectionGetOption :: "cgo_env \<Rightarrow> 'w driverlib \<Rightarrow> nat option \<Rightarrow> string option \<Rightarrow>
    'w shim \<Rightarrow> Status \<times> 'w shim" where
  "MariaDBConnectionGetOption R L db key = recovering R ''AdbcConnectionGetOption''
     (withC (checkConnInit R db ''AdbcConnectionGetOption'') (\<lambda>h conn c.
        in_context L (MainContext h) (\<lambda>ctx.
          orErr R (lib_str L (LGetOption (OnConnection c) ctx (GoString key))) exportStringC)))"

definition MariaDBConnectionGetOptionBytes :: "cgo_env \<Rightarrow> 'w driverlib \<Rightarrow> nat option \<Rightarrow> string option \<Rightarrow>
    'w shim \<Rightarrow> Status \<times> 'w shim" where
  "MariaDBConnectionGetOptionBytes R L db key = recovering R ''AdbcConnectionGetOptionBytes''
     (withC (checkConnInit R db ''AdbcConnectionGetOptionBytes'') (\<lambda>h conn c.
        in_context L (MainContext h) (\<lambda>ctx.
          orErr R (lib_str L (LGetOptionBytes (OnConnection c) ctx (GoString key))) exportBytesC)))"

definition MariaDBConnectionGetOptionDouble :: "cgo_env \<Rightarrow> 'w driverlib \<Rightarrow> nat option \<Rightarrow> string option \<Rightarrow>
    'w shim \<Rightarrow> Status \<times> 'w shim" where
  "MariaDBConnectionGetOptionDouble R L db key = recovering R ''AdbcConnectionGetOptionDouble''
     (withC (checkConnInit R db ''AdbcConnectionGetOptionDouble'') (\<lambda>h conn c.
        in_context L (MainContext h) (\<lambda>ctx.
          numC R L (LGetOptionDouble (OnConnection c) ctx (GoString key)))))"

definition MariaDBConnectionGetOptionInt :: "cgo_env \<Rightarrow> 'w driverlib \<Rightarrow> nat option \<Rightarrow> string option \<Rightarrow>
    'w shim \<Rightarrow> Status \<times> 'w shim" where
  "MariaDBConnectionGetOptionInt R L db key = recovering R ''AdbcConnectionGetOptionInt''
     (withC (checkConnInit R db ''AdbcConnectionGetOptionInt'') (\<lambda>h conn c.
        in_context L (MainContext h) (\<lambda>ctx.
          numC R L (LGetOptionInt (OnConnection c) ctx (GoString key)))))"

definition init_args :: "cConn \<Rightarrow> (string \<times> string) list" where
  "init_args conn = (case conn_initArgs conn of None \<Rightarrow> [] | Some m \<Rightarrow> m)"

definition MariaDBConnectionSetOption :: "cgo_env \<Rightarrow> 'w driverlib \<Rightarrow> nat option \<Rightarrow> string option \<Rightarrow>
    string option \<Rightarrow> 'w shim \<Rightarrow> Status \<times> 'w shim" where
  "MariaDBConnectionSetOption R L cnxn key val = recovering R ''AdbcConnectionSetOption''
     (allocatedC (checkConnAlloc R cnxn ''AdbcConnectionSetOption'') ConnectionAt as_conn cnxn (\<lambda>h conn.
        case conn_cnxn conn of
          None \<Rightarrow>
            bindC (put_object h (ObjConn (conn\<lparr>conn_initArgs :=
              Some (map_set (GoString key) (GoString val) (init_args conn))\<rparr>))) (\<lambda>_. returnC StatusOK)
        | Some c \<Rightarrow> in_context L (MainContext h) (\<lambda>ctx.
            onlyErr R L (LSetOption (OnConnection c) ctx (GoString key) (GoString val)))))"

definition MariaDBConnectionSetOptionBytes :: "cgo_env \<Rightarrow> 'w driverlib \<Rightarrow> nat option \<Rightarrow> string option \<Rightarrow>
    string option \<Rightarrow> 64 word \<Rightarrow> 'w shim \<Rightarrow> Status \<times> 'w shim" where
  "MariaDBConnectionSetOptionBytes R L db key val len = recovering R ''AdbcConnectionSetOptionBytes''
     (withC (checkConnInit R db ''AdbcConnectionSetOptionBytes'') (\<lambda>h conn c.
        lengthC R len (\<lambda>safeLen.
        in_context L (MainContext h) (\<lambda>ctx.
        bindC (goBytesC val safeLen) (\<lambda>v.
          onlyErr R L (LSetOptionBytes (OnConnection c) ctx (GoString key) v))))))"

definition MariaDBConnectionSetOptionDouble :: "cgo_env \<Rightarrow> 'w driverlib \<Rightarrow> nat option \<Rightarrow> string option \<Rightarrow>
    64 word \<Rightarrow> 'w shim \<Rightarrow> Status \<times> 'w shim" where
  "MariaDBConnectionSetOptionDouble R L db key val = recovering R ''AdbcConnectionSetOptionDouble''
     (withC (checkConnInit R db ''AdbcConnectionSetOptionDouble'') (\<lambda>h conn c.
        in_context L (MainContext h) (\<lambda>ctx.
          onlyErr R L (LSetOptionDouble (OnConnection c) ctx (GoString key) val))))"

definition MariaDBConnectionSetOptionInt :: "cgo_env \<Rightarrow> 'w driverlib \<Rightarrow> nat option \<Rightarrow> string option \<Rightarrow>
    64 word \<Rightarrow> 'w shim \<Rightarrow> Status \<times> 'w shim" where
  "MariaDBConnectionSetOptionInt R L db key val = recovering R ''AdbcConnectionSetOptionInt''
     (withC (checkConnInit R db ''AdbcConnectionSetOptionInt'') (\<lambda>h conn c.
        in_context L (MainContext h) (\<lambda>ctx.
          onlyErr R L (LSetOptionInt (OnConnection c) ctx (GoString key) val))))"

section \<open>Life cycle\<close>

definition MariaDBConnectionNew :: "cgo_env \<Rightarrow> nat option \<Rightarrow> 'w shim \<Rightarrow> Status \<times> 'w shim" where
  "MariaDBConnectionNew R cnxn = recovering R ''AdbcConnectionNew''
     (unallocatedC R ''AdbcConnectionNew'' ''connection'' ConnectionAt cnxn (\<lambda>a.
        bindC (allocate (ConnectionAt a) (ObjConn \<lparr>conn_cnxn = None, conn_initArgs = None\<rparr>)) (\<lambda>_.
        returnC StatusOK)))"

text \<open>The loop over the options set before the connection was opened.\<close>

fun apply_init_args :: "cgo_env \<Rightarrow> 'w driverlib \<Rightarrow> nat \<Rightarrow> cConn \<Rightarrow> nat \<Rightarrow> nat \<Rightarrow> (string \<times> string) list \<Rightarrow>
    ('w, Status) cgo" where
  "apply_init_args R L h conn c ctx [] =
     bindC (put_object h (ObjConn (conn\<lparr>conn_initArgs := None\<rparr>))) (\<lambda>_. returnC StatusOK)"
| "apply_init_args R L h conn c ctx ((k, v) # kvs) =
     bindC (onlyErr R L (LSetOption (OnConnection c) ctx k v)) (\<lambda>rawCode.
       if rawCode \<noteq> StatusOK then returnC rawCode else apply_init_args R L h conn c ctx kvs)"

definition MariaDBConnectionInit :: "cgo_env \<Rightarrow> 'w driverlib \<Rightarrow> nat option \<Rightarrow> nat option \<Rightarrow>
    'w shim \<Rightarrow> Status \<times> 'w shim" where
  "MariaDBConnectionInit R L cnxn db = recovering R ''AdbcConnectionInit''
     (allocatedC (checkConnAlloc R cnxn ''AdbcConnectionInit'') ConnectionAt as_conn cnxn (\<lambda>h conn.
        if conn_cnxn conn \<noteq> None
        then failC R ''AdbcConnectionInit: connection already initialized'' StatusInvalidState
        else withC (checkDBInit R db ''AdbcConnectionInit'') (\<lambda>hd cdb d.
          orErr R (lib_obj L (LOpen d)) (\<lambda>c.
          let conn = conn\<lparr>conn_cnxn := Some c\<rparr> in
          bindC (put_object h (ObjConn conn)) (\<lambda>_.
            if init_args conn = [] then returnC StatusOK
            else in_context L (MainContext h) (\<lambda>ctx.
              apply_init_args R L h conn c ctx (range_map R (init_args conn))))))))"

definition MariaDBConnectionRelease :: "cgo_env \<Rightarrow> 'w driverlib \<Rightarrow> nat option \<Rightarrow> 'w shim \<Rightarrow> Status \<times> 'w shim" where
  "MariaDBConnectionRelease R L cnxn = recovering R ''AdbcConnectionRelease''
     (take_object (checkConnAlloc R cnxn ''AdbcConnectionRelease'') ConnectionAt as_conn cnxn (\<lambda>h conn.
        deferC (bindC (libC (lib_cancel_context L (MainContext h))) (\<lambda>_. returnC ()))
          (case conn_cnxn conn of
             None \<Rightarrow> returnC StatusOK
           | Some c \<Rightarrow> in_context L (MainContext h) (\<lambda>ctx. onlyErr R L (LClose (OnConnection c) ctx)))))"

definition MariaDBConnectionCancel :: "cgo_env \<Rightarrow> 'w driverlib \<Rightarrow> nat option \<Rightarrow> 'w shim \<Rightarrow> Status \<times> 'w shim" where
  "MariaDBConnectionCancel R L cnxn = recovering R ''AdbcConnectionCancel''
     (withC (checkConnInit R cnxn ''AdbcConnectionCancel'') (\<lambda>h conn c.
        bindC (libC (lib_cancel_context L (MainContext h))) (\<lambda>_. returnC StatusOK)))"

section \<open>Metadata\<close>

text \<open>A call that returns a reader, which is handed out as a stream.\<close>

definition readerC :: "cgo_env \<Rightarrow> 'w driverlib \<Rightarrow> rdr_call \<Rightarrow> nat option \<Rightarrow> ('w, Status) cgo" where
  "readerC R L call out = orErr R (lib_rdr L call) (\<lambda>(rdr, n). give_reader rdr out)"

definition MariaDBConnectionGetInfo :: "cgo_env \<Rightarrow> 'w driverlib \<Rightarrow> nat option \<Rightarrow> 32 word list option \<Rightarrow> 64 word \<Rightarrow>
    nat option \<Rightarrow> 'w shim \<Rightarrow> Status \<times> 'w shim" where
  "MariaDBConnectionGetInfo R L cnxn codes len out = recovering R ''AdbcConnectionGetInfo''
     (withC (checkConnInit R cnxn ''AdbcConnectionGetInfo'') (\<lambda>h conn c.
        lengthC R len (\<lambda>safeLen.
        in_context L (MainContext h) (\<lambda>ctx.
          readerC R L (LGetInfo c ctx (fromCArr codes (nat safeLen))) out))))"

definition MariaDBConnectionGetObjects :: "cgo_env \<Rightarrow> 'w driverlib \<Rightarrow> nat option \<Rightarrow> int \<Rightarrow> string option \<Rightarrow>
    string option \<Rightarrow> string option \<Rightarrow> c_strings option \<Rightarrow> string option \<Rightarrow> nat option \<Rightarrow>
    'w shim \<Rightarrow> Status \<times> 'w shim" where
  "MariaDBConnectionGetObjects R L cnxn depth catalog dbSchema tableName tableType columnName out =
     recovering R ''AdbcConnectionGetObjects''
     (withC (checkConnInit R cnxn ''AdbcConnectionGetObjects'') (\<lambda>h conn c.
        in_context L (MainContext h) (\<lambda>ctx.
          readerC R L (LGetObjects c ctx depth (toStrPtr catalog) (toStrPtr dbSchema) (toStrPtr tableName)
            (toStrPtr columnName) (toStrSlice tableType)) out)))"

definition MariaDBConnectionGetStatistics :: "cgo_env \<Rightarrow> 'w driverlib \<Rightarrow> nat option \<Rightarrow> string option \<Rightarrow>
    string option \<Rightarrow> string option \<Rightarrow> 8 word \<Rightarrow> nat option \<Rightarrow> 'w shim \<Rightarrow> Status \<times> 'w shim" where
  "MariaDBConnectionGetStatistics R L cnxn catalog dbSchema tableName approximate out =
     recovering R ''AdbcConnectionGetStatistics''
     (withC (checkConnInit R cnxn ''AdbcConnectionGetStatistics'') (\<lambda>h conn c.
        if \<not> lib_implements L iConnectionGetStatistics (OnConnection c)
        then failC R ''AdbcConnectionGetStatistics: not supported'' StatusNotImplemented
        else in_context L (MainContext h) (\<lambda>ctx.
          readerC R L (LGetStatistics c ctx (toStrPtr catalog) (toStrPtr dbSchema) (toStrPtr tableName)
            (approximate \<noteq> 0)) out)))"

definition MariaDBConnectionGetStatisticNames :: "cgo_env \<Rightarrow> 'w driverlib \<Rightarrow> nat option \<Rightarrow> nat option \<Rightarrow>
    'w shim \<Rightarrow> Status \<times> 'w shim" where
  "MariaDBConnectionGetStatisticNames R L cnxn out = recovering R ''AdbcConnectionGetStatistics''
     (withC (checkConnInit R cnxn ''AdbcConnectionGetStatistics'') (\<lambda>h conn c.
        if \<not> lib_implements L iConnectionGetStatistics (OnConnection c)
        then failC R ''AdbcConnectionGetStatistics: not supported'' StatusNotImplemented
        else in_context L (MainContext h) (\<lambda>ctx. readerC R L (LGetStatisticNames c ctx) out)))"

text \<open>\<open>cdata.ExportArrowSchema\<close>: the schema is written through the pointer.\<close>

definition schemaC :: "cgo_env \<Rightarrow> 'w driverlib \<Rightarrow> sch_call \<Rightarrow> ('w, Status) cgo" where
  "schemaC R L call = orErr R (lib_schema L call) (\<lambda>sc. bindC (write_schema sc) (\<lambda>_. returnC StatusOK))"

definition MariaDBConnectionGetTableSchema :: "cgo_env \<Rightarrow> 'w driverlib \<Rightarrow> nat option \<Rightarrow> string option \<Rightarrow>
    string option \<Rightarrow> string option \<Rightarrow> 'w shim \<Rightarrow> Status \<times> 'w shim" where
  "MariaDBConnectionGetTableSchema R L cnxn catalog dbSchema tableName =
     recovering R ''AdbcConnectionGetTableSchema''
     (withC (checkConnInit R cnxn ''AdbcConnectionGetTableSchema'') (\<lambda>h conn c.
        in_context L (MainContext h) (\<lambda>ctx.
          schemaC R L (LGetTableSchema c ctx (toStrPtr catalog) (toStrPtr dbSchema) (GoString tableName)))))"

definition MariaDBConnectionGetTableTypes :: "cgo_env \<Rightarrow> 'w driverlib \<Rightarrow> nat option \<Rightarrow> nat option \<Rightarrow>
    'w shim \<Rightarrow> Status \<times> 'w shim" where
  "MariaDBConnectionGetTableTypes R L cnxn out = recovering R ''AdbcConnectionGetTableTypes''
     (withC (checkConnInit R cnxn ''AdbcConnectionGetTableTypes'') (\<lambda>h conn c.
        in_context L (MainContext h) (\<lambda>ctx. readerC R L (LGetTableTypes c ctx) out)))"

definition MariaDBConnectionReadPartition :: "cgo_env \<Rightarrow> 'w driverlib \<Rightarrow> nat option \<Rightarrow> string option \<Rightarrow> 64 word \<Rightarrow>
    nat option \<Rightarrow> 'w shim \<Rightarrow> Status \<times> 'w shim" where
  "MariaDBConnectionReadPartition R L cnxn serialized serializedLen out =
     recovering R ''AdbcConnectionReadPartition''
     (withC (checkConnInit R cnxn ''AdbcConnectionReadPartition'') (\<lambda>h conn c.
        lengthC R serializedLen (\<lambda>safeLen.
        in_context L (MainContext h) (\<lambda>ctx.
        bindC (goBytesC serialized safeLen) (\<lambda>v.
          readerC R L (LReadPartition c ctx v) out)))))"

section \<open>Transactions\<close>

definition MariaDBConnectionCommit :: "cgo_env \<Rightarrow> 'w driverlib \<Rightarrow> nat option \<Rightarrow> 'w shim \<Rightarrow> Status \<times> 'w shim" where
  "MariaDBConnectionCommit R L cnxn = recovering R ''AdbcConnectionCommit''
     (withC (checkConnInit R cnxn ''AdbcConnectionCommit'') (\<lambda>h conn c.
        in_context L (MainContext h) (\<lambda>ctx. onlyErr R L (LConnCommit c ctx))))"

definition MariaDBConnectionRollback :: "cgo_env \<Rightarrow> 'w driverlib \<Rightarrow> nat option \<Rightarrow> 'w shim \<Rightarrow> Status \<times> 'w shim" where
  "MariaDBConnectionRollback R L cnxn = recovering R ''AdbcConnectionRollback''
     (withC (checkConnInit R cnxn ''AdbcConnectionRollback'') (\<lambda>h conn c.
        in_context L (MainContext h) (\<lambda>ctx. onlyErr R L (LConnRollback c ctx))))"

end
