(* ===== verification/C_Statement.thy ===== *)
theory C_Statement
  imports C_Connection
begin

text \<open>
  The statement functions of the C interface (\<open>pkg/driver.go\<close> lines 1362 to 1893).
\<close>

section \<open>Options\<close>

definition stmt_options :: "cgo_env \<Rightarrow> 'w driverlib \<Rightarrow> string \<Rightarrow> nat \<Rightarrow> ('w, Status) cgo \<Rightarrow> ('w, Status) cgo" where
  "stmt_options R L fname d k =
     (if \<not> lib_implements L iGetSetOptionsWithContext (OnStatement d)
      then failC R (fname @ '': options are not supported'') StatusNotImplemented else k)"

definition MariaDBStatementGetOption :: "cgo_env \<Rightarrow> 'w driverlib \<Rightarrow> nat option \<Rightarrow> string option \<Rightarrow>
    'w shim \<Rightarrow> Status \<times> 'w shim" where
  "MariaDBStatementGetOption R L db key = recovering R ''AdbcStatementGetOption''
     (withC (checkStmtInit R db ''AdbcStatementGetOption'') (\<lambda>h st d.
        stmt_options R L ''AdbcStatementGetOption'' d
        (in_context L (MainContext h) (\<lambda>ctx.
          orErr R (lib_str L (LGetOption (OnStatement d) ctx (GoString key))) exportStringC))))"

definition MariaDBStatementGetOptionBytes :: "cgo_env \<Rightarrow> 'w driverlib \<Rightarrow> nat option \<Rightarrow> string option \<Rightarrow>
    'w shim \<Rightarrow> Status \<times> 'w shim" where
  "MariaDBStatementGetOptionBytes R L db key = recovering R ''AdbcStatementGetOptionBytes''
     (withC (checkStmtInit R db ''AdbcStatementGetOptionBytes'') (\<lambda>h st d.
        stmt_options R L ''AdbcStatementGetOptionBytes'' d
        (in_context L (MainContext h) (\<lambda>ctx.
          orErr R (lib_str L (LGetOptionBytes (OnStatement d) ctx (GoString key))) exportBytesC))))"

definition MariaDBStatementGetOptionDouble :: "cgo_env \<Rightarrow> 'w driverlib \<Rightarrow> nat option \<Rightarrow> string option \<Rightarrow>
    'w shim \<Rightarrow> Status \<times> 'w shim" where
  "MariaDBStatementGetOptionDouble R L db key = recovering R ''AdbcStatementGetOptionDouble''
     (withC (checkStmtInit R db ''AdbcStatementGetOptionDouble'') (\<lambda>h st d.
        stmt_options R L ''AdbcStatementGetOptionDouble'' d
        (in_context L (MainContext h) (\<lambda>ctx.
          numC R L (LGetOptionDouble (OnStatement d) ctx (GoString key))))))"

definition MariaDBStatementGetOptionInt :: "cgo_env \<Rightarrow> 'w driverlib \<Rightarrow> nat option \<Rightarrow> string option \<Rightarrow>
    'w shim \<Rightarrow> Status \<times> 'w shim" where
  "MariaDBStatementGetOptionInt R L db key = recovering R ''AdbcStatementGetOptionInt''
     (withC (checkStmtInit R db ''AdbcStatementGetOptionInt'') (\<lambda>h st d.
        stmt_options R L ''AdbcStatementGetOptionInt'' d
        (in_context L (MainContext h) (\<lambda>ctx.
          numC R L (LGetOptionInt (OnStatement d) ctx (GoString key))))))"

definition MariaDBStatementSetOption :: "cgo_env \<Rightarrow> 'w driverlib \<Rightarrow> nat option \<Rightarrow> string option \<Rightarrow>
    string option \<Rightarrow> 'w shim \<Rightarrow> Status \<times> 'w shim" where
  "MariaDBStatementSetOption R L stmt key val = recovering R ''AdbcStatementSetOption''
     (withC (checkStmtInit R stmt ''AdbcStatementSetOption'') (\<lambda>h st d.
        in_context L (MainContext h) (\<lambda>ctx.
          onlyErr R L (LSetOption (OnStatement d) ctx (GoString key) (GoString val)))))"

definition MariaDBStatementSetOptionBytes :: "cgo_env \<Rightarrow> 'w driverlib \<Rightarrow> nat option \<Rightarrow> string option \<Rightarrow>
    string option \<Rightarrow> 64 word \<Rightarrow> 'w shim \<Rightarrow> Status \<times> 'w shim" where
  "MariaDBStatementSetOptionBytes R L db key val len = recovering R ''AdbcStatementSetOptionBytes''
     (withC (checkStmtInit R db ''AdbcStatementSetOptionBytes'') (\<lambda>h st d.
        stmt_options R L ''AdbcStatementSetOptionBytes'' d
        (lengthC R len (\<lambda>safeLen.
         in_context L (MainContext h) (\<lambda>ctx.
         bindC (goBytesC val safeLen) (\<lambda>v.
           onlyErr R L (LSetOptionBytes (OnStatement d) ctx (GoString key) v)))))))"

definition MariaDBStatementSetOptionDouble :: "cgo_env \<Rightarrow> 'w driverlib \<Rightarrow> nat option \<Rightarrow> string option \<Rightarrow>
    64 word \<Rightarrow> 'w shim \<Rightarrow> Status \<times> 'w shim" where
  "MariaDBStatementSetOptionDouble R L db key val = recovering R ''AdbcStatementSetOptionDouble''
     (withC (checkStmtInit R db ''AdbcStatementSetOptionDouble'') (\<lambda>h st d.
        stmt_options R L ''AdbcStatementSetOptionDouble'' d
        (in_context L (MainContext h) (\<lambda>ctx.
          onlyErr R L (LSetOptionDouble (OnStatement d) ctx (GoString key) val)))))"

definition MariaDBStatementSetOptionInt :: "cgo_env \<Rightarrow> 'w driverlib \<Rightarrow> nat option \<Rightarrow> string option \<Rightarrow>
    64 word \<Rightarrow> 'w shim \<Rightarrow> Status \<times> 'w shim" where
  "MariaDBStatementSetOptionInt R L db key val = recovering R ''AdbcStatementSetOptionInt''
     (withC (checkStmtInit R db ''AdbcStatementSetOptionInt'') (\<lambda>h st d.
        stmt_options R L ''AdbcStatementSetOptionInt'' d
        (in_context L (MainContext h) (\<lambda>ctx.
          onlyErr R L (LSetOptionInt (OnStatement d) ctx (GoString key) val)))))"

section \<open>Life cycle\<close>

definition MariaDBStatementNew :: "cgo_env \<Rightarrow> 'w driverlib \<Rightarrow> nat option \<Rightarrow> nat option \<Rightarrow>
    'w shim \<Rightarrow> Status \<times> 'w shim" where
  "MariaDBStatementNew R L cnxn stmt = recovering R ''AdbcStatementNew''
     (unallocatedC R ''AdbcStatementNew'' ''statement'' StatementAt stmt (\<lambda>a.
        withC (checkConnInit R cnxn ''AdbcStatementNew'') (\<lambda>h conn c.
          in_context L (MainContext h) (\<lambda>ctx.
          orErr R (lib_obj L (LNewStatement c ctx)) (\<lambda>st.
          bindC (allocate (StatementAt a) (ObjStmt \<lparr>stmt_stmt = Some st\<rparr>)) (\<lambda>_. returnC StatusOK))))))"

definition MariaDBStatementRelease :: "cgo_env \<Rightarrow> 'w driverlib \<Rightarrow> nat option \<Rightarrow> 'w shim \<Rightarrow> Status \<times> 'w shim" where
  "MariaDBStatementRelease R L stmt = recovering R ''AdbcStatementRelease''
     (bindC (readC globalPoison) (\<lambda>poisoned.
        if poisoned then failC R ''AdbcStatementRelease: Go panicked, driver is in unknown state'' StatusInternal
        else take_object (checkStmtAlloc R stmt ''AdbcStatementRelease'') StatementAt as_stmt stmt (\<lambda>h st.
          deferC (bindC (libC (lib_cancel_context L (MainContext h))) (\<lambda>_.
                  bindC (libC (lib_cancel_context L (ExecutionContext h))) (\<lambda>_. returnC ())))
            (case stmt_stmt st of
               None \<Rightarrow> returnC StatusOK
             | Some d \<Rightarrow> in_context L (MainContext h) (\<lambda>ctx. onlyErr R L (LClose (OnStatement d) ctx))))))"

text \<open>
  A canceler's error is ignored when the interface's own context was active and the error is that
  there was nothing to cancel.
\<close>

definition MariaDBStatementCancel :: "cgo_env \<Rightarrow> 'w driverlib \<Rightarrow> nat option \<Rightarrow> 'w shim \<Rightarrow> Status \<times> 'w shim" where
  "MariaDBStatementCancel R L stmt = recovering R ''AdbcStatementCancel''
     (withC (checkStmtInit R stmt ''AdbcStatementCancel'') (\<lambda>h st d.
        bindC (libC (lib_cancel_context L (ExecutionContext h))) (\<lambda>active.
          if \<not> lib_implements L iStatementCanceler (OnStatement d)
          then (if active then returnC StatusOK
                else failC R ''AdbcStatementCancel: no active query to cancel'' StatusInvalidState)
          else bindC (libC (lib_err L (LStmtCancel d))) (\<lambda>e.
            case e of
              None \<Rightarrow> returnC StatusOK
            | Some err \<Rightarrow>
                (case env_as_adbc R err of
                   Some a \<Rightarrow>
                     if active \<and> Code a = StatusInvalidState then returnC StatusOK
                     else errToAdbcErrC R (Some err)
                 | None \<Rightarrow> errToAdbcErrC R (Some err))))))"

section \<open>Queries\<close>

definition MariaDBStatementPrepare :: "cgo_env \<Rightarrow> 'w driverlib \<Rightarrow> nat option \<Rightarrow> 'w shim \<Rightarrow> Status \<times> 'w shim" where
  "MariaDBStatementPrepare R L stmt = recovering R ''AdbcStatementPrepare''
     (withC (checkStmtInit R stmt ''AdbcStatementPrepare'') (\<lambda>h st d.
        in_context L (MainContext h) (\<lambda>ctx. onlyErr R L (LStmtPrepare d ctx))))"

text \<open>\<open>ctx := st.executionContext.NewContext(); defer st.executionContext.FinishContext(ctx)\<close>.\<close>

definition executing :: "'w driverlib \<Rightarrow> nat \<Rightarrow> (nat \<Rightarrow> ('w, Status) cgo) \<Rightarrow> ('w, Status) cgo" where
  "executing L h k = in_context L (ExecutionContext h) (\<lambda>ctx.
     deferC (libC (lib_finish_context L (ExecutionContext h) ctx)) (k ctx))"

text \<open>\<open>if affected != nil { *affected = C.int64_t(n) }\<close>.\<close>

definition set_affected :: "int \<Rightarrow> ('w, unit) cgo" where
  "set_affected n = modifyC (\<lambda>s. s\<lparr>arg_num := map_option (\<lambda>_. word_of_int n) (arg_num s)\<rparr>)"

definition MariaDBStatementExecuteQuery :: "cgo_env \<Rightarrow> 'w driverlib \<Rightarrow> nat option \<Rightarrow> nat option \<Rightarrow>
    'w shim \<Rightarrow> Status \<times> 'w shim" where
  "MariaDBStatementExecuteQuery R L stmt out = recovering R ''AdbcStatementExecuteQuery''
     (withC (checkStmtInit R stmt ''AdbcStatementExecuteQuery'') (\<lambda>h st d.
        executing L h (\<lambda>ctx.
          if out = None
          then orErr R (lib_update L d ctx) (\<lambda>n. bindC (set_affected n) (\<lambda>_. returnC StatusOK))
          else orErr R (lib_rdr L (LExecuteQuery d ctx)) (\<lambda>(rdr, n).
            bindC (set_affected n) (\<lambda>_. give_reader rdr out)))))"

definition MariaDBStatementExecuteSchema :: "cgo_env \<Rightarrow> 'w driverlib \<Rightarrow> nat option \<Rightarrow> 'w shim \<Rightarrow> Status \<times> 'w shim" where
  "MariaDBStatementExecuteSchema R L stmt = recovering R ''AdbcStatementExecuteQuery''
     (withC (checkStmtInit R stmt ''AdbcStatementExecuteQuery'') (\<lambda>h st d.
        if \<not> lib_implements L iStatementExecuteSchema (OnStatement d)
        then failC R ''AdbcStatementExecuteSchema: not supported'' StatusNotImplemented
        else executing L h (\<lambda>ctx. schemaC R L (LExecuteSchema d ctx))))"

definition MariaDBStatementSetSqlQuery :: "cgo_env \<Rightarrow> 'w driverlib \<Rightarrow> nat option \<Rightarrow> string option \<Rightarrow>
    'w shim \<Rightarrow> Status \<times> 'w shim" where
  "MariaDBStatementSetSqlQuery R L stmt query = recovering R ''AdbcStatementSetSqlQuery''
     (withC (checkStmtInit R stmt ''AdbcStatementSetSqlQuery'') (\<lambda>h st d.
        in_context L (MainContext h) (\<lambda>ctx. onlyErr R L (LStmtSetSqlQuery d ctx (GoString query)))))"

definition MariaDBStatementSetSubstraitPlan :: "cgo_env \<Rightarrow> 'w driverlib \<Rightarrow> nat option \<Rightarrow> string option \<Rightarrow>
    64 word \<Rightarrow> 'w shim \<Rightarrow> Status \<times> 'w shim" where
  "MariaDBStatementSetSubstraitPlan R L stmt plan len = recovering R ''AdbcStatementSetSubstraitPlan''
     (withC (checkStmtInit R stmt ''AdbcStatementSetSubstraitPlan'') (\<lambda>h st d.
        lengthC R len (\<lambda>safeLen.
        in_context L (MainContext h) (\<lambda>ctx.
        bindC (goBytesC plan safeLen) (\<lambda>v. onlyErr R L (LStmtSetSubstraitPlan d ctx v))))))"

section \<open>Parameters\<close>

definition MariaDBStatementBind :: "cgo_env \<Rightarrow> 'w driverlib \<Rightarrow> nat option \<Rightarrow> nat option \<Rightarrow> nat option \<Rightarrow>
    'w shim \<Rightarrow> Status \<times> 'w shim" where
  "MariaDBStatementBind R L stmt vals schema = recovering R ''AdbcStatementBind''
     (withC (checkStmtInit R stmt ''AdbcStatementBind'') (\<lambda>h st d.
        bindC (libC (lib_import_batch L vals schema)) (\<lambda>r.
          case r of
            Inl e \<Rightarrow> bindC (libC (lib_release_array L vals)) (\<lambda>_. errToAdbcErrC R (Some e))
          | Inr rec \<Rightarrow>
              deferC (add_ref (Batch rec) (- 1))
                (in_context L (MainContext h) (\<lambda>ctx. onlyErr R L (LStmtBind d ctx rec))))))"

definition MariaDBStatementBindStream :: "cgo_env \<Rightarrow> 'w driverlib \<Rightarrow> nat option \<Rightarrow> nat option \<Rightarrow>
    'w shim \<Rightarrow> Status \<times> 'w shim" where
  "MariaDBStatementBindStream R L stmt stream = recovering R ''AdbcStatementBindStream''
     (withC (checkStmtInit R stmt ''AdbcStatementBindStream'') (\<lambda>h st d.
        orErr R (lib_import_reader L stream) (\<lambda>rdr.
          in_context L (MainContext h) (\<lambda>ctx. onlyErr R L (LStmtBindStream d ctx rdr)))))"

definition MariaDBStatementGetParameterSchema :: "cgo_env \<Rightarrow> 'w driverlib \<Rightarrow> nat option \<Rightarrow>
    'w shim \<Rightarrow> Status \<times> 'w shim" where
  "MariaDBStatementGetParameterSchema R L stmt = recovering R ''AdbcStatementGetParameterSchema''
     (withC (checkStmtInit R stmt ''AdbcStatementGetParameterSchema'') (\<lambda>h st d.
        in_context L (MainContext h) (\<lambda>ctx. schemaC R L (LGetParameterSchema d ctx))))"

section \<open>Partitions\<close>

definition releasePartitions :: "c_partitions \<Rightarrow> c_partitions" where
  "releasePartitions p =
     (if part_data p = None then p else p\<lparr>part_offsets := [], part_lengths := [], part_data := None\<rparr>)"

text \<open>
  The copying loop at index \<open>i\<close>, with \<open>n\<close> entries in the arrays and \<open>room\<close> bytes left in the block
  from offset \<open>off\<close> on: offsets, lengths and bytes written, and the panic that stopped it. The
  address of the first byte of what is left is taken even when nothing is left.
\<close>

fun part_loop :: "nat \<Rightarrow> string list \<Rightarrow> nat \<Rightarrow> nat \<Rightarrow> nat \<Rightarrow>
    nat list \<times> nat list \<times> string \<times> go_panic option" where
  "part_loop n [] i off room = ([], [], [], None)"
| "part_loop n (p # ps) i off room =
     (if room = 0 then ([], [], [], Some (IndexOutOfRange 0 0))
      else if i \<ge> n then ([], [], [], Some (IndexOutOfRange (int i) (int n)))
      else (let (os, ls, b, r) = part_loop n ps (Suc i) (off + length p) (room - length p) in
            (off # os, length p # ls, p @ b, r)))"

definition fill_partitions :: "Partitions \<Rightarrow> c_partitions \<times> go_panic option" where
  "fill_partitions part =
     (let ids = PartitionIDs part;
          totalLen = length (concat ids);
          (os, ls, b, r) = part_loop (NumPartitions part) ids 0 0 totalLen in
      (\<lparr>num_partitions = NumPartitions part, part_offsets = os, part_lengths = ls,
        part_data = Some (b @ replicate (totalLen - length b) NUL), part_release = (r = None)\<rparr>, r))"

definition write_partitions :: "Partitions \<Rightarrow> ('w, Status) cgo" where
  "write_partitions part =
     (let (p, r) = fill_partitions part in
      bindC (modifyC (\<lambda>s. s\<lparr>arg_parts := Some p\<rparr>)) (\<lambda>_.
        case r of None \<Rightarrow> returnC StatusOK | Some e \<Rightarrow> panicC e))"

definition MariaDBStatementExecutePartitions :: "cgo_env \<Rightarrow> 'w driverlib \<Rightarrow> nat option \<Rightarrow>
    'w shim \<Rightarrow> Status \<times> 'w shim" where
  "MariaDBStatementExecutePartitions R L stmt = recovering R ''AdbcStatementExecutePartitions''
     (withC (checkStmtInit R stmt ''AdbcStatementExecutePartitions'') (\<lambda>h st d.
        executing L h (\<lambda>ctx.
          orErr R (lib_partitions L d ctx) (\<lambda>(sc, part, n).
          bindC (readC arg_parts) (\<lambda>partitions.
            if partitions = None
            then failC R ''AdbcStatementExecutePartitions: partitions output struct is null'' StatusInvalidArgument
            else bindC (set_affected n) (\<lambda>_.
                 bindC (readC arg_schema) (\<lambda>schema.
                 bindC (case (sc, schema) of
                          (Some fs, Some _) \<Rightarrow> write_schema fs
                        | _ \<Rightarrow> returnC ()) (\<lambda>_.
                 write_partitions part))))))))"

end
