(* ===== verification/C_Calls.thy ===== *)
theory C_Calls
  imports C_Statement
begin

text \<open>
  All functions of the driver's table as calls a client can make in any order, and what every one of
  them does once a call has panicked.
\<close>

section \<open>The calls\<close>

datatype adbc_call =
    DatabaseGetOption "nat option" "string option"
  | DatabaseGetOptionBytes "nat option" "string option"
  | DatabaseGetOptionDouble "nat option" "string option"
  | DatabaseGetOptionInt "nat option" "string option"
  | DatabaseInit "nat option"
  | DatabaseNew "nat option"
  | DatabaseRelease "nat option"
  | DatabaseSetOption "nat option" "string option" "string option"
  | DatabaseSetOptionBytes "nat option" "string option" "string option" "64 word"
  | DatabaseSetOptionDouble "nat option" "string option" "64 word"
  | DatabaseSetOptionInt "nat option" "string option" "64 word"
  | ConnectionGetOption "nat option" "string option"
  | ConnectionGetOptionBytes "nat option" "string option"
  | ConnectionGetOptionDouble "nat option" "string option"
  | ConnectionGetOptionInt "nat option" "string option"
  | ConnectionSetOption "nat option" "string option" "string option"
  | ConnectionSetOptionBytes "nat option" "string option" "string option" "64 word"
  | ConnectionSetOptionDouble "nat option" "string option" "64 word"
  | ConnectionSetOptionInt "nat option" "string option" "64 word"
  | ConnectionNew "nat option"
  | ConnectionInit "nat option" "nat option"
  | ConnectionRelease "nat option"
  | ConnectionCancel "nat option"
  | ConnectionGetInfo "nat option" "32 word list option" "64 word" "nat option"
  | ConnectionGetObjects "nat option" int "string option" "string option" "string option" "c_strings option" "string option" "nat option"
  | ConnectionGetStatistics "nat option" "string option" "string option" "string option" "8 word" "nat option"
  | ConnectionGetStatisticNames "nat option" "nat option"
  | ConnectionGetTableSchema "nat option" "string option" "string option" "string option"
  | ConnectionGetTableTypes "nat option" "nat option"
  | ConnectionReadPartition "nat option" "string option" "64 word" "nat option"
  | ConnectionCommit "nat option"
  | ConnectionRollback "nat option"
  | StatementGetOption "nat option" "string option"
  | StatementGetOptionBytes "nat option" "string option"
  | StatementGetOptionDouble "nat option" "string option"
  | StatementGetOptionInt "nat option" "string option"
  | StatementSetOption "nat option" "string option" "string option"
  | StatementSetOptionBytes "nat option" "string option" "string option" "64 word"
  | StatementSetOptionDouble "nat option" "string option" "64 word"
  | StatementSetOptionInt "nat option" "string option" "64 word"
  | StatementNew "nat option" "nat option"
  | StatementRelease "nat option"
  | StatementCancel "nat option"
  | StatementPrepare "nat option"
  | StatementExecuteQuery "nat option" "nat option"
  | StatementExecuteSchema "nat option"
  | StatementSetSqlQuery "nat option" "string option"
  | StatementSetSubstraitPlan "nat option" "string option" "64 word"
  | StatementBind "nat option" "nat option" "nat option"
  | StatementBindStream "nat option" "nat option"
  | StatementGetParameterSchema "nat option"
  | StatementExecutePartitions "nat option"

fun run_adbc :: "cgo_env \<Rightarrow> 'w driverlib \<Rightarrow> adbc_call \<Rightarrow> 'w shim \<Rightarrow> Status \<times> 'w shim" where
  "run_adbc R L (DatabaseGetOption x0 x1) = MariaDBDatabaseGetOption R L x0 x1"
| "run_adbc R L (DatabaseGetOptionBytes x0 x1) = MariaDBDatabaseGetOptionBytes R L x0 x1"
| "run_adbc R L (DatabaseGetOptionDouble x0 x1) = MariaDBDatabaseGetOptionDouble R L x0 x1"
| "run_adbc R L (DatabaseGetOptionInt x0 x1) = MariaDBDatabaseGetOptionInt R L x0 x1"
| "run_adbc R L (DatabaseInit x0) = MariaDBDatabaseInit R L x0"
| "run_adbc R L (DatabaseNew x0) = MariaDBDatabaseNew R x0"
| "run_adbc R L (DatabaseRelease x0) = MariaDBDatabaseRelease R L x0"
| "run_adbc R L (DatabaseSetOption x0 x1 x2) = MariaDBDatabaseSetOption R L x0 x1 x2"
| "run_adbc R L (DatabaseSetOptionBytes x0 x1 x2 x3) = MariaDBDatabaseSetOptionBytes R L x0 x1 x2 x3"
| "run_adbc R L (DatabaseSetOptionDouble x0 x1 x2) = MariaDBDatabaseSetOptionDouble R L x0 x1 x2"
| "run_adbc R L (DatabaseSetOptionInt x0 x1 x2) = MariaDBDatabaseSetOptionInt R L x0 x1 x2"
| "run_adbc R L (ConnectionGetOption x0 x1) = MariaDBConnectionGetOption R L x0 x1"
| "run_adbc R L (ConnectionGetOptionBytes x0 x1) = MariaDBConnectionGetOptionBytes R L x0 x1"
| "run_adbc R L (ConnectionGetOptionDouble x0 x1) = MariaDBConnectionGetOptionDouble R L x0 x1"
| "run_adbc R L (ConnectionGetOptionInt x0 x1) = MariaDBConnectionGetOptionInt R L x0 x1"
| "run_adbc R L (ConnectionSetOption x0 x1 x2) = MariaDBConnectionSetOption R L x0 x1 x2"
| "run_adbc R L (ConnectionSetOptionBytes x0 x1 x2 x3) = MariaDBConnectionSetOptionBytes R L x0 x1 x2 x3"
| "run_adbc R L (ConnectionSetOptionDouble x0 x1 x2) = MariaDBConnectionSetOptionDouble R L x0 x1 x2"
| "run_adbc R L (ConnectionSetOptionInt x0 x1 x2) = MariaDBConnectionSetOptionInt R L x0 x1 x2"
| "run_adbc R L (ConnectionNew x0) = MariaDBConnectionNew R x0"
| "run_adbc R L (ConnectionInit x0 x1) = MariaDBConnectionInit R L x0 x1"
| "run_adbc R L (ConnectionRelease x0) = MariaDBConnectionRelease R L x0"
| "run_adbc R L (ConnectionCancel x0) = MariaDBConnectionCancel R L x0"
| "run_adbc R L (ConnectionGetInfo x0 x1 x2 x3) = MariaDBConnectionGetInfo R L x0 x1 x2 x3"
| "run_adbc R L (ConnectionGetObjects x0 x1 x2 x3 x4 x5 x6 x7) = MariaDBConnectionGetObjects R L x0 x1 x2 x3 x4 x5 x6 x7"
| "run_adbc R L (ConnectionGetStatistics x0 x1 x2 x3 x4 x5) = MariaDBConnectionGetStatistics R L x0 x1 x2 x3 x4 x5"
| "run_adbc R L (ConnectionGetStatisticNames x0 x1) = MariaDBConnectionGetStatisticNames R L x0 x1"
| "run_adbc R L (ConnectionGetTableSchema x0 x1 x2 x3) = MariaDBConnectionGetTableSchema R L x0 x1 x2 x3"
| "run_adbc R L (ConnectionGetTableTypes x0 x1) = MariaDBConnectionGetTableTypes R L x0 x1"
| "run_adbc R L (ConnectionReadPartition x0 x1 x2 x3) = MariaDBConnectionReadPartition R L x0 x1 x2 x3"
| "run_adbc R L (ConnectionCommit x0) = MariaDBConnectionCommit R L x0"
| "run_adbc R L (ConnectionRollback x0) = MariaDBConnectionRollback R L x0"
| "run_adbc R L (StatementGetOption x0 x1) = MariaDBStatementGetOption R L x0 x1"
| "run_adbc R L (StatementGetOptionBytes x0 x1) = MariaDBStatementGetOptionBytes R L x0 x1"
| "run_adbc R L (StatementGetOptionDouble x0 x1) = MariaDBStatementGetOptionDouble R L x0 x1"
| "run_adbc R L (StatementGetOptionInt x0 x1) = MariaDBStatementGetOptionInt R L x0 x1"
| "run_adbc R L (StatementSetOption x0 x1 x2) = MariaDBStatementSetOption R L x0 x1 x2"
| "run_adbc R L (StatementSetOptionBytes x0 x1 x2 x3) = MariaDBStatementSetOptionBytes R L x0 x1 x2 x3"
| "run_adbc R L (StatementSetOptionDouble x0 x1 x2) = MariaDBStatementSetOptionDouble R L x0 x1 x2"
| "run_adbc R L (StatementSetOptionInt x0 x1 x2) = MariaDBStatementSetOptionInt R L x0 x1 x2"
| "run_adbc R L (StatementNew x0 x1) = MariaDBStatementNew R L x0 x1"
| "run_adbc R L (StatementRelease x0) = MariaDBStatementRelease R L x0"
| "run_adbc R L (StatementCancel x0) = MariaDBStatementCancel R L x0"
| "run_adbc R L (StatementPrepare x0) = MariaDBStatementPrepare R L x0"
| "run_adbc R L (StatementExecuteQuery x0 x1) = MariaDBStatementExecuteQuery R L x0 x1"
| "run_adbc R L (StatementExecuteSchema x0) = MariaDBStatementExecuteSchema R L x0"
| "run_adbc R L (StatementSetSqlQuery x0 x1) = MariaDBStatementSetSqlQuery R L x0 x1"
| "run_adbc R L (StatementSetSubstraitPlan x0 x1 x2) = MariaDBStatementSetSubstraitPlan R L x0 x1 x2"
| "run_adbc R L (StatementBind x0 x1 x2) = MariaDBStatementBind R L x0 x1 x2"
| "run_adbc R L (StatementBindStream x0 x1) = MariaDBStatementBindStream R L x0 x1"
| "run_adbc R L (StatementGetParameterSchema x0) = MariaDBStatementGetParameterSchema R L x0"
| "run_adbc R L (StatementExecutePartitions x0) = MariaDBStatementExecutePartitions R L x0"

lemmas call_defs =
  MariaDBDatabaseGetOption_def MariaDBDatabaseGetOptionBytes_def MariaDBDatabaseGetOptionDouble_def
  MariaDBDatabaseGetOptionInt_def MariaDBDatabaseInit_def MariaDBDatabaseNew_def
  MariaDBDatabaseRelease_def MariaDBDatabaseSetOption_def MariaDBDatabaseSetOptionBytes_def
  MariaDBDatabaseSetOptionDouble_def MariaDBDatabaseSetOptionInt_def MariaDBConnectionGetOption_def
  MariaDBConnectionGetOptionBytes_def MariaDBConnectionGetOptionDouble_def MariaDBConnectionGetOptionInt_def
  MariaDBConnectionSetOption_def MariaDBConnectionSetOptionBytes_def MariaDBConnectionSetOptionDouble_def
  MariaDBConnectionSetOptionInt_def MariaDBConnectionNew_def MariaDBConnectionInit_def
  MariaDBConnectionRelease_def MariaDBConnectionCancel_def MariaDBConnectionGetInfo_def
  MariaDBConnectionGetObjects_def MariaDBConnectionGetStatistics_def MariaDBConnectionGetStatisticNames_def
  MariaDBConnectionGetTableSchema_def MariaDBConnectionGetTableTypes_def MariaDBConnectionReadPartition_def
  MariaDBConnectionCommit_def MariaDBConnectionRollback_def MariaDBStatementGetOption_def
  MariaDBStatementGetOptionBytes_def MariaDBStatementGetOptionDouble_def MariaDBStatementGetOptionInt_def
  MariaDBStatementSetOption_def MariaDBStatementSetOptionBytes_def MariaDBStatementSetOptionDouble_def
  MariaDBStatementSetOptionInt_def MariaDBStatementNew_def MariaDBStatementRelease_def
  MariaDBStatementCancel_def MariaDBStatementPrepare_def MariaDBStatementExecuteQuery_def
  MariaDBStatementExecuteSchema_def MariaDBStatementSetSqlQuery_def MariaDBStatementSetSubstraitPlan_def
  MariaDBStatementBind_def MariaDBStatementBindStream_def MariaDBStatementGetParameterSchema_def
  MariaDBStatementExecutePartitions_def

section \<open>A poisoned driver\<close>

text \<open>What a call may touch when it only reports an error.\<close>

definition only_err_changed :: "'w shim \<Rightarrow> 'w shim \<Rightarrow> bool" where
  "only_err_changed s s' \<longleftrightarrow> s' = s\<lparr>arg_err := arg_err s'\<rparr>"

lemma check_alloc_poisoned:
  "globalPoison s \<Longrightarrow> check_alloc R what at fname p s =
     (Inr False, snd (fmtErrC R fname ''Go panicked, driver is in unknown state'' s))"
  by (simp add: check_alloc_def bindC_def readC_def returnC_def fmtErrC_def modifyC_def)

lemma only_err_changed_fmtErrC: "only_err_changed s (snd (fmtErrC R fname text s))"
  by (simp add: only_err_changed_def fmtErrC_def modifyC_def)

lemma only_err_changed_setErrC: "only_err_changed s (snd (setErrC R text s))"
  by (simp add: only_err_changed_def setErrC_def modifyC_def)

lemmas check_defs = checkDBAlloc_def checkConnAlloc_def checkStmtAlloc_def
  checkDBInit_def checkConnInit_def checkStmtInit_def

text \<open>The outcome of a refused call.\<close>

definition refused :: "'w shim \<Rightarrow> (go_panic + Status) \<times> 'w shim \<Rightarrow> bool" where
  "refused s r \<longleftrightarrow> fst r \<in> {Inr StatusInvalidState, Inr StatusInternal} \<and> only_err_changed s (snd r)"

lemma refused_fmt:
  "refused s (Inr StatusInvalidState, snd (fmtErrC R fname text s))"
  by (simp add: refused_def only_err_changed_fmtErrC)

lemma refused_allocatedC:
  "globalPoison s \<Longrightarrow> refused s (allocatedC (check_alloc R what at' fname p') at as p k s)"
  by (simp add: allocatedC_def bindC_def check_alloc_poisoned returnC_def refused_fmt)

lemma refused_take_object:
  "globalPoison s \<Longrightarrow> refused s (take_object (check_alloc R what at' fname p') at as p k s)"
  by (simp add: take_object_def bindC_def check_alloc_poisoned returnC_def refused_fmt)

lemma refused_withC:
  "globalPoison s \<Longrightarrow>
     refused s (withC (check_init R (check_alloc R what at' fname p') at as inner fname' missing p) k s)"
  by (simp add: withC_def check_init_def bindC_def check_alloc_poisoned returnC_def refused_fmt)

lemma refused_failC: "code \<in> {StatusInvalidState, StatusInternal} \<Longrightarrow> refused s (failC R msg code s)"
  by (auto simp: failC_def bindC_def setErrC_def modifyC_def returnC_def refused_def only_err_changed_def)

lemma refused_unallocatedC:
  "globalPoison s \<Longrightarrow> refused s (unallocatedC R fname what at p k s)"
  by (simp add: unallocatedC_def bindC_def readC_def refused_failC)

lemma refused_release:
  "globalPoison s \<Longrightarrow> refused s (bindC (readC globalPoison) (\<lambda>b. if b then failC R msg StatusInternal else m) s)"
  by (simp add: bindC_def readC_def refused_failC)

lemma recovering_refused:
  "refused s (body s) \<Longrightarrow>
     fst (recovering R fname body s) \<in> {StatusInvalidState, StatusInternal} \<and>
     only_err_changed s (snd (recovering R fname body s))"
  by (auto simp: recovering_def refused_def split: prod.splits sum.splits)

lemmas refused_intros = refused_allocatedC refused_take_object refused_withC refused_unallocatedC refused_release

lemma poisoned_calls_frame:
  assumes "globalPoison s"
  shows "fst (run_adbc R L c s) \<in> {StatusInvalidState, StatusInternal} \<and>
    only_err_changed s (snd (run_adbc R L c s))"
  by (cases c)
    (simp_all only: run_adbc.simps call_defs check_defs recovering_refused refused_intros assms)

section \<open>A sample driver\<close>

text \<open>
  A driver below whose state counts the calls made on it: every call succeeds, objects and readers
  are numbered by the counter, options read back as \<open>on\<close>.
\<close>

definition counting :: "'a \<Rightarrow> nat \<Rightarrow> (string + 'a) \<times> nat" where
  "counting x n = (Inr x, n + 1)"

definition sample_driver :: "nat driverlib" where
  "sample_driver =
     \<lparr>lib_new_context = (\<lambda>o' n. (Inr n, n + 1)), lib_cancel_context = (\<lambda>o'. counting True),
      lib_finish_context = (\<lambda>o' c. counting ()), lib_err = (\<lambda>c. counting None),
      lib_str = (\<lambda>c. counting (Inr ''on'')), lib_num = (\<lambda>c. counting (7, None)),
      lib_obj = (\<lambda>c n. (Inr (Inr n), n + 1)), lib_rdr = (\<lambda>c n. (Inr (Inr (n, - 1)), n + 1)),
      lib_update = (\<lambda>d c. counting (Inr 3)), lib_schema = (\<lambda>c. counting (Inr [])),
      lib_partitions = (\<lambda>d c. counting (Inr (None, \<lparr>NumPartitions = 2, PartitionIDs = [''a'', ''bc'']\<rparr>, - 1))),
      lib_import_batch = (\<lambda>v c. counting (Inr 0)), lib_import_reader = (\<lambda>v. counting (Inr 0)),
      lib_release_array = (\<lambda>v. counting ()), lib_next = (\<lambda>r. counting False), lib_record = (\<lambda>r. counting 0),
      lib_reader_err = (\<lambda>r. counting None), lib_reader_schema = (\<lambda>r. counting (Some [])),
      lib_implements = (\<lambda>i t. True)\<rparr>"

definition sample_env :: cgo_env where
  "sample_env =
     \<lparr>env_release = id, env_as_adbc = (\<lambda>e. None), env_error_text = (\<lambda>e. ''failed''),
      env_panic_text = (\<lambda>p. ''panic''), env_getenv = (\<lambda>v. []), env_temp_file = Inl ''no space'',
      env_range_opts = id, env_case = sample_unicode\<rparr>"

text \<open>The state of a process that has loaded the driver, with zeroed structs everywhere.\<close>

definition initial_shim :: "'w \<Rightarrow> 'w shim" where
  "initial_shim w =
     \<lparr>globalPoison = False, handles = Map.empty, handleIdx = 0, priv = (\<lambda>_. 0), stream_ours = (\<lambda>_. False),
      world = w, refs = (\<lambda>_. 0), stderr_lines = [], panics = [], arg_err = None, arg_buf = None,
      arg_len = None, arg_num = None, arg_schema = None, arg_parts = None, arg_array = None\<rparr>"

section \<open>Properties\<close>

text \<open>
  C9 (safety). Once a call has panicked, every later call of the driver's functions fails with
  \<open>INVALID_STATE\<close> or \<open>INTERNAL\<close> and changes nothing but the caller's error struct: no handle, no
  struct and nothing of the driver below is touched.
\<close>
theorem poisoned_calls_refused:
  assumes "globalPoison s"
  shows "fst (run_adbc R L c s) \<in> {StatusInvalidState, StatusInternal} \<and>
    only_err_changed s (snd (run_adbc R L c s))"
  using assms by (rule poisoned_calls_frame)

theorem poisoned_calls_refused_witness:
  "fst (run_adbc sample_env sample_driver (ConnectionCommit (Some 1)) ((initial_shim 0)\<lparr>globalPoison := True\<rparr>))
      \<in> {StatusInvalidState, StatusInternal} \<and>
   only_err_changed ((initial_shim 0)\<lparr>globalPoison := True\<rparr>)
     (snd (run_adbc sample_env sample_driver (ConnectionCommit (Some 1)) ((initial_shim 0)\<lparr>globalPoison := True\<rparr>)))"
  by (rule poisoned_calls_refused) simp

end
