(* ===== verification/C_Invariant.thy ===== *)
theory C_Invariant
  imports C_Calls
begin

text \<open>
  Invariants of the state behind the C interface. The locale \<open>shim_invariant\<close> lists what a predicate
  has to survive: the five ways in which the functions change handles and structs. Every function
  then keeps it, for any behaviour of the driver below. It is interpreted on the well-formedness of
  the handle table, with the panics that a handle can cause excluded, on the poison flag, and on
  a single struct that the calls are not given.
\<close>

section \<open>The contract\<close>

fun slot_kind :: "slot \<Rightarrow> kind" where
  "slot_kind (DatabaseAt a) = KDatabase"
| "slot_kind (ConnectionAt a) = KConnection"
| "slot_kind (StatementAt a) = KStatement"
| "slot_kind (StreamAt a) = KStream"

definition core :: "'w shim \<Rightarrow> bool \<times> (nat \<rightharpoonup> cobj) \<times> nat \<times> (slot \<Rightarrow> nat) \<times> go_panic list" where
  "core s = (globalPoison s, handles s, handleIdx s, priv s, panics s)"

text \<open>The structs whose addresses a call is given.\<close>

definition ptr :: "(nat \<Rightarrow> slot) \<Rightarrow> nat option \<Rightarrow> slot set" where
  "ptr at p = set_option (map_option at p)"

fun named_structs :: "adbc_call \<Rightarrow> slot set" where
  "named_structs (DatabaseGetOption p x0) = ptr DatabaseAt p"
| "named_structs (DatabaseGetOptionBytes p x0) = ptr DatabaseAt p"
| "named_structs (DatabaseGetOptionDouble p x0) = ptr DatabaseAt p"
| "named_structs (DatabaseGetOptionInt p x0) = ptr DatabaseAt p"
| "named_structs (DatabaseInit p) = ptr DatabaseAt p"
| "named_structs (DatabaseNew p) = ptr DatabaseAt p"
| "named_structs (DatabaseRelease p) = ptr DatabaseAt p"
| "named_structs (DatabaseSetOption p x0 x1) = ptr DatabaseAt p"
| "named_structs (DatabaseSetOptionBytes p x0 x1 x2) = ptr DatabaseAt p"
| "named_structs (DatabaseSetOptionDouble p x0 x1) = ptr DatabaseAt p"
| "named_structs (DatabaseSetOptionInt p x0 x1) = ptr DatabaseAt p"
| "named_structs (ConnectionGetOption p x0) = ptr ConnectionAt p"
| "named_structs (ConnectionGetOptionBytes p x0) = ptr ConnectionAt p"
| "named_structs (ConnectionGetOptionDouble p x0) = ptr ConnectionAt p"
| "named_structs (ConnectionGetOptionInt p x0) = ptr ConnectionAt p"
| "named_structs (ConnectionSetOption p x0 x1) = ptr ConnectionAt p"
| "named_structs (ConnectionSetOptionBytes p x0 x1 x2) = ptr ConnectionAt p"
| "named_structs (ConnectionSetOptionDouble p x0 x1) = ptr ConnectionAt p"
| "named_structs (ConnectionSetOptionInt p x0 x1) = ptr ConnectionAt p"
| "named_structs (ConnectionNew p) = ptr ConnectionAt p"
| "named_structs (ConnectionInit p d) = ptr ConnectionAt p \<union> ptr DatabaseAt d"
| "named_structs (ConnectionRelease p) = ptr ConnectionAt p"
| "named_structs (ConnectionCancel p) = ptr ConnectionAt p"
| "named_structs (ConnectionGetInfo p x0 x1 out) = ptr ConnectionAt p \<union> ptr StreamAt out"
| "named_structs (ConnectionGetObjects p x0 x1 x2 x3 x4 x5 out) = ptr ConnectionAt p \<union> ptr StreamAt out"
| "named_structs (ConnectionGetStatistics p x0 x1 x2 x3 out) = ptr ConnectionAt p \<union> ptr StreamAt out"
| "named_structs (ConnectionGetStatisticNames p out) = ptr ConnectionAt p \<union> ptr StreamAt out"
| "named_structs (ConnectionGetTableSchema p x0 x1 x2) = ptr ConnectionAt p"
| "named_structs (ConnectionGetTableTypes p out) = ptr ConnectionAt p \<union> ptr StreamAt out"
| "named_structs (ConnectionReadPartition p x0 x1 out) = ptr ConnectionAt p \<union> ptr StreamAt out"
| "named_structs (ConnectionCommit p) = ptr ConnectionAt p"
| "named_structs (ConnectionRollback p) = ptr ConnectionAt p"
| "named_structs (StatementGetOption p x0) = ptr StatementAt p"
| "named_structs (StatementGetOptionBytes p x0) = ptr StatementAt p"
| "named_structs (StatementGetOptionDouble p x0) = ptr StatementAt p"
| "named_structs (StatementGetOptionInt p x0) = ptr StatementAt p"
| "named_structs (StatementSetOption p x0 x1) = ptr StatementAt p"
| "named_structs (StatementSetOptionBytes p x0 x1 x2) = ptr StatementAt p"
| "named_structs (StatementSetOptionDouble p x0 x1) = ptr StatementAt p"
| "named_structs (StatementSetOptionInt p x0 x1) = ptr StatementAt p"
| "named_structs (StatementNew c p) = ptr ConnectionAt c \<union> ptr StatementAt p"
| "named_structs (StatementRelease p) = ptr StatementAt p"
| "named_structs (StatementCancel p) = ptr StatementAt p"
| "named_structs (StatementPrepare p) = ptr StatementAt p"
| "named_structs (StatementExecuteQuery p out) = ptr StatementAt p \<union> ptr StreamAt out"
| "named_structs (StatementExecuteSchema p) = ptr StatementAt p"
| "named_structs (StatementSetSqlQuery p x0) = ptr StatementAt p"
| "named_structs (StatementSetSubstraitPlan p x0 x1) = ptr StatementAt p"
| "named_structs (StatementBind p x0 x1) = ptr StatementAt p"
| "named_structs (StatementBindStream p v) = ptr StatementAt p \<union> ptr StreamAt v"
| "named_structs (StatementGetParameterSchema p) = ptr StatementAt p"
| "named_structs (StatementExecutePartitions p) = ptr StatementAt p"

text \<open>
  \<open>I\<close> holds between actions, \<open>J\<close> is what is left of it after a panic that is not recovered yet, and
  \<open>P\<close> says which panics can happen. \<open>S\<close> are the structs that may be passed to calls, \<open>W\<close> the handles
  whose objects may be written.
\<close>

lemma core_poison:
  "core (snd (poison R fname p s)) = core (s\<lparr>globalPoison := True, panics := panics s @ [p]\<rparr>)"
  by (cases "globalPoison s") (simp_all add: poison_def core_def)

lemma only_err_changed_core: "only_err_changed s s' \<Longrightarrow> core s' = core s"
proof -
  assume "only_err_changed s s'"
  then obtain e where "s' = s\<lparr>arg_err := e\<rparr>" unfolding only_err_changed_def by blast
  then show ?thesis by (simp add: core_def)
qed

lemma bindC_Inr: "m s = (Inr x, s') \<Longrightarrow> bindC m f s = f x s'"
  by (simp add: bindC_def)

locale shim_objects =
  fixes I :: "'w shim \<Rightarrow> bool" and J :: "'w shim \<Rightarrow> bool" and P :: "go_panic \<Rightarrow> bool"
    and S :: "slot set" and W :: "nat \<Rightarrow> bool"
  assumes frame: "I s \<Longrightarrow> core s' = core s \<Longrightarrow> I s'"
    and frame_panicked: "J s \<Longrightarrow> core s' = core s \<Longrightarrow> J s'"
    and weaken: "I s \<Longrightarrow> J s"
    and lookup: "I s \<Longrightarrow> sl \<in> S \<Longrightarrow> priv s sl \<noteq> 0 \<Longrightarrow>
      (\<exists>obj. handles s (priv s sl) = Some obj \<and> obj_kind obj = slot_kind sl)"
    and writable: "I s \<Longrightarrow> sl \<in> S \<Longrightarrow> priv s sl \<noteq> 0 \<Longrightarrow> W (priv s sl)"
    and store: "I s \<Longrightarrow> W h \<Longrightarrow> I (s\<lparr>handles := store_object h obj (handles s)\<rparr>)"
    and delete: "I s \<Longrightarrow> sl \<in> S \<Longrightarrow> priv s sl \<noteq> 0 \<Longrightarrow>
      I (s\<lparr>priv := (priv s)(sl := 0), handles := (handles s)(priv s sl := None)\<rparr>)"
    and other_panics: "P NilDereference" "P (IndexOutOfRange i n)" "P OutOfHandles"
      "P (BytesLengthOutOfRange i)" "P (LibraryPanic e)"
begin

definition good :: "(go_panic + 'a) \<times> 'w shim \<Rightarrow> bool" where
  "good r = (case r of (Inr x, s') \<Rightarrow> I s' | (Inl p, s') \<Rightarrow> J s' \<and> P p)"

definition keeps :: "('w, 'a) cgo \<Rightarrow> bool" where
  "keeps m \<longleftrightarrow> (\<forall>s. I s \<longrightarrow> good (m s))"

text \<open>Actions that leave the handles and structs alone.\<close>

definition framed :: "('w, 'a) cgo \<Rightarrow> bool" where
  "framed m \<longleftrightarrow> (\<forall>s. core (snd (m s)) = core s \<and> (\<forall>p. fst (m s) = Inl p \<longrightarrow> P p))"

lemma good_simps [simp]: "good (Inr x, s) \<longleftrightarrow> I s" "good (Inl p, s) \<longleftrightarrow> J s \<and> P p"
  by (simp_all add: good_def)

lemma keepsD: "keeps m \<Longrightarrow> I s \<Longrightarrow> good (m s)"
  by (simp add: keeps_def)

lemma keepsI: "(\<And>s. I s \<Longrightarrow> good (m s)) \<Longrightarrow> keeps m"
  by (simp add: keeps_def)

lemma framedD:
  "framed m \<Longrightarrow> m s = (r, s') \<Longrightarrow> core s' = core s" "framed m \<Longrightarrow> m s = (Inl p, s') \<Longrightarrow> P p"
  by (metis framed_def snd_conv, metis framed_def fst_conv)

lemma framedI:
  "(\<And>s. core (snd (m s)) = core s) \<Longrightarrow> (\<And>s p. fst (m s) = Inl p \<Longrightarrow> P p) \<Longrightarrow> framed m"
  by (simp add: framed_def)

lemma keeps_framed: "framed m \<Longrightarrow> keeps m"
proof (rule keepsI)
  fix s
  assume m: "framed m" and s: "I s"
  obtain r s' where r: "m s = (r, s')" by fastforce
  then have "I s'" using framedD(1) [OF m r] s frame by blast
  then show "good (m s)" using r framedD(2) [OF m] weaken by (cases r) auto
qed

lemma keeps_return [simp, intro]: "keeps (returnC x)"
  by (simp add: keeps_def returnC_def)

lemma good_bind:
  assumes "good (m s)" and "\<And>x s'. m s = (Inr x, s') \<Longrightarrow> I s' \<Longrightarrow> good (f x s')"
  shows "good (bindC m f s)"
proof -
  obtain r s' where r: "m s = (r, s')" by fastforce
  then show ?thesis using assms by (cases r) (auto simp: bindC_def)
qed

lemma keeps_bind [intro]: "keeps m \<Longrightarrow> (\<And>x. keeps (f x)) \<Longrightarrow> keeps (bindC m f)"
  by (rule keepsI) (rule good_bind, auto dest: keepsD)

lemma keeps_defer: "framed fin \<Longrightarrow> keeps m \<Longrightarrow> keeps (deferC fin m)"
proof (rule keepsI)
  fix s
  assume fin: "framed fin" and m: "keeps m" and s: "I s"
  obtain r s1 where r: "m s = (r, s1)" by fastforce
  obtain q s2 where q: "fin s1 = (q, s2)" by fastforce
  have core: "core s2 = core s1" using framedD(1) [OF fin q] .
  have P: "P p" if "q = Inl p" for p using framedD(2) [OF fin] q that by blast
  have "good (r, s1)" using keepsD [OF m s] r by simp
  then have g: "good (r, s2)" using core frame frame_panicked by (cases r) auto
  then have "J s2" using weaken by (cases r) auto
  then show "good (deferC fin m s)"
    using r q P g by (cases q) (auto simp: deferC_def)
qed

lemma framed_return [simp, intro]: "framed (returnC x)"
  by (simp add: framed_def returnC_def)

lemma framed_bind [intro]:
  assumes "framed m" and "\<And>x. framed (f x)"
  shows "framed (bindC m f)"
proof (rule framedI)
  fix s p
  obtain r s' where r: "m s = (r, s')" by fastforce
  obtain q s'' where q: "f (projr r) s' = (q, s'')" by fastforce
  show "core (snd (bindC m f s)) = core s"
    using r q framedD(1) [OF assms(1) r] framedD(1) [OF assms(2)] by (cases r) (auto simp: bindC_def)
  assume "fst (bindC m f s) = Inl p"
  then show "P p"
    using r q framedD(2) [OF assms(1)] framedD(2) [OF assms(2)] by (cases r) (auto simp: bindC_def)
qed

lemma framed_defer:
  assumes "framed fin" and "framed m"
  shows "framed (deferC fin m)"
proof (rule framedI)
  fix s p
  obtain r s1 where r: "m s = (r, s1)" by fastforce
  obtain q s2 where q: "fin s1 = (q, s2)" by fastforce
  note c = framedD(1) [OF assms(2) r] framedD(1) [OF assms(1) q]
  show "core (snd (deferC fin m s)) = core s"
    using r q c by (cases q) (auto simp: deferC_def)
  assume "fst (deferC fin m s) = Inl p"
  then show "P p"
    using r q framedD(2) [OF assms(1)] framedD(2) [OF assms(2)] by (cases q) (auto simp: deferC_def)
qed

lemma framed_lib [simp, intro]: "framed (libC f)"
  by (auto simp: framed_def libC_def core_def other_panics map_err_Inl_iff split: prod.splits)

lemma framed_read [simp, intro]: "framed (readC f)"
  by (simp add: framed_def readC_def)

lemma framed_modify: "(\<And>s. core (f s) = core s) \<Longrightarrow> framed (modifyC f)"
  by (simp add: framed_def modifyC_def)

lemma framed_panic: "P p \<Longrightarrow> framed (panicC p)"
  by (simp add: framed_def panicC_def)

lemma framed_actions [simp, intro]:
  "framed (setErrC R t)" "framed (fmtErrC R fname t)" "framed (failC R t code)"
  "framed (stderrC t)" "framed (add_ref r n)" "framed (set_affected n)"
  by (auto intro!: framed_modify framed_bind simp: core_def setErrC_def fmtErrC_def failC_def
      stderrC_def add_ref_def set_affected_def)

lemma framed_errToAdbcErrC [simp, intro]: "framed (errToAdbcErrC R e)"
  by (auto simp: framed_def errToAdbcErrC_def core_def split: prod.splits)

lemma framed_write [simp, intro]:
  "framed (write_num v)" "framed (write_schema sc)" "framed (write_array a)"
  by (auto intro!: framed_bind framed_modify framed_panic
      simp: write_num_def write_schema_def write_array_def core_def other_panics split: option.splits)

lemma framed_numC [simp, intro]: "framed (numC R L call)"
  by (auto simp: numC_def intro!: framed_bind split: prod.splits)

lemma framed_onlyErr [simp, intro]: "framed (onlyErr R L call)"
  by (auto simp: onlyErr_def)

lemma framed_goBytesC [simp, intro]: "framed (goBytesC mem n)"
proof -
  have "P p" if "GoBytes mem n = Inl p" for p
    using that other_panics by (auto simp: GoBytes_def Let_def split: if_splits option.splits)
  then show ?thesis by (auto simp: goBytesC_def intro!: framed_panic split: sum.splits)
qed

lemma framed_export [simp, intro]: "framed (exportStringC v)" "framed (exportBytesC v)"
proof -
  have "P p" if "exportStringOption v b l = Inl p" for p b l
    using that other_panics by (auto simp: exportStringOption_def Let_def split: if_splits option.splits)
  moreover have "P p" if "exportBytesOption v b l = Inl p" for p b l
    using that other_panics by (auto simp: exportBytesOption_def split: option.splits)
  moreover have "core (set_option_args bl s) = core s" for bl and s :: "'w shim"
    by (simp add: core_def set_option_args_def)
  ultimately show "framed (exportStringC v)" "framed (exportBytesC v)"
    by (auto simp: framed_def exportStringC_def exportBytesC_def bindC_def readC_def writeC_def
        panicC_def modifyC_def returnC_def split: sum.splits)
qed

lemma framed_write_partitions [simp, intro]: "framed (write_partitions part)"
proof -
  have "P p" if "part_loop n ids i off room = (os, ls, b, Some p)" for n ids i off room os ls b p
    using that
    by (induction n ids i off room arbitrary: os ls b rule: part_loop.induct)
      (auto simp: other_panics split: if_splits prod.splits)
  then have "P p" if "snd (fill_partitions part) = Some p" for p
    using that by (auto simp: fill_partitions_def Let_def split: prod.splits)
  then show ?thesis
    by (auto simp: write_partitions_def core_def intro!: framed_bind framed_modify framed_panic
        split: prod.splits option.splits)
qed

lemmas keeps_actions [simp, intro] = framed_lib [THEN keeps_framed] framed_read [THEN keeps_framed]
  framed_actions [THEN keeps_framed] framed_errToAdbcErrC [THEN keeps_framed] framed_write [THEN keeps_framed]
  framed_numC [THEN keeps_framed] framed_onlyErr [THEN keeps_framed] framed_goBytesC [THEN keeps_framed]
  framed_export [THEN keeps_framed] framed_write_partitions [THEN keeps_framed]

lemma keeps_nil [simp, intro]: "keeps (panicC NilDereference)"
  by (intro keeps_framed framed_panic other_panics)

section \<open>Combinators\<close>

lemma framed_in_context: "(\<And>ctx. framed (k ctx)) \<Longrightarrow> framed (in_context L owner k)"
  by (auto simp: in_context_def)

lemma keeps_in_context: "(\<And>ctx. keeps (k ctx)) \<Longrightarrow> keeps (in_context L owner k)"
  by (auto simp: in_context_def intro: keeps_framed)

lemma keeps_orErr: "(\<And>x. keeps (k x)) \<Longrightarrow> keeps (orErr R f k)"
  by (auto simp: orErr_def intro!: keeps_bind split: sum.splits)

lemma keeps_lengthC: "(\<And>n. keeps (k n)) \<Longrightarrow> keeps (lengthC R len k)"
proof (rule keepsI)
  fix s
  assume k: "\<And>n. keeps (k n)" and s: "I s"
  have "I (s\<lparr>arg_err := e\<rparr>)" for e by (rule frame [OF s]) (simp add: core_def)
  then show "good (lengthC R len k s)"
    using keepsD [OF k s] by (auto simp: lengthC_def split: prod.splits sum.splits)
qed

lemma keeps_put_object: "W h \<Longrightarrow> keeps (put_object h obj)"
  by (simp add: keeps_def put_object_def modifyC_def store)

text \<open>A pointer argument that may be passed, and the object of a struct, read through its handle.\<close>

definition passed :: "(nat \<Rightarrow> slot) \<Rightarrow> nat option \<Rightarrow> bool" where
  "passed at p \<longleftrightarrow> (\<forall>a. p = Some a \<longrightarrow> at a \<in> S)"

lemma passed_Some [simp]: "passed at (Some a) \<longleftrightarrow> at a \<in> S"
  by (simp add: passed_def)

lemma ptr_passed [simp]: "ptr at p \<subseteq> S \<longleftrightarrow> passed at p"
  by (auto simp: ptr_def passed_def)

definition typed :: "(nat \<Rightarrow> slot) \<Rightarrow> (cobj \<Rightarrow> 'a option) \<Rightarrow> bool" where
  "typed at as \<longleftrightarrow> (\<forall>a obj. obj_kind obj = slot_kind (at a) \<longrightarrow> as obj \<noteq> None)"

lemma getFromHandle_ok:
  assumes "typed at as" and "I s" and "at a \<in> S" and "priv s (at a) \<noteq> 0"
  shows "\<exists>x. getFromHandle as (priv s (at a)) s = (Inr x, s)"
proof -
  obtain obj where obj: "handles s (priv s (at a)) = Some obj" "obj_kind obj = slot_kind (at a)"
    using lookup [OF assms(2-4)] by blast
  then obtain x where "as obj = Some x" using assms(1) by (auto simp: typed_def)
  with obj show ?thesis
    by (simp add: getFromHandle_def bindC_def handle_Value_def handleFromPtr_def returnC_def)
qed

lemma check_alloc_cases:
  "\<exists>b s'. check_alloc R what at fname p s = (Inr b, s') \<and> core s' = core s \<and>
     (b \<longrightarrow> (\<exists>a. p = Some a \<and> priv s (at a) \<noteq> 0) \<and> s' = s)"
  by (auto simp: check_alloc_def bindC_def readC_def returnC_def fmtErrC_def modifyC_def core_def
      split: option.splits)

lemma keeps_allocatedC:
  assumes "typed at as" and "passed at p" and "\<And>h obj. W h \<Longrightarrow> keeps (k h obj)"
  shows "keeps (allocatedC (check_alloc R what at fname p) at as p k)"
proof (rule keepsI)
  fix s
  assume s: "I s"
  obtain b s' where c: "check_alloc R what at fname p s = (Inr b, s')" "core s' = core s"
    "b \<longrightarrow> (\<exists>a. p = Some a \<and> priv s (at a) \<noteq> 0) \<and> s' = s"
    using check_alloc_cases by metis
  have "I s'" using s c(2) frame by blast
  show "good (allocatedC (check_alloc R what at fname p) at as p k s)"
  proof (cases b)
    case False
    then show ?thesis using c(1) \<open>I s'\<close> by (simp add: allocatedC_def bindC_def returnC_def)
  next
    case True
    then obtain a where a: "p = Some a" "priv s (at a) \<noteq> 0" and "s' = s" using c(3) by blast
    then have "at a \<in> S" using assms(2) by simp
    then show ?thesis
      using a \<open>s' = s\<close> True c(1) getFromHandle_ok [OF assms(1) s _ a(2)] keepsD [OF assms(3) s]
        writable [OF s _ a(2)]
      by (auto simp: allocatedC_def bindC_def readC_def)
  qed
qed

lemma keeps_withC:
  assumes "typed at as" and "passed at p" and "\<And>h obj d. W h \<Longrightarrow> keeps (k h obj d)"
  shows "keeps (withC (check_init R (check_alloc R what at fname p) at as inner fname' missing p) k)"
proof -
  have "withC (check_init R (check_alloc R what at fname p) at as inner fname' missing p) k =
    allocatedC (check_alloc R what at fname p) at as p (\<lambda>h obj.
      case inner obj of
        None \<Rightarrow> bindC (fmtErrC R fname' missing) (\<lambda>_. returnC StatusInvalidState)
      | Some d \<Rightarrow> k h obj d)"
    by (rule ext)
      (auto simp: withC_def check_init_def allocatedC_def bindC_def readC_def returnC_def panicC_def
        split: sum.splits prod.splits option.splits)
  moreover have "keeps (allocatedC (check_alloc R what at fname p) at as p (\<lambda>h obj.
      case inner obj of
        None \<Rightarrow> bindC (fmtErrC R fname' missing) (\<lambda>_. returnC StatusInvalidState)
      | Some d \<Rightarrow> k h obj d))"
    using assms by (intro keeps_allocatedC) (auto intro: keeps_framed split: option.splits)
  ultimately show ?thesis by simp
qed

lemma good_release_object:
  assumes "typed at as" and "\<And>h obj. W h \<Longrightarrow> keeps (k h obj)" and "I s" and "at a \<in> S" and "priv s (at a) \<noteq> 0"
  shows "good (bindC (readC (\<lambda>s. handleFromPtr (priv s (at a)))) (\<lambda>h.
              bindC (set_priv (at a) 0) (\<lambda>_.
              bindC (getFromHandle as h) (\<lambda>obj.
              bindC (handle_Delete h) (\<lambda>_. k h obj)))) s)"
proof -
  let ?h = "priv s (at a)"
  obtain obj where obj: "handles s ?h = Some obj" "obj_kind obj = slot_kind (at a)"
    using lookup [OF assms(3-5)] by blast
  then obtain x where "as obj = Some x" using assms(1) by (auto simp: typed_def)
  with obj show ?thesis
    using keepsD [OF assms(2) delete [OF assms(3-5)]] writable [OF assms(3-5)]
    by (simp add: bindC_def readC_def set_priv_def modifyC_def getFromHandle_def handle_Value_def
        handleFromPtr_def returnC_def handle_Delete_def)
qed

lemma keeps_take_object:
  assumes "typed at as" and "passed at p" and "\<And>h obj. W h \<Longrightarrow> keeps (k h obj)"
  shows "keeps (take_object (check_alloc R what at fname p) at as p k)"
proof (rule keepsI)
  fix s
  assume s: "I s"
  obtain b s' where c: "check_alloc R what at fname p s = (Inr b, s')" "core s' = core s"
    "b \<longrightarrow> (\<exists>a. p = Some a \<and> priv s (at a) \<noteq> 0) \<and> s' = s"
    using check_alloc_cases by metis
  have "I s'" using s c(2) frame by blast
  show "good (take_object (check_alloc R what at fname p) at as p k s)"
  proof (cases b)
    case False
    then show ?thesis using c(1) \<open>I s'\<close> by (simp add: take_object_def bindC_def returnC_def)
  next
    case True
    then obtain a where a: "p = Some a" "priv s (at a) \<noteq> 0" and "s' = s" using c(3) by blast
    then show ?thesis
      using assms(2) True c(1) good_release_object [of at as k, OF assms(1,3) s _ a(2)]
      by (simp add: take_object_def bindC_Inr)
  qed
qed

lemma keeps_unallocatedC:
  "passed at p \<Longrightarrow> (\<And>a. at a \<in> S \<Longrightarrow> keeps (k a)) \<Longrightarrow> keeps (unallocatedC R fname what at p k)"
  by (auto simp: unallocatedC_def intro!: keeps_bind split: option.splits)

lemma typed_objects:
  "typed DatabaseAt as_database" "typed ConnectionAt as_conn" "typed StatementAt as_stmt" "typed StreamAt as_stream"
  unfolding typed_def by (auto elim: obj_kind.elims)

text \<open>The callbacks of a stream.\<close>

lemma good_stream:
  assumes "I s" and "passed StreamAt stream" and "\<And>h t. W h \<Longrightarrow> keeps (k h t)"
  shows "good (streamC stream bad k s)"
proof (cases "own_stream stream s")
  case None
  then show ?thesis using assms(1) by (simp add: streamC_def bindC_def readC_def returnC_def)
next
  case (Some h)
  then obtain a where a: "stream = Some a" "h = priv s (StreamAt a)" "priv s (StreamAt a) \<noteq> 0"
    by (auto simp: own_stream_def split: option.splits if_splits)
  then have S: "StreamAt a \<in> S" using assms(2) by simp
  then show ?thesis
    using a Some getFromHandle_ok [OF typed_objects(4) assms(1) S a(3)] keepsD [OF assms(3) assms(1)]
      writable [OF assms(1) S a(3)]
    by (auto simp: streamC_def bindC_def readC_def)
qed

lemma keeps_maybeError: "W h \<Longrightarrow> keeps (maybeError R L h t)"
  by (auto simp: maybeError_def Let_def intro!: keeps_bind keeps_put_object split: option.splits prod.splits)

lemma good_callbacks:
  assumes "I s" and "passed StreamAt stream"
  shows "good (MariaDBArrayStreamGetNext R L stream s)" "good (MariaDBArrayStreamGetSchema R L stream s)"
    "good (MariaDBArrayStreamGetLastError stream s)" "good (MariaDBErrorFromArrayStream stream s)"
  unfolding MariaDBArrayStreamGetNext_def MariaDBArrayStreamGetSchema_def MariaDBArrayStreamGetLastError_def
    MariaDBErrorFromArrayStream_def
  using assms by (auto intro!: good_stream keeps_bind keeps_maybeError split: option.splits)

lemma framed_clear_schema [simp, intro]: "framed clear_schema"
  by (auto simp: clear_schema_def core_def intro!: framed_bind framed_modify framed_panic other_panics split: option.splits)

lemma good_trampolines:
  assumes "I s" and "passed StreamAt stream"
  shows "good (MariaDBArrayStreamGetNextTrampoline R L stream s)"
    "good (MariaDBArrayStreamGetSchemaTrampoline R L stream s)"
  unfolding MariaDBArrayStreamGetNextTrampoline_def MariaDBArrayStreamGetSchemaTrampoline_def
  using assms keepsD [OF keeps_framed [OF framed_clear_schema] assms(1)]
    keepsD [OF framed_write(3) [THEN keeps_framed] assms(1)]
  by (auto intro!: good_bind good_callbacks)

lemma good_stream_release:
  assumes "I s" and "passed StreamAt stream"
  shows "good (MariaDBArrayStreamRelease stream s)"
proof (cases "own_stream stream s")
  case None
  then show ?thesis
    using assms by (auto simp: MariaDBArrayStreamRelease_def bindC_def readC_def returnC_def split: option.splits)
next
  case (Some h)
  then obtain a where a: "stream = Some a" "h = priv s (StreamAt a)" "priv s (StreamAt a) \<noteq> 0"
    by (auto simp: own_stream_def split: option.splits if_splits)
  have "good (bindC (readC (\<lambda>s. handleFromPtr (priv s (StreamAt a)))) (\<lambda>h.
              bindC (set_priv (StreamAt a) 0) (\<lambda>_.
              bindC (getFromHandle as_stream h) (\<lambda>t.
              bindC (handle_Delete h) (\<lambda>_. add_ref (Reader (str_rdr t)) (- 1))))) s)"
    by (rule good_release_object [OF typed_objects(4) _ assms(1) _ a(3)]) (use assms(2) a in simp_all)
  then show ?thesis
    using Some a
    by (simp add: MariaDBArrayStreamRelease_def bindC_Inr readC_def handleFromPtr_def)
qed

end

section \<open>Allocation\<close>

locale shim_invariant = shim_objects I J P S W
  for I :: "'w shim \<Rightarrow> bool" and J :: "'w shim \<Rightarrow> bool" and P :: "go_panic \<Rightarrow> bool"
    and S :: "slot set" and W :: "nat \<Rightarrow> bool" +
  assumes fresh: "I s \<Longrightarrow> sl \<in> S \<Longrightarrow> slot_kind sl = obj_kind obj \<Longrightarrow> h = (handleIdx s + 1) mod 2 ^ 64 \<Longrightarrow> h \<noteq> 0 \<Longrightarrow>
      I (s\<lparr>handleIdx := h, handles := (handles s)(h \<mapsto> obj), priv := (priv s)(sl := h)\<rparr>)"
    and wrapped: "I s \<Longrightarrow> J (s\<lparr>handleIdx := 0\<rparr>)"
    and poisoned: "J s \<Longrightarrow> P p \<Longrightarrow> J (s\<lparr>globalPoison := True, panics := panics s @ [p]\<rparr>)"
begin

text \<open>What holds between calls: a poisoned driver has only \<open>J\<close>, and it stays poisoned.\<close>

definition holds :: "'w shim \<Rightarrow> bool" where
  "holds s \<longleftrightarrow> I s \<or> globalPoison s \<and> J s"

lemma keeps_allocate: "sl \<in> S \<Longrightarrow> slot_kind sl = obj_kind obj \<Longrightarrow> keeps (allocate sl obj)"
  by (auto simp: keeps_def allocate_def bindC_def NewHandle_def Let_def set_priv_def modifyC_def
      createHandle_def other_panics wrapped intro: fresh [of _ sl obj, simplified])

lemma holds_poison: "J s \<Longrightarrow> P p \<Longrightarrow> holds (snd (poison R fname p s))"
  using frame_panicked [OF poisoned core_poison, of s p R fname] core_poison [of R fname p s]
  by (simp add: holds_def core_def)

lemma holds_recovering:
  assumes "keeps body" and "I s"
  shows "holds (snd (recovering R fname body s))"
proof -
  obtain r s' where r: "body s = (r, s')" by fastforce
  then show ?thesis
    using keepsD [OF assms] holds_poison [of s' _ R fname]
    by (cases r) (simp_all add: recovering_def holds_def [of s'])
qed

lemma keeps_initLoggingFromEnv [simp, intro]: "keeps (initLoggingFromEnv R L d)"
  by (auto simp: initLoggingFromEnv_def log_sink_choice_def Let_def intro!: keeps_bind
      split: log_choice.splits sum.splits)

lemma keeps_apply_opts: "keeps (apply_opts R L d ctx kvs)"
  by (induction R L d ctx kvs rule: apply_opts.induct)
    (auto simp: apply_opt_def intro!: keeps_bind split: option.splits)

lemma keeps_apply_init_args: "W h \<Longrightarrow> keeps (apply_init_args R L h conn c ctx kvs)"
  by (induction R L h conn c ctx kvs rule: apply_init_args.induct)
    (auto intro!: keeps_bind keeps_put_object)

lemma keeps_keep_option: "W h \<Longrightarrow> keeps (keep_option h cdb k v)"
  by (auto simp: keep_option_def intro!: keeps_bind keeps_put_object)

lemma keeps_exportRecordReader: "passed StreamAt out \<Longrightarrow> keeps (exportRecordReader rdr out)"
  by (auto simp: exportRecordReader_def core_def intro!: keeps_bind keeps_allocate
      keeps_framed [OF framed_modify] split: option.splits)

lemma keeps_give_reader: "passed StreamAt out \<Longrightarrow> keeps (give_reader rdr out)"
  by (auto simp: give_reader_def intro!: keeps_defer keeps_bind keeps_exportRecordReader)

lemma keeps_readerC: "passed StreamAt out \<Longrightarrow> keeps (readerC R L call out)"
  by (auto simp: readerC_def intro!: keeps_orErr keeps_give_reader)

lemma keeps_schemaC: "keeps (schemaC R L call)"
  by (auto simp: schemaC_def intro!: keeps_orErr keeps_bind)

lemma keeps_executing: "(\<And>ctx. keeps (k ctx)) \<Longrightarrow> keeps (executing L h k)"
  by (auto simp: executing_def intro!: keeps_in_context keeps_defer)

lemma keeps_stmt_options: "keeps k \<Longrightarrow> keeps (stmt_options R L fname d k)"
  by (auto simp: stmt_options_def)

lemma framed_cancel: "framed (bindC (libC f) (\<lambda>_. returnC ()))"
  "framed (bindC (libC f) (\<lambda>_. bindC (libC g) (\<lambda>_. returnC ())))"
  by (auto intro!: framed_bind)

lemmas keeps_rules = holds_recovering keeps_withC [OF typed_objects(1)] keeps_withC [OF typed_objects(2)]
  keeps_withC [OF typed_objects(3)] keeps_allocatedC [OF typed_objects(1)] keeps_allocatedC [OF typed_objects(2)]
  keeps_take_object [OF typed_objects(1)] keeps_take_object [OF typed_objects(2)] keeps_take_object [OF typed_objects(3)]
  keeps_unallocatedC keeps_in_context keeps_orErr keeps_lengthC keeps_put_object keeps_allocate
  keeps_apply_opts keeps_apply_init_args keeps_keep_option keeps_readerC keeps_schemaC keeps_executing
  keeps_stmt_options keeps_give_reader keeps_defer framed_cancel keeps_bind

lemma holds_call_I: "I s \<Longrightarrow> named_structs c \<subseteq> S \<Longrightarrow> holds (snd (run_adbc R L c s))"
  by (cases c)
    (auto simp: call_defs check_defs Let_def intro!: keeps_rules split: option.splits sum.splits)

lemma holds_call:
  assumes "holds s" and "named_structs c \<subseteq> S"
  shows "holds (snd (run_adbc R L c s))"
proof (cases "I s")
  case True
  then show ?thesis using assms(2) by (rule holds_call_I)
next
  case False
  with assms(1) have s: "globalPoison s" "J s" by (simp_all add: holds_def)
  then have "core (snd (run_adbc R L c s)) = core s"
    using poisoned_calls_frame [of s R L c] by (metis only_err_changed_core)
  with s show ?thesis using frame_panicked by (auto simp: holds_def core_def)
qed

end

end
