(* ===== verification/C_Handles.thy ===== *)
theory C_Handles
  imports C_Invariant
begin

text \<open>
  The handle table under every sequence of calls: the interpretation of \<open>shim_invariant\<close> on
  well-formed tables, the reachable states of a client that makes calls and stream callbacks in any
  order, and what holds in all of them.
\<close>

section \<open>Well-formed states\<close>

text \<open>
  Handle zero is never in use, a struct that is not cleared has a live handle of its own type, and no
  two structs share one.
\<close>

definition wf_structs :: "'w shim \<Rightarrow> bool" where
  "wf_structs s \<longleftrightarrow>
     handles s 0 = None \<and>
     (\<forall>sl. priv s sl \<noteq> 0 \<longrightarrow> map_option obj_kind (handles s (priv s sl)) = Some (slot_kind sl)) \<and>
     (\<forall>sl sl'. priv s sl \<noteq> 0 \<longrightarrow> priv s sl = priv s sl' \<longrightarrow> sl = sl')"

text \<open>The counter has passed every live handle.\<close>

definition counter_ahead :: "'w shim \<Rightarrow> bool" where
  "counter_ahead s \<longleftrightarrow> (\<forall>h. handles s h \<noteq> None \<longrightarrow> h \<le> handleIdx s) \<and> handleIdx s < 2 ^ 64"

definition handle_misuse :: "go_panic \<Rightarrow> bool" where
  "handle_misuse p \<longleftrightarrow> p = InvalidHandle \<or> p = BadTypeAssertion"

definition wf_panicked :: "'w shim \<Rightarrow> bool" where
  "wf_panicked s \<longleftrightarrow> wf_structs s \<and> (\<forall>p \<in> set (panics s). \<not> handle_misuse p)"

definition wf_ahead :: "'w shim \<Rightarrow> bool" where
  "wf_ahead s \<longleftrightarrow> wf_panicked s \<and> counter_ahead s"

lemma wf_structs_core: "core s' = core s \<Longrightarrow> wf_structs s' = wf_structs s"
  by (simp add: core_def wf_structs_def)

lemma wf_panicked_core: "core s' = core s \<Longrightarrow> wf_panicked s' = wf_panicked s"
  using wf_structs_core [of s' s] by (simp add: core_def wf_panicked_def)

lemma wf_ahead_core: "core s' = core s \<Longrightarrow> wf_ahead s' = wf_ahead s"
  using wf_panicked_core [of s' s] by (simp add: core_def wf_ahead_def counter_ahead_def)

lemma store_object_kinds:
  "map_option obj_kind (store_object h obj t x) = map_option obj_kind (t x)"
  "store_object h obj t x = None \<longleftrightarrow> t x = None"
  by (auto simp: store_object_def split: option.splits)

lemma wf_structs_store: "wf_structs s \<Longrightarrow> wf_structs (s\<lparr>handles := store_object h obj (handles s)\<rparr>)"
  by (simp add: wf_structs_def store_object_kinds)

lemma wf_panicked_store: "wf_panicked s \<Longrightarrow> wf_panicked (s\<lparr>handles := store_object h obj (handles s)\<rparr>)"
  by (simp add: wf_panicked_def wf_structs_store)

lemma counter_ahead_store: "counter_ahead s \<Longrightarrow> counter_ahead (s\<lparr>handles := store_object h obj (handles s)\<rparr>)"
  by (simp add: counter_ahead_def store_object_kinds del: not_None_eq)

lemma wf_structs_delete:
  assumes "wf_structs s" and "priv s sl \<noteq> 0"
  shows "wf_structs (s\<lparr>priv := (priv s)(sl := 0), handles := (handles s)(priv s sl := None)\<rparr>)"
  using assms by (auto simp: wf_structs_def)

lemma wf_structs_fresh:
  assumes "wf_structs s" and "handles s h = None" and "h \<noteq> 0" and "slot_kind sl = obj_kind obj"
  shows "wf_structs (s\<lparr>handleIdx := i, handles := (handles s)(h \<mapsto> obj), priv := (priv s)(sl := h)\<rparr>)"
proof -
  have "priv s sl' \<noteq> h" for sl'
    using assms(1-3) unfolding wf_structs_def by fastforce
  then show ?thesis using assms by (auto simp: wf_structs_def)
qed

lemma fresh_handle:
  assumes "counter_ahead s" and "h = (handleIdx s + 1) mod 2 ^ 64" and "h \<noteq> 0"
  shows "h = handleIdx s + 1 \<and> handles s h = None \<and> h < 2 ^ 64"
proof -
  have "handleIdx s + 1 \<le> 2 ^ 64" using assms(1) by (simp add: counter_ahead_def)
  then have "h = handleIdx s + 1" using assms(2,3) by (cases "handleIdx s + 1 = 2 ^ 64") auto
  moreover have "handles s (handleIdx s + 1) = None"
    using assms(1) unfolding counter_ahead_def by (metis Suc_eq_plus1 not_less_eq_eq order_refl)
  moreover have "h < 2 ^ 64" using assms(2) by simp
  ultimately show ?thesis by simp
qed

interpretation structs: shim_objects wf_panicked wf_panicked "\<lambda>p. \<not> handle_misuse p" UNIV "\<lambda>_. True"
proof unfold_locales
  show "wf_panicked s'" if "wf_panicked s" "core s' = core s" for s s' :: "'w shim"
    using that wf_panicked_core by blast
  show "\<exists>obj. handles s (priv s sl) = Some obj \<and> obj_kind obj = slot_kind sl"
    if "wf_panicked s" "priv s sl \<noteq> 0" for s :: "'w shim" and sl
    using that by (auto simp: wf_panicked_def wf_structs_def)
  show "wf_panicked (s\<lparr>priv := (priv s)(sl := 0), handles := (handles s)(priv s sl := None)\<rparr>)"
    if "wf_panicked s" "priv s sl \<noteq> 0" for s :: "'w shim" and sl
    using that wf_structs_delete by (auto simp: wf_panicked_def)
qed (simp_all add: wf_panicked_store handle_misuse_def)

interpretation tbl: shim_invariant wf_ahead wf_panicked "\<lambda>p. \<not> handle_misuse p" UNIV "\<lambda>_. True"
proof unfold_locales
  show "wf_ahead s'" if "wf_ahead s" "core s' = core s" for s s' :: "'w shim"
    using that wf_ahead_core by blast
  show "wf_panicked s'" if "wf_panicked s" "core s' = core s" for s s' :: "'w shim"
    using that wf_panicked_core by blast
  show "\<exists>obj. handles s (priv s sl) = Some obj \<and> obj_kind obj = slot_kind sl"
    if "wf_ahead s" "priv s sl \<noteq> 0" for s :: "'w shim" and sl
    using that structs.lookup [of s sl] by (auto simp: wf_ahead_def)
  show "wf_ahead (s\<lparr>priv := (priv s)(sl := 0), handles := (handles s)(priv s sl := None)\<rparr>)"
    if "wf_ahead s" "priv s sl \<noteq> 0" for s :: "'w shim" and sl
    using that structs.delete [of s sl] by (auto simp: wf_ahead_def counter_ahead_def)
  show "wf_ahead (s\<lparr>handleIdx := h, handles := (handles s)(h \<mapsto> obj), priv := (priv s)(sl := h)\<rparr>)"
    if "wf_ahead s" "slot_kind sl = obj_kind obj" "h = (handleIdx s + 1) mod 2 ^ 64" "h \<noteq> 0"
    for s :: "'w shim" and sl obj h
    using that fresh_handle [of s h] wf_structs_fresh [of s h sl obj h]
    by (auto simp: wf_ahead_def wf_panicked_def counter_ahead_def le_SucI)
  show "wf_panicked (s\<lparr>handleIdx := 0\<rparr>)" if "wf_ahead s" for s :: "'w shim"
    using that by (simp add: wf_ahead_def wf_panicked_def wf_structs_def)
  show "wf_panicked (s\<lparr>globalPoison := True, panics := panics s @ [p]\<rparr>)"
    if "wf_panicked s" "\<not> handle_misuse p" for s :: "'w shim" and p
    using that by (auto simp: wf_panicked_def wf_structs_def)
qed (simp_all add: wf_ahead_def wf_panicked_store counter_ahead_store handle_misuse_def)

section \<open>Reachable states\<close>

datatype callback =
    StreamGetNext "nat option"
  | StreamGetSchema "nat option"
  | StreamGetLastError "nat option"
  | StreamError "nat option"
  | StreamRelease "nat option"

fun run_callback :: "cgo_env \<Rightarrow> 'w driverlib \<Rightarrow> callback \<Rightarrow> ('w, unit) cgo" where
  "run_callback R L (StreamGetNext p) = bindC (MariaDBArrayStreamGetNextTrampoline R L p) (\<lambda>_. returnC ())"
| "run_callback R L (StreamGetSchema p) = bindC (MariaDBArrayStreamGetSchemaTrampoline R L p) (\<lambda>_. returnC ())"
| "run_callback R L (StreamGetLastError p) = bindC (MariaDBArrayStreamGetLastError p) (\<lambda>_. returnC ())"
| "run_callback R L (StreamError p) = bindC (MariaDBErrorFromArrayStream p) (\<lambda>_. returnC ())"
| "run_callback R L (StreamRelease p) = MariaDBArrayStreamRelease p"

text \<open>
  What a client can do: point the arguments of its next call at any memory, make a call, and run a
  callback of a stream, after which the process goes on unless the callback panicked.
\<close>

definition same_but_args :: "'w shim \<Rightarrow> 'w shim \<Rightarrow> bool" where
  "same_but_args s s' \<longleftrightarrow> (\<exists>e b l n c p a. s' = s\<lparr>arg_err := e, arg_buf := b, arg_len := l, arg_num := n,
     arg_schema := c, arg_parts := p, arg_array := a\<rparr>)"

inductive client_step :: "cgo_env \<Rightarrow> 'w driverlib \<Rightarrow> 'w shim \<Rightarrow> 'w shim \<Rightarrow> bool" for R L where
  prepare: "same_but_args s s' \<Longrightarrow> client_step R L s s'"
| call: "client_step R L s (snd (run_adbc R L c s))"
| callback: "run_callback R L cb s = (Inr u, s') \<Longrightarrow> client_step R L s s'"

inductive reachable :: "cgo_env \<Rightarrow> 'w driverlib \<Rightarrow> 'w \<Rightarrow> 'w shim \<Rightarrow> bool" for R L w where
  start: "reachable R L w (initial_shim w)"
| step: "reachable R L w s \<Longrightarrow> client_step R L s s' \<Longrightarrow> reachable R L w s'"

lemma same_but_args_core: "same_but_args s s' \<Longrightarrow> core s' = core s"
  by (auto simp: same_but_args_def core_def)

lemma wf_initial: "wf_ahead (initial_shim w)"
  by (simp add: wf_ahead_def wf_panicked_def wf_structs_def counter_ahead_def initial_shim_def)

text \<open>A poisoned driver stays poisoned while its streams are read.\<close>

interpretation poisoned_structs: shim_objects "\<lambda>s. wf_panicked s \<and> globalPoison s"
    "\<lambda>s. wf_panicked s \<and> globalPoison s" "\<lambda>p. \<not> handle_misuse p" UNIV "\<lambda>_. True"
proof unfold_locales
  show "wf_panicked s' \<and> globalPoison s'" if "wf_panicked s \<and> globalPoison s" "core s' = core s" for s s' :: "'w shim"
    using that wf_panicked_core by (auto simp: core_def)
  show "\<exists>obj. handles s (priv s sl) = Some obj \<and> obj_kind obj = slot_kind sl"
    if "wf_panicked s \<and> globalPoison s" "priv s sl \<noteq> 0" for s :: "'w shim" and sl
    using that structs.lookup [of s sl] by blast
  show "wf_panicked (s\<lparr>priv := (priv s)(sl := 0), handles := (handles s)(priv s sl := None)\<rparr>) \<and>
      globalPoison (s\<lparr>priv := (priv s)(sl := 0), handles := (handles s)(priv s sl := None)\<rparr>)"
    if "wf_panicked s \<and> globalPoison s" "priv s sl \<noteq> 0" for s :: "'w shim" and sl
    using that structs.delete [of s sl] by simp
qed (simp_all add: wf_panicked_store handle_misuse_def)

lemma poisoned_callback:
  "wf_panicked s \<Longrightarrow> globalPoison s \<Longrightarrow> poisoned_structs.good (run_callback R L cb s)"
  by (cases cb) (auto intro!: poisoned_structs.good_bind poisoned_structs.good_callbacks poisoned_structs.good_trampolines
      poisoned_structs.good_stream_release simp: returnC_def poisoned_structs.passed_def)

lemma structs_callback: "wf_panicked s \<Longrightarrow> structs.good (run_callback R L cb s)"
  by (cases cb) (auto intro!: structs.good_bind structs.good_callbacks structs.good_trampolines structs.good_stream_release simp: returnC_def structs.passed_def)

lemma tbl_callback: "wf_ahead s \<Longrightarrow> tbl.good (run_callback R L cb s)"
  by (cases cb) (auto intro!: tbl.good_bind tbl.good_callbacks tbl.good_trampolines tbl.good_stream_release simp: returnC_def tbl.passed_def)

lemma holds_panicked: "tbl.holds s \<Longrightarrow> wf_panicked s"
  by (auto simp: tbl.holds_def wf_ahead_def)

lemma holds_step:
  assumes "client_step R L s s'" and "tbl.holds s"
  shows "tbl.holds s'"
  using assms
proof cases
  case prepare
  then have c: "core s' = core s" by (rule same_but_args_core)
  show ?thesis
    using assms(2) c wf_ahead_core [OF c] wf_panicked_core [OF c] by (auto simp: tbl.holds_def core_def)
next
  case (call c)
  then show ?thesis using assms(2) tbl.holds_call [OF _ subset_UNIV] by blast
next
  case (callback cb u)
  then show ?thesis
    using assms(2) tbl_callback [of s R L cb] poisoned_callback [of s R L cb] by (auto simp: tbl.holds_def)
qed

lemma reachable_holds: "reachable R L w s \<Longrightarrow> tbl.holds s"
proof (induction rule: reachable.induct)
  case start
  then show ?case using wf_initial [of w] by (simp add: tbl.holds_def)
next
  case (step s s')
  then show ?case using holds_step by blast
qed

text \<open>The effect of a release function on the table.\<close>

definition freed :: "slot \<Rightarrow> 'w shim \<Rightarrow> 'w shim \<Rightarrow> bool" where
  "freed sl s s' \<longleftrightarrow> handles s' = (handles s)(priv s sl := None) \<and> priv s' = (priv s)(sl := 0)"

lemma release_effect:
  assumes "wf_panicked s" and "\<not> globalPoison s" and "priv s (at a) \<noteq> 0" and "structs.typed at as"
    and "\<And>h obj. structs.framed (k h obj)"
    and body: "body = take_object (check_alloc R what at fname (Some a)) at as (Some a) k"
  shows "freed (at a) s (snd (recovering R n body s))"
proof -
  let ?h = "priv s (at a)"
  define s1 where "s1 = s\<lparr>priv := (priv s)(at a := 0), handles := (handles s)(?h := None)\<rparr>"
  obtain obj where obj: "handles s ?h = Some obj" "obj_kind obj = slot_kind (at a)"
    using structs.lookup [OF assms(1) UNIV_I assms(3)] by blast
  then obtain x where "as obj = Some x" using assms(4) by (auto simp: structs.typed_def)
  with obj assms(2,3) have body: "body s = k ?h x s1"
    by (simp add: body take_object_def check_alloc_def bindC_def readC_def returnC_def set_priv_def modifyC_def
        getFromHandle_def handle_Value_def handleFromPtr_def handle_Delete_def s1_def)
  obtain r s2 where r: "k ?h x s1 = (r, s2)" by fastforce
  then have "core s2 = core s1" by (rule structs.framedD(1) [OF assms(5)])
  then show ?thesis
    using body r core_poison [of R n _ s2]
    by (cases r) (auto simp: recovering_def core_def s1_def freed_def)
qed

section \<open>Calls that need an initialised object\<close>

fun required :: "adbc_call \<Rightarrow> (kind \<times> nat option) option" where
  "required (DatabaseGetOption p k) = Some (KDatabase, p)"
| "required (DatabaseGetOptionBytes p k) = Some (KDatabase, p)"
| "required (DatabaseGetOptionDouble p k) = Some (KDatabase, p)"
| "required (DatabaseGetOptionInt p k) = Some (KDatabase, p)"
| "required (ConnectionGetOption p k) = Some (KConnection, p)"
| "required (ConnectionGetOptionBytes p k) = Some (KConnection, p)"
| "required (ConnectionGetOptionDouble p k) = Some (KConnection, p)"
| "required (ConnectionGetOptionInt p k) = Some (KConnection, p)"
| "required (ConnectionSetOptionBytes p k v n) = Some (KConnection, p)"
| "required (ConnectionSetOptionDouble p k v) = Some (KConnection, p)"
| "required (ConnectionSetOptionInt p k v) = Some (KConnection, p)"
| "required (ConnectionCancel p) = Some (KConnection, p)"
| "required (ConnectionGetInfo p cs n out) = Some (KConnection, p)"
| "required (ConnectionGetObjects p d c s t ty col out) = Some (KConnection, p)"
| "required (ConnectionGetStatistics p c s t x out) = Some (KConnection, p)"
| "required (ConnectionGetStatisticNames p out) = Some (KConnection, p)"
| "required (ConnectionGetTableSchema p c s t) = Some (KConnection, p)"
| "required (ConnectionGetTableTypes p out) = Some (KConnection, p)"
| "required (ConnectionReadPartition p b n out) = Some (KConnection, p)"
| "required (ConnectionCommit p) = Some (KConnection, p)"
| "required (ConnectionRollback p) = Some (KConnection, p)"
| "required (StatementGetOption p k) = Some (KStatement, p)"
| "required (StatementGetOptionBytes p k) = Some (KStatement, p)"
| "required (StatementGetOptionDouble p k) = Some (KStatement, p)"
| "required (StatementGetOptionInt p k) = Some (KStatement, p)"
| "required (StatementSetOption p k v) = Some (KStatement, p)"
| "required (StatementSetOptionBytes p k v n) = Some (KStatement, p)"
| "required (StatementSetOptionDouble p k v) = Some (KStatement, p)"
| "required (StatementSetOptionInt p k v) = Some (KStatement, p)"
| "required (StatementCancel p) = Some (KStatement, p)"
| "required (StatementPrepare p) = Some (KStatement, p)"
| "required (StatementExecuteQuery p out) = Some (KStatement, p)"
| "required (StatementExecuteSchema p) = Some (KStatement, p)"
| "required (StatementSetSqlQuery p q) = Some (KStatement, p)"
| "required (StatementSetSubstraitPlan p b n) = Some (KStatement, p)"
| "required (StatementBind p v c) = Some (KStatement, p)"
| "required (StatementBindStream p v) = Some (KStatement, p)"
| "required (StatementGetParameterSchema p) = Some (KStatement, p)"
| "required (StatementExecutePartitions p) = Some (KStatement, p)"
| "required _ = None"

text \<open>The driver object behind a struct, if it is allocated and initialised.\<close>

definition inner_object :: "cobj \<Rightarrow> nat option" where
  "inner_object obj =
     (case obj of ObjDatabase d \<Rightarrow> cdb_db d | ObjConn c \<Rightarrow> conn_cnxn c | ObjStmt t \<Rightarrow> stmt_stmt t | ObjStream t \<Rightarrow> None)"

fun slot_of :: "kind \<Rightarrow> nat \<Rightarrow> slot" where
  "slot_of KDatabase a = DatabaseAt a"
| "slot_of KConnection a = ConnectionAt a"
| "slot_of KStatement a = StatementAt a"
| "slot_of KStream a = StreamAt a"

definition initialised :: "'w shim \<Rightarrow> kind \<Rightarrow> nat option \<Rightarrow> bool" where
  "initialised s k p =
     (case p of
        None \<Rightarrow> False
      | Some a \<Rightarrow>
          (case handles s (priv s (slot_of k a)) of
             None \<Rightarrow> False
           | Some obj \<Rightarrow> priv s (slot_of k a) \<noteq> 0 \<and> inner_object obj \<noteq> None))"

definition invalid_state :: "'w shim \<Rightarrow> (go_panic + Status) \<times> 'w shim \<Rightarrow> bool" where
  "invalid_state s r \<longleftrightarrow> fst r = Inr StatusInvalidState \<and> only_err_changed s (snd r)"

lemma recovering_invalid_state:
  "invalid_state s (body s) \<Longrightarrow>
     fst (recovering R fname body s) = StatusInvalidState \<and> only_err_changed s (snd (recovering R fname body s))"
  by (auto simp: recovering_def invalid_state_def split: prod.splits sum.splits)

text \<open>\<open>as\<close> and \<open>inner\<close> of a check agree with \<open>inner_object\<close>.\<close>

lemma check_init_refused:
  assumes "wf_panicked s" and "structs.typed at as" and "\<And>a. at a = slot_of k a"
    and inner: "\<And>obj x. as obj = Some x \<Longrightarrow> inner x = inner_object obj"
    and "\<not> initialised s k p"
  shows "invalid_state s (withC (check_init R (check_alloc R what at fname p) at as inner fname' missing p) b s)"
proof (cases "globalPoison s")
  case True
  then show ?thesis
    by (simp add: withC_def check_init_def bindC_def check_alloc_poisoned returnC_def invalid_state_def
        only_err_changed_fmtErrC)
next
  case False
  note d = withC_def check_init_def check_alloc_def bindC_def readC_def returnC_def
  show ?thesis
  proof (cases p)
    case None
    then show ?thesis using False by (simp add: d invalid_state_def fmtErrC_def modifyC_def only_err_changed_def)
  next
    case (Some a)
    show ?thesis
    proof (cases "priv s (at a) = 0")
      case True
      then show ?thesis using False Some by (simp add: d invalid_state_def fmtErrC_def modifyC_def only_err_changed_def)
    next
      case live: False
      then obtain obj where obj: "handles s (priv s (at a)) = Some obj" "obj_kind obj = slot_kind (at a)"
        using structs.lookup [OF assms(1) UNIV_I live] by blast
      then obtain x where x: "as obj = Some x" using assms(2) by (auto simp: structs.typed_def)
      then have "inner x = None" using assms(3-5) Some live obj by (auto simp: initialised_def)
      then show ?thesis
        using False Some live obj x
        by (simp add: d getFromHandle_def handle_Value_def handleFromPtr_def invalid_state_def fmtErrC_def modifyC_def
            only_err_changed_def)
    qed
  qed
qed

lemma inner_objects:
  "as_database obj = Some d \<Longrightarrow> cdb_db d = inner_object obj"
  "as_conn obj = Some c \<Longrightarrow> conn_cnxn c = inner_object obj"
  "as_stmt obj = Some t \<Longrightarrow> stmt_stmt t = inner_object obj"
  by (cases obj; simp add: inner_object_def)+

lemmas check_refused =
  check_init_refused [where at = DatabaseAt and as = as_database and inner = cdb_db and k = KDatabase,
    OF _ structs.typed_objects(1) slot_of.simps(1) [symmetric] inner_objects(1)]
  check_init_refused [where at = ConnectionAt and as = as_conn and inner = conn_cnxn and k = KConnection,
    OF _ structs.typed_objects(2) slot_of.simps(2) [symmetric] inner_objects(2)]
  check_init_refused [where at = StatementAt and as = as_stmt and inner = stmt_stmt and k = KStatement,
    OF _ structs.typed_objects(3) slot_of.simps(3) [symmetric] inner_objects(3)]

lemma uninitialised_refused_aux:
  assumes "wf_panicked s" and "required c = Some (k, p)" and "\<not> initialised s k p"
  shows "fst (run_adbc R L c s) = StatusInvalidState \<and>
    only_err_changed s (snd (run_adbc R L c s))"
  using assms
  by (cases c)
    (simp_all only: required.simps option.inject option.distinct prod.inject simp_thms run_adbc.simps call_defs
      check_defs recovering_invalid_state check_refused)

fun release_call :: "slot \<Rightarrow> adbc_call option" where
  "release_call (DatabaseAt a) = Some (DatabaseRelease (Some a))"
| "release_call (ConnectionAt a) = Some (ConnectionRelease (Some a))"
| "release_call (StatementAt a) = Some (StatementRelease (Some a))"
| "release_call (StreamAt a) = None"

text \<open>The sample process after a database was created.\<close>

definition one_database :: "nat shim" where
  "one_database = snd (run_adbc sample_env sample_driver (DatabaseNew (Some 5)) (initial_shim 0))"

lemma one_database_reachable: "reachable sample_env sample_driver 0 one_database"
  unfolding one_database_def
  by (rule reachable.step [OF reachable.start]) (rule client_step.call)

lemma one_database_state:
  "one_database = (initial_shim 0)\<lparr>handleIdx := 1, handles := [1 \<mapsto> ObjDatabase \<lparr>cdb_opts = [], cdb_db = None\<rparr>],
     priv := (\<lambda>_. 0)(DatabaseAt 5 := 1)\<rparr>"
  by (simp add: one_database_def MariaDBDatabaseNew_def recovering_def unallocatedC_def bindC_def readC_def
      allocate_def NewHandle_def set_priv_def modifyC_def createHandle_def returnC_def initial_shim_def)

lemmas framed_release = structs.framed_in_context structs.framed_defer structs.framed_bind

lemma release_aux:
  assumes "wf_panicked s" and "\<not> globalPoison s" and "priv s sl \<noteq> 0" and "release_call sl = Some c"
  shows "freed sl s (snd (run_adbc R L c s))"
proof (cases sl)
  case (DatabaseAt a)
  have "freed (DatabaseAt a) s (snd (run_adbc R L (DatabaseRelease (Some a)) s))"
    unfolding run_adbc.simps MariaDBDatabaseRelease_def check_defs
    using assms(3) DatabaseAt
    by (intro release_effect [OF assms(1,2) _ structs.typed_objects(1) _ refl])
      (auto intro!: framed_release split: option.splits)
  then show ?thesis using assms(4) DatabaseAt by auto
next
  case (ConnectionAt a)
  have "freed (ConnectionAt a) s (snd (run_adbc R L (ConnectionRelease (Some a)) s))"
    unfolding run_adbc.simps MariaDBConnectionRelease_def check_defs
    using assms(3) ConnectionAt
    by (intro release_effect [OF assms(1,2) _ structs.typed_objects(2) _ refl])
      (auto intro!: framed_release split: option.splits)
  then show ?thesis using assms(4) ConnectionAt by auto
next
  case (StatementAt a)
  have "recovering R n (bindC (readC globalPoison) (\<lambda>b. if b then m else k)) s = recovering R n k s" for n m k
    using assms(2) by (simp add: recovering_def bindC_def readC_def)
  then have "freed (StatementAt a) s (snd (run_adbc R L (StatementRelease (Some a)) s))"
    unfolding run_adbc.simps MariaDBStatementRelease_def check_defs
    using assms(3) StatementAt
    by (simp only:) (rule release_effect [OF assms(1,2) _ structs.typed_objects(3) _ refl],
      auto intro!: framed_release split: option.splits)
  then show ?thesis using assms(4) StatementAt by auto
qed (use assms in simp)

section \<open>Properties\<close>

text \<open>
  C6 (type). However a client mixes calls, arguments and stream callbacks, and whatever the
  driver below does: a struct that is in use holds a live handle to an object of its own type, no two
  structs share a handle, and no call or callback ever panics on an invalid handle or on an object
  of the wrong type.
\<close>
theorem handles_never_misused:
  assumes "reachable R L w s"
  shows "(\<forall>sl. priv s sl \<noteq> 0 \<longrightarrow> map_option obj_kind (handles s (priv s sl)) = Some (slot_kind sl)) \<and>
    (\<forall>sl sl'. priv s sl \<noteq> 0 \<longrightarrow> priv s sl = priv s sl' \<longrightarrow> sl = sl') \<and>
    (\<forall>p \<in> set (panics s). \<not> handle_misuse p) \<and>
    (\<forall>cb p. fst (run_callback R L cb s) = Inl p \<longrightarrow> \<not> handle_misuse p)"
proof -
  have s: "wf_panicked s" using assms by (intro holds_panicked reachable_holds)
  have "\<not> handle_misuse p" if "fst (run_callback R L cb s) = Inl p" for cb p
    using structs_callback [OF s, of R L cb] that by (cases "run_callback R L cb s") auto
  then show ?thesis using s by (auto simp: wf_panicked_def wf_structs_def)
qed

theorem handles_never_misused_witness:
  "map_option obj_kind (handles one_database (priv one_database (DatabaseAt 5))) = Some KDatabase"
proof -
  have "priv one_database (DatabaseAt 5) \<noteq> 0" by (simp add: one_database_state)
  then show ?thesis using handles_never_misused [OF one_database_reachable] by (metis slot_kind.simps(1))
qed



text \<open>
  C11 (error). A call that works on a database, connection or statement is refused with
  \<open>INVALID_STATE\<close>, and changes nothing but the error struct, when its pointer is null, the struct is
  not allocated, or the object behind it is not initialised.
\<close>
theorem uninitialised_refused:
  assumes "reachable R L w s" and "required c = Some (k, p)" and "\<not> initialised s k p"
  shows "fst (run_adbc R L c s) = StatusInvalidState \<and> only_err_changed s (snd (run_adbc R L c s))"
  using uninitialised_refused_aux [OF holds_panicked [OF reachable_holds [OF assms(1)]] assms(2,3)] .

theorem uninitialised_refused_witness:
  "fst (run_adbc sample_env sample_driver (DatabaseGetOption (Some 5) (Some ''uri'')) one_database) = StatusInvalidState \<and>
   only_err_changed one_database
     (snd (run_adbc sample_env sample_driver (DatabaseGetOption (Some 5) (Some ''uri'')) one_database))"
  by (rule uninitialised_refused [OF one_database_reachable, of _ KDatabase "Some 5"])
    (simp_all add: one_database_state initial_shim_def initialised_def inner_object_def)

end
