(* ===== verification/C_Driver.thy ===== *)
theory C_Driver
  imports C_State
begin

text \<open>
  The entry point that fills the driver's table of functions (\<open>pkg/driver.go\<close> lines 1896 to 1984),
  with the layout of \<open>struct AdbcDriver\<close> in \<open>pkg/adbc.h\<close>. The table is a map from the members of the
  struct, by name, to the functions they point to.
\<close>

section \<open>The struct\<close>

definition ADBC_VERSION_1_0_0 :: int where "ADBC_VERSION_1_0_0 = 1000000"
definition ADBC_VERSION_1_1_0 :: int where "ADBC_VERSION_1_1_0 = 1001000"

text \<open>The members up to \<open>ADBC_DRIVER_1_0_0_SIZE\<close>, in the order of the header, and those after it.\<close>

definition driver_members_1_0_0 :: "string list" where
  "driver_members_1_0_0 =
     [''private_data'', ''private_manager'', ''release'',
      ''DatabaseInit'', ''DatabaseNew'', ''DatabaseSetOption'', ''DatabaseRelease'',
      ''ConnectionCommit'', ''ConnectionGetInfo'', ''ConnectionGetObjects'', ''ConnectionGetTableSchema'',
      ''ConnectionGetTableTypes'', ''ConnectionInit'', ''ConnectionNew'', ''ConnectionSetOption'',
      ''ConnectionReadPartition'', ''ConnectionRelease'', ''ConnectionRollback'',
      ''StatementBind'', ''StatementBindStream'', ''StatementExecuteQuery'', ''StatementExecutePartitions'',
      ''StatementGetParameterSchema'', ''StatementNew'', ''StatementPrepare'', ''StatementRelease'',
      ''StatementSetOption'', ''StatementSetSqlQuery'', ''StatementSetSubstraitPlan'']"

definition driver_members_1_1_0 :: "string list" where
  "driver_members_1_1_0 =
     [''ErrorGetDetailCount'', ''ErrorGetDetail'', ''ErrorFromArrayStream'',
      ''DatabaseGetOption'', ''DatabaseGetOptionBytes'', ''DatabaseGetOptionDouble'', ''DatabaseGetOptionInt'',
      ''DatabaseSetOptionBytes'', ''DatabaseSetOptionDouble'', ''DatabaseSetOptionInt'',
      ''ConnectionCancel'', ''ConnectionGetOption'', ''ConnectionGetOptionBytes'', ''ConnectionGetOptionDouble'',
      ''ConnectionGetOptionInt'', ''ConnectionGetStatistics'', ''ConnectionGetStatisticNames'',
      ''ConnectionSetOptionBytes'', ''ConnectionSetOptionDouble'', ''ConnectionSetOptionInt'',
      ''StatementCancel'', ''StatementExecuteSchema'', ''StatementGetOption'', ''StatementGetOptionBytes'',
      ''StatementGetOptionDouble'', ''StatementGetOptionInt'', ''StatementSetOptionBytes'',
      ''StatementSetOptionDouble'', ''StatementSetOptionInt'']"

type_synonym driver_table = "string \<rightharpoonup> string"

section \<open>Filling it\<close>

definition zero_members :: "string list \<Rightarrow> driver_table \<Rightarrow> driver_table" where
  "zero_members ms t m = (if m \<in> set ms then None else t m)"

fun assign_members :: "(string \<times> string) list \<Rightarrow> driver_table \<Rightarrow> driver_table" where
  "assign_members [] t = t"
| "assign_members ((m, f) # ps) t = assign_members ps (t(m \<mapsto> f))"

text \<open>The assignments made for every version, and those made for 1.1.0 only, in their order.\<close>

definition common_assignments :: "(string \<times> string) list" where
  "common_assignments =
     [(''DatabaseInit'', ''MariaDBDatabaseInit''),
      (''DatabaseNew'', ''MariaDBDatabaseNew''),
      (''DatabaseRelease'', ''MariaDBDatabaseRelease''),
      (''DatabaseSetOption'', ''MariaDBDatabaseSetOption''),
      (''ConnectionNew'', ''MariaDBConnectionNew''),
      (''ConnectionInit'', ''MariaDBConnectionInit''),
      (''ConnectionRelease'', ''MariaDBConnectionRelease''),
      (''ConnectionSetOption'', ''MariaDBConnectionSetOption''),
      (''ConnectionGetInfo'', ''MariaDBConnectionGetInfo''),
      (''ConnectionGetObjects'', ''MariaDBConnectionGetObjects''),
      (''ConnectionGetTableSchema'', ''MariaDBConnectionGetTableSchema''),
      (''ConnectionGetTableTypes'', ''MariaDBConnectionGetTableTypes''),
      (''ConnectionReadPartition'', ''MariaDBConnectionReadPartition''),
      (''ConnectionCommit'', ''MariaDBConnectionCommit''),
      (''ConnectionRollback'', ''MariaDBConnectionRollback''),
      (''StatementNew'', ''MariaDBStatementNew''),
      (''StatementRelease'', ''MariaDBStatementRelease''),
      (''StatementSetOption'', ''MariaDBStatementSetOption''),
      (''StatementSetSqlQuery'', ''MariaDBStatementSetSqlQuery''),
      (''StatementSetSubstraitPlan'', ''MariaDBStatementSetSubstraitPlan''),
      (''StatementBind'', ''MariaDBStatementBind''),
      (''StatementBindStream'', ''MariaDBStatementBindStream''),
      (''StatementExecuteQuery'', ''MariaDBStatementExecuteQuery''),
      (''StatementExecutePartitions'', ''MariaDBStatementExecutePartitions''),
      (''StatementGetParameterSchema'', ''MariaDBStatementGetParameterSchema''),
      (''StatementPrepare'', ''MariaDBStatementPrepare'')]"

definition assignments_1_1_0 :: "(string \<times> string) list" where
  "assignments_1_1_0 =
     [(''ErrorGetDetailCount'', ''MariaDBErrorGetDetailCount''),
      (''ErrorGetDetail'', ''MariaDBErrorGetDetail''),
      (''ErrorFromArrayStream'', ''MariaDBErrorFromArrayStream''),
      (''DatabaseGetOption'', ''MariaDBDatabaseGetOption''),
      (''DatabaseGetOptionBytes'', ''MariaDBDatabaseGetOptionBytes''),
      (''DatabaseGetOptionDouble'', ''MariaDBDatabaseGetOptionDouble''),
      (''DatabaseGetOptionInt'', ''MariaDBDatabaseGetOptionInt''),
      (''DatabaseSetOptionBytes'', ''MariaDBDatabaseSetOptionBytes''),
      (''DatabaseSetOptionDouble'', ''MariaDBDatabaseSetOptionDouble''),
      (''DatabaseSetOptionInt'', ''MariaDBDatabaseSetOptionInt''),
      (''ConnectionCancel'', ''MariaDBConnectionCancel''),
      (''ConnectionGetOption'', ''MariaDBConnectionGetOption''),
      (''ConnectionGetOptionBytes'', ''MariaDBConnectionGetOptionBytes''),
      (''ConnectionGetOptionDouble'', ''MariaDBConnectionGetOptionDouble''),
      (''ConnectionGetOptionInt'', ''MariaDBConnectionGetOptionInt''),
      (''ConnectionGetStatistics'', ''MariaDBConnectionGetStatistics''),
      (''ConnectionGetStatisticNames'', ''MariaDBConnectionGetStatisticNames''),
      (''ConnectionSetOptionBytes'', ''MariaDBConnectionSetOptionBytes''),
      (''ConnectionSetOptionDouble'', ''MariaDBConnectionSetOptionDouble''),
      (''ConnectionSetOptionInt'', ''MariaDBConnectionSetOptionInt''),
      (''StatementCancel'', ''MariaDBStatementCancel''),
      (''StatementExecuteSchema'', ''MariaDBStatementExecuteSchema''),
      (''StatementGetOption'', ''MariaDBStatementGetOption''),
      (''StatementGetOptionBytes'', ''MariaDBStatementGetOptionBytes''),
      (''StatementGetOptionDouble'', ''MariaDBStatementGetOptionDouble''),
      (''StatementGetOptionInt'', ''MariaDBStatementGetOptionInt''),
      (''StatementSetOptionBytes'', ''MariaDBStatementSetOptionBytes''),
      (''StatementSetOptionDouble'', ''MariaDBStatementSetOptionDouble''),
      (''StatementSetOptionInt'', ''MariaDBStatementSetOptionInt'')]"

definition AdbcDriverMariadbInit :: "cgo_env \<Rightarrow> int \<Rightarrow> driver_table \<Rightarrow> c_error option \<Rightarrow>
    Status \<times> driver_table \<times> c_error option" where
  "AdbcDriverMariadbInit R version driver err =
     (if version = ADBC_VERSION_1_0_0
      then (StatusOK, assign_members common_assignments (zero_members driver_members_1_0_0 driver), err)
      else if version = ADBC_VERSION_1_1_0
      then (StatusOK,
            assign_members assignments_1_1_0 (assign_members common_assignments
              (zero_members (driver_members_1_0_0 @ driver_members_1_1_0) driver)), err)
      else (StatusNotImplemented, driver,
            fmtErr R ''Only version 1.0.0/1.1.0 supported, got %d''
              (''Only version 1.0.0/1.1.0 supported, got '' @ itoa version) err))"

definition AdbcDriverMariaDBInit :: "cgo_env \<Rightarrow> int \<Rightarrow> driver_table \<Rightarrow> c_error option \<Rightarrow>
    Status \<times> driver_table \<times> c_error option" where
  "AdbcDriverMariaDBInit R version driver err = AdbcDriverMariadbInit R version driver err"

end
