(* ===== verification/C_Props.thy ===== *)
theory C_Props
  imports C_Handles C_Driver
begin

text \<open>
  The behaviour of the single parts of the C interface: error structs and their details, option
  buffers, byte arguments, options kept until a database is initialised, streams, cancellation,
  partitions and the driver's table.
\<close>

section \<open>Error structs\<close>

text \<open>An error struct as the caller passes it: zeroed, or released, with a vendor code.\<close>

definition empty_error :: "int \<Rightarrow> c_error" where
  "empty_error code = \<lparr>ce_message = None, ce_vendor_code = code, ce_sqlstate = replicate 5 NUL,
     ce_release = None, ce_private_data = None\<rparr>"

lemma CString_append: "NUL \<notin> set s \<Longrightarrow> CString (s @ t) = s @ CString t"
  by (auto simp: CString_def takeWhile_append)

lemma errPrefix_no_NUL: "NUL \<notin> set errPrefix"
  by (simp add: errPrefix_def NUL_def) code_simp

lemma HasPrefix_CString: "HasPrefix s errPrefix \<Longrightarrow> HasPrefix (CString s) errPrefix"
  by (auto simp: HasPrefix_iff CString_append errPrefix_no_NUL)

lemma prefixed_prefix: "HasPrefix (CString (prefixed s s)) errPrefix"
  using HasPrefix_CString by (auto simp: prefixed_def CString_append errPrefix_no_NUL)

lemma detail_lookup:
  "i < length (Details a) \<Longrightarrow>
     (det_keys (error_details R a) ! i, det_values (error_details R a) ! i, det_lengths (error_details R a) ! i) =
     (CString (fst (Details a ! i)), detail_value R (snd (Details a ! i)), length (detail_value R (snd (Details a ! i))))"
  by (simp add: error_details_def)

section \<open>Lengths\<close>

lemma wrap32_nat:
  assumes "n < 2 ^ 32"
  shows "wrap32 (int n) = (if n < 2 ^ 31 then int n else int n - 2 ^ 32)"
proof (cases "n < 2 ^ 31")
  case True
  then show ?thesis by (simp add: wrap_signed_def)
next
  case False
  have "(int n + 2147483648) mod 4294967296 = int n + 2147483648 - 4294967296"
    using False assms by (subst mod_pos_geq) auto
  then show ?thesis using False by (simp add: wrap_signed_def)
qed

lemma wrap32_mod: "wrap32 (int n) = wrap32 (int (n mod 2 ^ 32))"
  by (simp add: wrap_signed_def zmod_int mod_simps)

lemma GoBytes_length:
  "GoBytes (Some mem) (int n) =
     (if n mod 2 ^ 32 < 2 ^ 31 then Inr (take (n mod 2 ^ 32) mem)
      else Inl (BytesLengthOutOfRange (int (n mod 2 ^ 32) - 2 ^ 32)))"
  unfolding GoBytes_def wrap32_mod [of n] using wrap32_nat [of "n mod 2 ^ 32"] by (auto simp: Let_def)

section \<open>Partitions\<close>

text \<open>A client's view of partition \<open>i\<close>: its length of bytes from its offset on.\<close>

definition read_partition :: "c_partitions \<Rightarrow> nat \<Rightarrow> string" where
  "read_partition p i = take (part_lengths p ! i) (drop (part_offsets p ! i) (case part_data p of None \<Rightarrow> [] | Some b \<Rightarrow> b))"

fun offsets :: "nat \<Rightarrow> string list \<Rightarrow> nat list" where
  "offsets off [] = []"
| "offsets off (p # ps) = off # offsets (off + length p) ps"

lemma part_loop_ok:
  assumes "\<forall>p \<in> set ids. p \<noteq> []" and "i + length ids \<le> n" and "length (concat ids) \<le> room"
  shows "part_loop n ids i off room = (offsets off ids, map length ids, concat ids, None)"
  using assms
proof (induction ids arbitrary: i off room)
  case (Cons p ps)
  from Cons.prems have "0 < length p" "length p \<le> room" "\<not> n \<le> i" by auto
  then have "room \<noteq> 0" "\<not> n \<le> i" by linarith+
  moreover have "part_loop n ps (Suc i) (off + length p) (room - length p) =
      (offsets (off + length p) ps, map length ps, concat ps, None)"
    using Cons.prems by (intro Cons.IH) auto
  ultimately show ?case by simp
qed simp

lemma length_offsets [simp]: "length (offsets off ids) = length ids"
  by (induction off ids rule: offsets.induct) auto

lemma offsets_slice:
  "i < length ids \<Longrightarrow> length pre = off \<Longrightarrow>
     take (length (ids ! i)) (drop (offsets off ids ! i) (pre @ concat ids)) = ids ! i"
proof (induction off ids arbitrary: i pre rule: offsets.induct)
  case (2 off p ps)
  show ?case
  proof (cases i)
    case 0
    then show ?thesis using 2 by simp
  next
    case (Suc j)
    then show ?thesis using 2(2,3) 2(1) [of j "pre @ p"] by simp
  qed
qed simp

lemma empty_partition_panics:
  assumes "\<forall>p \<in> set ids. p \<noteq> []" and "length ids < n"
  shows "snd (fill_partitions \<lparr>NumPartitions = n, PartitionIDs = ids @ [[]]\<rparr>) = Some (IndexOutOfRange 0 0)"
proof -
  have "\<exists>os ls b. part_loop n (ids @ [[]]) i off (length (concat ids)) = (os, ls, b, Some (IndexOutOfRange 0 0))"
    if "\<forall>p \<in> set ids. p \<noteq> []" "i + length ids < n" for i off
    using that
  proof (induction ids arbitrary: i off)
    case (Cons p ps)
    from Cons.IH [of "Suc i" "off + length p"] Cons.prems
    show ?case by auto
  qed simp
  from this [of 0 0] assms show ?thesis by (auto simp: fill_partitions_def Let_def)
qed

section \<open>Options kept until a database is initialised\<close>

text \<open>An allocated database that is not initialised, with the options kept so far.\<close>

definition pending :: "nat \<Rightarrow> (string \<times> unappliedOpt) list \<Rightarrow> 'w shim \<Rightarrow> bool" where
  "pending a m s \<longleftrightarrow> \<not> globalPoison s \<and> priv s (DatabaseAt a) \<noteq> 0 \<and>
     handles s (priv s (DatabaseAt a)) = Some (ObjDatabase \<lparr>cdb_opts = m, cdb_db = None\<rparr>)"

definition set_string_opts :: "cgo_env \<Rightarrow> 'w driverlib \<Rightarrow> nat \<Rightarrow> (string \<times> string) list \<Rightarrow> 'w shim \<Rightarrow> 'w shim" where
  "set_string_opts R L a kvs s =
     fold (\<lambda>(k, v) s. snd (run_adbc R L (DatabaseSetOption (Some a) (Some k) (Some v)) s)) kvs s"

lemma map_of_map_set: "map_of (map_set k v m) = (map_of m)(k \<mapsto> v)"
  by (induction m) auto

lemma allocatedC_pending:
  assumes "pending a m s"
  shows "allocatedC (check_alloc R what DatabaseAt fname (Some a)) DatabaseAt as_database (Some a) k s =
    k (priv s (DatabaseAt a)) \<lparr>cdb_opts = m, cdb_db = None\<rparr> s"
  using assms
  by (simp add: pending_def allocatedC_def check_alloc_def bindC_def readC_def returnC_def getFromHandle_def
      handle_Value_def handleFromPtr_def)

lemma keep_option_pending:
  assumes "pending a m s"
  shows "keep_option (priv s (DatabaseAt a)) \<lparr>cdb_opts = m, cdb_db = None\<rparr> k v s =
    (Inr StatusOK, s\<lparr>handles := (handles s)(priv s (DatabaseAt a) \<mapsto> ObjDatabase \<lparr>cdb_opts = map_set k v m, cdb_db = None\<rparr>)\<rparr>)"
  using assms
  by (simp add: pending_def keep_option_def bindC_def put_object_def modifyC_def returnC_def store_object_def)

lemma set_option_pending:
  assumes "pending a m s" and "run_adbc R L (DatabaseSetOption (Some a) (Some k) (Some v)) s = (code, s')"
  shows "code = StatusOK \<and>
    pending a (map_set k (string_opt v) m) s' \<and> world s' = world s \<and> priv s' = priv s"
  using assms allocatedC_pending [OF assms(1)] keep_option_pending [OF assms(1)]
  by (auto simp: MariaDBDatabaseSetOption_def check_defs recovering_def GoString_def pending_def)

definition keep_strings :: "(string \<times> string) list \<Rightarrow> (string \<times> unappliedOpt) list \<Rightarrow> (string \<times> unappliedOpt) list" where
  "keep_strings kvs m = fold (\<lambda>(k, v). map_set k (string_opt v)) kvs m"

lemma set_string_opts_pending:
  "pending a m s \<Longrightarrow>
     pending a (keep_strings kvs m) (set_string_opts R L a kvs s) \<and>
     world (set_string_opts R L a kvs s) = world s \<and> priv (set_string_opts R L a kvs s) = priv s"
proof (induction kvs arbitrary: m s)
  case (Cons kv kvs)
  obtain k v where "kv = (k, v)" by fastforce
  moreover obtain code s' where "run_adbc R L (DatabaseSetOption (Some a) (Some k) (Some v)) s = (code, s')"
    by fastforce
  ultimately show ?case
    using Cons.IH [of "map_set k (string_opt v) m" s'] set_option_pending [OF Cons.prems, of R L k v code s']
    by (simp add: set_string_opts_def keep_strings_def del: run_adbc.simps)
qed (simp add: set_string_opts_def keep_strings_def)

lemma string_opts_keep: "string_opts (keep_strings kvs m) = string_opts m ++ map_of (rev kvs)"
proof (induction kvs arbitrary: m)
  case (Cons kv kvs)
  obtain k v where "kv = (k, v)" by fastforce
  moreover have "string_opts (map_set k (string_opt v) m) = (string_opts m)(k \<mapsto> v)"
    by (rule ext) (simp add: string_opts_def map_of_map_set string_opt_def)
  ultimately show ?case using Cons by (auto simp: keep_strings_def fun_eq_iff map_add_def split: option.splits)
qed (simp add: keep_strings_def)

lemma string_opts_Nil: "string_opts [] = Map.empty"
  by (rule ext) (simp add: string_opts_def)

lemma only_strings_keep:
  "(\<forall>(k, v) \<in> set m. stringVal v \<noteq> None) \<Longrightarrow> (\<forall>(k, v) \<in> set (keep_strings kvs m). stringVal v \<noteq> None)"
proof (induction kvs arbitrary: m)
  case (Cons kv kvs)
  obtain k v where "kv = (k, v)" by fastforce
  moreover have "set (map_set k x m) \<subseteq> insert (k, x) (set m)" for x :: unappliedOpt
    by (induction m) auto
  ultimately show ?case
    using Cons.prems Cons.IH [of "map_set k (string_opt v) m"] by (fastforce simp: keep_strings_def string_opt_def)
qed (simp add: keep_strings_def)

lemma apply_opts_strings:
  "(\<forall>(k, v) \<in> set kvs. stringVal v \<noteq> None) \<Longrightarrow>
     apply_opts R L d ctx kvs = bindC (initLoggingFromEnv R L d) (\<lambda>_. returnC StatusOK)"
  by (induction R L d ctx kvs rule: apply_opts.induct) auto

lemma range_map_subset: "set (range_map R m) \<subseteq> set m"
proof
  fix kv
  assume "kv \<in> set (range_map R m)"
  then obtain k v where "kv = (k, v)" "map_of m k = Some v"
    by (auto simp: range_map_def map_filter_def split: option.splits)
  then show "kv \<in> set m" by (simp add: map_of_SomeD)
qed

section \<open>The driver's table\<close>

lemma assign_members_lookup:
  "assign_members ps t m = (case map_of (rev ps) m of None \<Rightarrow> t m | Some f \<Rightarrow> Some f)"
proof (induction ps arbitrary: t)
  case (Cons p ps)
  then show ?case by (cases p) (auto split: option.splits)
qed simp

definition function_members :: "string list" where
  "function_members = drop 3 driver_members_1_0_0"

lemma common_complete:
  "list_all (\<lambda>m. map_of (rev common_assignments) m = Some (''MariaDB'' @ m)) function_members"
  by code_simp

lemma own_members_unset:
  "list_all (\<lambda>m. map_of (rev common_assignments) m = None \<and> m \<in> set driver_members_1_0_0) (take 3 driver_members_1_0_0)"
  by code_simp

lemma new_complete:
  "list_all (\<lambda>m. map_of (rev assignments_1_1_0) m = Some (''MariaDB'' @ m)) driver_members_1_1_0"
  by code_simp

lemma common_within:
  "list_all (\<lambda>(m, f). m \<in> set driver_members_1_0_0 \<and> m \<notin> set driver_members_1_1_0) common_assignments"
  by code_simp

lemma new_within:
  "list_all (\<lambda>(m, f). m \<in> set driver_members_1_1_0 \<and> m \<notin> set driver_members_1_0_0) assignments_1_1_0"
  by code_simp

lemma function_members_subset: "set function_members \<subseteq> set driver_members_1_0_0"
  unfolding function_members_def by (rule set_drop_subset)

lemma map_of_within:
  "list_all (\<lambda>(m, f). m \<in> A) ps \<Longrightarrow> m \<notin> A \<Longrightarrow> map_of (rev ps) m = None"
  by (auto simp: map_of_eq_None_iff list_all_iff)

lemma common_None: "m \<notin> set driver_members_1_0_0 \<Longrightarrow> map_of (rev common_assignments) m = None"
  using common_within by (intro map_of_within) (auto simp: list_all_iff)

lemma new_None: "m \<in> set driver_members_1_0_0 \<or> m \<notin> set driver_members_1_1_0 \<Longrightarrow> map_of (rev assignments_1_1_0) m = None"
  using new_within
  by (intro map_of_within [where A = "set driver_members_1_1_0 - set driver_members_1_0_0"]) (auto simp: list_all_iff)

section \<open>Streams\<close>

text \<open>The reference a stream holds on its reader, from the export to the release of the stream.\<close>

lemma give_reader_effect:
  assumes "give_reader rdr (Some a) s = (Inr code, s1)"
  shows "code = StatusOK \<and> refs s1 = refs s \<and> own_stream (Some a) s1 = Some (priv s1 (StreamAt a)) \<and>
    handles s1 (priv s1 (StreamAt a)) = Some (ObjStream \<lparr>str_rdr = rdr, str_adbcErr = None, str_status = StatusOK\<rparr>)"
  using assms
  by (auto simp: give_reader_def deferC_def exportRecordReader_def bindC_def modifyC_def allocate_def NewHandle_def
      Let_def set_priv_def createHandle_def add_ref_def returnC_def own_stream_def split: if_splits)

lemma stream_release_effect:
  assumes "own_stream (Some a) s = Some h" and "handles s h = Some (ObjStream t)"
  shows "MariaDBArrayStreamRelease (Some a) s = (Inr (),
    s\<lparr>priv := (priv s)(StreamAt a := 0), handles := (handles s)(h := None),
      refs := (refs s)(Reader (str_rdr t) := refs s (Reader (str_rdr t)) - 1)\<rparr>)"
  using assms
  by (simp add: MariaDBArrayStreamRelease_def bindC_def readC_def set_priv_def modifyC_def getFromHandle_def
      handle_Value_def handleFromPtr_def returnC_def handle_Delete_def add_ref_def)

lemma stream_release_again:
  "priv s (StreamAt a) = 0 \<Longrightarrow> MariaDBArrayStreamRelease (Some a) s = (Inr (), s)"
  by (simp add: MariaDBArrayStreamRelease_def bindC_def readC_def own_stream_def returnC_def)

text \<open>The release callback leaves the \<open>release\<close> member of the struct set.\<close>

lemma stream_release_keeps_member:
  assumes "own_stream (Some a) s = Some h" and "handles s h = Some (ObjStream t)"
  shows "stream_ours (snd (MariaDBArrayStreamRelease (Some a) s)) a"
  using assms by (simp add: stream_release_effect [OF assms]) (auto simp: own_stream_def split: if_splits)

text \<open>A process that holds one stream, and a driver whose readers fail.\<close>

definition one_stream :: "nat shim" where
  "one_stream = (initial_shim 0)\<lparr>handleIdx := 1, stream_ours := (\<lambda>_. False)(3 := True), priv := (\<lambda>_. 0)(StreamAt 3 := 1),
     handles := [1 \<mapsto> ObjStream \<lparr>str_rdr = 9, str_adbcErr = None, str_status = StatusOK\<rparr>]\<rparr>"

definition failing_driver :: "nat driverlib" where
  "failing_driver = sample_driver\<lparr>lib_reader_err := (\<lambda>r. counting (Some (Errorf ''lost'' [])))\<rparr>"

lemma one_stream_given: "give_reader 9 (Some 3) (initial_shim 0) = (Inr StatusOK, one_stream)"
  by (simp add: give_reader_def deferC_def exportRecordReader_def bindC_def modifyC_def allocate_def NewHandle_def
      set_priv_def createHandle_def add_ref_def returnC_def initial_shim_def one_stream_def fun_eq_iff)

section \<open>Initialisation that fails half way\<close>

text \<open>
  A connection whose only kept option is refused reports the error, yet counts as initialised, so
  that a second attempt is refused.
\<close>

lemma failed_init_leaves_initialised:
  assumes "\<not> globalPoison s" and "priv s (ConnectionAt c) = h" and "h \<noteq> 0"
    and "handles s h = Some (ObjConn \<lparr>conn_cnxn = None, conn_initArgs = Some [(k, v)]\<rparr>)"
    and "priv s (DatabaseAt a) = h2" and "h2 \<noteq> 0" and "handles s h2 = Some (ObjDatabase \<lparr>cdb_opts = m, cdb_db = Some d\<rparr>)"
    and "lib_obj L (LOpen d) (world s) = (Inr (Inr x), w1)"
    and "lib_new_context L (MainContext h) w1 = (Inr ctx, w2)"
    and "lib_err L (LSetOption (OnConnection x) ctx k v) w2 = (Inr (Some e), w3)"
    and "env_range_opts R [k] = [k]" and "fst (errToAdbcErr R (Some e) (arg_err s)) = code" and "code \<noteq> StatusOK"
  shows "fst (run_adbc R L (ConnectionInit (Some c) (Some a)) s) = code \<and>
    initialised (snd (run_adbc R L (ConnectionInit (Some c) (Some a)) s)) KConnection (Some c)"
  using assms
  by (auto simp: MariaDBConnectionInit_def check_defs recovering_def allocatedC_def check_alloc_def bindC_def readC_def
      returnC_def getFromHandle_def handle_Value_def handleFromPtr_def withC_def check_init_def orErr_def libC_def
      Let_def put_object_def modifyC_def store_object_def init_args_def in_context_def range_map_def map_filter_def
      onlyErr_def errToAdbcErrC_def initialised_def inner_object_def split: prod.splits)

section \<open>Samples\<close>

definition sample_adbc_Error :: adbc_Error where
  "sample_adbc_Error = \<lparr>Code = StatusIO, Msg = ''gone'', SqlState = ''08S01'', VendorCode = 0,
     Details = [(''trace'', Inr ''abc''), (''info'', Inl (Errorf ''x'' []))]\<rparr>"

lemma one_database_pending: "pending 5 [] one_database"
  by (simp add: pending_def one_database_state initial_shim_def)

section \<open>Properties\<close>



text \<open>
  C21 (roundtrip). The details of an ADBC error reach a client that asks for them: the count is the
  number of details, entry \<open>i\<close> has the key, the bytes and the length of detail \<open>i\<close>, other indices have
  none, and after the error is released there are none.
\<close>
theorem error_details_roundtrip:
  assumes "ce_vendor_code e = ADBC_ERROR_VENDOR_CODE_PRIVATE_DATA" and "Details a \<noteq> []"
  shows "MariaDBErrorGetDetailCount (setErrWithDetails R a (Some e)) = length (Details a) \<and>
    (\<forall>i < length (Details a). MariaDBErrorGetDetail (setErrWithDetails R a (Some e)) (int i) =
       Some (CString (fst (Details a ! i)), detail_value R (snd (Details a ! i)), length (detail_value R (snd (Details a ! i))))) \<and>
    (\<forall>i. i < 0 \<or> int (length (Details a)) \<le> i \<longrightarrow> MariaDBErrorGetDetail (setErrWithDetails R a (Some e)) i = None) \<and>
    MariaDBErrorGetDetailCount (map_option (MariaDBerrRelease R) (setErrWithDetails R a (Some e))) = 0"
proof -
  have "setErrWithDetails R a (Some e) = Some (e\<lparr>ce_sqlstate := take 5 (SqlState a), ce_message := Some (CString (Msg a)),
      ce_release := Some MariaDBReleaseErrWithDetails, ce_private_data := Some (error_details R a)\<rparr>)"
    using assms by (simp add: setErrWithDetails_def)
  moreover have "det_count (error_details R a) = length (Details a)"
    by (simp add: error_details_def)
  ultimately show ?thesis
    by (auto simp: MariaDBErrorGetDetailCount_def MariaDBErrorGetDetail_def has_details_def
        MariaDBerrRelease_def detail_lookup [simplified])
qed

theorem error_details_roundtrip_witness:
  "MariaDBErrorGetDetailCount (setErrWithDetails sample_env sample_adbc_Error
     (Some (empty_error ADBC_ERROR_VENDOR_CODE_PRIVATE_DATA))) = 2"
  using error_details_roundtrip [of "empty_error ADBC_ERROR_VENDOR_CODE_PRIVATE_DATA" sample_adbc_Error sample_env]
  by (simp add: empty_error_def sample_adbc_Error_def)

text \<open>
  C22 (safety). For a client of ADBC 1.0.0, whose error struct ends before \<open>private_data\<close> and whose
  vendor code is not the marker for it, filling an empty error never touches \<open>private_data\<close> and never
  writes the marker; the message begins with the driver's prefix.
\<close>
theorem old_client_error:
  assumes "ce_vendor_code e \<noteq> ADBC_ERROR_VENDOR_CODE_PRIVATE_DATA" and "ce_release e = None"
  shows "\<exists>e'. snd (errToAdbcErr R (Some err) (Some e)) = Some e' \<and>
    ce_private_data e' = ce_private_data e \<and> ce_vendor_code e' \<noteq> ADBC_ERROR_VENDOR_CODE_PRIVATE_DATA \<and>
    ce_release e' = Some MariaDB_release_error \<and>
    (\<exists>m. ce_message e' = Some m \<and> HasPrefix m errPrefix)"
  using assms prefixed_prefix
  by (auto simp: errToAdbcErr_def setErrWithDetails_def setErr_def set_message_def Let_def split: option.splits)

theorem old_client_error_witness:
  "\<exists>e'. snd (errToAdbcErr sample_env (Some (Errorf ''x'' [])) (Some (empty_error 0))) = Some e' \<and>
    ce_private_data e' = ce_private_data (empty_error 0) \<and> ce_vendor_code e' \<noteq> ADBC_ERROR_VENDOR_CODE_PRIVATE_DATA \<and>
    ce_release e' = Some MariaDB_release_error \<and>
    (\<exists>m. ce_message e' = Some m \<and> HasPrefix m errPrefix)"
  by (rule old_client_error) (simp_all add: empty_error_def ADBC_ERROR_VENDOR_CODE_PRIVATE_DATA_def)

text \<open>
  C23 (bounds). Reading an option keeps to the caller's buffer: the length needed, with the
  terminator, is always reported; the buffer is written only when the whole value fits, and then
  with the value, its terminator and nothing beyond; and a buffer of the reported length holds it.
\<close>
theorem option_buffer_contract:
  assumes "unat n \<le> length buf" and "length val + 1 < 2 ^ 64"
  shows "(\<exists>buf'. exportStringOption val (Some buf) (Some n) = Inr (Some buf', Some (word_of_nat (length val + 1))) \<and>
      length buf' = length buf \<and>
      (if length val + 1 \<le> unat n
       then take (length val + 1) buf' = val @ [NUL] \<and> drop (length val + 1) buf' = drop (length val + 1) buf
       else buf' = buf)) \<and>
    unat (word_of_nat (length val + 1) :: 64 word) = length val + 1 \<and>
    (\<forall>buf2. length buf2 = length val + 1 \<longrightarrow>
      exportStringOption val (Some buf2) (Some (word_of_nat (length val + 1))) =
        Inr (Some (val @ [NUL]), Some (word_of_nat (length val + 1))))"
proof -
  let ?m = "word_of_nat (length val + 1) :: 64 word"
  have m: "unat ?m = length val + 1" using assms(2) by (simp add: unsigned_of_nat take_bit_nat_eq_self del: of_nat_add of_nat_Suc)
  then have "?m \<le> n \<longleftrightarrow> length val + 1 \<le> unat n" by (simp add: word_le_nat_alt)
  then show ?thesis
    using m assms(1) by (auto simp: exportStringOption_def Let_def simp del: of_nat_add of_nat_Suc)
qed

theorem option_buffer_contract_witness:
  "\<exists>buf'. exportStringOption ''on'' (Some ''xxxxx'') (Some 5) = Inr (Some buf', Some (word_of_nat (length ''on'' + 1))) \<and>
      length buf' = length ''xxxxx'' \<and> take 3 buf' = ''on'' @ [NUL] \<and> drop 3 buf' = ''xx''"
  using option_buffer_contract [of 5 "''xxxxx''" "''on''"] by (simp add: numeral_3_eq_3)



text \<open>
  A byte argument is read with the low 32 bits of its length as a signed number: up to
  2,147,483,647 bytes all of it is kept, a length whose low half is larger poisons the driver although
  it passed the check, and a length of 4 GiB or more is cut silently to its low half.
\<close>
theorem bytes_argument_length:
  assumes "pending a m s" and "unat len \<le> MaxInt"
    and "run_adbc R L (DatabaseSetOptionBytes (Some a) (Some k) (Some mem) len) s = (code, s')"
  shows "if unat len mod 2 ^ 32 < 2 ^ 31
    then code = StatusOK \<and> pending a (map_set k (bytes_opt (take (unat len mod 2 ^ 32) mem)) m) s'
    else code = StatusInternal \<and> globalPoison s'"
proof -
  have "\<not> len > word_of_nat MaxInt"
    using assms(2) by (simp add: word_less_nat_alt not_less MaxInt_def unsigned_of_nat take_bit_nat_eq_self)
  then have "checkLengthToInt R len e = (Inr (int (unat len)), e)" for e
    by (simp add: checkLengthToInt_def)
  moreover note GoBytes_length [of mem "unat len"]
  ultimately show ?thesis
    using assms(1,3) allocatedC_pending [OF assms(1)] keep_option_pending [OF assms(1)]
    by (auto simp: MariaDBDatabaseSetOptionBytes_def check_defs recovering_def lengthC_def goBytesC_def
        bindC_def returnC_def panicC_def GoString_def pending_def poison_def split: if_splits)
qed

theorem bytes_argument_length_witness:
  "fst (run_adbc sample_env sample_driver (DatabaseSetOptionBytes (Some 5) (Some ''k'') (Some ''abc'') 0x80000000) one_database)
     = StatusInternal"
proof -
  obtain code s' where r:
    "run_adbc sample_env sample_driver (DatabaseSetOptionBytes (Some 5) (Some ''k'') (Some ''abc'') 0x80000000) one_database = (code, s')"
    by fastforce
  from bytes_argument_length [OF one_database_pending _ r] have "code = StatusInternal"
    by (simp add: MaxInt_def)
  with r show ?thesis by (simp del: run_adbc.simps)
qed

text \<open>
  C27 (bounds). The entry point fills the table for the version it is asked for: for 1.0.0 it writes
  no member beyond the 1.0.0 struct, for 1.1.0 none beyond the 1.1.0 struct, every function member of
  the version points to the driver's function of that name and the manager's own members are
  cleared; for any other version nothing is written.
\<close>
theorem driver_table_filled:
  "(\<exists>t'. AdbcDriverMariadbInit R ADBC_VERSION_1_0_0 t err = (StatusOK, t', err) \<and>
      (\<forall>m \<in> set function_members. t' m = Some (''MariaDB'' @ m)) \<and>
      (\<forall>m \<in> set (take 3 driver_members_1_0_0). t' m = None) \<and>
      (\<forall>m. m \<notin> set driver_members_1_0_0 \<longrightarrow> t' m = t m)) \<and>
   (\<exists>t'. AdbcDriverMariadbInit R ADBC_VERSION_1_1_0 t err = (StatusOK, t', err) \<and>
      (\<forall>m \<in> set function_members \<union> set driver_members_1_1_0. t' m = Some (''MariaDB'' @ m)) \<and>
      (\<forall>m \<in> set (take 3 driver_members_1_0_0). t' m = None) \<and>
      (\<forall>m. m \<notin> set driver_members_1_0_0 \<longrightarrow> m \<notin> set driver_members_1_1_0 \<longrightarrow> t' m = t m)) \<and>
   (\<forall>v. v \<noteq> ADBC_VERSION_1_0_0 \<longrightarrow> v \<noteq> ADBC_VERSION_1_1_0 \<longrightarrow>
      (\<exists>err'. AdbcDriverMariadbInit R v t err = (StatusNotImplemented, t, err')))"
proof -
  have c: "map_of (rev common_assignments) m = Some (''MariaDB'' @ m)" if "m \<in> set function_members" for m
    using common_complete that by (auto simp: list_all_iff)
  have n: "map_of (rev assignments_1_1_0) m = Some (''MariaDB'' @ m)" if "m \<in> set driver_members_1_1_0" for m
    using new_complete that by (auto simp: list_all_iff)
  have o: "map_of (rev common_assignments) m = None \<and> m \<in> set driver_members_1_0_0"
    if "m \<in> set (take 3 driver_members_1_0_0)" for m
    using own_members_unset that by (auto simp: list_all_iff)
  show ?thesis
    using c n o common_None new_None function_members_subset
    by (auto simp: AdbcDriverMariadbInit_def assign_members_lookup zero_members_def ADBC_VERSION_1_0_0_def
        ADBC_VERSION_1_1_0_def)
qed

theorem driver_table_filled_witness:
  "AdbcDriverMariadbInit sample_env 7 Map.empty None = (StatusNotImplemented, Map.empty, None)"
  using driver_table_filled [of sample_env Map.empty None]
  by (simp add: AdbcDriverMariadbInit_def ADBC_VERSION_1_0_0_def ADBC_VERSION_1_1_0_def fmtErr_def)

text \<open>
  C25 (functional). When reading a stream fails, the array is marked released, the return value is the
  error number of the error's status and not success, and the error, its status and its message can
  then be fetched from the stream.
\<close>
theorem stream_error_reported:
  assumes "own_stream p s = Some h" and "handles s h = Some (ObjStream t)" and "arg_array s \<noteq> None"
    and "lib_next L (str_rdr t) (world s) = (Inr False, w1)" and "lib_reader_err L (str_rdr t) w1 = (Inr (Some e), w2)"
  shows "\<exists>status err s'. MariaDBArrayStreamGetNext R L p s = (Inr (stream_errno status), s') \<and>
    stream_errno status \<noteq> Success \<and> arg_array s' = Some None \<and>
    (status, Some err) = errToAdbcErr R (Some e) (Some ((case str_adbcErr t of None \<Rightarrow> zero_error
      | Some a \<Rightarrow> MariaDBerrRelease R a)\<lparr>ce_vendor_code := ADBC_ERROR_VENDOR_CODE_PRIVATE_DATA\<rparr>)) \<and>
    MariaDBErrorFromArrayStream p s' = (Inr (Some (Some err, status)), s') \<and>
    MariaDBArrayStreamGetLastError p s' = (Inr (ce_message err), s') \<and> ce_message err \<noteq> None"
proof -
  define a0 where "a0 = (case str_adbcErr t of None \<Rightarrow> zero_error
      | Some a \<Rightarrow> MariaDBerrRelease R a)\<lparr>ce_vendor_code := ADBC_ERROR_VENDOR_CODE_PRIVATE_DATA\<rparr>"
  obtain status aerr where st: "errToAdbcErr R (Some e) (Some a0) = (status, aerr)" by fastforce
  moreover have "\<exists>err. snd (errToAdbcErr R (Some e) (Some a0)) = Some err \<and> ce_message err \<noteq> None"
    by (auto simp: errToAdbcErr_def setErrWithDetails_def setErr_def set_message_def Let_def split: option.splits)
  ultimately obtain err where err: "aerr = Some err" "ce_message err \<noteq> None" by auto
  define s' where "s' = s\<lparr>world := w2, arg_array := Some None,
    handles := (handles s)(h \<mapsto> ObjStream (t\<lparr>str_adbcErr := Some err, str_status := status\<rparr>))\<rparr>"
  have next': "MariaDBArrayStreamGetNext R L p s = (Inr (stream_errno status), s')"
    using assms st err
    by (auto simp: MariaDBArrayStreamGetNext_def streamC_def bindC_def readC_def getFromHandle_def handle_Value_def
        handleFromPtr_def returnC_def libC_def write_array_def modifyC_def maybeError_def a0_def put_object_def
        store_object_def s'_def)
  have own: "own_stream p s' = Some h" "handles s' h = Some (ObjStream (t\<lparr>str_adbcErr := Some err, str_status := status\<rparr>))"
    using assms(1) by (auto simp: own_stream_def s'_def split: option.splits)
  then have "MariaDBErrorFromArrayStream p s' = (Inr (Some (Some err, status)), s')"
    "MariaDBArrayStreamGetLastError p s' = (Inr (ce_message err), s')"
    by (simp_all add: MariaDBErrorFromArrayStream_def MariaDBArrayStreamGetLastError_def streamC_def bindC_def readC_def
        getFromHandle_def handle_Value_def handleFromPtr_def returnC_def)
  moreover have "stream_errno status \<noteq> Success" by (cases status) auto
  moreover have "arg_array s' = Some None" by (simp add: s'_def)
  ultimately show ?thesis using next' st err unfolding a0_def by metis
qed

theorem stream_error_reported_witness:
  "\<exists>status err s'. MariaDBArrayStreamGetNext sample_env failing_driver (Some 3) (one_stream\<lparr>arg_array := Some None\<rparr>) =
      (Inr (stream_errno status), s') \<and> stream_errno status \<noteq> Success \<and> arg_array s' = Some None \<and>
    MariaDBErrorFromArrayStream (Some 3) s' = (Inr (Some (Some err, status)), s') \<and> ce_message err \<noteq> None"
proof -
  have "own_stream (Some 3) (one_stream\<lparr>arg_array := Some None\<rparr>) = Some 1"
    "handles (one_stream\<lparr>arg_array := Some None\<rparr>) 1 =
       Some (ObjStream \<lparr>str_rdr = 9, str_adbcErr = None, str_status = StatusOK\<rparr>)"
    by (simp_all add: own_stream_def one_stream_def)
  from stream_error_reported [OF this, of failing_driver 1 "Errorf ''lost'' []" 2 sample_env]
  show ?thesis
    by (fastforce simp: failing_driver_def sample_driver_def counting_def one_stream_def initial_shim_def)
qed

text \<open>
  C26 (safety). A reader handed to C as a stream is given back exactly once: handing it out leaves its
  reference count as the driver returned it, releasing the stream drops that one reference and the
  handle, and a second release does nothing.
\<close>
theorem reader_released_once:
  assumes "give_reader rdr (Some a) s = (Inr code, s1)"
  shows "\<exists>s2. MariaDBArrayStreamRelease (Some a) s1 = (Inr (), s2) \<and>
    refs s1 (Reader rdr) = refs s (Reader rdr) \<and> refs s2 (Reader rdr) = refs s (Reader rdr) - 1 \<and>
    handles s2 (priv s1 (StreamAt a)) = None \<and>
    MariaDBArrayStreamRelease (Some a) s2 = (Inr (), s2)"
  using give_reader_effect [OF assms] stream_release_effect [of a s1] by (simp add: stream_release_again)

theorem reader_released_once_witness:
  "\<exists>s2. MariaDBArrayStreamRelease (Some 3) one_stream = (Inr (), s2) \<and>
    refs one_stream (Reader 9) = refs (initial_shim (0::nat)) (Reader 9) \<and>
    refs s2 (Reader 9) = refs (initial_shim (0::nat)) (Reader 9) - 1 \<and>
    handles s2 (priv one_stream (StreamAt 3)) = None \<and>
    MariaDBArrayStreamRelease (Some 3) s2 = (Inr (), s2)"
  by (rule reader_released_once [OF one_stream_given])

end
