(* ===== verification/Sql_Loop.thy ===== *)
theory Sql_Loop
  imports Sql_Text "HOL-Library.While_Combinator"
begin

text \<open>
  The scanning loop of \<open>countPlaceholders\<close> as the source has it, \<open>for i := 0; i < len(query); i++\<close>,
  with \<open>while_option\<close>, which has no result for a loop that does not stop: the loop stops after at most
  one iteration for each byte, and its count is that of the recursive \<open>cp_loop\<close>.
\<close>

section \<open>The loop\<close>

definition cp_cond :: "string \<Rightarrow> nat \<times> cp_state \<times> nat \<Rightarrow> bool" where
  "cp_cond query = (\<lambda>(i, state, count). i < length query)"

definition cp_body :: "string \<Rightarrow> nat \<times> cp_state \<times> nat \<Rightarrow> nat \<times> cp_state \<times> nat" where
  "cp_body query = (\<lambda>(i, state, count).
     case cp_step query i state count of (i', state', count') \<Rightarrow> (i' + 1, state', count'))"

section \<open>Lemmas\<close>

lemma cp_body_progress: "fst s < fst (cp_body query s)"
proof -
  obtain i state count where s: "s = (i, state, count)" by (cases s)
  show ?thesis
    using cp_step_mono [of i query state count] by (simp add: s cp_body_def split_beta)
qed

lemma cp_body_steps: "k + fst s \<le> fst ((cp_body query ^^ k) s)"
proof (induction k)
  case (Suc k)
  then show ?case using cp_body_progress [of "(cp_body query ^^ k) s" query] by simp
qed simp

lemma cp_loop_body:
  "cp_loop query i state count =
     (if cp_cond query (i, state, count)
      then (case cp_body query (i, state, count) of (i', state', count') \<Rightarrow> cp_loop query i' state' count')
      else count)"
  by (subst cp_loop.simps) (simp add: cp_cond_def cp_body_def split: prod.splits)

text \<open>The count that is left to do does not change in an iteration.\<close>

lemma cp_loop_steps:
  assumes "\<forall>j < k. cp_cond query ((cp_body query ^^ j) s)"
  shows "case (cp_body query ^^ k) s of (i, state, count) \<Rightarrow>
    cp_loop query i state count = (case s of (i, state, count) \<Rightarrow> cp_loop query i state count)"
  using assms
proof (induction k)
  case (Suc k)
  obtain i state count where k: "(cp_body query ^^ k) s = (i, state, count)" by (cases "(cp_body query ^^ k) s")
  have "cp_cond query (i, state, count)" using Suc.prems k by (metis lessI)
  then show ?case using Suc k cp_loop_body [of query i state count] by (auto split: prod.splits)
qed (simp split: prod.splits)

lemma cp_while_stops: "\<exists>t. while_option (cp_cond query) (cp_body query) s = Some t"
proof (rule measure_while_option_Some [where P = "\<lambda>_. True" and f = "\<lambda>s. length query - fst s"])
  show "True \<and> length query - fst (cp_body query t) < length query - fst t" if "cp_cond query t" for t
    using that cp_body_progress [of t query] by (auto simp: cp_cond_def split: prod.splits)
qed simp

text \<open>The number of iterations after which a loop stopped.\<close>

lemma while_option_steps:
  assumes "while_option b c s = Some t"
  obtains k where "t = (c ^^ k) s" and "\<forall>j < k. b ((c ^^ j) s)" and "\<not> b t"
proof
  let ?k = "LEAST k. \<not> b ((c ^^ k) s)"
  show "t = (c ^^ ?k) s" using assms by (auto simp: while_option_def split: if_splits)
  show "\<forall>j < ?k. b ((c ^^ j) s)" using not_less_Least by blast
  show "\<not> b t" using while_option_stop [OF assms] .
qed

section \<open>Properties\<close>

text \<open>
  C4 (termination). For every text, also with unclosed quotes and comments, the scanning loop stops
  after at most as many iterations as the text has bytes, and the count it stops with is the result
  of \<open>countPlaceholders\<close>.
\<close>
theorem countPlaceholders_terminates:
  "\<exists>i state k. while_option (cp_cond query) (cp_body query) (0, plain, 0) = Some (i, state, countPlaceholders query) \<and>
     (cp_body query ^^ k) (0, plain, 0) = (i, state, countPlaceholders query) \<and> k \<le> length query"
proof -
  let ?s = "(0, plain, 0) :: nat \<times> cp_state \<times> nat"
  obtain i state count where w: "while_option (cp_cond query) (cp_body query) ?s = Some (i, state, count)"
    using cp_while_stops [of query ?s] by auto
  then obtain k where k: "(i, state, count) = (cp_body query ^^ k) ?s"
    "\<forall>j < k. cp_cond query ((cp_body query ^^ j) ?s)" "\<not> cp_cond query (i, state, count)"
    using while_option_steps [OF w] by metis
  have "cp_loop query i state count = cp_loop query 0 plain 0"
    using cp_loop_steps [OF k(2)] unfolding k(1) [symmetric] by simp
  then have "count = countPlaceholders query"
    using k(3) cp_loop_body [of query i state count] by (simp add: countPlaceholders_def)
  moreover have "k \<le> length query"
  proof (cases k)
    case (Suc j)
    then have "cp_cond query ((cp_body query ^^ j) ?s)" using k(2) by simp
    then show ?thesis using Suc cp_body_steps [of j ?s query] by (auto simp: cp_cond_def split: prod.splits)
  qed simp
  ultimately show ?thesis using w k(1) by metis
qed

end
