(* ===== verification/C_Isolation.thy ===== *)
theory C_Isolation
  imports C_Handles
begin

text \<open>
  Objects do not interfere: a call or stream callback leaves alone every struct it is not given, and
  the object behind it. The contract of \<open>C_Invariant\<close> is interpreted once more, for the structs other
  than a given one.
\<close>

section \<open>One struct and its object\<close>

definition isolated_panicked :: "slot \<Rightarrow> nat \<Rightarrow> cobj option \<Rightarrow> 'w shim \<Rightarrow> bool" where
  "isolated_panicked sl h obj s \<longleftrightarrow> wf_panicked s \<and> priv s sl = h \<and> handles s h = obj"

definition isolated :: "slot \<Rightarrow> nat \<Rightarrow> cobj option \<Rightarrow> 'w shim \<Rightarrow> bool" where
  "isolated sl h obj s \<longleftrightarrow> wf_ahead s \<and> priv s sl = h \<and> handles s h = obj"

lemma isolated_core:
  "core s' = core s \<Longrightarrow> isolated sl h obj s' = isolated sl h obj s"
  "core s' = core s \<Longrightarrow> isolated_panicked sl h obj s' = isolated_panicked sl h obj s"
  using wf_ahead_core [of s' s] wf_panicked_core [of s' s]
  by (simp_all add: isolated_def isolated_panicked_def core_def)

lemma other_handle:
  "wf_panicked s \<Longrightarrow> sl' \<noteq> sl \<Longrightarrow> priv s sl' \<noteq> 0 \<Longrightarrow> priv s sl' \<noteq> priv s sl"
  unfolding wf_panicked_def wf_structs_def by blast

lemma store_object_other: "x \<noteq> h \<Longrightarrow> store_object x obj t h = t h"
  by (auto simp: store_object_def split: option.splits)

lemma fresh_other:
  assumes "wf_ahead s" and "h = (handleIdx s + 1) mod 2 ^ 64" and "h \<noteq> 0"
  shows "h \<noteq> priv s sl"
proof
  assume h: "h = priv s sl"
  then have "handles s h \<noteq> None"
    using structs.lookup [of s sl] assms(1,3) by (auto simp: wf_ahead_def)
  moreover have "handles s h = None"
    using fresh_handle [of s h] assms by (auto simp: wf_ahead_def)
  ultimately show False by simp
qed

interpretation isolated: shim_invariant "isolated sl h obj" "isolated_panicked sl h obj"
    "\<lambda>p. \<not> handle_misuse p" "- {sl}" "\<lambda>x. x \<noteq> h" for sl h obj
proof unfold_locales
  show "isolated sl h obj s'" if "isolated sl h obj s" "core s' = core s" for s s' :: "'w shim"
    using that isolated_core(1) by blast
  show "isolated_panicked sl h obj s'" if "isolated_panicked sl h obj s" "core s' = core s" for s s' :: "'w shim"
    using that isolated_core(2) by blast
  show "\<exists>ob. handles s (priv s sl') = Some ob \<and> obj_kind ob = slot_kind sl'"
    if "isolated sl h obj s" "priv s sl' \<noteq> 0" for s :: "'w shim" and sl'
    using that tbl.lookup [of s sl'] by (simp add: isolated_def)
  show "priv s sl' \<noteq> h" if "isolated sl h obj s" "sl' \<in> - {sl}" "priv s sl' \<noteq> 0" for s :: "'w shim" and sl'
    using that other_handle [of s sl' sl] by (auto simp: isolated_def wf_ahead_def)
  show "isolated sl h obj (s\<lparr>handles := store_object x ob (handles s)\<rparr>)"
    if "isolated sl h obj s" "x \<noteq> h" for s :: "'w shim" and x ob
    using that tbl.store [of s x ob] by (simp add: isolated_def store_object_other)
  show "isolated sl h obj (s\<lparr>priv := (priv s)(sl' := 0), handles := (handles s)(priv s sl' := None)\<rparr>)"
    if "isolated sl h obj s" "sl' \<in> - {sl}" "priv s sl' \<noteq> 0" for s :: "'w shim" and sl'
    using that tbl.delete [of s sl'] other_handle [of s sl' sl] by (auto simp: isolated_def wf_ahead_def)
  show "isolated sl h obj (s\<lparr>handleIdx := x, handles := (handles s)(x \<mapsto> ob), priv := (priv s)(sl' := x)\<rparr>)"
    if "isolated sl h obj s" "sl' \<in> - {sl}" "slot_kind sl' = obj_kind ob" "x = (handleIdx s + 1) mod 2 ^ 64" "x \<noteq> 0"
    for s :: "'w shim" and sl' ob x
    using that tbl.fresh [of s sl' ob x] fresh_other [of s x sl] by (auto simp: isolated_def)
  show "isolated_panicked sl h obj (s\<lparr>handleIdx := 0\<rparr>)" if "isolated sl h obj s" for s :: "'w shim"
    using that tbl.wrapped [of s] by (simp add: isolated_def isolated_panicked_def)
  show "isolated_panicked sl h obj (s\<lparr>globalPoison := True, panics := panics s @ [p]\<rparr>)"
    if "isolated_panicked sl h obj s" "\<not> handle_misuse p" for s :: "'w shim" and p
    using that tbl.poisoned [of s p] by (simp add: isolated_panicked_def)
qed (simp_all add: isolated_def isolated_panicked_def wf_ahead_def handle_misuse_def)

text \<open>Streams can still be read after a panic, when only the weaker condition is left.\<close>

interpretation isolated_structs: shim_objects "isolated_panicked sl h obj" "isolated_panicked sl h obj"
    "\<lambda>p. \<not> handle_misuse p" "- {sl}" "\<lambda>x. x \<noteq> h" for sl h obj
proof unfold_locales
  show "isolated_panicked sl h obj s'" if "isolated_panicked sl h obj s" "core s' = core s" for s s' :: "'w shim"
    using that isolated_core(2) by blast
  show "\<exists>ob. handles s (priv s sl') = Some ob \<and> obj_kind ob = slot_kind sl'"
    if "isolated_panicked sl h obj s" "priv s sl' \<noteq> 0" for s :: "'w shim" and sl'
    using that structs.lookup [of s sl'] by (simp add: isolated_panicked_def)
  show "priv s sl' \<noteq> h" if "isolated_panicked sl h obj s" "sl' \<in> - {sl}" "priv s sl' \<noteq> 0" for s :: "'w shim" and sl'
    using that other_handle [of s sl' sl] by (auto simp: isolated_panicked_def)
  show "isolated_panicked sl h obj (s\<lparr>handles := store_object x ob (handles s)\<rparr>)"
    if "isolated_panicked sl h obj s" "x \<noteq> h" for s :: "'w shim" and x ob
    using that structs.store [of s x ob] by (simp add: isolated_panicked_def store_object_other)
  show "isolated_panicked sl h obj (s\<lparr>priv := (priv s)(sl' := 0), handles := (handles s)(priv s sl' := None)\<rparr>)"
    if "isolated_panicked sl h obj s" "sl' \<in> - {sl}" "priv s sl' \<noteq> 0" for s :: "'w shim" and sl'
    using that structs.delete [of s sl'] other_handle [of s sl' sl] by (auto simp: isolated_panicked_def)
qed (simp_all add: handle_misuse_def)

section \<open>Calls and callbacks\<close>

fun named_stream :: "callback \<Rightarrow> slot set" where
  "named_stream (StreamGetNext p) = ptr StreamAt p"
| "named_stream (StreamGetSchema p) = ptr StreamAt p"
| "named_stream (StreamGetLastError p) = ptr StreamAt p"
| "named_stream (StreamError p) = ptr StreamAt p"
| "named_stream (StreamRelease p) = ptr StreamAt p"

lemma isolated_callback:
  "isolated_panicked sl h obj s \<Longrightarrow> named_stream cb \<subseteq> - {sl} \<Longrightarrow>
     isolated_structs.good sl h obj (run_callback R L cb s)"
  by (cases cb) (auto intro!: isolated_structs.good_bind isolated_structs.good_callbacks isolated_structs.good_trampolines
      isolated_structs.good_stream_release simp: returnC_def isolated_structs.passed_def ptr_def)

lemma isolated_start: "tbl.holds s \<Longrightarrow> isolated.holds sl (priv s sl) (handles s (priv s sl)) s"
  by (auto simp: tbl.holds_def isolated.holds_def isolated_def isolated_panicked_def)

lemma isolated_kept: "isolated.holds sl h obj s \<Longrightarrow> priv s sl = h \<and> handles s h = obj"
  by (auto simp: isolated.holds_def isolated_def isolated_panicked_def)

section \<open>Properties\<close>

text \<open>
  C7 (safety). In every reachable state, a call changes neither a struct it is not given nor the
  object behind that struct, whatever the driver below does and even when the call panics; the
  callbacks of a stream change no other struct and no other object.
\<close>
theorem objects_isolated:
  assumes "reachable R L w s"
  shows "(sl \<notin> named_structs c \<longrightarrow>
      priv (snd (run_adbc R L c s)) sl = priv s sl \<and>
      handles (snd (run_adbc R L c s)) (priv s sl) = handles s (priv s sl)) \<and>
    (\<forall>cb u s'. run_callback R L cb s = (Inr u, s') \<longrightarrow> sl \<notin> named_stream cb \<longrightarrow>
      priv s' sl = priv s sl \<and> handles s' (priv s sl) = handles s (priv s sl))"
proof (intro conjI impI allI)
  have s: "tbl.holds s" using assms by (rule reachable_holds)
  show "priv (snd (run_adbc R L c s)) sl = priv s sl"
    "handles (snd (run_adbc R L c s)) (priv s sl) = handles s (priv s sl)" if "sl \<notin> named_structs c"
    using isolated_kept [OF isolated.holds_call [OF isolated_start [OF s]]] that by simp_all
  show "priv s' sl = priv s sl" "handles s' (priv s sl) = handles s (priv s sl)"
    if "run_callback R L cb s = (Inr u, s')" "sl \<notin> named_stream cb" for cb u s'
    using isolated_callback [of sl "priv s sl" "handles s (priv s sl)" s cb R L] holds_panicked [OF s] that
    by (simp_all add: isolated_panicked_def)
qed

theorem objects_isolated_witness:
  "handles (snd (run_adbc sample_env sample_driver (ConnectionNew (Some 5)) one_database)) 1 =
     Some (ObjDatabase \<lparr>cdb_opts = [], cdb_db = None\<rparr>)"
  using objects_isolated [OF one_database_reachable, of "DatabaseAt 5" "ConnectionNew (Some 5)"]
  by (simp add: one_database_state ptr_def)

end
