(* ===== verification/C_Forward.thy ===== *)
theory C_Forward
  imports C_Handles Statement
begin

text \<open>
  The C interface on top of the driver's own statements (\<open>Statement\<close>). Between the two is the
  \<open>driverbase\<close> library, which hands the calls of a statement on to its implementation: the locale
  \<open>statement_forwards\<close> says so of the parameter \<open>driverlib\<close>, and is interpreted on the driver made of
  the development's own operations.
\<close>

section \<open>The contract\<close>

text \<open>
  \<open>stmts\<close> reads the statements off the state below: a new context does not touch them, and each call
  has the reply and the effect of the operation of that name.
\<close>

locale statement_forwards =
  fixes L :: "'w driverlib" and B :: base_object and stmts :: "'w \<Rightarrow> nat \<Rightarrow> mariadbStatement"
  assumes new_context: "\<exists>ctx w'. lib_new_context L owner w = (Inr ctx, w') \<and> stmts w' = stmts w"
    and set_query: "\<exists>w'. lib_err L (LStmtSetSqlQuery d ctx q) w = (Inr (fst (SetSqlQuery B q (stmts w d))), w') \<and>
      stmts w' = (stmts w)(d := snd (SetSqlQuery B q (stmts w d)))"
    and prepare: "\<exists>w'. lib_err L (LStmtPrepare d ctx) w = (Inr (fst (Prepare B (stmts w d))), w') \<and>
      stmts w' = (stmts w)(d := snd (Prepare B (stmts w d)))"
    and set_option: "\<exists>w'. lib_err L (LSetOption (OnStatement d) ctx k v) w =
        (Inr (fst (st_SetOption B (stmts w d) k v)), w') \<and>
      stmts w' = (stmts w)(d := snd (st_SetOption B (stmts w d) k v))"
    and parameter_schema: "\<exists>w'. lib_schema L (LGetParameterSchema d ctx) w = (Inr (GetParameterSchema (stmts w d)), w') \<and>
      stmts w' = stmts w"

text \<open>The struct at \<open>a\<close> is an initialised statement, number \<open>d\<close> of the driver below.\<close>

definition at_statement :: "nat \<Rightarrow> nat \<Rightarrow> 'w shim \<Rightarrow> bool" where
  "at_statement a d s \<longleftrightarrow> \<not> globalPoison s \<and> priv s (StatementAt a) \<noteq> 0 \<and>
     handles s (priv s (StatementAt a)) = Some (ObjStmt \<lparr>stmt_stmt = Some d\<rparr>)"

fun c_call :: "nat \<Rightarrow> stmt_call \<Rightarrow> adbc_call" where
  "c_call a (CallSetSqlQuery q) = StatementSetSqlQuery (Some a) (Some q)"
| "c_call a CallPrepare = StatementPrepare (Some a)"
| "c_call a (CallSetOption k v) = StatementSetOption (Some a) (Some k) (Some v)"
| "c_call a (CallGetOption k) = StatementGetOption (Some a) (Some k)"

fun run_calls :: "cgo_env \<Rightarrow> 'w driverlib \<Rightarrow> adbc_call list \<Rightarrow> 'w shim \<Rightarrow> 'w shim" where
  "run_calls R L [] s = s"
| "run_calls R L (c # cs) s = run_calls R L cs (snd (run_adbc R L c s))"

lemma run_calls_append: "run_calls R L (cs @ ds) s = run_calls R L ds (run_calls R L cs s)"
  by (induction cs arbitrary: s) auto

text \<open>What a call leaves as it was.\<close>

definition same_objects :: "'w shim \<Rightarrow> 'w shim \<Rightarrow> bool" where
  "same_objects s s' \<longleftrightarrow> globalPoison s' = globalPoison s \<and> priv s' = priv s \<and> handles s' = handles s \<and>
     arg_schema s' = arg_schema s"

lemma same_objects_at: "same_objects s s' \<Longrightarrow> at_statement a d s' \<longleftrightarrow> at_statement a d s"
  by (simp add: same_objects_def at_statement_def)

text \<open>A check on an initialised statement succeeds.\<close>

lemma checkStmt_ok:
  assumes "at_statement a d s"
  shows "withC (check_init R (check_alloc R what StatementAt fname (Some a)) StatementAt as_stmt stmt_stmt n missing
      (Some a)) k s = k (priv s (StatementAt a)) \<lparr>stmt_stmt = Some d\<rparr> d s"
  using assms
  by (simp add: at_statement_def withC_def check_init_def check_alloc_def bindC_def readC_def returnC_def
      getFromHandle_def handle_Value_def handleFromPtr_def)

lemma recovering_same: "body s = body' s \<Longrightarrow> recovering R n body s = recovering R n body' s"
  by (simp add: recovering_def)

lemma recovering_stmt:
  "at_statement a d s \<Longrightarrow>
     recovering R n (withC (check_init R (check_alloc R what StatementAt fname (Some a)) StatementAt as_stmt stmt_stmt
       fname' missing (Some a)) k) s =
     recovering R n (k (priv s (StatementAt a)) \<lparr>stmt_stmt = Some d\<rparr> d) s"
  by (rule recovering_same) (rule checkStmt_ok)

context statement_forwards
begin

lemma err_call:
  assumes "at_statement a d s"
    and forward: "\<And>ctx w. \<exists>w'. lib_err L (call d ctx) w = (Inr (fst (op (stmts w d))), w') \<and>
      stmts w' = (stmts w)(d := snd (op (stmts w d)))"
  shows "\<exists>s'. recovering R n (withC (check_init R (check_alloc R what StatementAt fname (Some a)) StatementAt as_stmt
      stmt_stmt fname' missing (Some a)) (\<lambda>h st d. in_context L (MainContext h) (\<lambda>ctx. onlyErr R L (call d ctx)))) s =
      (fst (errToAdbcErr R (fst (op (stmts (world s) d))) (arg_err s)), s') \<and>
    same_objects s s' \<and> stmts (world s') = (stmts (world s))(d := snd (op (stmts (world s) d)))"
proof -
  obtain ctx w1 where 1: "lib_new_context L (MainContext (priv s (StatementAt a))) (world s) = (Inr ctx, w1)"
    "stmts w1 = stmts (world s)"
    using new_context by blast
  obtain w2 where 2: "lib_err L (call d ctx) w1 = (Inr (fst (op (stmts w1 d))), w2)"
    "stmts w2 = (stmts w1)(d := snd (op (stmts w1 d)))"
    using forward by blast
  obtain code err where e: "errToAdbcErr R (fst (op (stmts (world s) d))) (arg_err s) = (code, err)" by fastforce
  show ?thesis
    unfolding recovering_stmt [OF assms(1)]
    using 1 2 e
    by (simp add: recovering_def in_context_def onlyErr_def bindC_def libC_def errToAdbcErrC_def same_objects_def)
qed

lemma call_refines:
  assumes "at_statement a d s" and "\<And>k. c \<noteq> CallGetOption k"
  shows "\<exists>st. stmt_step B (stmts (world s) d) c st \<and> same_objects s (snd (run_adbc R L (c_call a c) s)) \<and>
    stmts (world (snd (run_adbc R L (c_call a c) s))) = (stmts (world s))(d := st)"
proof (cases c)
  case (CallSetSqlQuery q)
  obtain s' where "snd (run_adbc R L (c_call a c) s) = s'" "same_objects s s'"
    "stmts (world s') = (stmts (world s))(d := snd (SetSqlQuery B q (stmts (world s) d)))"
    using err_call [where call = "\<lambda>d ctx. LStmtSetSqlQuery d ctx q" and op = "SetSqlQuery B q", OF assms(1) set_query]
    by (simp add: CallSetSqlQuery MariaDBStatementSetSqlQuery_def check_defs GoString_def) (metis snd_conv)
  then show ?thesis using CallSetSqlQuery by auto
next
  case CallPrepare
  obtain s' where "snd (run_adbc R L (c_call a c) s) = s'" "same_objects s s'"
    "stmts (world s') = (stmts (world s))(d := snd (Prepare B (stmts (world s) d)))"
    using err_call [where call = LStmtPrepare and op = "Prepare B", OF assms(1) prepare]
    by (simp add: CallPrepare MariaDBStatementPrepare_def check_defs) (metis snd_conv)
  then show ?thesis using CallPrepare by auto
next
  case (CallSetOption k v)
  obtain s' where "snd (run_adbc R L (c_call a c) s) = s'" "same_objects s s'"
    "stmts (world s') = (stmts (world s))(d := snd (st_SetOption B (stmts (world s) d) k v))"
    using err_call [where call = "\<lambda>d ctx. LSetOption (OnStatement d) ctx k v" and op = "\<lambda>t. st_SetOption B t k v",
        OF assms(1) set_option]
    by (simp add: CallSetOption MariaDBStatementSetOption_def check_defs GoString_def) (metis snd_conv)
  then show ?thesis using CallSetOption by auto
qed (use assms(2) in simp)

text \<open>Hence a sequence of calls through C is a run of the statement, and touches nothing else.\<close>

lemma calls_refine:
  assumes "at_statement a d s" and "\<And>k. CallGetOption k \<notin> set calls"
  shows "stmt_run B (stmts (world s) d) calls (stmts (world (run_calls R L (map (c_call a) calls) s)) d) \<and>
    same_objects s (run_calls R L (map (c_call a) calls) s) \<and>
    (\<forall>d'. d' \<noteq> d \<longrightarrow> stmts (world (run_calls R L (map (c_call a) calls) s)) d' = stmts (world s) d')"
  using assms(2)
proof (induction calls rule: rev_induct)
  case Nil
  then show ?case by (simp add: run_nil same_objects_def)
next
  case (snoc c calls)
  define s1 where "s1 = run_calls R L (map (c_call a) calls) s"
  have IH: "stmt_run B (stmts (world s) d) calls (stmts (world s1) d)" "same_objects s s1"
    "\<forall>d'. d' \<noteq> d \<longrightarrow> stmts (world s1) d' = stmts (world s) d'"
    using snoc by (auto simp: s1_def)
  then have "at_statement a d s1" using assms(1) same_objects_at by blast
  moreover have "\<And>k. c \<noteq> CallGetOption k" using snoc.prems by auto
  ultimately obtain st where st: "stmt_step B (stmts (world s1) d) c st"
    "same_objects s1 (snd (run_adbc R L (c_call a c) s1))"
    "stmts (world (snd (run_adbc R L (c_call a c) s1))) = (stmts (world s1))(d := st)"
    using call_refines by blast
  have "same_objects s (snd (run_adbc R L (c_call a c) s1))"
    using IH(2) st(2) by (simp add: same_objects_def)
  then show ?case
    using IH(3) st(3) run_snoc [OF IH(1) st(1)] by (simp add: run_calls_append s1_def [symmetric])
qed

lemma schema_call:
  assumes "at_statement a d s" and "arg_schema s = Some out"
  shows "\<exists>s'. run_adbc R L (StatementGetParameterSchema (Some a)) s =
      (case GetParameterSchema (stmts (world s) d) of
         Inr sc \<Rightarrow> (StatusOK, s') | Inl e \<Rightarrow> (fst (errToAdbcErr R (Some e) (arg_err s)), s')) \<and>
    (case GetParameterSchema (stmts (world s) d) of
       Inr sc \<Rightarrow> arg_schema s' = Some (Some sc) \<and> arg_err s' = arg_err s
     | Inl e \<Rightarrow> arg_schema s' = Some out \<and> arg_err s' = snd (errToAdbcErr R (Some e) (arg_err s)))"
proof -
  obtain ctx w1 where 1: "lib_new_context L (MainContext (priv s (StatementAt a))) (world s) = (Inr ctx, w1)"
    "stmts w1 = stmts (world s)"
    using new_context by blast
  obtain w2 where 2: "lib_schema L (LGetParameterSchema d ctx) w1 = (Inr (GetParameterSchema (stmts w1 d)), w2)"
    using parameter_schema by blast
  show ?thesis
    unfolding run_adbc.simps MariaDBStatementGetParameterSchema_def check_defs recovering_stmt [OF assms(1)]
    using 1 2 assms(2)
    by (simp add: recovering_def in_context_def schemaC_def orErr_def bindC_def libC_def errToAdbcErrC_def
        write_schema_def readC_def modifyC_def returnC_def split: sum.splits prod.splits)
qed

end

section \<open>The driver's own statements\<close>

record stmt_world =
  sw_stmts :: "nat \<Rightarrow> mariadbStatement"
  sw_contexts :: nat

fun forward_err :: "base_object \<Rightarrow> err_call \<Rightarrow> stmt_world \<Rightarrow> (string + go_error option) \<times> stmt_world" where
  "forward_err B (LStmtSetSqlQuery d ctx q) w =
     (let (e, t) = SetSqlQuery B q (sw_stmts w d) in (Inr e, w\<lparr>sw_stmts := (sw_stmts w)(d := t)\<rparr>))"
| "forward_err B (LStmtPrepare d ctx) w =
     (let (e, t) = Prepare B (sw_stmts w d) in (Inr e, w\<lparr>sw_stmts := (sw_stmts w)(d := t)\<rparr>))"
| "forward_err B (LSetOption (OnStatement d) ctx k v) w =
     (let (e, t) = st_SetOption B (sw_stmts w d) k v in (Inr e, w\<lparr>sw_stmts := (sw_stmts w)(d := t)\<rparr>))"
| "forward_err B _ w = (Inr None, w)"

fun forward_schema :: "sch_call \<Rightarrow> stmt_world \<Rightarrow> (string + (go_error + field list)) \<times> stmt_world" where
  "forward_schema (LGetParameterSchema d ctx) w = (Inr (GetParameterSchema (sw_stmts w d)), w)"
| "forward_schema _ w = (Inr (Inr []), w)"

fun forward_str :: "base_object \<Rightarrow> str_call \<Rightarrow> stmt_world \<Rightarrow> (string + (go_error + string)) \<times> stmt_world" where
  "forward_str B (LGetOption (OnStatement d) ctx k) w =
     (let (r, t) = st_GetOption B (sw_stmts w d) k in (Inr r, w\<lparr>sw_stmts := (sw_stmts w)(d := t)\<rparr>))"
| "forward_str B _ w = (Inr (Inr []), w)"

definition forwarding_driver :: "base_object \<Rightarrow> stmt_world driverlib" where
  "forwarding_driver B =
     \<lparr>lib_new_context = (\<lambda>o' w. (Inr (sw_contexts w), w\<lparr>sw_contexts := sw_contexts w + 1\<rparr>)),
      lib_cancel_context = (\<lambda>o' w. (Inr False, w)), lib_finish_context = (\<lambda>o' c w. (Inr (), w)),
      lib_err = forward_err B, lib_str = forward_str B, lib_num = (\<lambda>c w. (Inr (0, None), w)),
      lib_obj = (\<lambda>c w. (Inr (Inr 0), w)), lib_rdr = (\<lambda>c w. (Inr (Inr (0, 0)), w)),
      lib_update = (\<lambda>d c w. (Inr (Inr 0), w)), lib_schema = forward_schema,
      lib_partitions = (\<lambda>d c w. (Inr (Inr (None, \<lparr>NumPartitions = 0, PartitionIDs = []\<rparr>, 0)), w)),
      lib_import_batch = (\<lambda>v c w. (Inr (Inr 0), w)), lib_import_reader = (\<lambda>v w. (Inr (Inr 0), w)),
      lib_release_array = (\<lambda>v w. (Inr (), w)), lib_next = (\<lambda>r w. (Inr False, w)), lib_record = (\<lambda>r w. (Inr 0, w)),
      lib_reader_err = (\<lambda>r w. (Inr None, w)), lib_reader_schema = (\<lambda>r w. (Inr None, w)),
      lib_implements = (\<lambda>i t. True)\<rparr>"

interpretation forwarding: statement_forwards "forwarding_driver B" B sw_stmts for B
  by unfold_locales (simp_all add: forwarding_driver_def split: prod.splits)

text \<open>A process with one new statement, at address 4, and an error and a schema to be filled.\<close>

definition one_statement :: "stmt_world shim" where
  "one_statement = (initial_shim \<lparr>sw_stmts = (\<lambda>_. CreateStatement new_connection []), sw_contexts = 0\<rparr>)
     \<lparr>handleIdx := 1, priv := (\<lambda>_. 0)(StatementAt 4 := 1),
      handles := [1 \<mapsto> ObjStmt \<lparr>stmt_stmt = Some 7\<rparr>], arg_schema := Some None\<rparr>"

lemma one_statement_ready:
  "at_statement 4 7 one_statement" "sw_stmts (world one_statement) 7 = CreateStatement new_connection []"
  "arg_schema one_statement = Some None"
  by (simp_all add: one_statement_def at_statement_def initial_shim_def)

lemma stmt_run_simps:
  "stmt_run B s [] s' \<longleftrightarrow> s' = s"
  "stmt_run B s (cs @ [c]) s'' \<longleftrightarrow> (\<exists>s'. stmt_run B s cs s' \<and> stmt_step B s' c s'')"
proof -
  show "stmt_run B s [] s' \<longleftrightarrow> s' = s" by (subst stmt_run.simps) auto
  show "stmt_run B s (cs @ [c]) s'' \<longleftrightarrow> (\<exists>s'. stmt_run B s cs s' \<and> stmt_step B s' c s'')"
    by (subst stmt_run.simps) blast
qed

section \<open>Properties\<close>

text \<open>
  C8 (refinement). When the library hands the calls of a statement on to the driver's statement, any
  sequence of query, prepare and option calls that a C client makes on a new statement is a run of
  that statement's operations, and the parameter schema it then asks for is written with one field
  for each placeholder of the prepared query; if the last accepted query is not prepared, the
  statement's error is reported instead and no schema is written.
\<close>
theorem parameters_through_C:
  assumes "statement_forwards L B stmts" and "at_statement a d s"
    and "stmts (world s) d = CreateStatement c []" and "valid_zdb (conn_zdb c)"
    and "\<forall>k. CallGetOption k \<notin> set calls" and "arg_schema s = Some out"
    and "run_calls R L (map (c_call a) calls) s = s1"
    and "run_adbc R L (StatementGetParameterSchema (Some a)) s1 = (code, s2)"
  shows "\<exists>st. stmt_run B (CreateStatement c []) calls st \<and>
    (case base_state B [] ([], False) (st_trace st) of (q, prep) \<Rightarrow>
       if prep
       then code = StatusOK \<and> arg_schema s2 = Some (Some (replicate (countPlaceholders q) parameter_field))
       else arg_schema s2 = Some out \<and> (code, arg_err s2) = errToAdbcErr R
         (Some (Helper InvalidState ''statement must be prepared before getting parameter schema'' [])) (arg_err s1))"
proof -
  let ?st = "stmts (world s1) d"
  have run: "stmt_run B (CreateStatement c []) calls ?st" and same: "same_objects s s1"
    using statement_forwards.calls_refine [OF assms(1,2), of calls R] assms(3,5,7) by auto
  then have "stmt_inv B ?st" using stmt_run_inv CreateStatement_inv [OF assms(4)] by blast
  then have st: "base_state B [] ([], False) (st_trace ?st) = (query ?st, prepared ?st)"
    by (simp add: stmt_inv_def)
  have "at_statement a d s1" "arg_schema s1 = Some out"
    using same_objects_at [OF same] same assms(2,6) by (simp_all add: same_objects_def)
  from statement_forwards.schema_call [OF assms(1) this, of R]
  show ?thesis
    using run st assms(8) by (intro exI [of _ ?st]) (auto simp: GetParameterSchema_def split: if_splits)
qed

theorem parameters_through_C_witness:
  "\<exists>s2. run_adbc sample_env (forwarding_driver sample_base) (StatementGetParameterSchema (Some 4))
      (run_calls sample_env (forwarding_driver sample_base)
        [StatementSetSqlQuery (Some 4) (Some ''SELECT ?, `?` -- ?''), StatementPrepare (Some 4)] one_statement) =
      (StatusOK, s2) \<and>
    arg_schema s2 = Some (Some (replicate (countPlaceholders ''SELECT ?, `?` -- ?'') parameter_field))"
proof -
  let ?calls = "([] @ [CallSetSqlQuery ''SELECT ?, `?` -- ?'']) @ [CallPrepare]"
  define s1 where "s1 = run_calls sample_env (forwarding_driver sample_base) (map (c_call 4) ?calls) one_statement"
  obtain code s2 where r: "run_adbc sample_env (forwarding_driver sample_base) (StatementGetParameterSchema (Some 4)) s1
      = (code, s2)" by fastforce
  have no: "\<forall>k. CallGetOption k \<notin> set ?calls" by simp
  have v: "valid_zdb (conn_zdb new_connection)" by (simp add: new_connection_def valid_zdb_def)
  obtain st where st: "stmt_run sample_base (CreateStatement new_connection []) ?calls st"
    and "case base_state sample_base [] ([], False) (st_trace st) of (q, prep) \<Rightarrow>
      if prep then code = StatusOK \<and> arg_schema s2 = Some (Some (replicate (countPlaceholders q) parameter_field))
      else arg_schema s2 = Some None \<and> (code, arg_err s2) = errToAdbcErr sample_env
        (Some (Helper InvalidState ''statement must be prepared before getting parameter schema'' [])) (arg_err s1)"
    using parameters_through_C [OF forwarding.statement_forwards_axioms one_statement_ready(1,2) v no one_statement_ready(3)
        s1_def [symmetric] r] by (elim exE conjE) (rule that)
  moreover have "st_trace st = [ObjSetSqlQuery ''SELECT ?, `?` -- ?'', ObjPrepare]"
    using st unfolding stmt_run_simps
    by (auto simp: SetSqlQuery_def Prepare_def CreateStatement_def sample_base_def Let_def)
  ultimately show ?thesis using r by (simp add: s1_def base_step_def sample_base_def del: run_adbc.simps)
qed

end
