(* ===== verification/Spec2Isabelle.thy ===== *)
theory Spec2Isabelle
  imports Sql_Decl Schema_Props Constraint_Props Bulk_Ingest Driver_Ops Registration Factory_Props C_Props
    Sql_Loop C_Isolation C_Forward
begin

text \<open>
  A verification library for the ADBC driver for MariaDB (Go sources under \<open>src/go\<close>).

  \<^bold>\<open>The program.\<close> The driver exposes MariaDB through the ADBC interface. A \<^emph>\<open>database\<close> object keeps
  options and opens \<^emph>\<open>connections\<close>; each connection owns one dedicated server session and creates
  \<^emph>\<open>statements\<close>. Result columns are converted from MariaDB types to Arrow types and filled by
  \<^emph>\<open>inserters\<close>; bound parameters travel the other way. Metadata calls (\<open>GetObjects\<close>,
  \<open>GetTableSchema\<close>, \<open>GetStatistics\<close>) query INFORMATION\_SCHEMA on the same session, and bulk ingest
  creates tables and inserts Arrow batches. Everything that speaks the wire protocol or moves Arrow
  memory is in libraries the repository only calls.

  \<^bold>\<open>Layout.\<close>

  \<^item> \<open>Prelude\<close>: Go's integers, the functions of packages \<open>strings\<close> and \<open>strconv\<close> the driver uses, and
    the lemmas about them. Strings are byte strings; the Unicode tables behind the slow paths of
    \<open>ToUpper\<close>, \<open>ToLower\<close>, \<open>EqualFold\<close>, \<open>TrimSpace\<close> and \<open>json.Marshal\<close> are the parameter \<open>unicode\<close>.
  \<^item> \<open>Go_Errors\<close>: error values, \<open>errors.Join\<close>, \<open>errors.As\<close> and \<open>InspectError\<close> of
    \<open>error_inspector.go\<close>. A panic is the error value \<open>Panic\<close>.
  \<^item> \<open>Sql_Text\<close>, \<open>Sql_Count\<close>, \<open>Sql_Decl\<close>: \<open>countPlaceholders\<close> (\<open>mariadb.go\<close>) as the state machine it
    is, \<open>quoteIdentifier\<close>, \<open>QuoteIdentifiers\<close>, \<open>placeholders\<close>, \<open>parseTypeDimension\<close> and
    \<open>parseMariaDBTypeValues\<close>. The scanner is related to a description of SQL text as segments, and
    the locale \<open>delimited\<close> states what a quoting scheme promises: interpreted on quoted identifiers,
    on quoted declaration values and, in \<open>Schema_Props\<close>, on JSON strings. \<open>Sql_Loop\<close> has the loop of
    the scanner as \<open>while_option\<close>.
  \<^item> \<open>Arrow\<close>: Arrow types, fields, builders (as the calls made on them), and the record \<open>sqlwrapper\<close> of
    the library code the driver calls. The locale \<open>row_inserter\<close> is the contract of an inserter.
  \<^item> \<open>Zero_Datetime\<close>, \<open>Duration\<close>, \<open>Type_Convert\<close>, \<open>Inserters\<close>, \<open>Arrow_To_Go\<close>, \<open>Type_Props\<close>: the type
    converter of \<open>mariadb.go\<close> in both directions, \<open>arrowToMariaDBType\<close> and \<open>GetPlaceholder\<close> of
    \<open>connection.go\<close>, the TIME parser and printer, and the inserters. 64-bit durations wrap as in Go
    where the code can overflow.
  \<^item> \<open>Session\<close>, \<open>Connection\<close>, \<open>Connection_Props\<close>: the connection (\<open>mariadbConnectionImpl\<close>) as a record
    with its cached version, its zero-datetime option and the history of its session. The server's
    replies are arbitrary functions of that history. The operations of \<open>connection.go\<close> lines 41 to 91
    and \<open>mariadb.go\<close> lines 928 to 1039 are state-passing functions, and refine an abstract session
    of autocommit mode, database and isolation level.
  \<^item> \<open>Statement\<close>: \<open>mariadbDatabase\<close>, \<open>mariadbStatement\<close> and the factory; the statement calls as a step
    relation. The locale \<open>zero_datetime_option\<close> is the option contract the three kinds of objects
    share, interpreted on each of them.
  \<^item> \<open>Bulk_Ingest\<close>: \<open>ExecuteBulkIngest\<close>, \<open>createTableIfNeeded\<close>, \<open>createTable\<close>, \<open>dropTable\<close>.
  \<^item> \<open>Get_Objects\<close>, \<open>Table_Constraints\<close>, \<open>Objects_Props\<close>, \<open>Constraint_Props\<close>:
    \<open>connection_getobjects.go\<close>. Pointers into the result tree are positions in it.
  \<^item> \<open>Statistics\<close>: \<open>connection_statistics.go\<close>.
  \<^item> \<open>Table_Schema\<close>, \<open>Schema_Props\<close>: \<open>GetTableSchema\<close> of \<open>connection.go\<close>.
  \<^item> \<open>Driver_Ops\<close>: all connection operations as the calls of a client, in any order, and the locale
    \<open>session_ops\<close> interpreted on them.
  \<^item> \<open>Go_Url\<close>, \<open>DB_Factory\<close>, \<open>Factory_Props\<close>: \<open>db_factory.go\<close>, from the database options to the DSN,
    with the parts of \<open>net/url\<close> it uses written out and the wire library as the parameter
    \<open>wire_lib\<close>.
  \<^item> \<open>Registration\<close>: the driver object of \<open>NewDriver\<close>.
  \<^item> \<open>C_Errors\<close>, \<open>C_State\<close>: the parts of \<open>pkg/driver.go\<close> that all exported functions share: error
    structs with their release functions (\<open>pkg/utils.c\<close>), option buffers and lengths, the handle table
    of \<open>runtime/cgo\<close>, the \<open>private_data\<close> of the caller's structs, panics as values, the poison flag and
    the checks. An exported function is a computation on the record \<open>shim\<close> with \<open>recovering\<close> as its
    deferred function; what it calls below the interface is the parameter \<open>driverlib\<close>, whose replies
    are arbitrary and which may panic at every call.
  \<^item> \<open>C_Database\<close>, \<open>C_Connection\<close>, \<open>C_Statement\<close>, \<open>C_Stream\<close>, \<open>C_Driver\<close>: one definition per exported
    function, under its own name.
  \<^item> \<open>C_Calls\<close>, \<open>C_Invariant\<close>, \<open>C_Handles\<close>, \<open>C_Props\<close>: the 52 functions as the calls of a client, the
    locales \<open>shim_objects\<close> and \<open>shim_invariant\<close> that say what a predicate on the handle table has to
    survive, their interpretations on well-formed tables and on poisoned drivers, the states a client
    can reach by calls and stream callbacks in any order, and the behaviour of the single parts.
  \<^item> \<open>C_Isolation\<close>: the same contract interpreted on one struct and its object, for the calls that are
    not given it.
  \<^item> \<open>C_Forward\<close>: the C interface on top of the driver's statements of theory \<open>Statement\<close>. That the
    library between them hands calls on is the locale \<open>statement_forwards\<close>, interpreted on the driver
    made of the development's own operations.

  \<^bold>\<open>What is shown.\<close> For the session: every operation drains pending results before it uses the
  session, whatever the order of calls and whatever the server answers, and the operations refine
  the abstract session. For SQL text: the scanner counts exactly the parameters of a text, quoting
  is injective and read back, every generated query has as many placeholders as arguments, DDL has
  none. For values: writing and reading back VECTOR and TIME values, one row per value, zero dates
  as the option says. For metadata: the object tree, its constraints, statistics and table fields are
  exactly those of the rows. For options: inheritance from database to statement. For statements:
  the parameter schema belongs to the prepared query. For the factory: values percent-encoded into a
  URI arrive unchanged, other schemes are refused, every database is opened in UTC. For the C
  interface: handles are never misused in any sequence of calls, a call leaves alone every object it
  is not given, statement calls through C refine the statement's operations, a panic makes every later call fail
  without effect, releasing always frees, calls on objects that are not ready are refused, options
  kept before initialisation arrive, errors, details, partitions and streams are read back as they
  were written, and buffers are not overrun.

  \<^bold>\<open>Termination and bounds.\<close> All loops are total functions: structural recursion on the rows or
  bytes, or a measure (the scanner, the declaration parser, the float decoder); that the scanner's own loop
  stops, within one iteration for each byte, is a theorem about \<open>while_option\<close>. Fuel occurs only in
  the readers \<open>read_many\<close> and \<open>json_list\<close> of the specification side, with the number of bytes of the
  text, which bounds the number of items. The functions of the C interface have no loops but those over
  options, partitions and C strings, all by recursion on lists; what may not return is below the
  interface. Integers the code keeps in 16, 32 or 64 bits are wrapped where they are converted.

  \<^bold>\<open>Assumptions.\<close> Hypotheses of theorems about code outside the repository state documented
  behaviour: the metadata key names and time unit multipliers of the libraries, the replies of
  MariaDB to \<open>DATABASE()\<close> and the isolation variable, names without NUL bytes in metadata. Each such
  theorem has a witness at a concrete instance.

  \<^bold>\<open>Not modelled.\<close> The functions \<open>Adbc...\<close> of \<open>pkg/utils.c\<close>, which clear their
  outputs and forward their arguments (the driver table does not go through them); memory allocation and garbage collection of the C interface; calls that run at the
  same time (the poison flag is the only state the C interface protects itself). Of the libraries
  (driverbase with its contexts, sqlwrapper, arrow-go with its C data interface, the wire protocol)
  only the parameters named above occur; the batched INSERT loop and the record readers are among
  them. What \<open>net/url\<close> makes of hosts with a bracket or with more than one colon is the parameter
  \<open>irregular_host\<close>.
\<close>

end
